(* ===== verification/Prelude.thy ===== *)
theory Prelude
  imports Main "HOL-Library.AList" "HOL-Library.Sublist"
begin

text \<open>
  The vocabulary every component shares.
  \<^item> \<open>exn\<close>: the Python exceptions the code raises, catches or lets through.
  \<^item> \<open>'a res\<close>: the value of a pure Python expression that may raise (\<open>Inl\<close> the exception).
  \<^item> \<open>('w, 'a) io\<close>: a piece of code that talks to the outside (the OVN northbound database,
    Neutron, Octavia). The state \<open>'w\<close> of the outside is a type parameter: the model makes no
    assumption on it beyond the laws a theorem names.
  \<^item> \<open>'v pydict\<close>: a Python dict, an association list in insertion order.
  The collections \<open>io_simps\<close> and \<open>io_inv\<close> hold the evaluation rules and the invariant rules
  of the effect layer.
\<close>

named_theorems io_simps "evaluation of effectful code"
named_theorems io_inv "rules for invariants of effectful code"

section \<open>Exceptions and results\<close>

datatype exn =
    RowNotFound
  | KeyError | IndexError | AttributeError | TypeError | ValueError
  | UnboundLocalError
  | AddrFormatError
  | HttpException | ResourceNotFound | ConflictException
  | UpdateStatusError
  | DriverError
  | UnsupportedOptionError
  | IPVersionsMixingNotSupportedError
  | OtherException string

text \<open>openstacksdk: ResourceNotFound and ConflictException are subclasses of HttpException.\<close>

definition is_http_exn :: "exn \<Rightarrow> bool" where
  "is_http_exn e \<longleftrightarrow> e = HttpException \<or> e = ResourceNotFound \<or> e = ConflictException"

type_synonym 'a res = "exn + 'a"

definition rbind :: "'a res \<Rightarrow> ('a \<Rightarrow> 'b res) \<Rightarrow> 'b res" where
  "rbind m f = (case m of Inl e \<Rightarrow> Inl e | Inr x \<Rightarrow> f x)"

lemma rbind_simps [simp]:
  "rbind (Inl e) f = Inl e"
  "rbind (Inr x) f = f x"
  by (simp_all add: rbind_def)

lemma rbind_InrE [elim!]:
  assumes "rbind m f = Inr y"
  obtains x where "m = Inr x" "f x = Inr y"
  using assms by (cases m) auto

lemma rbind_assoc: "rbind (rbind m f) g = rbind m (\<lambda>x. rbind (f x) g)"
  by (cases m) simp_all

lemma rbind_cong [fundef_cong]:
  "m = m' \<Longrightarrow> (\<And>x. m' = Inr x \<Longrightarrow> f x = f' x) \<Longrightarrow> rbind m f = rbind m' f'"
  by (cases m') auto

text \<open>A loop that collects one result per element, stopping at the first exception.\<close>

primrec mapR :: "('a \<Rightarrow> 'b res) \<Rightarrow> 'a list \<Rightarrow> 'b list res" where
  "mapR f [] = Inr []"
| "mapR f (x # xs) = rbind (f x) (\<lambda>y. rbind (mapR f xs) (\<lambda>ys. Inr (y # ys)))"

text \<open>A loop over a list that updates a local variable, stopping at the first exception.\<close>

primrec foldR :: "('a \<Rightarrow> 's \<Rightarrow> 's res) \<Rightarrow> 'a list \<Rightarrow> 's \<Rightarrow> 's res" where
  "foldR f [] s = Inr s"
| "foldR f (x # xs) s = rbind (f x s) (\<lambda>s'. foldR f xs s')"

lemma mapR_Inr_map: "(\<And>x. x \<in> set xs \<Longrightarrow> f x = Inr (g x)) \<Longrightarrow> mapR f xs = Inr (map g xs)"
  by (induction xs) auto

lemma mapR_length: "mapR f xs = Inr ys \<Longrightarrow> length ys = length xs"
  by (induction xs arbitrary: ys) auto

lemma mapR_append:
  "mapR f (xs @ ys) = rbind (mapR f xs) (\<lambda>a. rbind (mapR f ys) (\<lambda>b. Inr (a @ b)))"
  by (induction xs) (auto simp: rbind_def split: sum.splits)

lemma mapR_set: "mapR f xs = Inr ys \<Longrightarrow> y \<in> set ys \<Longrightarrow> \<exists>x \<in> set xs. f x = Inr y"
  by (induction xs arbitrary: ys) auto

lemma mapR_mem: "mapR f xs = Inr ys \<Longrightarrow> x \<in> set xs \<Longrightarrow> \<exists>y \<in> set ys. f x = Inr y"
  by (induction xs arbitrary: ys) auto

lemma foldR_Inr_fold:
  "(\<And>x s. x \<in> set xs \<Longrightarrow> f x s = Inr (g x s)) \<Longrightarrow> foldR f xs s = Inr (fold g xs s)"
  by (induction xs arbitrary: s) auto

lemma foldR_append: "foldR f (xs @ ys) s = rbind (foldR f xs s) (foldR f ys)"
  by (induction xs arbitrary: s) (auto simp: rbind_def split: sum.splits)

lemma foldR_invariant:
  assumes "foldR f xs s = Inr s'" and "P s"
    and "\<And>x s s'. x \<in> set xs \<Longrightarrow> f x s = Inr s' \<Longrightarrow> P s \<Longrightarrow> P s'"
  shows "P s'"
  using assms by (induction xs arbitrary: s) auto

section \<open>Effects\<close>

type_synonym ('w, 'a) io = "'w \<Rightarrow> 'a res \<times> 'w"

definition ret :: "'a \<Rightarrow> ('w, 'a) io" where
  "ret x w = (Inr x, w)"

definition throw :: "exn \<Rightarrow> ('w, 'a) io" where
  "throw e w = (Inl e, w)"

definition lift :: "'a res \<Rightarrow> ('w, 'a) io" where
  "lift r w = (r, w)"

definition bnd :: "('w, 'a) io \<Rightarrow> ('a \<Rightarrow> ('w, 'b) io) \<Rightarrow> ('w, 'b) io" where
  "bnd m f w = (case m w of (Inl e, w') \<Rightarrow> (Inl e, w') | (Inr x, w') \<Rightarrow> f x w')"

text \<open>\<open>try: m; except e: h e\<close>; a handler that does not apply re-raises with \<open>throw\<close>.\<close>

definition catch :: "('w, 'a) io \<Rightarrow> (exn \<Rightarrow> ('w, 'a) io) \<Rightarrow> ('w, 'a) io" where
  "catch m h w = (case m w of (Inl e, w') \<Rightarrow> h e w' | (Inr x, w') \<Rightarrow> (Inr x, w'))"

text \<open>\<open>try: m; except: r = Inl e\<close>: the outcome of the block as a value.\<close>

definition attempt :: "('w, 'a) io \<Rightarrow> ('w, 'a res) io" where
  "attempt m w = (case m w of (r, w') \<Rightarrow> (Inr r, w'))"

primrec for_each :: "('a \<Rightarrow> ('w, unit) io) \<Rightarrow> 'a list \<Rightarrow> ('w, unit) io" where
  "for_each f [] = ret ()"
| "for_each f (x # xs) = bnd (f x) (\<lambda>_. for_each f xs)"

primrec fold_io :: "('a \<Rightarrow> 's \<Rightarrow> ('w, 's) io) \<Rightarrow> 'a list \<Rightarrow> 's \<Rightarrow> ('w, 's) io" where
  "fold_io f [] s = ret s"
| "fold_io f (x # xs) s = bnd (f x s) (\<lambda>s'. fold_io f xs s')"

primrec map_io :: "('a \<Rightarrow> ('w, 'b) io) \<Rightarrow> 'a list \<Rightarrow> ('w, 'b list) io" where
  "map_io f [] = ret []"
| "map_io f (x # xs) = bnd (f x) (\<lambda>y. bnd (map_io f xs) (\<lambda>ys. ret (y # ys)))"

lemma io_run [simp, io_simps]:
  "ret x w = (Inr x, w)"
  "throw e w = (Inl e, w)"
  "lift r w = (r, w)"
  by (simp_all add: ret_def throw_def lift_def)

lemma bnd_run [io_simps]:
  "m w = (Inr x, w') \<Longrightarrow> bnd m f w = f x w'"
  "m w = (Inl e, w') \<Longrightarrow> bnd m f w = (Inl e, w')"
  by (simp_all add: bnd_def)

lemma catch_run [io_simps]:
  "m w = (Inr x, w') \<Longrightarrow> catch m h w = (Inr x, w')"
  "m w = (Inl e, w') \<Longrightarrow> catch m h w = h e w'"
  by (simp_all add: catch_def)

lemma attempt_run [io_simps]:
  "m w = (r, w') \<Longrightarrow> attempt m w = (Inr r, w')"
  by (simp add: attempt_def)

lemma bnd_ret [simp]: "bnd (ret x) f = f x"
  by (simp add: fun_eq_iff bnd_def)

lemma bnd_throw [simp]: "bnd (throw e) f = throw e"
  by (simp add: fun_eq_iff bnd_def)

lemma bnd_lift [simp]:
  "bnd (lift (Inr x)) f = f x"
  "bnd (lift (Inl e)) f = throw e"
  by (simp_all add: fun_eq_iff bnd_def)

lemma catch_ret [simp]: "catch (ret x) h = ret x"
  by (simp add: fun_eq_iff catch_def)

lemma catch_throw [simp]: "catch (throw e) h = h e"
  by (simp add: fun_eq_iff catch_def)

lemma bnd_assoc: "bnd (bnd m f) g = bnd m (\<lambda>x. bnd (f x) g)"
  by (auto simp: fun_eq_iff bnd_def split: prod.splits sum.splits)

lemma bnd_InrE:
  assumes "bnd m f w = (Inr y, w'')"
  obtains x w' where "m w = (Inr x, w')" "f x w' = (Inr y, w'')"
  using assms by (auto simp: bnd_def split: prod.splits sum.splits)

lemma bnd_split: "P (bnd m f w) \<longleftrightarrow>
  (\<forall>e w'. m w = (Inl e, w') \<longrightarrow> P (Inl e, w')) \<and> (\<forall>x w'. m w = (Inr x, w') \<longrightarrow> P (f x w'))"
  by (auto simp: bnd_def split: prod.splits sum.splits)

lemma catch_split: "P (catch m h w) \<longleftrightarrow>
  (\<forall>e w'. m w = (Inl e, w') \<longrightarrow> P (h e w')) \<and> (\<forall>x w'. m w = (Inr x, w') \<longrightarrow> P (Inr x, w'))"
  by (auto simp: catch_def split: prod.splits sum.splits)

section \<open>Invariants of effectful code\<close>

text \<open>
  \<open>keeps P m\<close>: whatever \<open>m\<close> does, and whether it returns or raises, it keeps \<open>P\<close> of the outside.
\<close>

definition keeps :: "('w \<Rightarrow> bool) \<Rightarrow> ('w, 'a) io \<Rightarrow> bool" where
  "keeps P m \<longleftrightarrow> (\<forall>w. P w \<longrightarrow> P (snd (m w)))"

lemma keepsI: "(\<And>w. P w \<Longrightarrow> P (snd (m w))) \<Longrightarrow> keeps P m"
  by (simp add: keeps_def)

lemma keepsD: "keeps P m \<Longrightarrow> m w = (r, w') \<Longrightarrow> P w \<Longrightarrow> P w'"
  by (fastforce simp: keeps_def)

lemma keeps_ret [io_inv]: "keeps P (ret x)" "keeps P (throw e)" "keeps P (lift r)"
  by (simp_all add: keeps_def)

lemma keeps_bnd [io_inv]:
  "keeps P m \<Longrightarrow> (\<And>x. keeps P (f x)) \<Longrightarrow> keeps P (bnd m f)"
  by (fastforce simp: keeps_def bnd_def split: prod.splits sum.splits)

lemma keeps_catch [io_inv]:
  "keeps P m \<Longrightarrow> (\<And>e. keeps P (h e)) \<Longrightarrow> keeps P (catch m h)"
  by (fastforce simp: keeps_def catch_def split: prod.splits sum.splits)

lemma keeps_attempt [io_inv]: "keeps P m \<Longrightarrow> keeps P (attempt m)"
  by (fastforce simp: keeps_def attempt_def split: prod.splits)

lemma keeps_if [io_inv]:
  "(b \<Longrightarrow> keeps P m) \<Longrightarrow> (\<not> b \<Longrightarrow> keeps P n) \<Longrightarrow> keeps P (if b then m else n)"
  by simp

lemma keeps_case [io_inv]:
  "(x = None \<Longrightarrow> keeps P m) \<Longrightarrow> (\<And>y. x = Some y \<Longrightarrow> keeps P (f y)) \<Longrightarrow>
     keeps P (case x of None \<Rightarrow> m | Some y \<Rightarrow> f y)"
  "(\<And>e. r = Inl e \<Longrightarrow> keeps P (h e)) \<Longrightarrow> (\<And>y. r = Inr y \<Longrightarrow> keeps P (g y)) \<Longrightarrow>
     keeps P (case r of Inl e \<Rightarrow> h e | Inr y \<Rightarrow> g y)"
  "(\<And>a b. p = (a, b) \<Longrightarrow> keeps P (k a b)) \<Longrightarrow> keeps P (case p of (a, b) \<Rightarrow> k a b)"
  "(xs = [] \<Longrightarrow> keeps P m) \<Longrightarrow> (\<And>z zs. xs = z # zs \<Longrightarrow> keeps P (c z zs)) \<Longrightarrow>
     keeps P (case xs of [] \<Rightarrow> m | z # zs \<Rightarrow> c z zs)"
  by (auto split: option.split sum.split prod.split list.split)

lemma keeps_for_each [io_inv]: "(\<And>x. x \<in> set xs \<Longrightarrow> keeps P (f x)) \<Longrightarrow> keeps P (for_each f xs)"
  by (induction xs) (auto intro: io_inv)

lemma keeps_fold_io [io_inv]: "(\<And>x s. keeps P (f x s)) \<Longrightarrow> keeps P (fold_io f xs s)"
  by (induction xs arbitrary: s) (auto intro: io_inv)

lemma keeps_map_io [io_inv]: "(\<And>x. keeps P (f x)) \<Longrightarrow> keeps P (map_io f xs)"
  by (induction xs) (auto intro: io_inv)

text \<open>A loop that returns keeps what each of its steps keeps when it returns.\<close>

lemma fold_io_invariant:
  assumes "fold_io f xs s w = (Inr s', w')" and "P s"
    and step: "\<And>x s w s' w'. f x s w = (Inr s', w') \<Longrightarrow> P s \<Longrightarrow> P s'"
  shows "P s'"
  using assms(1,2)
proof (induction xs arbitrary: s w)
  case (Cons x xs)
  then show ?case by (auto elim!: bnd_InrE dest: step)
qed simp

section \<open>Python dicts\<close>

type_synonym 'v pydict = "(string \<times> 'v) list"

abbreviation dict_get :: "'v pydict \<Rightarrow> string \<Rightarrow> 'v option" where
  "dict_get d k \<equiv> map_of d k"

abbreviation dict_set :: "'v pydict \<Rightarrow> string \<Rightarrow> 'v \<Rightarrow> 'v pydict" where
  "dict_set d k v \<equiv> AList.update k v d"

abbreviation dict_del :: "'v pydict \<Rightarrow> string \<Rightarrow> 'v pydict" where
  "dict_del d k \<equiv> AList.delete k d"

definition dict_has :: "'v pydict \<Rightarrow> string \<Rightarrow> bool" where
  "dict_has d k \<longleftrightarrow> map_of d k \<noteq> None"

text \<open>\<open>d[k]\<close> raises KeyError; \<open>d.get(k, default)\<close> does not.\<close>

definition dict_item :: "'v pydict \<Rightarrow> string \<Rightarrow> 'v res" where
  "dict_item d k = (case map_of d k of None \<Rightarrow> Inl KeyError | Some v \<Rightarrow> Inr v)"

definition dict_get_default :: "'v pydict \<Rightarrow> string \<Rightarrow> 'v \<Rightarrow> 'v" where
  "dict_get_default d k v = (case map_of d k of None \<Rightarrow> v | Some x \<Rightarrow> x)"

text \<open>\<open>d.update(e)\<close>\<close>

definition dict_merge :: "'v pydict \<Rightarrow> 'v pydict \<Rightarrow> 'v pydict" where
  "dict_merge d e = fold (\<lambda>(k, v) acc. dict_set acc k v) e d"

text \<open>\<open>d == e\<close>: Python compares dicts without regard to the order of the keys.\<close>

definition dict_eq :: "'v pydict \<Rightarrow> 'v pydict \<Rightarrow> bool" where
  "dict_eq d e \<longleftrightarrow> list_all (\<lambda>k. map_of d k = map_of e k) (map fst d @ map fst e)"

abbreviation dict_keys :: "'v pydict \<Rightarrow> string list" where
  "dict_keys d \<equiv> map fst d"

lemma dict_set_get [simp]: "map_of (dict_set d k v) k' = (if k' = k then Some v else map_of d k')"
  by (simp add: update_conv')

lemma dict_del_get [simp]: "map_of (dict_del d k) k' = (if k' = k then None else map_of d k')"
  by (simp add: delete_conv')

lemma dict_merge_Nil [simp]: "dict_merge d [] = d"
  by (simp add: dict_merge_def)

lemma dict_merge_Cons [simp]: "dict_merge d ((k, v) # e) = dict_merge (dict_set d k v) e"
  by (simp add: dict_merge_def)

lemma dict_merge_snoc: "dict_merge d (e @ [(k, v)]) = dict_set (dict_merge d e) k v"
  by (simp add: dict_merge_def)

lemma dict_merge_append: "dict_merge d (e @ f) = dict_merge (dict_merge d e) f"
  by (simp add: dict_merge_def)

lemma dict_merge_get_other: "k \<notin> set (map fst e) \<Longrightarrow> map_of (dict_merge d e) k = map_of d k"
  by (induction e arbitrary: d) auto

lemma dict_merge_get:
  "distinct (map fst e) \<Longrightarrow>
   map_of (dict_merge d e) k = (case map_of e k of None \<Rightarrow> map_of d k | Some v \<Rightarrow> Some v)"
proof (induction e arbitrary: d)
  case (Cons p e)
  obtain k' v where p: "p = (k', v)" by fastforce
  show ?case
  proof (cases "k = k'")
    case True
    with Cons.prems p show ?thesis by (simp add: dict_merge_get_other)
  next
    case False
    with Cons p show ?thesis by (simp split: option.splits)
  qed
qed simp

lemma distinct_dict_set: "distinct (map fst d) \<Longrightarrow> distinct (map fst (dict_set d k v))"
  by (rule distinct_update)

lemma distinct_dict_del: "distinct (map fst d) \<Longrightarrow> distinct (map fst (dict_del d k))"
  by (rule distinct_delete)

lemma distinct_dict_merge: "distinct (map fst d) \<Longrightarrow> distinct (map fst (dict_merge d e))"
proof (induction e arbitrary: d)
  case (Cons p e)
  then show ?case by (cases p) (simp add: distinct_update)
qed simp

lemmas distinct_dict = distinct_dict_set distinct_dict_del distinct_dict_merge

lemma dict_has_simps [simp]:
  "dict_has (dict_set d k v) k' \<longleftrightarrow> k' = k \<or> dict_has d k'"
  "dict_has (dict_del d k) k' \<longleftrightarrow> k' \<noteq> k \<and> dict_has d k'"
  "\<not> dict_has [] k'"
  by (auto simp: dict_has_def)

lemma dict_has_iff: "dict_has d k \<longleftrightarrow> k \<in> set (map fst d)"
  by (auto simp: dict_has_def map_of_eq_None_iff)

lemma dict_item_eq_Inr [simp]: "dict_item d k = Inr v \<longleftrightarrow> map_of d k = Some v"
  by (simp add: dict_item_def split: option.splits)

lemma dict_eq_iff: "dict_eq d e \<longleftrightarrow> map_of d = map_of e"
proof
  assume eq: "dict_eq d e"
  show "map_of d = map_of e"
  proof
    fix k
    show "map_of d k = map_of e k"
    proof (cases "k \<in> set (map fst d @ map fst e)")
      case True
      with eq show ?thesis by (auto simp: dict_eq_def list_all_iff)
    next
      case False
      then have "map_of d k = None" and "map_of e k = None"
        by (auto simp: map_of_eq_None_iff)
      then show ?thesis by simp
    qed
  qed
qed (simp add: dict_eq_def list_all_iff)

lemma dict_merge_mem: "map_of (dict_merge d e) k = Some v \<Longrightarrow> map_of d k = Some v \<or> (k, v) \<in> set e"
proof (induction e arbitrary: d)
  case (Cons p e)
  then show ?case
    using Cons.IH [of "dict_set d (fst p) (snd p)"] by (cases p) (auto split: if_splits)
qed simp

lemma dict_merge_dom: "dom (map_of (dict_merge d e)) = dom (map_of d) \<union> fst ` set e"
proof (induction e arbitrary: d)
  case (Cons p e)
  then show ?case by (cases p) (auto simp: update_conv')
qed simp

text \<open>A loop that only adds entries to a dict adds the entries of all its steps.\<close>

lemma foldR_dict_merge:
  assumes "\<And>x acc. x \<in> set xs \<Longrightarrow> f x acc = rbind (g x) (\<lambda>es. Inr (dict_merge acc es))"
  shows "foldR f xs acc = rbind (mapR g xs) (\<lambda>ess. Inr (dict_merge acc (concat ess)))"
  using assms
proof (induction xs arbitrary: acc)
  case (Cons x xs)
  then show ?case
    by (cases "g x"; cases "mapR g xs") (auto simp: dict_merge_append)
qed simp

section \<open>Python truth values\<close>

text \<open>\<open>None\<close> and the empty string are false.\<close>

definition truthy :: "string option \<Rightarrow> bool" where
  "truthy s \<longleftrightarrow> s \<noteq> None \<and> s \<noteq> Some []"

lemma truthy_simps [simp]: "\<not> truthy None" "truthy (Some s) \<longleftrightarrow> s \<noteq> []"
  by (auto simp: truthy_def)

lemma truthyE: "truthy x \<Longrightarrow> (\<And>s. x = Some s \<Longrightarrow> s \<noteq> [] \<Longrightarrow> P) \<Longrightarrow> P"
  by (cases x) auto

end
