(* ===== verification/PyStr.thy ===== *)
theory PyStr
  imports Prelude
begin

text \<open>
  The methods of Python's \<open>str\<close> the code uses, on ASCII text: \<open>split\<close>, \<open>rsplit(c, 1)\<close>, \<open>join\<close>,
  \<open>in\<close>, \<open>startswith\<close>, \<open>replace\<close>, \<open>strip\<close>, \<open>lower\<close>, \<open>upper\<close>, \<open>isdigit\<close> and \<open>str(n)\<close>.
  The second half states what makes a printer and a parser fit together (\<open>codec\<close>,
  \<open>list_codec\<close>) and shows that joining and splitting at a separator are such a pair.
\<close>

section \<open>Operations\<close>

primrec split_on :: "char \<Rightarrow> string \<Rightarrow> string list" where
  "split_on c [] = [[]]"
| "split_on c (x # xs) =
     (if x = c then [] # split_on c xs
      else (case split_on c xs of [] \<Rightarrow> [[x]] | y # ys \<Rightarrow> (x # y) # ys))"

fun join :: "string \<Rightarrow> string list \<Rightarrow> string" where
  "join sep [] = []"
| "join sep [x] = x"
| "join sep (x # y # ys) = x @ sep @ join sep (y # ys)"

text \<open>\<open>s.rsplit(c, 1)\<close>: one or two parts.\<close>

definition rsplit1 :: "char \<Rightarrow> string \<Rightarrow> string list" where
  "rsplit1 c s =
     (if c \<in> set s
      then [rev (tl (dropWhile (\<lambda>x. x \<noteq> c) (rev s))), rev (takeWhile (\<lambda>x. x \<noteq> c) (rev s))]
      else [s])"

text \<open>\<open>s.split(c, 1)\<close>\<close>

definition split1 :: "char \<Rightarrow> string \<Rightarrow> string list" where
  "split1 c s =
     (if c \<in> set s
      then [takeWhile (\<lambda>x. x \<noteq> c) s, tl (dropWhile (\<lambda>x. x \<noteq> c) s)]
      else [s])"

text \<open>\<open>sub in s\<close> and \<open>s.startswith(p)\<close>\<close>

definition contains :: "string \<Rightarrow> string \<Rightarrow> bool" where
  "contains sub s \<longleftrightarrow> sublist sub s"

definition startswith :: "string \<Rightarrow> string \<Rightarrow> bool" where
  "startswith s p \<longleftrightarrow> prefix p s"

text \<open>\<open>s.replace(old, new)\<close> for a non-empty \<open>old\<close> (the only use): leftmost matches first.\<close>

function replace :: "string \<Rightarrow> string \<Rightarrow> string \<Rightarrow> string" where
  "replace old new s =
     (if s = [] then []
      else if old \<noteq> [] \<and> prefix old s then new @ replace old new (drop (length old) s)
      else hd s # replace old new (tl s))"
  by pat_completeness auto
termination
  by (relation "measure (\<lambda>(old, new, s). length s)") (auto simp: prefix_def)

declare replace.simps [simp del]

text \<open>\<open>s.split(sep)\<close> for a separator of several characters (not empty).\<close>

function split_str :: "string \<Rightarrow> string \<Rightarrow> string list" where
  "split_str sep s =
     (if s = [] then [[]]
      else if sep \<noteq> [] \<and> prefix sep s then [] # split_str sep (drop (length sep) s)
      else (case split_str sep (tl s) of
              [] \<Rightarrow> [[hd s]]
            | part # parts \<Rightarrow> (hd s # part) # parts))"
  by pat_completeness auto
termination
  by (relation "measure (\<lambda>(sep, s). length s)") (auto simp: prefix_def)

declare split_str.simps [simp del]

definition is_space :: "char \<Rightarrow> bool" where
  "is_space c \<longleftrightarrow> (let n = (of_char c :: nat) in 9 \<le> n \<and> n \<le> 13 \<or> 28 \<le> n \<and> n \<le> 32)"

definition strip :: "string \<Rightarrow> string" where
  "strip s = rev (dropWhile is_space (rev (dropWhile is_space s)))"

text \<open>\<open>s.split()\<close>: the maximal runs of non-space characters.\<close>

primrec split_ws_aux :: "string \<Rightarrow> string \<Rightarrow> string list" where
  "split_ws_aux acc [] = (if acc = [] then [] else [rev acc])"
| "split_ws_aux acc (x # xs) =
     (if is_space x then (if acc = [] then split_ws_aux [] xs else rev acc # split_ws_aux [] xs)
      else split_ws_aux (x # acc) xs)"

definition split_ws :: "string \<Rightarrow> string list" where
  "split_ws s = split_ws_aux [] s"

definition lower_char :: "char \<Rightarrow> char" where
  "lower_char c = (let n = (of_char c :: nat) in if 65 \<le> n \<and> n \<le> 90 then char_of (n + 32) else c)"

definition upper_char :: "char \<Rightarrow> char" where
  "upper_char c = (let n = (of_char c :: nat) in if 97 \<le> n \<and> n \<le> 122 then char_of (n - 32) else c)"

definition lower :: "string \<Rightarrow> string" where
  "lower s = map lower_char s"

definition upper :: "string \<Rightarrow> string" where
  "upper s = map upper_char s"

definition is_digit :: "char \<Rightarrow> bool" where
  "is_digit c \<longleftrightarrow> (let n = (of_char c :: nat) in 48 \<le> n \<and> n \<le> 57)"

definition isdigit :: "string \<Rightarrow> bool" where
  "isdigit s \<longleftrightarrow> s \<noteq> [] \<and> list_all is_digit s"

text \<open>\<open>str(n)\<close> for an integer, \<open>str(b)\<close> for a Boolean, \<open>str(x)\<close> for a string or None.\<close>

fun str_nat :: "nat \<Rightarrow> string" where
  "str_nat n = (if n < 10 then [char_of (48 + n)] else str_nat (n div 10) @ [char_of (48 + n mod 10)])"

declare str_nat.simps [simp del]

definition str_int :: "int \<Rightarrow> string" where
  "str_int i = (if i < 0 then CHR ''-'' # str_nat (nat (- i)) else str_nat (nat i))"

definition str_bool :: "bool \<Rightarrow> string" where
  "str_bool b = (if b then ''True'' else ''False'')"

definition str_opt :: "string option \<Rightarrow> string" where
  "str_opt s = (case s of None \<Rightarrow> ''None'' | Some x \<Rightarrow> x)"

text \<open>\<open>xs[i]\<close> for \<open>i\<close> from the front.\<close>

definition item :: "'a list \<Rightarrow> nat \<Rightarrow> 'a res" where
  "item xs i = (if i < length xs then Inr (xs ! i) else Inl IndexError)"

section \<open>Splitting and joining\<close>

lemma split_on_neq_Nil [simp]: "split_on c s \<noteq> []"
  by (induction s) (auto split: list.splits)

lemma split_on_no_sep: "c \<notin> set s \<Longrightarrow> split_on c s = [s]"
  by (induction s) auto

lemma split_on_sep: "c \<notin> set a \<Longrightarrow> split_on c (a @ c # b) = a # split_on c b"
  by (induction a) auto

lemma split_on_elems: "x \<in> set (split_on c s) \<Longrightarrow> c \<notin> set x"
  by (induction s arbitrary: x) (auto split: list.splits if_splits)

lemma join_Cons: "xs \<noteq> [] \<Longrightarrow> join sep (x # xs) = x @ sep @ join sep xs"
  by (cases xs) simp_all

lemma join_split_on: "join [c] (split_on c s) = s"
proof (induction s)
  case (Cons x s)
  obtain y ys where y: "split_on c s = y # ys" by (cases "split_on c s") auto
  show ?case
  proof (cases ys)
    case Nil
    with Cons y show ?thesis by auto
  next
    case (Cons z zs)
    with Cons.IH y show ?thesis by auto
  qed
qed simp

lemma split_on_join:
  "xs \<noteq> [] \<Longrightarrow> list_all (\<lambda>x. c \<notin> set x) xs \<Longrightarrow> split_on c (join [c] xs) = xs"
proof (induction xs)
  case (Cons x xs)
  then show ?case
    by (cases "xs = []") (simp_all add: split_on_no_sep split_on_sep join_Cons)
qed simp

lemma join_append:
  "xs \<noteq> [] \<Longrightarrow> ys \<noteq> [] \<Longrightarrow> join sep (xs @ ys) = join sep xs @ sep @ join sep ys"
proof (induction xs)
  case (Cons x xs)
  then show ?case by (cases xs) (auto simp: join_Cons)
qed simp

lemma join_eq_Nil: "join sep xs = [] \<Longrightarrow> x \<in> set xs \<Longrightarrow> x = []"
proof (induction xs)
  case (Cons y xs)
  then show ?case
    by (cases "xs = []") (auto simp: join_Cons)
qed simp

lemma set_join: "set (join sep xs) \<subseteq> set sep \<union> (\<Union>x \<in> set xs. set x)"
  by (induction sep xs rule: join.induct) auto

lemma rsplit1_sep: "c \<notin> set b \<Longrightarrow> rsplit1 c (a @ c # b) = [a, b]"
  by (simp add: rsplit1_def takeWhile_append dropWhile_append)

lemma rsplit1_no_sep: "c \<notin> set s \<Longrightarrow> rsplit1 c s = [s]"
  by (simp add: rsplit1_def)

lemma split1_sep: "c \<notin> set a \<Longrightarrow> split1 c (a @ c # b) = [a, b]"
  by (simp add: split1_def takeWhile_append dropWhile_append)

lemma startswith_append [simp]: "startswith (p @ s) p"
  by (simp add: startswith_def)

lemma contains_append [simp]: "contains s (a @ s @ b)"
  by (auto simp: contains_def sublist_def)

lemma contains_prefix: "startswith s p \<Longrightarrow> contains p s"
  by (auto simp: startswith_def contains_def)

lemma contains_code [code]:
  "contains sub [] \<longleftrightarrow> sub = []"
  "contains sub (x # xs) \<longleftrightarrow> prefix sub (x # xs) \<or> contains sub xs"
  by (auto simp: contains_def sublist_Cons_right)

lemma contains_simps:
  "contains sub [] \<longleftrightarrow> sub = []"
  "contains sub (x # xs) \<longleftrightarrow> prefix sub (x # xs) \<or> contains sub xs"
  by (fact contains_code)+

lemma contains_not_first_char: "c \<notin> set s \<Longrightarrow> c \<in> set sub \<Longrightarrow> \<not> contains sub s"
  by (auto simp: contains_def dest: set_mono_sublist)

lemma contains_sep:
  assumes "c \<notin> set sub"
  shows "contains sub (a @ c # b) \<longleftrightarrow> contains sub a \<or> contains sub b"
proof -
  have pre: "prefix xs (c # b) \<Longrightarrow> c \<notin> set xs \<Longrightarrow> xs = []" for xs
    by (cases xs) auto
  show ?thesis
  proof
    assume "contains sub (a @ c # b)"
    then consider "sublist sub a" | "sublist sub (c # b)"
      | xs ys where "sub = xs @ ys" "suffix xs a" "prefix ys (c # b)"
      by (auto simp: contains_def sublist_append)
    then show "contains sub a \<or> contains sub b"
    proof cases
      case 2
      with pre [of sub] assms show ?thesis by (auto simp: contains_def sublist_Cons_right)
    next
      case 3
      with pre [of ys] assms show ?thesis by (auto simp: contains_def dest: suffix_imp_sublist)
    qed (simp add: contains_def)
  next
    assume "contains sub a \<or> contains sub b"
    then show "contains sub (a @ c # b)"
      by (auto simp: contains_def sublist_append sublist_Cons_right)
  qed
qed

section \<open>Numbers print as digits\<close>

lemma digit_of_char: "n < 10 \<Longrightarrow> is_digit (char_of (48 + n :: nat))"
  by (simp add: is_digit_def of_char_of Let_def)

lemma str_nat_digits: "list_all is_digit (str_nat n)"
proof (induction n rule: str_nat.induct)
  case (1 n)
  then show ?case
    by (subst str_nat.simps) (auto simp: digit_of_char list_all_iff)
qed

lemma str_nat_neq_Nil [simp]: "str_nat n \<noteq> []"
  by (subst str_nat.simps) simp

lemma isdigit_str_nat [simp]: "isdigit (str_nat n)"
  by (simp add: isdigit_def str_nat_digits)

lemma str_bool_inj [simp]: "str_bool a = str_bool b \<longleftrightarrow> a = b"
  by (simp add: str_bool_def)

lemma str_bool_eq [simp]:
  "str_bool b = ''False'' \<longleftrightarrow> \<not> b" "str_bool b = ''True'' \<longleftrightarrow> b"
  by (simp_all add: str_bool_def)

section \<open>Printers and parsers\<close>

text \<open>A printer with a parser that may raise: on well-formed values the parser is its inverse.\<close>

locale codec =
  fixes enc :: "'a \<Rightarrow> string" and dec :: "string \<Rightarrow> 'b res"
    and ok :: "'a \<Rightarrow> bool" and view :: "'a \<Rightarrow> 'b"
  assumes dec_enc: "ok x \<Longrightarrow> dec (enc x) = Inr (view x)"
begin

lemma enc_eq_view: "ok x \<Longrightarrow> ok y \<Longrightarrow> enc x = enc y \<Longrightarrow> view x = view y"
  using dec_enc [of x] dec_enc [of y] by simp

lemma dec_map_enc: "list_all ok xs \<Longrightarrow> mapR dec (map enc xs) = Inr (map view xs)"
  by (induction xs) (simp_all add: dec_enc)

end

text \<open>A list printed with separators; the empty list has no faithful print, as in the code.\<close>

locale list_codec =
  fixes enc :: "string list \<Rightarrow> string" and dec :: "string \<Rightarrow> string list"
    and ok :: "string \<Rightarrow> bool"
  assumes dec_enc: "xs \<noteq> [] \<Longrightarrow> list_all ok xs \<Longrightarrow> dec (enc xs) = xs"
    and enc_dec: "enc (dec s) = s"
    and dec_ok: "list_all ok (dec s)"
begin

lemma dec_neq_Nil:
  assumes "enc [] = []" and "s \<noteq> []"
  shows "dec s \<noteq> []"
  using enc_dec [of s] assms by metis

lemma dec_inj: "dec s = dec t \<longleftrightarrow> s = t"
  using enc_dec by metis

lemma dec_append: "ok x \<Longrightarrow> dec (enc (dec s @ [x])) = dec s @ [x]"
  using dec_ok [of s] by (intro dec_enc) auto

lemma dec_remove:
  "remove1 x (dec s) \<noteq> [] \<Longrightarrow> dec (enc (remove1 x (dec s))) = remove1 x (dec s)"
  using dec_ok [of s] by (intro dec_enc) (auto simp: list_all_iff dest: notin_set_remove1)

lemma append_remove:
  assumes "ok x" and "x \<notin> set (dec s)"
  shows "enc (remove1 x (dec (enc (dec s @ [x])))) = s"
  using assms by (simp add: dec_append remove1_append enc_dec)

end

text \<open>A list of values, each printed by a codec, the prints joined by separators.\<close>

locale record_list_codec = codec enc dec ok view + list: list_codec join_all split_all sep_free
  for enc :: "'a \<Rightarrow> string" and dec :: "string \<Rightarrow> 'b res" and ok view
    and join_all split_all sep_free +
  assumes enc_sep_free: "ok x \<Longrightarrow> sep_free (enc x)"
begin

lemma dec_list:
  assumes "xs \<noteq> []" and "list_all ok xs"
  shows "mapR dec (split_all (join_all (map enc xs))) = Inr (map view xs)"
proof -
  from assms(2) have "list_all sep_free (map enc xs)"
    by (auto simp: list_all_iff enc_sep_free)
  with assms(1) have "split_all (join_all (map enc xs)) = map enc xs"
    by (intro list.dec_enc) auto
  with assms(2) show ?thesis by (simp add: dec_map_enc)
qed

end

interpretation comma: list_codec "join '',''" "split_on CHR '',''" "\<lambda>s. CHR '','' \<notin> set s"
  by unfold_locales (auto simp: split_on_join join_split_on list_all_iff dest: split_on_elems)

interpretation underscore: list_codec "join ''_''" "split_on CHR ''_''" "\<lambda>s. CHR ''_'' \<notin> set s"
  by unfold_locales (auto simp: split_on_join join_split_on list_all_iff dest: split_on_elems)

end
