(* ===== verification/Constants.thy ===== *)
theory Constants
  imports PyStr
begin

text \<open>
  The constants of \<open>common/constants.py\<close> the modelled code uses, and the constants of
  octavia-lib (names of status keys and values) under the names the code imports them by.
\<close>

section \<open>common/constants.py\<close>

abbreviation LRP_PREFIX :: string where "LRP_PREFIX \<equiv> ''lrp-''"
abbreviation OVN_NAME_PREFIX :: string where "OVN_NAME_PREFIX \<equiv> ''neutron-''"
abbreviation LB_HM_PORT_PREFIX :: string where "LB_HM_PORT_PREFIX \<equiv> ''ovn-lb-hm-''"
abbreviation LB_VIP_PORT_PREFIX :: string where "LB_VIP_PORT_PREFIX \<equiv> ''ovn-lb-vip-''"
abbreviation LB_VIP_ADDIT_PORT_PREFIX :: string where
  "LB_VIP_ADDIT_PORT_PREFIX \<equiv> ''ovn-lb-vip-additional-''"
abbreviation OVN_PORT_NAME_EXT_ID_KEY :: string where
  "OVN_PORT_NAME_EXT_ID_KEY \<equiv> ''neutron:port_name''"
abbreviation OVN_ROUTER_NAME_EXT_ID_KEY :: string where
  "OVN_ROUTER_NAME_EXT_ID_KEY \<equiv> ''neutron:router_name''"
abbreviation OVN_PORT_FIP_EXT_ID_KEY :: string where
  "OVN_PORT_FIP_EXT_ID_KEY \<equiv> ''neutron:port_fip''"
abbreviation OVN_NETWORK_NAME_EXT_ID_KEY :: string where
  "OVN_NETWORK_NAME_EXT_ID_KEY \<equiv> ''neutron:network_name''"
abbreviation OVN_DEVICE_OWNER_EXT_ID_KEY :: string where
  "OVN_DEVICE_OWNER_EXT_ID_KEY \<equiv> ''neutron:device_owner''"
abbreviation OVN_GW_PORT_EXT_ID_KEY :: string where
  "OVN_GW_PORT_EXT_ID_KEY \<equiv> ''neutron:gw_port_id''"
abbreviation OVN_PORT_CIDR_EXT_ID_KEY :: string where
  "OVN_PORT_CIDR_EXT_ID_KEY \<equiv> ''neutron:cidrs''"
abbreviation OVN_MEMBER_STATUS_KEY :: string where
  "OVN_MEMBER_STATUS_KEY \<equiv> ''neutron:member_status''"
abbreviation OVN_ROUTER_IS_EXT_GW :: string where
  "OVN_ROUTER_IS_EXT_GW \<equiv> ''neutron:is_ext_gw''"
abbreviation LB_EXT_IDS_LS_REFS_KEY :: string where "LB_EXT_IDS_LS_REFS_KEY \<equiv> ''ls_refs''"
abbreviation LB_EXT_IDS_LR_REF_KEY :: string where "LB_EXT_IDS_LR_REF_KEY \<equiv> ''lr_ref''"
abbreviation LB_EXT_IDS_POOL_PREFIX :: string where "LB_EXT_IDS_POOL_PREFIX \<equiv> ''pool_''"
abbreviation LB_EXT_IDS_LISTENER_PREFIX :: string where
  "LB_EXT_IDS_LISTENER_PREFIX \<equiv> ''listener_''"
abbreviation LB_EXT_IDS_MEMBER_PREFIX :: string where "LB_EXT_IDS_MEMBER_PREFIX \<equiv> ''member_''"
abbreviation LB_EXT_IDS_HM_KEY :: string where "LB_EXT_IDS_HM_KEY \<equiv> ''octavia:healthmonitor''"
abbreviation LB_EXT_IDS_HM_POOL_KEY :: string where "LB_EXT_IDS_HM_POOL_KEY \<equiv> ''octavia:pool_id''"
abbreviation LB_EXT_IDS_HM_VIP :: string where "LB_EXT_IDS_HM_VIP \<equiv> ''octavia:vip''"
abbreviation LB_EXT_IDS_HMS_KEY :: string where "LB_EXT_IDS_HMS_KEY \<equiv> ''octavia:healthmonitors''"
abbreviation LB_EXT_IDS_VIP_KEY :: string where "LB_EXT_IDS_VIP_KEY \<equiv> ''neutron:vip''"
abbreviation LB_EXT_IDS_ADDIT_VIP_KEY :: string where
  "LB_EXT_IDS_ADDIT_VIP_KEY \<equiv> ''neutron:additional_vips''"
abbreviation LB_EXT_IDS_VIP_PORT_ID_KEY :: string where
  "LB_EXT_IDS_VIP_PORT_ID_KEY \<equiv> ''neutron:vip_port_id''"
abbreviation LB_EXT_IDS_ADDIT_VIP_PORT_ID_KEY :: string where
  "LB_EXT_IDS_ADDIT_VIP_PORT_ID_KEY \<equiv> ''neutron:additional_vip_port_ids''"
abbreviation LB_EXT_IDS_VIP_FIP_KEY :: string where "LB_EXT_IDS_VIP_FIP_KEY \<equiv> ''neutron:vip_fip''"
abbreviation LB_EXT_IDS_ADDIT_VIP_FIP_KEY :: string where
  "LB_EXT_IDS_ADDIT_VIP_FIP_KEY \<equiv> ''neutron:additional_vip_fips''"
abbreviation PORT_FORWARDING_PLUGIN :: string where
  "PORT_FORWARDING_PLUGIN \<equiv> ''port_forwarding_plugin''"
abbreviation DISABLED_RESOURCE_SUFFIX :: string where "DISABLED_RESOURCE_SUFFIX \<equiv> ''D''"
abbreviation OVN_PROJECT_EXT_ID_KEY :: string where
  "OVN_PROJECT_EXT_ID_KEY \<equiv> ''neutron:project_id''"
abbreviation OVN_FIP_EXT_ID_KEY :: string where "OVN_FIP_EXT_ID_KEY \<equiv> ''neutron:fip_id''"
abbreviation OVN_FIP_PORT_EXT_ID_KEY :: string where
  "OVN_FIP_PORT_EXT_ID_KEY \<equiv> ''neutron:fip_port_id''"
abbreviation OVN_LB_HM_PORT_DISTRIBUTED :: string where
  "OVN_LB_HM_PORT_DISTRIBUTED \<equiv> ''ovn-lb-hm:distributed''"
abbreviation AFFINITY_TIMEOUT :: string where "AFFINITY_TIMEOUT \<equiv> ''affinity_timeout''"

section \<open>octavia_lib.common.constants and neutron_lib.constants\<close>

abbreviation ID :: string where "ID \<equiv> ''id''"
abbreviation PROVISIONING_STATUS :: string where "PROVISIONING_STATUS \<equiv> ''provisioning_status''"
abbreviation OPERATING_STATUS :: string where "OPERATING_STATUS \<equiv> ''operating_status''"
abbreviation LOADBALANCERS :: string where "LOADBALANCERS \<equiv> ''loadbalancers''"
abbreviation LISTENERS :: string where "LISTENERS \<equiv> ''listeners''"
abbreviation POOLS :: string where "POOLS \<equiv> ''pools''"
abbreviation MEMBERS :: string where "MEMBERS \<equiv> ''members''"
abbreviation HEALTHMONITORS :: string where "HEALTHMONITORS \<equiv> ''healthmonitors''"
abbreviation ACTIVE :: string where "ACTIVE \<equiv> ''ACTIVE''"
abbreviation DELETED :: string where "DELETED \<equiv> ''DELETED''"
abbreviation ERROR :: string where "ERROR \<equiv> ''ERROR''"
abbreviation ONLINE :: string where "ONLINE \<equiv> ''ONLINE''"
abbreviation OFFLINE :: string where "OFFLINE \<equiv> ''OFFLINE''"
abbreviation DEGRADED :: string where "DEGRADED \<equiv> ''DEGRADED''"
abbreviation NO_MONITOR :: string where "NO_MONITOR \<equiv> ''NO_MONITOR''"
abbreviation PROTOCOL_TCP :: string where "PROTOCOL_TCP \<equiv> ''TCP''"
abbreviation PROTOCOL_UDP :: string where "PROTOCOL_UDP \<equiv> ''UDP''"
abbreviation PROTOCOL_SCTP :: string where "PROTOCOL_SCTP \<equiv> ''SCTP''"
abbreviation LB_ALGORITHM_SOURCE_IP_PORT :: string where
  "LB_ALGORITHM_SOURCE_IP_PORT \<equiv> ''SOURCE_IP_PORT''"
abbreviation LB_ALGORITHM_SOURCE_IP :: string where "LB_ALGORITHM_SOURCE_IP \<equiv> ''SOURCE_IP''"
abbreviation DEVICE_OWNER_DISTRIBUTED :: string where
  "DEVICE_OWNER_DISTRIBUTED \<equiv> ''network:distributed''"
abbreviation DEVICE_OWNER_ROUTER_INTF :: string where
  "DEVICE_OWNER_ROUTER_INTF \<equiv> ''network:router_interface''"

section \<open>Tables of constants.py\<close>

definition OVN_NATIVE_LB_PROTOCOLS :: "string list" where
  "OVN_NATIVE_LB_PROTOCOLS = [PROTOCOL_TCP, PROTOCOL_UDP, PROTOCOL_SCTP]"

definition OVN_NATIVE_LB_ALGORITHMS :: "string list" where
  "OVN_NATIVE_LB_ALGORITHMS = [LB_ALGORITHM_SOURCE_IP_PORT]"

definition SUPPORTED_HEALTH_MONITOR_TYPES :: "string list" where
  "SUPPORTED_HEALTH_MONITOR_TYPES = [''UDP-CONNECT'', ''TCP'']"

definition OVN_NATIVE_SESSION_PERSISTENCE :: "string list" where
  "OVN_NATIVE_SESSION_PERSISTENCE = [''SOURCE_IP'']"

text \<open>The dict LB_SELECTION_FIELDS_MAP has the key None next to the two algorithms.\<close>

definition LB_SELECTION_FIELDS_MAP :: "(string option \<times> string list) list" where
  "LB_SELECTION_FIELDS_MAP =
     [(Some LB_ALGORITHM_SOURCE_IP_PORT, [''ip_dst'', ''ip_src'', ''tp_dst'', ''tp_src'']),
      (Some LB_ALGORITHM_SOURCE_IP, [''ip_src'', ''ip_dst'']),
      (None, [''ip_src'', ''ip_dst'', ''tp_src'', ''tp_dst''])]"

definition HM_EVENT_MEMBER_PORT_OFFLINE :: "string list" where
  "HM_EVENT_MEMBER_PORT_OFFLINE = [''offline'']"

text \<open>The actions requests carry (\<open>REQ_INFO_...\<close>).\<close>

datatype fip_action =
    REQ_INFO_ACTION_ASSOCIATE | REQ_INFO_ACTION_SYNC | REQ_INFO_ACTION_DISASSOCIATE

datatype member_action = REQ_INFO_MEMBER_ADDED | REQ_INFO_MEMBER_DELETED

end
