(* ===== verification/World.thy ===== *)
theory World
  imports Constants
begin

text \<open>
  The outside of the program, as the program sees it.
  \<^item> \<open>lb_row\<close>, \<open>hc_row\<close>, \<open>ls_row\<close>, \<open>lsp_row\<close>, \<open>lr_row\<close>, \<open>lrp_row\<close>, \<open>nat_row\<close>: the columns of the northbound
    rows the code reads. A row object is live in ovsdbapp (its attributes show the current
    contents), so the code's row handles are uuids here and each read is an effect (\<open>nb_lb\<close> ...).
  \<^item> \<open>cmd\<close>: the ovsdbapp commands the code builds, by the name of the API call.
  \<^item> \<open>lib\<close> and \<open>env\<close>: the third-party code (netaddr, JSON, Neutron, Octavia, ovsdbapp, tenacity) as
    parameters. No definition of this development says what they do.
\<close>

section \<open>Rows\<close>

record lb_row =
  lb_uuid :: string
  lb_name :: string
  lb_protocol :: "string list"          \<comment> \<open>an optional column: no or one element\<close>
  lb_external_ids :: "string pydict"
  lb_vips :: "string pydict"
  lb_options :: "string pydict"
  lb_selection_fields :: "string list"
  lb_health_check :: "string list"      \<comment> \<open>uuids of Load_Balancer_Health_Check rows\<close>
  lb_ip_port_mappings :: "string pydict"

record hc_row =
  hc_uuid :: string
  hc_vip :: string
  hc_options :: "string pydict"
  hc_external_ids :: "string pydict"

record lsp_row =
  lsp_name :: string
  lsp_type :: string
  lsp_addresses :: "string list"
  lsp_options :: "string pydict"
  lsp_external_ids :: "string pydict"

record ls_row =
  sw_uuid :: string
  sw_name :: string
  sw_ports :: "lsp_row list"
  sw_load_balancer :: "string list"     \<comment> \<open>uuids of Load_Balancer rows\<close>

record lrp_row =
  lrp_name :: string
  lrp_networks :: "string list"
  lrp_gateway_chassis :: "string list"
  lrp_external_ids :: "string pydict"

record lr_row =
  rt_uuid :: string
  rt_name :: string
  rt_ports :: "lrp_row list"
  rt_load_balancer :: "string list"
  rt_external_ids :: "string pydict"

record nat_row =
  nat_uuid :: string
  nat_external_ip :: string
  nat_external_ids :: "string pydict"

text \<open>A row of the southbound table Service_Monitor, as an event carries it.\<close>

record sm_row =
  sm_ip :: string
  sm_src_ip :: string
  sm_logical_port :: string
  sm_port :: int
  sm_protocol :: "string list"
  sm_status :: "string list"

section \<open>Commands\<close>

datatype colval = StrMap "string pydict" | StrVal string | StrList "string list"

text \<open>
  \<open>db_set table row (col, val)\<close>, \<open>db_remove table row col key\<close>, \<open>db_clear table row col\<close>, the
  association commands with their \<open>may_exist\<close> or \<open>if_exists\<close> flag, and \<open>lb_del\<close>.
  \<open>db_create_hc vip options external_ids\<close> creates a health check row; the two commands on the created row
  follow it in its transaction and mean the row it creates. The last two set and delete one key
  of \<open>ip_port_mappings\<close>.
\<close>

datatype cmd =
    db_set string string string colval
  | db_remove string string string string
  | db_clear string string string
  | db_destroy string string
  | lb_del string
  | ls_lb_add string string bool
  | ls_lb_del string string bool
  | lr_lb_add string string bool
  | lr_lb_del string string bool
  | db_create_hc string "string pydict" "string pydict"
  | db_add_created_hc string
  | db_set_created_hc_vip string
  | db_add_hc string string
  | set_ip_port_mapping string string string
  | del_ip_port_mapping string string

abbreviation Load_Balancer :: string where "Load_Balancer \<equiv> ''Load_Balancer''"
abbreviation Load_Balancer_Health_Check :: string where
  "Load_Balancer_Health_Check \<equiv> ''Load_Balancer_Health_Check''"
abbreviation EXT_IDS :: string where "EXT_IDS \<equiv> ''external_ids''"

text \<open>
  The arguments of \<open>db_create('Load_Balancer', ...)\<close>; a value of \<open>external_ids\<close> can be Python's None,
  and \<open>selection_fields\<close> is left out where the column is not supported.
\<close>

record lb_kwargs =
  kw_name :: string
  kw_protocol :: "string list"
  kw_external_ids :: "string option pydict"
  kw_selection_fields :: "string list option"

section \<open>Neutron and Octavia objects\<close>

record fixed_ip =
  fi_subnet_id :: string
  fi_ip_address :: string

record port =
  p_id :: string
  p_name :: string
  p_network_id :: string
  p_fixed_ips :: "fixed_ip list"

record subnet =
  sn_network_id :: string
  sn_gateway_ip :: "string option"
  sn_cidr :: string

record network =
  nw_name :: string
  nw_provider_physical_network :: "string option"

record port_request =
  pr_name :: string
  pr_network_id :: "string option"
  pr_subnet_id :: "string option"
  pr_ip_address :: "string option"
  pr_project_id :: string

text \<open>The request for a health monitor port; its other fields are constants of the code.\<close>

record hm_port_request =
  hp_name :: string
  hp_network_id :: string
  hp_subnet_id :: string
  hp_device_owner :: string
  hp_device_id :: string
  hp_project_id :: "string option"

record oc_pool =
  ocp_loadbalancer_id :: string
  ocp_admin_state_up :: bool

record additional_vip =
  av_ip_address :: string
  av_network_id :: "string option"
  av_port_id :: string
  av_subnet_id :: "string option"

record oc_lb =
  ocl_vip_subnet_id :: "string option"
  ocl_vip_port_id :: "string option"
  ocl_additional_vips :: "additional_vip list"
  ocl_admin_state_up :: bool

text \<open>The status reports the driver sends: a dict of lists of dicts. A value is a string or None.\<close>

type_synonym entry = "string option pydict"
type_synonym status = "entry list pydict"

section \<open>Third-party code\<close>

text \<open>
  Pure libraries. \<open>ip_version x\<close> is \<open>netaddr.IPNetwork(x).version\<close>; \<open>ip_version_none\<close> the same for None; \<open>ip_address x\<close> stands for
  \<open>netaddr.IPAddress(x)\<close> and \<open>net_ip x\<close> for \<open>netaddr.IPNetwork(x).ip\<close> (both in one canonical form, so
  that \<open>=\<close> compares them); \<open>ip_in_net a n\<close> is \<open>IPAddress(a) in IPNetwork(n)\<close>; \<open>loads_...\<close> and
  \<open>dumps_...\<close> are \<open>jsonutils\<close> at the three shapes of document the code stores. \<open>set_order\<close> is the
  order in which Python iterates over a set of rows.
\<close>

record lib =
  ip_version :: "string \<Rightarrow> nat res"
  ip_version_none :: "nat res"
  ip_address :: "string \<Rightarrow> string res"
  net_ip :: "string \<Rightarrow> string res"
  ip_in_net :: "string \<Rightarrow> string \<Rightarrow> bool res"
  is_valid_ipv4 :: "string \<Rightarrow> bool"
  is_valid_ipv6 :: "string \<Rightarrow> bool"
  loads_ints :: "string \<Rightarrow> int pydict res"
  dumps_ints :: "int pydict \<Rightarrow> string"
  loads_strs :: "string \<Rightarrow> string pydict res"
  dumps_strs :: "string pydict \<Rightarrow> string"
  loads_list :: "string \<Rightarrow> string list res"
  dumps_list :: "string list \<Rightarrow> string"
  set_order :: "string list \<Rightarrow> string list"

text \<open>The stop conditions of the \<open>tenacity.retry\<close> decorators in the code.\<close>

datatype stop = StopAfterAttempt nat | StopAfterDelay nat

record 'w env = lib +
  nb_schema :: "string \<Rightarrow> string list option"   \<comment> \<open>the columns of a table\<close>
  nb_lbs_by_name :: "string \<Rightarrow> ('w, string list) io"
  nb_lb_rows :: "('w, string list) io"
  nb_lb :: "string \<Rightarrow> ('w, lb_row) io"
  nb_hc :: "string \<Rightarrow> ('w, hc_row) io"
  nb_hc_rows :: "('w, hc_row list) io"
  nb_ls_get :: "string \<Rightarrow> ('w, ls_row) io"
  nb_ls :: "string \<Rightarrow> ('w, ls_row) io"
  nb_lookup_ls :: "string \<Rightarrow> ('w, ls_row) io"
  nb_lookup_lr :: "string \<Rightarrow> ('w, lr_row) io"
  nb_lr :: "string \<Rightarrow> ('w, lr_row) io"
  nb_ls_rows :: "('w, ls_row list) io"
  nb_lr_rows :: "('w, lr_row list) io"
  nb_lbs_with_health_check :: "('w, string list) io"
  nb_lbs_with_mappings :: "('w, string list) io"
  nb_lbs_by_mapping :: "string \<Rightarrow> string \<Rightarrow> string \<Rightarrow> ('w, string list) io"
  nb_nats_of_port :: "string \<Rightarrow> ('w, nat_row list) io"
  nb_lsps_named :: "string \<Rightarrow> ('w, lsp_row list) io"
  nb_txn :: "cmd list \<Rightarrow> ('w, unit) io"
  nb_exec :: "cmd \<Rightarrow> ('w, unit) io"
  nb_exec_nocheck :: "cmd \<Rightarrow> ('w, unit) io"
  nb_create_lb :: "lb_kwargs \<Rightarrow> ('w, unit) io"
  nb_mutate_ext_id :: "string \<Rightarrow> string \<Rightarrow> string \<Rightarrow> ('w, unit) io"
  nt_client :: "('w, unit) io"
  nt_get_port :: "string \<Rightarrow> ('w, port option) io"
  nt_get_subnet :: "string option \<Rightarrow> ('w, subnet) io"
  nt_get_network :: "string \<Rightarrow> ('w, network option) io"
  nt_ports_of_network :: "string \<Rightarrow> ('w, port list) io"
  nt_ports_named :: "string \<Rightarrow> ('w, port list) io"
  nt_find_port :: "string option \<Rightarrow> string \<Rightarrow> ('w, port option) io"
  nt_create_port :: "port_request \<Rightarrow> ('w, port) io"
  nt_create_hm_port :: "hm_port_request \<Rightarrow> ('w, port) io"
  nt_ports_owned_by :: "string \<Rightarrow> ('w, port list) io"
  nt_update_port :: "string \<Rightarrow> string \<Rightarrow> string \<Rightarrow> ('w, unit) io"   \<comment> \<open>id, device owner, device id\<close>
  nt_ips_of_port :: "string option \<Rightarrow> ('w, string list) io"   \<comment> \<open>floating addresses\<close>
  nt_get_ip :: "string \<Rightarrow> ('w, string) io"                    \<comment> \<open>the description\<close>
  nt_update_ip :: "string \<Rightarrow> string \<Rightarrow> ('w, unit) io"
  nt_delete_port :: "string \<Rightarrow> ('w, unit) io"
  oc_get_pool :: "string \<Rightarrow> ('w, oc_pool option) io"
  oc_get_listener :: "string \<Rightarrow> ('w, bool option) io"
  oc_get_loadbalancer :: "string \<Rightarrow> ('w, oc_lb option) io"
  oc_update_status :: "status \<Rightarrow> ('w, unit) io"
  retry_unit :: "(exn \<Rightarrow> bool) \<Rightarrow> stop \<Rightarrow> ('w, unit) io \<Rightarrow> ('w, unit) io"
  retry_rows :: "(exn \<Rightarrow> bool) \<Rightarrow> stop \<Rightarrow> ('w, string list) io \<Rightarrow> ('w, string list) io"
  retry_ports :: "(exn \<Rightarrow> bool) \<Rightarrow> stop \<Rightarrow> ('w, port list) io \<Rightarrow> ('w, port list) io"
  retry_port :: "(exn \<Rightarrow> bool) \<Rightarrow> stop \<Rightarrow> ('w, port option) io \<Rightarrow> ('w, port option) io"

text \<open>\<open>jsonutils.loads(x)\<close> where \<open>x\<close> may be None: None is not a document (TypeError).\<close>

definition loads_opt :: "(string \<Rightarrow> 'a res) \<Rightarrow> string option \<Rightarrow> 'a res" where
  "loads_opt f s = (case s of None \<Rightarrow> Inl TypeError | Some x \<Rightarrow> f x)"

end
