(* ===== verification/Utils.thy ===== *)
theory Utils
  imports World
begin

text \<open>
  \<open>common/utils.py\<close>: the names of OVN entries made from Neutron uuids, the uuid inside a port
  name, and the addresses of a logical switch port without their MACs. The \<open>retry\<close> decorator of
  that file is tenacity and is not modelled here.
\<close>

section \<open>OVN names\<close>

definition ovn_uuid :: "string \<Rightarrow> string" where
  "ovn_uuid name = replace OVN_NAME_PREFIX [] name"

definition ovn_name :: "string \<Rightarrow> string" where
  "ovn_name i = (if \<not> startswith i OVN_NAME_PREFIX then OVN_NAME_PREFIX @ i else i)"

text \<open>\<open>'%s' % id\<close> prints None where the port id is missing.\<close>

definition ovn_lrouter_port_name :: "string option \<Rightarrow> string" where
  "ovn_lrouter_port_name i = LRP_PREFIX @ str_opt i"

definition remove_macs_from_lsp_addresses :: "'a lib_scheme \<Rightarrow> string list \<Rightarrow> string list" where
  "remove_macs_from_lsp_addresses L addresses =
     concat (map (\<lambda>addr. filter (\<lambda>x. is_valid_ipv4 L x \<or> is_valid_ipv6 L x) (split_ws addr)) addresses)"

lemma ovn_name_startswith: "startswith (ovn_name i) OVN_NAME_PREFIX"
  by (simp only: ovn_name_def startswith_append split: if_split) simp

lemma ovn_name_idem [simp]: "ovn_name (ovn_name i) = ovn_name i"
  using ovn_name_startswith [of i] by (simp add: ovn_name_def [of "ovn_name i"])

lemma replace_absent: "\<not> contains old s \<Longrightarrow> replace old new s = s"
proof (induction s)
  case Nil
  then show ?case by (simp add: replace.simps)
next
  case (Cons x s)
  from Cons.prems have "\<not> prefix old (x # s)" and "\<not> contains old s"
    using contains_simps(2) [of old x s] by blast+
  with Cons.IH show ?case by (subst replace.simps) simp
qed

lemma replace_prefix: "old \<noteq> [] \<Longrightarrow> replace old new (old @ s) = new @ replace old new s"
  by (subst replace.simps) simp

lemma ovn_uuid_name:
  assumes "\<not> contains OVN_NAME_PREFIX i"
  shows "ovn_uuid (ovn_name i) = i"
proof -
  from assms have "\<not> startswith i OVN_NAME_PREFIX"
    using contains_prefix by blast
  then have "ovn_name i = OVN_NAME_PREFIX @ i" by (simp add: ovn_name_def)
  then have "ovn_uuid (ovn_name i) = replace OVN_NAME_PREFIX [] (OVN_NAME_PREFIX @ i)"
    by (simp only: ovn_uuid_def)
  also have "\<dots> = [] @ replace OVN_NAME_PREFIX [] i"
    by (rule replace_prefix) simp
  also have "\<dots> = i" using replace_absent [OF assms] by simp
  finally show ?thesis .
qed

section \<open>The uuid inside a string\<close>

text \<open>
  \<open>get_uuid\<close> searches the pattern \<open>8-4-4-4-12\<close> of hexadecimal digits (the pattern's \<open>\d\<close> read on
  ASCII) and returns its first match, or the empty string.
\<close>

definition is_hex :: "char \<Rightarrow> bool" where
  "is_hex c \<longleftrightarrow> (let n = (of_char c :: nat) in
     48 \<le> n \<and> n \<le> 57 \<or> 97 \<le> n \<and> n \<le> 102 \<or> 65 \<le> n \<and> n \<le> 70)"

text \<open>The pattern as a list of tests, one per character.\<close>

definition uuid_pattern :: "(char \<Rightarrow> bool) list" where
  "uuid_pattern =
     (let dash = (\<lambda>c. c = CHR ''-'') in
      replicate 8 is_hex @ [dash] @ replicate 4 is_hex @ [dash] @ replicate 4 is_hex @ [dash]
      @ replicate 4 is_hex @ [dash] @ replicate 12 is_hex)"

fun match_at :: "(char \<Rightarrow> bool) list \<Rightarrow> string \<Rightarrow> bool" where
  "match_at [] s = True"
| "match_at (p # ps) [] = False"
| "match_at (p # ps) (c # s) = (p c \<and> match_at ps s)"

fun get_uuid :: "string \<Rightarrow> string" where
  "get_uuid s =
     (if match_at uuid_pattern s then take (length uuid_pattern) s
      else (case s of [] \<Rightarrow> [] | _ # t \<Rightarrow> get_uuid t))"

declare get_uuid.simps [simp del]

lemma get_uuid_shape: "get_uuid s = [] \<or> match_at uuid_pattern (get_uuid s)"
proof (induction s rule: get_uuid.induct)
  case (1 s)
  have take_match: "match_at ps t \<Longrightarrow> match_at ps (take (length ps) t)" for ps t
    by (induction ps t rule: match_at.induct) auto
  show ?case
    using 1 take_match [of uuid_pattern s]
    by (subst (1 2) get_uuid.simps) (auto split: list.split)
qed

end
