(* ===== verification/Keys.thy ===== *)
theory Keys
  imports Utils
begin

text \<open>
  How \<open>helper.py\<close> writes the Octavia objects into the \<open>external_ids\<close> column of a load balancer row:
  listeners and pools are keys \<open>listener_<id>\<close> and \<open>pool_<id>\<close> (with \<open>:D\<close> when disabled), a
  listener's value is \<open><port>:<pool key>\<close>, a pool's value is the comma-separated list of its
  members, each \<open>member_<id>_<address>:<port>_<subnet>\<close>. The printers and the parsers of the code,
  and that they fit together.
\<close>

section \<open>Keys of listeners and pools\<close>

definition get_listener_key :: "string \<Rightarrow> bool \<Rightarrow> string" where
  "get_listener_key listener_id is_enabled =
     (let listener_key = LB_EXT_IDS_LISTENER_PREFIX @ listener_id in
      if \<not> is_enabled then listener_key @ '':'' @ DISABLED_RESOURCE_SUFFIX else listener_key)"

definition get_pool_key :: "string \<Rightarrow> bool \<Rightarrow> string" where
  "get_pool_key pool_id is_enabled =
     (let pool_key = LB_EXT_IDS_POOL_PREFIX @ pool_id in
      if \<not> is_enabled then pool_key @ '':'' @ DISABLED_RESOURCE_SUFFIX else pool_key)"

text \<open>A port arrives as an integer from the API, as a string from a parsed pool value.\<close>

datatype port_val = PortInt int | PortStr string

primrec str_port :: "port_val \<Rightarrow> string" where
  "str_port (PortInt n) = str_int n"
| "str_port (PortStr s) = s"

definition make_listener_key_value :: "port_val \<Rightarrow> string \<Rightarrow> string" where
  "make_listener_key_value listener_port pool_id = str_port listener_port @ '':'' @ pool_id"

definition extract_listener_key_value :: "string \<Rightarrow> string option \<times> string option" where
  "extract_listener_key_value listener_value =
     (let v = split_on CHR '':'' listener_value in
      if length v = 2 then (Some (v ! 0), Some (v ! 1)) else (None, None))"

definition is_listener_disabled :: "string \<Rightarrow> bool" where
  "is_listener_disabled listener_key =
     (let v = split_on CHR '':'' listener_key in length v = 2 \<and> v ! 1 = DISABLED_RESOURCE_SUFFIX)"

text \<open>
  The listeners of a pool, and the port of the first one. Both look for the prefix anywhere in
  the key, as the code does.
\<close>

definition get_pool_listeners :: "lb_row \<Rightarrow> string \<Rightarrow> string list" where
  "get_pool_listeners ovn_lb pool_key =
     concat (map (\<lambda>(k, v).
       if \<not> contains LB_EXT_IDS_LISTENER_PREFIX k then []
       else (let (vip_port, p_key) = extract_listener_key_value v in
             if Some pool_key = p_key then [drop (length LB_EXT_IDS_LISTENER_PREFIX) k] else []))
       (lb_external_ids ovn_lb))"

fun find_pool_listener_port :: "string pydict \<Rightarrow> string \<Rightarrow> string option" where
  "find_pool_listener_port [] pool_key = None"
| "find_pool_listener_port ((k, v) # items) pool_key =
     (if \<not> contains LB_EXT_IDS_LISTENER_PREFIX k then find_pool_listener_port items pool_key
      else (let (vip_port, p_key) = extract_listener_key_value v in
            if Some pool_key = p_key then vip_port else find_pool_listener_port items pool_key))"

definition get_pool_listener_port :: "lb_row \<Rightarrow> string \<Rightarrow> string option" where
  "get_pool_listener_port ovn_lb pool_key = find_pool_listener_port (lb_external_ids ovn_lb) pool_key"

definition is_listener_in_lb :: "lb_row \<Rightarrow> bool" where
  "is_listener_in_lb lb =
     list_ex (\<lambda>key. startswith key LB_EXT_IDS_LISTENER_PREFIX) (dict_keys (lb_external_ids lb))"

definition is_lb_empty :: "string pydict \<Rightarrow> bool" where
  "is_lb_empty external_ids =
     (\<not> list_ex (\<lambda>k. startswith k ''listener'' \<or> startswith k ''pool'') (dict_keys external_ids))"

section \<open>Members of a pool\<close>

text \<open>The member dict a request carries; a key some caller leaves out is an option.\<close>

record member_dict =
  md_id :: string
  md_address :: "string option"
  md_protocol_port :: "port_val option"
  md_pool_id :: "string option"
  md_subnet_id :: "string option"
  md_admin_state_up :: "bool option"

text \<open>The data model object of octavia-lib: an unset or empty subnet is None.\<close>

record member_model =
  mm_member_id :: string
  mm_address :: string
  mm_protocol_port :: port_val
  mm_subnet_id :: "string option"

definition key_of :: "'a option \<Rightarrow> 'a res" where
  "key_of x = (case x of None \<Rightarrow> Inl KeyError | Some v \<Rightarrow> Inr v)"

lemma key_of_simps [simp]: "key_of None = Inl KeyError" "key_of (Some v) = Inr v"
  by (simp_all add: key_of_def)

definition member_entry :: "string \<Rightarrow> string \<Rightarrow> string \<Rightarrow> string \<Rightarrow> string" where
  "member_entry m_id address protocol_port subnet_id =
     LB_EXT_IDS_MEMBER_PREFIX @ m_id @ ''_'' @ address @ '':'' @ protocol_port @ ''_'' @ subnet_id"

text \<open>\<open>_get_member_info\<close> on a dict (raises where the dict has no address or port) and on a Member.\<close>

definition get_member_info :: "member_dict \<Rightarrow> string res" where
  "get_member_info m =
     (let subnet_id = (case md_subnet_id m of None \<Rightarrow> [] | Some s \<Rightarrow> s) in
      rbind (key_of (md_address m)) (\<lambda>address.
      rbind (key_of (md_protocol_port m)) (\<lambda>protocol_port.
      Inr (member_entry (md_id m) address (str_port protocol_port) subnet_id))))"

definition get_member_info_model :: "'a member_model_scheme \<Rightarrow> string" where
  "get_member_info_model m =
     (let subnet_id = (case mm_subnet_id m of None \<Rightarrow> [] | Some s \<Rightarrow> s) in
      member_entry (mm_member_id m) (mm_address m) (str_port (mm_protocol_port m)) subnet_id)"

type_synonym mem_info = "string \<times> string \<times> string \<times> string"   \<comment> \<open>ip, port, subnet, id\<close>

definition extract_one_member :: "string \<Rightarrow> mem_info res" where
  "extract_one_member mem =
     (let mem_split = split_on CHR ''_'' mem in
      rbind (item mem_split 1) (\<lambda>mem_id.
      rbind (item mem_split 2) (\<lambda>mem_ip_port.
      (case rsplit1 CHR '':'' mem_ip_port of
         [mem_ip, mem_port] \<Rightarrow>
           rbind (item mem_split 3) (\<lambda>mem_subnet. Inr (mem_ip, mem_port, mem_subnet, mem_id))
       | _ \<Rightarrow> Inl ValueError))))"

definition extract_member_info :: "string \<Rightarrow> mem_info list res" where
  "extract_member_info member =
     (if member \<noteq> [] then mapR extract_one_member (split_on CHR '','' member) else Inr [])"

definition get_members_in_ovn_lb :: "lb_row \<Rightarrow> string \<Rightarrow> mem_info list res" where
  "get_members_in_ovn_lb ovn_lb pool_key =
     (case dict_get (lb_external_ids ovn_lb) pool_key of
        None \<Rightarrow> Inr []
      | Some existing_members \<Rightarrow>
          if existing_members = [] then Inr []
          else mapR (\<lambda>member. rbind (extract_member_info member) (\<lambda>infos. item infos 0))
                 (split_on CHR '','' existing_members))"

section \<open>The printers and the parsers fit\<close>

definition no_sep :: "string \<Rightarrow> bool" where
  "no_sep s \<longleftrightarrow> CHR ''_'' \<notin> set s \<and> CHR '','' \<notin> set s"

text \<open>
  The fields of a member that can be stored: Neutron and Octavia ids are uuids and addresses are
  IP addresses, so no field holds a separator and the port holds no colon.
\<close>

definition storable :: "string \<times> string \<times> string \<times> string \<Rightarrow> bool" where
  "storable m = (case m of (ip, port, sub, mid) \<Rightarrow>
     no_sep ip \<and> no_sep port \<and> no_sep sub \<and> no_sep mid \<and> CHR '':'' \<notin> set port)"

definition print_member :: "mem_info \<Rightarrow> string" where
  "print_member m = (case m of (ip, port, sub, mid) \<Rightarrow> member_entry mid ip port sub)"

lemma split_member_entry:
  assumes "no_sep mid" "no_sep ip" "no_sep port" "no_sep sub"
  shows "split_on CHR ''_'' (member_entry mid ip port sub) = [''member'', mid, ip @ '':'' @ port, sub]"
proof -
  let ?parts = "[''member'', mid, ip @ '':'' @ port, sub]"
  have entry: "member_entry mid ip port sub = join ''_'' ?parts"
    by (simp add: member_entry_def)
  have "split_on CHR ''_'' (join ''_'' ?parts) = ?parts"
    by (rule underscore.dec_enc) (use assms in \<open>simp_all add: no_sep_def\<close>)
  then show ?thesis by (simp only: entry)
qed

lemma extract_member_entry:
  assumes "storable (ip, port, sub, mid)"
  shows "extract_one_member (member_entry mid ip port sub) = Inr (ip, port, sub, mid)"
  using assms
  by (simp add: extract_one_member_def split_member_entry storable_def item_def rsplit1_sep)

lemma print_member_comma_free: "storable m \<Longrightarrow> CHR '','' \<notin> set (print_member m)"
  by (auto simp: print_member_def member_entry_def storable_def no_sep_def split: prod.splits)

lemma print_member_neq_Nil [simp]: "print_member m \<noteq> []"
  by (simp add: print_member_def member_entry_def split: prod.splits)

interpretation members: record_list_codec print_member extract_one_member storable "\<lambda>m. m"
  "join '',''" "split_on CHR '',''" "\<lambda>s. CHR '','' \<notin> set s"
proof unfold_locales
  fix m :: mem_info
  assume m: "storable m"
  show "extract_one_member (print_member m) = Inr m"
    using m by (cases m) (simp add: print_member_def extract_member_entry)
  show "CHR '','' \<notin> set (print_member m)"
    using m by (rule print_member_comma_free)
qed

lemma extract_print_members:
  assumes "list_all storable ms"
  shows "extract_member_info (join '','' (map print_member ms)) = Inr ms"
proof (cases "ms = []")
  case True
  then show ?thesis by (simp add: extract_member_info_def)
next
  case False
  then have "join '','' (map print_member ms) \<noteq> []"
    by (metis (no_types, lifting) join_eq_Nil list.set_intros(1) list.simps(9) neq_Nil_conv
        print_member_neq_Nil)
  with False assms show ?thesis
    by (simp add: extract_member_info_def members.dec_list)
qed

lemma extract_make_listener:
  assumes "CHR '':'' \<notin> set (str_port p)" and "CHR '':'' \<notin> set pool_key"
  shows "extract_listener_key_value (make_listener_key_value p pool_key)
         = (Some (str_port p), Some pool_key)"
  using assms
  by (simp add: extract_listener_key_value_def make_listener_key_value_def split_on_sep
      split_on_no_sep)

lemma is_listener_disabled_key:
  assumes "CHR '':'' \<notin> set i"
  shows "is_listener_disabled (get_listener_key i en) \<longleftrightarrow> \<not> en"
proof -
  have "CHR '':'' \<notin> set (LB_EXT_IDS_LISTENER_PREFIX @ i)" using assms by simp
  from split_on_no_sep [OF this] split_on_sep [OF this, of "''D''"]
  show ?thesis
    by (simp add: is_listener_disabled_def get_listener_key_def Let_def)
qed

lemma get_listener_key_simps:
  "get_listener_key i True = LB_EXT_IDS_LISTENER_PREFIX @ i"
  "get_listener_key i False = LB_EXT_IDS_LISTENER_PREFIX @ i @ '':D''"
  by (simp_all add: get_listener_key_def)

lemma get_pool_key_simps:
  "get_pool_key i True = LB_EXT_IDS_POOL_PREFIX @ i"
  "get_pool_key i False = LB_EXT_IDS_POOL_PREFIX @ i @ '':D''"
  by (simp_all add: get_pool_key_def)

lemma contains_listener_pool_key:
  "contains LB_EXT_IDS_LISTENER_PREFIX (get_pool_key i en) \<longleftrightarrow>
   contains LB_EXT_IDS_LISTENER_PREFIX (LB_EXT_IDS_POOL_PREFIX @ i)"
  using contains_sep [of "CHR '':''" LB_EXT_IDS_LISTENER_PREFIX "LB_EXT_IDS_POOL_PREFIX @ i" "''D''"]
  by (cases en) (simp_all add: get_pool_key_simps contains_simps)

lemma get_listener_key_inj [simp]:
  "get_listener_key i True \<noteq> get_listener_key i False"
  "get_listener_key i False \<noteq> get_listener_key i True"
  by (simp_all add: get_listener_key_simps)

lemma get_listener_key_neq_pool [simp]: "get_listener_key i a \<noteq> get_pool_key j b"
  by (simp add: get_listener_key_def get_pool_key_def Let_def)

lemma get_pool_key_neq_listener [simp]: "get_pool_key j b \<noteq> get_listener_key i a"
  by (simp add: get_listener_key_def get_pool_key_def Let_def)

lemma startswith_listener_key [simp]:
  "startswith (get_listener_key i en) LB_EXT_IDS_LISTENER_PREFIX"
  "startswith (get_listener_key i en) ''listener''"
  by (simp_all add: get_listener_key_def startswith_def Let_def)

lemma contains_listener_key [simp]:
  "contains LB_EXT_IDS_LISTENER_PREFIX (get_listener_key i en)"
  by (rule contains_prefix) (rule startswith_listener_key)

end
