(* ===== verification/Vips.thy ===== *)
theory Vips
  imports Keys
begin

text \<open>
  The \<open>vips\<close> column (\<open>_frame_vip_ips\<close>, \<open>_refresh_lb_vips\<close> of \<open>helper.py\<close>): the code rebuilds it from
  \<open>external_ids\<close> with nested loops that assign into a dict. \<open>listener_entries\<close> is the reference: the
  entries one listener contributes, with no loop state. The loops compute exactly the dict of all
  these entries (\<open>frame_vip_ips_entries\<close>); what an entry can be follows from the reference.
\<close>

section \<open>Member statuses\<close>

text \<open>TypeError (no document) and KeyError (no such member) are caught, a malformed document is not.\<close>

definition find_member_status :: "'a lib_scheme \<Rightarrow> lb_row \<Rightarrow> string \<Rightarrow> string res" where
  "find_member_status L ovn_lb member_id =
     (case rbind (loads_opt (loads_strs L) (dict_get (lb_external_ids ovn_lb) OVN_MEMBER_STATUS_KEY))
             (\<lambda>existing_members. dict_item existing_members member_id) of
        Inr s \<Rightarrow> Inr s
      | Inl e \<Rightarrow> if e = TypeError \<or> e = KeyError then Inr NO_MONITOR else Inl e)"

definition is_member_offline :: "'a lib_scheme \<Rightarrow> lb_row \<Rightarrow> string \<Rightarrow> bool res" where
  "is_member_offline L ovn_lb member_id =
     rbind (find_member_status L ovn_lb member_id) (\<lambda>s. Inr (OFFLINE = s))"

section \<open>The loops\<close>

definition bracketed :: "string \<Rightarrow> string" where
  "bracketed ip = ''['' @ ip @ '']''"

definition add_backend ::
  "'a lib_scheme \<Rightarrow> lb_row \<Rightarrow> mem_info \<Rightarrow> string list \<times> string list \<Rightarrow> (string list \<times> string list) res"
where
  "add_backend L ovn_lb m ips =
     (case m of (mb_ip, mb_port, mb_subnet, mb_id) \<Rightarrow>
      case ips of (ips_v4, ips_v6) \<Rightarrow>
      rbind (is_member_offline L ovn_lb mb_id) (\<lambda>offline.
      if \<not> offline then
        rbind (ip_version L mb_ip) (\<lambda>version.
        if version = 6 then Inr (ips_v4, ips_v6 @ [bracketed mb_ip @ '':'' @ mb_port])
        else Inr (ips_v4 @ [mb_ip @ '':'' @ mb_port], ips_v6))
      else Inr (ips_v4, ips_v6)))"

definition add_vip ::
  "'a lib_scheme \<Rightarrow> string list \<Rightarrow> string list \<Rightarrow> string \<Rightarrow> string \<Rightarrow> string pydict \<Rightarrow> string pydict res"
where
  "add_vip L ips_v4 ips_v6 vip_port lb_vip vip_ips =
     rbind
       (if ips_v4 \<noteq> [] then
          rbind (ip_version L lb_vip) (\<lambda>version.
          Inr (if version = 4 then dict_set vip_ips (lb_vip @ '':'' @ vip_port) (join '','' ips_v4)
               else vip_ips))
        else Inr vip_ips)
       (\<lambda>vip_ips.
        if ips_v6 \<noteq> [] then
          rbind (ip_version L lb_vip) (\<lambda>version.
          Inr (if version = 6
               then dict_set vip_ips (bracketed lb_vip @ '':'' @ vip_port) (join '','' ips_v6)
               else vip_ips))
        else Inr vip_ips)"

definition add_fip ::
  "'a lib_scheme \<Rightarrow> string list \<Rightarrow> string \<Rightarrow> string \<Rightarrow> string pydict \<Rightarrow> string pydict res"
where
  "add_fip L ips_v4 vip_port fip vip_ips =
     rbind (ip_version L fip) (\<lambda>version.
     Inr (if version = 4 then dict_set vip_ips (fip @ '':'' @ vip_port) (join '','' ips_v4) else vip_ips))"

definition add_listener ::
  "'a lib_scheme \<Rightarrow> lb_row \<Rightarrow> string pydict \<Rightarrow> string list \<Rightarrow> string option \<Rightarrow> string option \<Rightarrow>
   string \<times> string \<Rightarrow> string pydict \<Rightarrow> string pydict res"
where
  "add_listener L ovn_lb ext vips vip_fip additional_vip_fips kv vip_ips =
     (case kv of (k, v) \<Rightarrow>
      if \<not> contains LB_EXT_IDS_LISTENER_PREFIX k \<or> is_listener_disabled k then Inr vip_ips
      else
      (case extract_listener_key_value v of (vip_port, pool_id) \<Rightarrow>
       if \<not> truthy vip_port \<or> \<not> truthy pool_id then Inr vip_ips
       else
       (let vip_port = the vip_port; pool_id = the pool_id in
        case dict_get ext pool_id of
          None \<Rightarrow> Inr vip_ips
        | Some members \<Rightarrow>
            if members = [] then Inr vip_ips
            else
              rbind (extract_member_info members) (\<lambda>infos.
              rbind (foldR (add_backend L ovn_lb) infos ([], [])) (\<lambda>(ips_v4, ips_v6).
              rbind (foldR (add_vip L ips_v4 ips_v6 vip_port) vips vip_ips) (\<lambda>vip_ips.
              rbind (if ips_v4 \<noteq> [] \<and> truthy vip_fip
                     then add_fip L ips_v4 vip_port (the vip_fip) vip_ips else Inr vip_ips) (\<lambda>vip_ips.
              if ips_v4 \<noteq> [] \<and> truthy additional_vip_fips
              then foldR (add_fip L ips_v4 vip_port) (split_on CHR '','' (the additional_vip_fips)) vip_ips
              else Inr vip_ips)))))))"

definition lb_vip_addresses :: "string pydict \<Rightarrow> string list" where
  "lb_vip_addresses ext =
     (case dict_get ext LB_EXT_IDS_VIP_KEY of None \<Rightarrow> [] | Some vip \<Rightarrow> [vip])
     @ (case dict_get ext LB_EXT_IDS_ADDIT_VIP_KEY of None \<Rightarrow> [] | Some s \<Rightarrow> split_on CHR '','' s)"

definition frame_vip_ips :: "'a lib_scheme \<Rightarrow> lb_row \<Rightarrow> string pydict \<Rightarrow> string pydict res" where
  "frame_vip_ips L ovn_lb ext =
     (if dict_get ext ''enabled'' = Some ''False'' then Inr []
      else
        (let vips = lb_vip_addresses ext;
             vip_fip = dict_get ext LB_EXT_IDS_VIP_FIP_KEY;
             additional_vip_fips = dict_get ext LB_EXT_IDS_ADDIT_VIP_FIP_KEY
         in foldR (add_listener L ovn_lb ext vips vip_fip additional_vip_fips)
              ext []))"

definition refresh_lb_vips ::
  "'a lib_scheme \<Rightarrow> lb_row \<Rightarrow> string pydict \<Rightarrow> bool \<Rightarrow> cmd list res" where
  "refresh_lb_vips L ovn_lb ext is_sync =
     rbind (frame_vip_ips L ovn_lb ext) (\<lambda>vip_ips.
     if is_sync \<and> dict_eq (lb_vips ovn_lb) vip_ips then Inr []
     else Inr [db_clear Load_Balancer (lb_uuid ovn_lb) ''vips'',
               db_set Load_Balancer (lb_uuid ovn_lb) ''vips'' (StrMap vip_ips)])"

section \<open>Reference: the entries of one listener\<close>

text \<open>What an address of IP version \<open>ver\<close> gets: one entry if there are backends of its version.\<close>

definition address_text :: "nat \<Rightarrow> string \<Rightarrow> string" where
  "address_text ver a = (if ver = 6 then bracketed a else a)"

definition entry_of ::
  "'a lib_scheme \<Rightarrow> nat \<Rightarrow> string list \<Rightarrow> string \<Rightarrow> string \<Rightarrow> (string \<times> string) list res" where
  "entry_of L ver ips vip_port a =
     (if ips = [] then Inr []
      else rbind (ip_version L a) (\<lambda>v.
           Inr (if v = ver then [(address_text ver a @ '':'' @ vip_port, join '','' ips)] else [])))"

definition vip_entries ::
  "'a lib_scheme \<Rightarrow> string list \<Rightarrow> string list \<Rightarrow> string \<Rightarrow> string \<Rightarrow> (string \<times> string) list res" where
  "vip_entries L ips_v4 ips_v6 vip_port a =
     rbind (entry_of L 4 ips_v4 vip_port a) (\<lambda>e4.
     rbind (entry_of L 6 ips_v6 vip_port a) (\<lambda>e6. Inr (e4 @ e6)))"

text \<open>The online backends of a list of members: \<open>None\<close> for an offline member.\<close>

definition backend_of :: "'a lib_scheme \<Rightarrow> lb_row \<Rightarrow> mem_info \<Rightarrow> (nat \<times> string) option res" where
  "backend_of L ovn_lb m =
     (case m of (ip, port, sub, mid) \<Rightarrow>
      rbind (is_member_offline L ovn_lb mid) (\<lambda>offline.
      if offline then Inr None
      else rbind (ip_version L ip) (\<lambda>v.
           Inr (Some (if v = 6 then 6 else 4, address_text (if v = 6 then 6 else 4) ip @ '':'' @ port)))))"

definition backends :: "nat \<Rightarrow> (nat \<times> string) option list \<Rightarrow> string list" where
  "backends ver bs = concat (map (\<lambda>b. case b of None \<Rightarrow> [] | Some (v, s) \<Rightarrow> if v = ver then [s] else []) bs)"

text \<open>The pool an enabled listener sends its traffic to: its port and its non-empty member list.\<close>

definition serving_pool :: "string pydict \<Rightarrow> string \<times> string \<Rightarrow> (string \<times> string) option" where
  "serving_pool ext kv =
     (case kv of (k, v) \<Rightarrow>
      if contains LB_EXT_IDS_LISTENER_PREFIX k \<and> \<not> is_listener_disabled k then
        (case extract_listener_key_value v of
           (Some vip_port, Some pool_id) \<Rightarrow>
             if vip_port = [] \<or> pool_id = [] then None
             else (case dict_get ext pool_id of
                     None \<Rightarrow> None
                   | Some members \<Rightarrow> if members = [] then None else Some (vip_port, members))
         | _ \<Rightarrow> None)
      else None)"

definition fips_of :: "string option \<Rightarrow> string option \<Rightarrow> string list" where
  "fips_of vip_fip additional_vip_fips =
     (if truthy vip_fip then [the vip_fip] else [])
     @ (if truthy additional_vip_fips then split_on CHR '','' (the additional_vip_fips) else [])"

definition listener_entries ::
  "'a lib_scheme \<Rightarrow> lb_row \<Rightarrow> string pydict \<Rightarrow> string \<times> string \<Rightarrow> (string \<times> string) list res" where
  "listener_entries L ovn_lb ext kv =
     (case serving_pool ext kv of
        None \<Rightarrow> Inr []
      | Some (vip_port, members) \<Rightarrow>
          rbind (extract_member_info members) (\<lambda>infos.
          rbind (mapR (backend_of L ovn_lb) infos) (\<lambda>bs.
          rbind (mapR (vip_entries L (backends 4 bs) (backends 6 bs) vip_port) (lb_vip_addresses ext)) (\<lambda>vips.
          rbind (mapR (entry_of L 4 (backends 4 bs) vip_port)
                   (fips_of (dict_get ext LB_EXT_IDS_VIP_FIP_KEY) (dict_get ext LB_EXT_IDS_ADDIT_VIP_FIP_KEY)))
            (\<lambda>fips. Inr (concat vips @ concat fips))))))"

section \<open>The loops compute the reference\<close>

lemma add_backend_eq:
  "add_backend L lb m (v4, v6) =
     rbind (backend_of L lb m) (\<lambda>b. Inr (v4 @ backends 4 [b], v6 @ backends 6 [b]))"
  by (auto simp: add_backend_def backend_of_def backends_def address_text_def rbind_def
      split: prod.splits sum.splits)

lemma backends_Nil [simp]: "backends v [] = []"
  by (simp add: backends_def)

lemma backends_Cons:
  "backends v (b # bs) =
     (case b of None \<Rightarrow> [] | Some (v', s) \<Rightarrow> if v' = v then [s] else []) @ backends v bs"
  by (simp add: backends_def)

lemma foldR_add_backend:
  "foldR (add_backend L lb) ms (v4, v6) =
     rbind (mapR (backend_of L lb) ms) (\<lambda>bs. Inr (v4 @ backends 4 bs, v6 @ backends 6 bs))"
proof (induction ms arbitrary: v4 v6)
  case (Cons m ms)
  show ?case
    by (cases "backend_of L lb m"; cases "mapR (backend_of L lb) ms")
      (simp_all add: add_backend_eq Cons.IH backends_Cons)
qed simp

lemma add_vip_eq:
  "add_vip L v4 v6 p a acc = rbind (vip_entries L v4 v6 p a) (\<lambda>es. Inr (dict_merge acc es))"
  by (auto simp: add_vip_def vip_entries_def entry_of_def address_text_def rbind_def split: sum.splits)

lemma add_fip_eq:
  "v4 \<noteq> [] \<Longrightarrow> add_fip L v4 p a acc = rbind (entry_of L 4 v4 p a) (\<lambda>es. Inr (dict_merge acc es))"
  by (auto simp: add_fip_def entry_of_def address_text_def rbind_def split: sum.splits)

lemma add_vips_eq:
  "foldR (add_vip L v4 v6 p) vips acc =
     rbind (mapR (vip_entries L v4 v6 p) vips) (\<lambda>ess. Inr (dict_merge acc (concat ess)))"
  by (rule foldR_dict_merge) (rule add_vip_eq)

lemma add_fips_eq:
  "v4 \<noteq> [] \<Longrightarrow> foldR (add_fip L v4 p) fips acc =
     rbind (mapR (entry_of L 4 v4 p) fips) (\<lambda>ess. Inr (dict_merge acc (concat ess)))"
  by (rule foldR_dict_merge) (rule add_fip_eq)

lemma mapR_no_backends: "mapR (entry_of L ver [] p) as = Inr (map (\<lambda>_. []) as)"
  by (induction as) (simp_all add: entry_of_def)

lemma concat_map_Nil [simp]: "concat (map (\<lambda>_. []) xs) = []"
  by (induction xs) simp_all

lemma fip_loops_eq:
  "rbind (if v4 \<noteq> [] \<and> truthy fip then add_fip L v4 p (the fip) acc else Inr acc) (\<lambda>acc.
     if v4 \<noteq> [] \<and> truthy afips then foldR (add_fip L v4 p) (split_on CHR '','' (the afips)) acc
     else Inr acc)
   = rbind (mapR (entry_of L 4 v4 p) (fips_of fip afips)) (\<lambda>ess. Inr (dict_merge acc (concat ess)))"
proof (cases "v4 = []")
  case True
  then show ?thesis by (simp add: mapR_no_backends)
next
  case False
  note eqs = add_fip_eq [OF False] add_fips_eq [OF False]
  show ?thesis
    using False
    by (cases "truthy fip"; cases "truthy afips")
      (simp_all add: fips_of_def eqs mapR_append rbind_def dict_merge_append split: sum.splits)
qed

lemma add_listener_eq:
  "add_listener L lb ext (lb_vip_addresses ext) (dict_get ext LB_EXT_IDS_VIP_FIP_KEY)
     (dict_get ext LB_EXT_IDS_ADDIT_VIP_FIP_KEY) kv acc
   = rbind (listener_entries L lb ext kv) (\<lambda>es. Inr (dict_merge acc es))"
proof (cases kv)
  case (Pair k v)
  show ?thesis
  proof (cases "serving_pool ext kv")
    case None
    with Pair show ?thesis
      by (auto simp: add_listener_def serving_pool_def listener_entries_def truthy_def
          split: prod.splits option.splits if_splits)
  next
    case (Some pm)
    obtain p members where pm: "pm = (p, members)" by fastforce
    from Some Pair pm obtain pool where
      k: "contains LB_EXT_IDS_LISTENER_PREFIX k" "\<not> is_listener_disabled k"
      and x: "extract_listener_key_value v = (Some p, Some pool)" "p \<noteq> []" "pool \<noteq> []"
      and m: "dict_get ext pool = Some members" "members \<noteq> []"
      by (auto simp: serving_pool_def split: if_splits prod.splits option.splits)
    have step: "add_listener L lb ext (lb_vip_addresses ext) (dict_get ext LB_EXT_IDS_VIP_FIP_KEY)
        (dict_get ext LB_EXT_IDS_ADDIT_VIP_FIP_KEY) kv acc
      = rbind (extract_member_info members) (\<lambda>infos.
        rbind (mapR (backend_of L lb) infos) (\<lambda>bs.
        rbind (mapR (vip_entries L (backends 4 bs) (backends 6 bs) p) (lb_vip_addresses ext)) (\<lambda>vs.
        rbind (mapR (entry_of L 4 (backends 4 bs) p)
          (fips_of (dict_get ext LB_EXT_IDS_VIP_FIP_KEY) (dict_get ext LB_EXT_IDS_ADDIT_VIP_FIP_KEY)))
          (\<lambda>fs. Inr (dict_merge (dict_merge acc (concat vs)) (concat fs))))))"
      unfolding Pair add_listener_def
      by (simp only: prod.case k x m truthy_simps option.sel Let_def option.case if_False simp_thms
          foldR_add_backend rbind_assoc rbind_simps append_Nil add_vips_eq fip_loops_eq)
    show ?thesis
      unfolding step listener_entries_def Some pm option.case prod.case rbind_assoc rbind_simps
        dict_merge_append ..
  qed
qed

theorem frame_vip_ips_entries:
  "frame_vip_ips L lb ext =
     (if dict_get ext ''enabled'' = Some ''False'' then Inr []
      else rbind (mapR (listener_entries L lb ext) ext) (\<lambda>ess. Inr (dict_merge [] (concat ess))))"
  unfolding frame_vip_ips_def Let_def
  by (simp only: foldR_dict_merge [OF add_listener_eq])

section \<open>What the entries are\<close>

lemma entry_of_mem:
  assumes "entry_of L ver ips p a = Inr es" and "(key, val) \<in> set es"
  shows "ips \<noteq> [] \<and> ip_version L a = Inr ver \<and> key = address_text ver a @ '':'' @ p \<and> val = join '','' ips"
  using assms by (auto simp: entry_of_def split: if_splits)

lemma entry_of_serves:
  assumes "entry_of L ver ips p a = Inr es" and "ips \<noteq> []" and "ip_version L a = Inr ver"
  shows "(address_text ver a @ '':'' @ p, join '','' ips) \<in> set es"
  using assms by (auto simp: entry_of_def)

text \<open>An address the load balancer answers on: a VIP, or a floating IP, which is IPv4 only.\<close>

definition answers_on :: "'a lib_scheme \<Rightarrow> string pydict \<Rightarrow> nat \<Rightarrow> string \<Rightarrow> bool" where
  "answers_on L ext ver a \<longleftrightarrow>
     ip_version L a = Inr ver \<and>
     (a \<in> set (lb_vip_addresses ext) \<and> (ver = 4 \<or> ver = 6) \<or>
      a \<in> set (fips_of (dict_get ext LB_EXT_IDS_VIP_FIP_KEY) (dict_get ext LB_EXT_IDS_ADDIT_VIP_FIP_KEY))
        \<and> ver = 4)"

lemma listener_entries_mem:
  assumes "listener_entries L lb ext kv = Inr es" and "(key, val) \<in> set es"
  obtains p members infos bs ver a where
    "serving_pool ext kv = Some (p, members)"
    "extract_member_info members = Inr infos" "mapR (backend_of L lb) infos = Inr bs"
    "answers_on L ext ver a" "backends ver bs \<noteq> []"
    "key = address_text ver a @ '':'' @ p" "val = join '','' (backends ver bs)"
proof -
  let ?fips = "fips_of (dict_get ext LB_EXT_IDS_VIP_FIP_KEY) (dict_get ext LB_EXT_IDS_ADDIT_VIP_FIP_KEY)"
  from assms obtain p members infos bs vs fs where
    s: "serving_pool ext kv = Some (p, members)"
    and i: "extract_member_info members = Inr infos" and b: "mapR (backend_of L lb) infos = Inr bs"
    and v: "mapR (vip_entries L (backends 4 bs) (backends 6 bs) p) (lb_vip_addresses ext) = Inr vs"
    and f: "mapR (entry_of L 4 (backends 4 bs) p) ?fips = Inr fs"
    and es: "es = concat vs @ concat fs"
    by (auto simp: listener_entries_def split: option.splits prod.splits)
  from assms(2) es consider x where "x \<in> set vs" "(key, val) \<in> set x"
    | x where "x \<in> set fs" "(key, val) \<in> set x" by auto
  then show thesis
  proof cases
    case 1
    from mapR_set [OF v 1(1)] obtain a e4 e6 where a: "a \<in> set (lb_vip_addresses ext)"
      and e: "entry_of L 4 (backends 4 bs) p a = Inr e4" "entry_of L 6 (backends 6 bs) p a = Inr e6"
      and x: "x = e4 @ e6"
      by (auto simp: vip_entries_def)
    from 1(2) x consider "(key, val) \<in> set e4" | "(key, val) \<in> set e6" by auto
    then show thesis
    proof cases
      case 1
      from entry_of_mem [OF e(1) 1] a that [OF s i b, of 4 a] show thesis
        by (simp add: answers_on_def)
    next
      case 2
      from entry_of_mem [OF e(2) 2] a that [OF s i b, of 6 a] show thesis
        by (simp add: answers_on_def)
    qed
  next
    case 2
    from mapR_set [OF f 2(1)] obtain a where a: "a \<in> set ?fips"
      and e: "entry_of L 4 (backends 4 bs) p a = Inr x" by auto
    from entry_of_mem [OF e 2(2)] a that [OF s i b, of 4 a] show thesis
      by (simp add: answers_on_def)
  qed
qed

lemma backends_mem:
  assumes "mapR (backend_of L lb) infos = Inr bs" and "t \<in> set (backends ver bs)"
  shows "\<exists>ip port sub mid s v. (ip, port, sub, mid) \<in> set infos
     \<and> find_member_status L lb mid = Inr s \<and> s \<noteq> OFFLINE
     \<and> ip_version L ip = Inr v \<and> (ver = 6 \<longleftrightarrow> v = 6)
     \<and> t = address_text ver ip @ '':'' @ port"
proof -
  from assms(2) have "Some (ver, t) \<in> set bs"
    by (auto simp: backends_def split: option.splits if_splits)
  from mapR_set [OF assms(1) this] obtain ip port sub mid where m: "(ip, port, sub, mid) \<in> set infos"
    and "backend_of L lb (ip, port, sub, mid) = Inr (Some (ver, t))" by auto
  then obtain s v where "find_member_status L lb mid = Inr s" "s \<noteq> OFFLINE" "ip_version L ip = Inr v"
    "(ver = 6 \<longleftrightarrow> v = 6)" "t = address_text ver ip @ '':'' @ port"
    by (auto simp: backend_of_def is_member_offline_def split: if_splits)
  with m show ?thesis by blast
qed

lemma frame_mem:
  assumes "frame_vip_ips L lb ext = Inr vips" and "map_of vips key = Some val"
  obtains kv es where "dict_get ext ''enabled'' \<noteq> Some ''False''" "kv \<in> set ext"
    "listener_entries L lb ext kv = Inr es" "(key, val) \<in> set es"
proof -
  from assms(1) consider "vips = []" | ess where "dict_get ext ''enabled'' \<noteq> Some ''False''"
    "mapR (listener_entries L lb ext) ext = Inr ess" "vips = dict_merge [] (concat ess)"
    unfolding frame_vip_ips_entries by (auto split: if_splits)
  then show thesis
  proof cases
    case 1
    with assms(2) show thesis by simp
  next
    case 2
    from dict_merge_mem [of "[]" "concat ess" key val] 2(3) assms(2)
    obtain es where "es \<in> set ess" "(key, val) \<in> set es" by auto
    with mapR_set [OF 2(2)] that 2(1) show thesis by blast
  qed
qed

lemma frame_has:
  assumes "frame_vip_ips L lb ext = Inr vips" and "dict_get ext ''enabled'' \<noteq> Some ''False''"
    and "kv \<in> set ext"
  obtains es where "listener_entries L lb ext kv = Inr es" "fst ` set es \<subseteq> dom (map_of vips)"
proof -
  from assms(1,2) obtain ess where ess: "mapR (listener_entries L lb ext) ext = Inr ess"
    and vips: "vips = dict_merge [] (concat ess)"
    unfolding frame_vip_ips_entries by auto
  have "\<exists>es. listener_entries L lb ext kv = Inr es \<and> es \<in> set ess"
    using mapR_mem [OF ess assms(3)] by auto
  with that vips show thesis by (auto simp: dict_merge_dom)
qed

end
