(* ===== verification/VipSpec.thy ===== *)
theory VipSpec
  imports Vips
begin

text \<open>
  What the \<open>vips\<close> column promises. \<open>serves\<close> says, without loops or dicts, which entry one listener
  stands for; \<open>serves_row\<close> collects them over a row and \<open>vips_ok\<close> is the invariant of a row: every
  entry is served, and everything served has an entry. It does not depend on the order in which
  a dict is iterated, and only on the keys \<open>vip_relevant\<close> names.
\<close>

section \<open>The entries of a listener, as a relation\<close>

definition serves ::
  "'a lib_scheme \<Rightarrow> lb_row \<Rightarrow> string pydict \<Rightarrow> string \<times> string \<Rightarrow> string \<Rightarrow> string \<Rightarrow> bool" where
  "serves L lb ext kv key val \<longleftrightarrow>
     dict_get ext ''enabled'' \<noteq> Some ''False'' \<and>
     (\<exists>p members infos bs ver a.
        serving_pool ext kv = Some (p, members) \<and>
        extract_member_info members = Inr infos \<and> mapR (backend_of L lb) infos = Inr bs \<and>
        answers_on L ext ver a \<and> backends ver bs \<noteq> [] \<and>
        key = address_text ver a @ '':'' @ p \<and> val = join '','' (backends ver bs))"

definition serves_row ::
  "'a lib_scheme \<Rightarrow> lb_row \<Rightarrow> string pydict \<Rightarrow> string \<Rightarrow> string \<Rightarrow> bool" where
  "serves_row L lb ext key val \<longleftrightarrow> (\<exists>k v. dict_get ext k = Some v \<and> serves L lb ext (k, v) key val)"

definition vips_match ::
  "'a lib_scheme \<Rightarrow> lb_row \<Rightarrow> string pydict \<Rightarrow> string pydict \<Rightarrow> bool" where
  "vips_match L lb ext vips \<longleftrightarrow>
     (\<forall>key val. dict_get vips key = Some val \<longrightarrow> serves_row L lb ext key val) \<and>
     (\<forall>key val. serves_row L lb ext key val \<longrightarrow> dict_has vips key)"

definition vips_ok :: "'a lib_scheme \<Rightarrow> lb_row \<Rightarrow> bool" where
  "vips_ok L lb \<longleftrightarrow> vips_match L lb (lb_external_ids lb) (lb_vips lb)"

lemma servesI:
  assumes "dict_get ext ''enabled'' \<noteq> Some ''False''" "serving_pool ext kv = Some (p, members)"
    "extract_member_info members = Inr infos" "mapR (backend_of L lb) infos = Inr bs"
    "answers_on L ext ver a" "backends ver bs \<noteq> []"
  shows "serves L lb ext kv (address_text ver a @ '':'' @ p) (join '','' (backends ver bs))"
  using assms unfolding serves_def by blast

lemma answers_on_version: "answers_on L ext ver a \<Longrightarrow> ip_version L a = Inr ver \<and> (ver = 4 \<or> ver = 6)"
  by (auto simp: answers_on_def)

lemma concat_memI: "x \<in> set xs \<Longrightarrow> y \<in> set x \<Longrightarrow> y \<in> set (concat xs)"
  by auto

lemma listener_entries_serves:
  assumes es: "listener_entries L lb ext kv = Inr es" and s: "serves L lb ext kv key val"
  shows "(key, val) \<in> set es"
proof -
  from s obtain p members infos bs ver a where
    x: "serving_pool ext kv = Some (p, members)"
    "extract_member_info members = Inr infos" "mapR (backend_of L lb) infos = Inr bs"
    and a: "answers_on L ext ver a" "backends ver bs \<noteq> []"
    and kv: "key = address_text ver a @ '':'' @ p" "val = join '','' (backends ver bs)"
    unfolding serves_def by blast
  let ?fips = "fips_of (dict_get ext LB_EXT_IDS_VIP_FIP_KEY) (dict_get ext LB_EXT_IDS_ADDIT_VIP_FIP_KEY)"
  from es x obtain vs fs where
    v: "mapR (vip_entries L (backends 4 bs) (backends 6 bs) p) (lb_vip_addresses ext) = Inr vs"
    and f: "mapR (entry_of L 4 (backends 4 bs) p) ?fips = Inr fs"
    and e: "es = concat vs @ concat fs"
    by (auto simp: listener_entries_def)
  from a(1) consider (vip) "a \<in> set (lb_vip_addresses ext)" | (fip) "a \<in> set ?fips" "ver = 4"
    by (auto simp: answers_on_def)
  then show ?thesis
  proof cases
    case vip
    from mapR_mem [OF v vip] obtain x where xm: "x \<in> set vs"
      and vx: "vip_entries L (backends 4 bs) (backends 6 bs) p a = Inr x" by blast
    from vx obtain e4 e6 where
      x: "x = e4 @ e6" and e46: "entry_of L 4 (backends 4 bs) p a = Inr e4"
      "entry_of L 6 (backends 6 bs) p a = Inr e6"
      by (auto simp: vip_entries_def)
    have "(key, val) \<in> set x"
      using answers_on_version [OF a(1)] entry_of_serves [OF e46(1)] entry_of_serves [OF e46(2)] a(2) kv x
      by auto
    with xm e show ?thesis by auto
  next
    case fip
    from mapR_mem [OF f fip(1)] obtain x where "x \<in> set fs" "entry_of L 4 (backends 4 bs) p a = Inr x"
      by blast
    with entry_of_serves [of L 4 "backends 4 bs" p a x] answers_on_version [OF a(1)] a(2) kv e fip(2)
    show ?thesis by auto
  qed
qed

section \<open>The loops satisfy the relation\<close>

lemma dict_get_mem: "dict_get d k = Some v \<Longrightarrow> (k, v) \<in> set d"
  by (rule map_of_SomeD)

lemma frame_sound:
  assumes "frame_vip_ips L lb ext = Inr vips" and "distinct (dict_keys ext)"
    and "dict_get vips key = Some val"
  shows "serves_row L lb ext key val"
proof -
  from frame_mem [OF assms(1,3)] obtain kv es where en: "dict_get ext ''enabled'' \<noteq> Some ''False''"
    and kv: "kv \<in> set ext" and es: "listener_entries L lb ext kv = Inr es" "(key, val) \<in> set es"
    by blast
  have "serves L lb ext kv key val"
    by (rule listener_entries_mem [OF es]) (simp only: serves_def, use en in blast)
  then show ?thesis
    unfolding serves_row_def
    by (metis map_of_is_SomeI [OF assms(2)] kv prod.exhaust_sel)
qed

lemma frame_complete:
  assumes "frame_vip_ips L lb ext = Inr vips" and "serves_row L lb ext key val"
  shows "dict_has vips key"
proof -
  from assms(2) obtain k v where "(k, v) \<in> set ext" and s: "serves L lb ext (k, v) key val"
    unfolding serves_row_def by (blast dest: dict_get_mem)
  moreover from s have "dict_get ext ''enabled'' \<noteq> Some ''False''"
    unfolding serves_def by blast
  ultimately obtain es where "listener_entries L lb ext (k, v) = Inr es"
    "fst ` set es \<subseteq> dom (map_of vips)"
    using frame_has [OF assms(1)] by blast
  with listener_entries_serves [OF _ s] show ?thesis by (force simp: dict_has_def)
qed

lemma frame_match:
  assumes "frame_vip_ips L lb ext = Inr vips" and "distinct (dict_keys ext)"
  shows "vips_match L lb ext vips"
  using frame_sound [OF assms] frame_complete [OF assms(1)] unfolding vips_match_def by blast

section \<open>One entry per address and port\<close>

text \<open>Octavia gives every listener of a load balancer (and protocol) a port of its own.\<close>

definition unique_ports :: "string pydict \<Rightarrow> bool" where
  "unique_ports ext \<longleftrightarrow>
     (\<forall>(k, v) \<in> set ext. \<forall>(k', v') \<in> set ext.
        case (serving_pool ext (k, v), serving_pool ext (k', v')) of
          (Some (p, m), Some (p', m')) \<Rightarrow> p = p' \<longrightarrow> k = k' | _ \<Rightarrow> True)"

lemma serving_pool_port:
  assumes "serving_pool ext kv = Some (p, m)"
  shows "CHR '':'' \<notin> set p"
proof -
  obtain k v where kv: "kv = (k, v)" by fastforce
  from assms kv have len: "length (split_on CHR '':'' v) = 2" and p: "p = split_on CHR '':'' v ! 0"
    by (auto simp: serving_pool_def extract_listener_key_value_def Let_def
        split: if_splits option.splits prod.splits)
  from len have "split_on CHR '':'' v ! 0 \<in> set (split_on CHR '':'' v)"
    by (intro nth_mem) simp
  with p show ?thesis using split_on_elems [of p "CHR '':''" v] by simp
qed

lemma last_sep_unique:
  fixes c :: char
  assumes "a @ c # p = a' @ c # p'" and "c \<notin> set p" and "c \<notin> set p'"
  shows "a = a' \<and> p = p'"
proof -
  have "[a, p] = rsplit1 c (a @ c # p)" by (rule rsplit1_sep [OF assms(2), symmetric])
  also have "\<dots> = rsplit1 c (a' @ c # p')" by (simp only: assms(1))
  also have "\<dots> = [a', p']" by (rule rsplit1_sep [OF assms(3)])
  finally show ?thesis by simp
qed

text \<open>netaddr does not parse an address in brackets.\<close>

definition rejects_brackets :: "'a lib_scheme \<Rightarrow> bool" where
  "rejects_brackets L \<longleftrightarrow> (\<forall>a. ip_version L (bracketed a) \<noteq> Inr 4)"

lemma serves_row_functional:
  assumes u: "unique_ports ext" and b: "rejects_brackets L"
    and "serves_row L lb ext key val" "serves_row L lb ext key val'"
  shows "val = val'"
proof -
  from assms(3) obtain k v p m infos bs ver a where
    1: "dict_get ext k = Some v" "serving_pool ext (k, v) = Some (p, m)"
    "extract_member_info m = Inr infos" "mapR (backend_of L lb) infos = Inr bs"
    "answers_on L ext ver a" "key = address_text ver a @ '':'' @ p" "val = join '','' (backends ver bs)"
    unfolding serves_row_def serves_def by blast
  from assms(4) obtain k' v' p' m' infos' bs' ver' a' where
    2: "dict_get ext k' = Some v'" "serving_pool ext (k', v') = Some (p', m')"
    "extract_member_info m' = Inr infos'" "mapR (backend_of L lb) infos' = Inr bs'"
    "answers_on L ext ver' a'" "key = address_text ver' a' @ '':'' @ p'" "val' = join '','' (backends ver' bs')"
    unfolding serves_row_def serves_def by blast
  have eq: "address_text ver a = address_text ver' a' \<and> p = p'"
    by (rule last_sep_unique [where c = "CHR '':''"])
      (use 1(6) 2(6) serving_pool_port [OF 1(2)] serving_pool_port [OF 2(2)] in simp_all)
  have "k = k'"
    using u [unfolded unique_ports_def] dict_get_mem [OF 1(1)] dict_get_mem [OF 2(1)] 1(2) 2(2) eq
    by (fastforce split: option.splits)
  with 1 2 have bs: "bs = bs'" by auto
  have "ver = ver'"
    using answers_on_version [OF 1(5)] answers_on_version [OF 2(5)] eq b
    by (auto simp: address_text_def rejects_brackets_def split: if_splits)
  with bs 1(7) 2(7) show ?thesis by simp
qed

lemma frame_exact:
  assumes f: "frame_vip_ips L lb ext = Inr vips" and d: "distinct (dict_keys ext)"
    and u: "unique_ports ext" and b: "rejects_brackets L"
  shows "dict_get vips key = Some val \<longleftrightarrow> serves_row L lb ext key val"
proof
  assume "dict_get vips key = Some val"
  then show "serves_row L lb ext key val" by (rule frame_sound [OF f d])
next
  assume s: "serves_row L lb ext key val"
  from frame_complete [OF f s] obtain val' where "dict_get vips key = Some val'"
    by (auto simp: dict_has_def)
  with frame_sound [OF f d this] serves_row_functional [OF u b s] show "dict_get vips key = Some val"
    by blast
qed

section \<open>What the entries depend on\<close>

definition vip_relevant :: "string \<Rightarrow> bool" where
  "vip_relevant k \<longleftrightarrow>
     contains LB_EXT_IDS_LISTENER_PREFIX k \<or> startswith k LB_EXT_IDS_POOL_PREFIX \<or>
     k \<in> {''enabled'', LB_EXT_IDS_VIP_KEY, LB_EXT_IDS_ADDIT_VIP_KEY, LB_EXT_IDS_VIP_FIP_KEY,
          LB_EXT_IDS_ADDIT_VIP_FIP_KEY}"

text \<open>The listeners of a row forward to pools, not to other keys.\<close>

definition forwards_to_pools :: "string \<Rightarrow> bool" where
  "forwards_to_pools v =
     (case snd (extract_listener_key_value v) of
        None \<Rightarrow> True | Some q \<Rightarrow> q = [] \<or> startswith q LB_EXT_IDS_POOL_PREFIX)"

definition wf_refs :: "string pydict \<Rightarrow> bool" where
  "wf_refs ext \<longleftrightarrow>
     (\<forall>(k, v) \<in> set ext. contains LB_EXT_IDS_LISTENER_PREFIX k \<longrightarrow> forwards_to_pools v)"

definition same_vip_keys :: "string pydict \<Rightarrow> string pydict \<Rightarrow> bool" where
  "same_vip_keys ext ext' \<longleftrightarrow> (\<forall>k. vip_relevant k \<longrightarrow> dict_get ext k = dict_get ext' k)"

lemma same_vip_keysD: "same_vip_keys ext ext' \<Longrightarrow> vip_relevant k \<Longrightarrow> dict_get ext' k = dict_get ext k"
  by (simp add: same_vip_keys_def)

lemma vip_relevant_keys [simp]:
  "vip_relevant ''enabled''" "vip_relevant LB_EXT_IDS_VIP_KEY" "vip_relevant LB_EXT_IDS_ADDIT_VIP_KEY"
  "vip_relevant LB_EXT_IDS_VIP_FIP_KEY" "vip_relevant LB_EXT_IDS_ADDIT_VIP_FIP_KEY"
  by (simp_all add: vip_relevant_def)

text \<open>The member statuses matter only as far as a member is offline.\<close>

definition same_offline :: "'a lib_scheme \<Rightarrow> lb_row \<Rightarrow> lb_row \<Rightarrow> bool" where
  "same_offline L lb lb' \<longleftrightarrow> (\<forall>m. is_member_offline L lb m = is_member_offline L lb' m)"

lemma same_offlineI:
  assumes "dict_get (lb_external_ids lb) OVN_MEMBER_STATUS_KEY = dict_get (lb_external_ids lb') OVN_MEMBER_STATUS_KEY"
  shows "same_offline L lb lb'"
  using assms by (simp add: same_offline_def is_member_offline_def find_member_status_def)

lemma backend_of_cong:
  assumes "same_offline L lb lb'"
  shows "backend_of L lb = backend_of L lb'"
  using assms by (simp add: backend_of_def same_offline_def fun_eq_iff)

lemma answers_on_cong:
  assumes "same_vip_keys ext ext'"
  shows "answers_on L ext = answers_on L ext'"
  by (simp add: answers_on_def lb_vip_addresses_def fun_eq_iff same_vip_keysD [OF assms])

lemma serving_pool_cong:
  assumes "same_vip_keys ext ext'" and "contains LB_EXT_IDS_LISTENER_PREFIX k \<Longrightarrow> forwards_to_pools v"
  shows "serving_pool ext (k, v) = serving_pool ext' (k, v)"
proof (cases "contains LB_EXT_IDS_LISTENER_PREFIX k")
  case True
  have "dict_get ext q = dict_get ext' q" if "extract_listener_key_value v = (p, Some q)" "q \<noteq> []" for p q
    using assms(2) [OF True] that same_vip_keysD [OF assms(1), of q]
    by (simp add: forwards_to_pools_def vip_relevant_def)
  then show ?thesis
    by (auto simp: serving_pool_def split: prod.splits option.splits)
qed (simp add: serving_pool_def)

lemma serves_listener:
  "serves L lb ext (k, v) key val \<Longrightarrow> contains LB_EXT_IDS_LISTENER_PREFIX k"
  by (auto simp: serves_def serving_pool_def split: if_splits)

lemma serves_cong:
  assumes "same_vip_keys ext ext'" and "contains LB_EXT_IDS_LISTENER_PREFIX k \<Longrightarrow> forwards_to_pools v"
    and "same_offline L lb lb'"
  shows "serves L lb ext (k, v) = serves L lb' ext' (k, v)"
  by (simp only: serves_def fun_eq_iff serving_pool_cong [OF assms(1,2)] backend_of_cong [OF assms(3)]
      answers_on_cong [OF assms(1)] same_vip_keysD [OF assms(1), of "''enabled''"] vip_relevant_keys simp_thms)

lemma serves_row_cong:
  assumes same: "same_vip_keys ext ext'" and wf: "wf_refs ext"
    and st: "same_offline L lb lb'"
  shows "serves_row L lb ext key val = serves_row L lb' ext' key val"
proof -
  have get: "dict_get ext k = dict_get ext' k" if "contains LB_EXT_IDS_LISTENER_PREFIX k" for k
    using same that by (simp add: same_vip_keys_def vip_relevant_def)
  have fwd: "forwards_to_pools v" if "dict_get ext k = Some v" "contains LB_EXT_IDS_LISTENER_PREFIX k" for k v
    using wf dict_get_mem [OF that(1)] that(2) by (auto simp: wf_refs_def)
  have "serves L lb ext (k, v) key val = serves L lb' ext' (k, v) key val"
    if "contains LB_EXT_IDS_LISTENER_PREFIX k" "dict_get ext k = Some v" for k v
    by (rule fun_cong [OF fun_cong [OF serves_cong [OF same _ st]]]) (use fwd that in simp)
  with get serves_listener show ?thesis
    unfolding serves_row_def by metis
qed

lemma vips_match_cong:
  assumes "same_vip_keys ext ext'" and "wf_refs ext"
    and "same_offline L lb lb'"
    and "map_of vips = map_of vips'"
  shows "vips_match L lb ext vips \<longleftrightarrow> vips_match L lb' ext' vips'"
  by (simp only: vips_match_def serves_row_cong [OF assms(1-3)] assms(4) dict_has_def)

text \<open>Rebuilding the column makes a row consistent, whatever it was before.\<close>

lemma refreshed_vips_ok:
  assumes "frame_vip_ips L lb ext = Inr vips" and "distinct (dict_keys ext)" and "wf_refs ext"
    and "same_vip_keys ext (lb_external_ids lb')" and "map_of vips = map_of (lb_vips lb')"
    and "same_offline L lb lb'"
  shows "vips_ok L lb'"
  using frame_match [OF assms(1,2)] vips_match_cong [OF assms(4,3,6,5)]
  by (simp add: vips_ok_def)

lemma unrelated_vips_ok:
  assumes "vips_ok L lb" and "wf_refs (lb_external_ids lb)"
    and "same_vip_keys (lb_external_ids lb) (lb_external_ids lb')" and "map_of (lb_vips lb) = map_of (lb_vips lb')"
    and "same_offline L lb lb'"
  shows "vips_ok L lb'"
  using assms(1) vips_match_cong [OF assms(3,2,5,4)]
  by (simp add: vips_ok_def)

end
