(* ===== verification/NbRows.thy ===== *)
theory NbRows
  imports VipSpec
begin

text \<open>
  What ovsdbapp documents for the commands the code builds, on the row of one load balancer:
  \<open>db_set\<close> on a map column sets the given keys and keeps the others, \<open>db_remove\<close> removes a key, \<open>db_clear\<close>
  empties a column, \<open>lb_del\<close> deletes the row. A read of a map column gives a dict in an order of
  OVSDB's choosing, so two rows are only compared up to that order (\<open>same_row\<close>). \<open>applied\<close> relates a
  row to the row after a transaction.
\<close>

section \<open>The columns\<close>

fun on_row :: "string \<Rightarrow> cmd \<Rightarrow> bool" where
  "on_row u (db_set t u' col v) = (t = Load_Balancer \<and> u' = u)"
| "on_row u (db_remove t u' col k) = (t = Load_Balancer \<and> u' = u)"
| "on_row u (db_clear t u' col) = (t = Load_Balancer \<and> u' = u)"
| "on_row u (lb_del u') = (u' = u)"
| "on_row u c = False"

text \<open>One map column under one command.\<close>

fun map_col :: "string \<Rightarrow> string \<Rightarrow> cmd \<Rightarrow> string pydict \<Rightarrow> string pydict" where
  "map_col u name (db_set t u' col (StrMap m)) d =
     (if t = Load_Balancer \<and> u' = u \<and> col = name then dict_merge d m else d)"
| "map_col u name (db_remove t u' col k) d =
     (if t = Load_Balancer \<and> u' = u \<and> col = name then dict_del d k else d)"
| "map_col u name (db_clear t u' col) d =
     (if t = Load_Balancer \<and> u' = u \<and> col = name then [] else d)"
| "map_col u name c d = d"

fun protocol_col :: "string \<Rightarrow> cmd \<Rightarrow> string list \<Rightarrow> string list" where
  "protocol_col u (db_set t u' col (StrVal p)) ps =
     (if t = Load_Balancer \<and> u' = u \<and> col = ''protocol'' then [p] else ps)"
| "protocol_col u (db_set t u' col (StrList l)) ps =
     (if t = Load_Balancer \<and> u' = u \<and> col = ''protocol'' then l else ps)"
| "protocol_col u c ps = ps"

definition cols_after :: "string \<Rightarrow> string \<Rightarrow> cmd list \<Rightarrow> string pydict \<Rightarrow> string pydict" where
  "cols_after u name cmds d = fold (map_col u name) cmds d"

definition deletes_row :: "string \<Rightarrow> cmd list \<Rightarrow> bool" where
  "deletes_row u cmds = list_ex (\<lambda>c. c = lb_del u) cmds"

text \<open>
  The row after a transaction that does not delete it; the columns the code does not rebuild
  here (health checks, mappings, selection fields) may be anything.
\<close>

definition applied :: "cmd list \<Rightarrow> lb_row \<Rightarrow> lb_row \<Rightarrow> bool" where
  "applied cmds r r' \<longleftrightarrow>
     lb_uuid r' = lb_uuid r \<and> lb_name r' = lb_name r \<and>
     lb_protocol r' = fold (protocol_col (lb_uuid r)) cmds (lb_protocol r) \<and>
     dict_eq (lb_external_ids r') (cols_after (lb_uuid r) EXT_IDS cmds (lb_external_ids r)) \<and>
     dict_eq (lb_vips r') (cols_after (lb_uuid r) ''vips'' cmds (lb_vips r)) \<and>
     dict_eq (lb_options r') (cols_after (lb_uuid r) ''options'' cmds (lb_options r)) \<and>
     distinct (dict_keys (lb_external_ids r'))"

lemma cols_after_simps [simp]:
  "cols_after u name [] d = d"
  "cols_after u name (c # cmds) d = cols_after u name cmds (map_col u name c d)"
  "cols_after u name (cmds @ cmds') d = cols_after u name cmds' (cols_after u name cmds d)"
  by (simp_all add: cols_after_def)

lemma appliedD:
  assumes "applied cmds r r'"
  shows "map_of (lb_external_ids r') = map_of (cols_after (lb_uuid r) EXT_IDS cmds (lb_external_ids r))"
    and "map_of (lb_vips r') = map_of (cols_after (lb_uuid r) ''vips'' cmds (lb_vips r))"
    and "distinct (dict_keys (lb_external_ids r'))"
    and "lb_uuid r' = lb_uuid r"
  using assms by (simp_all add: applied_def dict_eq_iff)

text \<open>A row on which a transaction has run; \<open>applied\<close> leaves only the order of the dicts open.\<close>

definition run_row :: "cmd list \<Rightarrow> lb_row \<Rightarrow> lb_row" where
  "run_row cmds r =
     r\<lparr>lb_protocol := fold (protocol_col (lb_uuid r)) cmds (lb_protocol r),
       lb_external_ids := cols_after (lb_uuid r) EXT_IDS cmds (lb_external_ids r),
       lb_vips := cols_after (lb_uuid r) ''vips'' cmds (lb_vips r),
       lb_options := cols_after (lb_uuid r) ''options'' cmds (lb_options r)\<rparr>"

lemma distinct_cols_after:
  "distinct (dict_keys d) \<Longrightarrow> distinct (dict_keys (cols_after u name cmds d))"
proof (induction cmds arbitrary: d)
  case (Cons c cmds)
  have "distinct (dict_keys (map_col u name c d))"
    using Cons.prems by (cases "(u, name, c, d)" rule: map_col.cases) (simp_all add: distinct_dict)
  with Cons.IH show ?case by simp
qed simp

lemma applied_run_row: "distinct (dict_keys (lb_external_ids r)) \<Longrightarrow> applied cmds r (run_row cmds r)"
  by (simp add: applied_def run_row_def dict_eq_iff distinct_cols_after)

text \<open>A command that leaves a column alone.\<close>

definition leaves :: "string \<Rightarrow> cmd list \<Rightarrow> bool" where
  "leaves name cmds =
     list_all (\<lambda>c. case c of
         db_set t u col v \<Rightarrow> col \<noteq> name | db_remove t u col k \<Rightarrow> col \<noteq> name
       | db_clear t u col \<Rightarrow> col \<noteq> name | _ \<Rightarrow> True) cmds"

lemma leaves_simps [simp]:
  "leaves name []"
  "leaves name (c # c' # cmds) \<longleftrightarrow> leaves name [c] \<and> leaves name (c' # cmds)"
  by (simp_all add: leaves_def)

lemma leaves_append [simp]: "leaves name (cmds @ cmds') \<longleftrightarrow> leaves name cmds \<and> leaves name cmds'"
  by (simp add: leaves_def)

lemma cols_after_leaves: "leaves name cmds \<Longrightarrow> cols_after u name cmds d = d"
proof (induction cmds arbitrary: d)
  case (Cons c cmds)
  have "map_col u name c d = d"
    using Cons.prems by (induction u name c d rule: map_col.induct) (auto simp: leaves_def)
  with Cons show ?case by (simp add: leaves_def)
qed simp

section \<open>Rebuilding the vips in a transaction\<close>

lemma frame_distinct: "frame_vip_ips L lb ext = Inr vips \<Longrightarrow> distinct (dict_keys vips)"
  unfolding frame_vip_ips_entries by (auto split: if_splits simp: distinct_dict_merge)

lemma dict_merge_Nil_get: "distinct (dict_keys d) \<Longrightarrow> map_of (dict_merge [] d) = map_of d"
  by (auto simp: dict_merge_get fun_eq_iff split: option.splits)

text \<open>
  The pattern of most handlers: change \<open>external_ids\<close> to \<open>ext'\<close> and append the commands of
  \<open>_refresh_lb_vips\<close> for \<open>ext'\<close>. The member statuses are read from the row before the change; a sync
  leaves the column alone when it is right.
\<close>

lemma refresh_applied:
  assumes "refresh_lb_vips L r ext' is_sync = Inr refresh"
    and "applied (pre @ refresh @ post) r r'" and "leaves ''vips'' pre"
    and "leaves ''vips'' post" and "leaves EXT_IDS post"
    and "map_of (cols_after (lb_uuid r) EXT_IDS pre (lb_external_ids r)) = map_of ext'"
    and "dict_get ext' OVN_MEMBER_STATUS_KEY = dict_get (lb_external_ids r) OVN_MEMBER_STATUS_KEY"
    and "distinct (dict_keys ext')" and "wf_refs ext'"
  shows "vips_ok L r'" and "map_of (lb_external_ids r') = map_of ext'"
proof -
  from assms(1) obtain v where v: "frame_vip_ips L r ext' = Inr v"
    and refresh: "refresh = [] \<and> map_of (lb_vips r) = map_of v \<or>
                  refresh = [db_clear Load_Balancer (lb_uuid r) ''vips'',
                             db_set Load_Balancer (lb_uuid r) ''vips'' (StrMap v)]"
    by (auto simp: refresh_lb_vips_def dict_eq_iff split: if_splits)
  from refresh show ext: "map_of (lb_external_ids r') = map_of ext'"
    using appliedD(1) [OF assms(2)] assms(6) by (auto simp: cols_after_leaves [OF assms(5)])
  have "map_of (lb_vips r') = map_of v"
    using appliedD(2) [OF assms(2)] dict_merge_Nil_get [OF frame_distinct [OF v]] refresh
    by (auto simp: cols_after_leaves [OF assms(3)] cols_after_leaves [OF assms(4)])
  moreover have "same_offline L r r'"
    by (rule same_offlineI) (simp add: ext assms(7))
  ultimately show "vips_ok L r'" using ext
    by (intro refreshed_vips_ok [OF v assms(8,9)]) (simp_all add: same_vip_keys_def)
qed

text \<open>A transaction that touches neither the vips nor the keys they depend on.\<close>

lemma unrelated_applied:
  assumes "vips_ok L r" and "wf_refs (lb_external_ids r)" and "applied cmds r r'"
    and "leaves ''vips'' cmds" and "same_offline L r r'"
    and "same_vip_keys (lb_external_ids r) (cols_after (lb_uuid r) EXT_IDS cmds (lb_external_ids r))"
  shows "vips_ok L r'"
  using assms(6) appliedD(1,2) [OF assms(3)]
  by (intro unrelated_vips_ok [OF assms(1,2)])
    (simp_all add: same_vip_keys_def cols_after_leaves [OF assms(4)] assms(5))

section \<open>Well-formed rows\<close>

text \<open>Order does not matter for \<open>wf_refs\<close> either.\<close>

lemma wf_refs_get:
  assumes "distinct (dict_keys ext)"
  shows "wf_refs ext \<longleftrightarrow>
    (\<forall>k v. dict_get ext k = Some v \<longrightarrow> contains LB_EXT_IDS_LISTENER_PREFIX k \<longrightarrow> forwards_to_pools v)"
  by (simp add: wf_refs_def Ball_def map_of_eq_Some_iff [OF assms])

lemma wf_refs_cong:
  assumes "map_of ext = map_of ext'" and "distinct (dict_keys ext)" and "distinct (dict_keys ext')"
  shows "wf_refs ext \<longleftrightarrow> wf_refs ext'"
  by (simp only: wf_refs_get [OF assms(2)] wf_refs_get [OF assms(3)] assms(1))

lemma wf_refs_set:
  assumes "wf_refs ext" and "distinct (dict_keys ext)"
    and "contains LB_EXT_IDS_LISTENER_PREFIX k \<Longrightarrow> forwards_to_pools v"
  shows "wf_refs (dict_set ext k v)"
  using assms by (simp add: wf_refs_get distinct_dict_set)

lemma wf_refs_del:
  assumes "wf_refs ext" and "distinct (dict_keys ext)"
  shows "wf_refs (dict_del ext k)"
  using assms by (simp add: wf_refs_get distinct_dict_del)

text \<open>The values the code writes for a listener.\<close>

lemma extract_make:
  assumes "extract_listener_key_value (make_listener_key_value p q) = (x, Some y)"
  shows "y = q"
proof -
  let ?v = "make_listener_key_value p q"
  define a where "a = str_port p"
  have len: "length (split_on CHR '':'' ?v) = 2" and y: "y = split_on CHR '':'' ?v ! 1"
    using assms by (simp_all add: extract_listener_key_value_def Let_def split: if_splits)
  have colon: "split_on CHR '':'' ?v = butlast (split_on CHR '':'' a)
      @ last (split_on CHR '':'' a) # split_on CHR '':'' q"
    unfolding make_listener_key_value_def a_def [symmetric]
    by (induction a) (auto split: list.splits)
  have "butlast (split_on CHR '':'' a) = []" and lq: "length (split_on CHR '':'' q) = 1"
    using len colon by (cases "split_on CHR '':'' q"; cases "butlast (split_on CHR '':'' a)"; simp)+
  then have "y = hd (split_on CHR '':'' q)"
    unfolding y using colon by (cases "split_on CHR '':'' q") auto
  also from lq join_split_on [of "CHR '':''" q] have "\<dots> = q"
    by (cases "split_on CHR '':'' q" rule: list.exhaust) auto
  finally show ?thesis .
qed

lemma forwards_make: "q = [] \<or> startswith q LB_EXT_IDS_POOL_PREFIX \<Longrightarrow>
  forwards_to_pools (make_listener_key_value p q)"
  using extract_make [of p q]
  by (cases "extract_listener_key_value (make_listener_key_value p q)")
    (auto simp: forwards_to_pools_def split: option.splits)

lemma forwards_make_simps [simp]:
  "forwards_to_pools (make_listener_key_value p [])"
  "forwards_to_pools (make_listener_key_value p (get_pool_key i en))"
  by (rule forwards_make; simp add: get_pool_key_def startswith_def Let_def)+

end
