(* ===== verification/Assoc.thy ===== *)
theory Assoc
  imports Keys
begin

text \<open>
  The association of a load balancer with logical switches and logical routers (\<open>helper.py\<close>:
  \<open>_get_lb_to_ls_association_commands\<close>, \<open>_add_lb_to_lr_association\<close>, \<open>_del_lb_to_lr_association\<close>,
  \<open>_find_ls_for_lr\<close>, \<open>_find_lr_of_ls\<close> and the code that runs their commands). The references of a load
  balancer are two \<open>external_ids\<close>: \<open>ls_refs\<close>, a JSON object that counts the uses of each switch, and
  \<open>lr_ref\<close>, a comma-separated list of router names.
\<close>

section \<open>Clients and transactions\<close>

definition get_neutron_client :: "'w env \<Rightarrow> ('w, unit) io" where
  "get_neutron_client E = catch (nt_client E) (\<lambda>e. throw DriverError)"

text \<open>\<open>_get_neutron_client\<close>: False stands for None.\<close>

definition get_neutron_client_or_none :: "'w env \<Rightarrow> ('w, bool) io" where
  "get_neutron_client_or_none E =
     catch (bnd (get_neutron_client E) (\<lambda>_. ret True))
       (\<lambda>e. if e = DriverError then ret False else throw e)"

definition execute_commands :: "'w env \<Rightarrow> cmd list \<Rightarrow> ('w, unit) io" where
  "execute_commands E commands = (if commands \<noteq> [] then nb_txn E commands else ret ())"

section \<open>Logical switches\<close>

definition loads_refs :: "'a lib_scheme \<Rightarrow> string option \<Rightarrow> int pydict res" where
  "loads_refs L ls_refs =
     (if truthy ls_refs then
        (case loads_ints L (the ls_refs) of
           Inr d \<Rightarrow> Inr d
         | Inl e \<Rightarrow> if e = ValueError then Inr [] else Inl e)
      else Inr [])"

text \<open>
  The part between reading \<open>ls_refs\<close> and writing it back: \<open>Inl\<close> the commands of an early return,
  \<open>Inr\<close> the commands so far and the new references. \<open>ls_name\<close> is None when the subnet is gone.
\<close>

definition update_ls_refs ::
  "string \<Rightarrow> string pydict \<Rightarrow> int pydict \<Rightarrow> string option \<Rightarrow> ls_row option \<Rightarrow> bool \<Rightarrow> bool \<Rightarrow> bool \<Rightarrow>
   cmd list + cmd list \<times> int pydict"
where
  "update_ls_refs u ext ls_refs ls_name ovn_ls associate additional_vips skip_ls_lb_actions =
     (let name = (case ls_name of None \<Rightarrow> [] | Some n \<Rightarrow> n);
          known = (ls_name \<noteq> None \<and> dict_has ls_refs name);
          del_cmds = (case ovn_ls of None \<Rightarrow> [] | Some ls \<Rightarrow> [ls_lb_del (sw_uuid ls) u True]);
          add_cmds = (case ovn_ls of None \<Rightarrow> [] | Some ls \<Rightarrow> [ls_lb_add (sw_uuid ls) u True])
      in
      if skip_ls_lb_actions then
        Inr ([], if known then ls_refs else dict_set ls_refs name 1)
      else if associate \<and> truthy ls_name then
        (if known then Inr ([], dict_set ls_refs name (the (dict_get ls_refs name) + 1))
         else
           (let addi_vips = dict_get_default ext LB_EXT_IDS_ADDIT_VIP_KEY [];
                count = (if additional_vips \<and> addi_vips \<noteq> []
                         then 1 + int (length (split_on CHR '','' addi_vips)) else 1)
            in Inr (add_cmds, dict_set ls_refs name count)))
      else if \<not> known then Inl del_cmds
      else
        (let ref_ct = the (dict_get ls_refs name) in
         if ref_ct = 1 then Inr (del_cmds, dict_del ls_refs name)
         else Inr ([], dict_set ls_refs name (ref_ct - 1))))"

text \<open>
  On a sync the references are written only when their keys changed. An empty string stored under
  \<open>ls_refs\<close> has no \<open>keys\<close> (AttributeError).
\<close>

definition same_ref_keys :: "'a lib_scheme \<Rightarrow> string pydict \<Rightarrow> int pydict \<Rightarrow> bool res" where
  "same_ref_keys L ext ls_refs =
     (let stored = dict_get ext LB_EXT_IDS_LS_REFS_KEY in
      if stored = Some [] then Inl AttributeError
      else rbind (loads_refs L stored) (\<lambda>ovn_ls_refs.
           Inr (set (dict_keys ovn_ls_refs) = set (dict_keys ls_refs))))"

definition write_ls_refs ::
  "'a lib_scheme \<Rightarrow> string \<Rightarrow> string pydict \<Rightarrow> int pydict \<Rightarrow> bool \<Rightarrow> bool \<Rightarrow> cmd list res" where
  "write_ls_refs L u ext ls_refs update_ls_ref is_sync =
     (if \<not> update_ls_ref then Inr []
      else rbind (if is_sync then same_ref_keys L ext ls_refs else Inr False) (\<lambda>check_ls_refs.
        Inr (if check_ls_refs then []
             else [db_set Load_Balancer u EXT_IDS
                     (StrMap [(LB_EXT_IDS_LS_REFS_KEY, dumps_ints L ls_refs)])])))"

definition ls_association_commands ::
  "'w env \<Rightarrow> string \<Rightarrow> string option \<Rightarrow> ls_row option \<Rightarrow> bool \<Rightarrow> bool \<Rightarrow> bool \<Rightarrow> bool \<Rightarrow> ('w, cmd list) io"
where
  "ls_association_commands E u ls_name ovn_ls associate update_ls_ref additional_vips is_sync =
     (let skip = (is_sync \<and> (case ovn_ls of None \<Rightarrow> False | Some ls \<Rightarrow> u \<in> set (sw_load_balancer ls))) in
      bnd (nb_lb E u) (\<lambda>ovn_lb.
      let ext = lb_external_ids ovn_lb in
      bnd (lift (loads_refs E (dict_get ext LB_EXT_IDS_LS_REFS_KEY))) (\<lambda>ls_refs.
      case update_ls_refs u ext ls_refs ls_name ovn_ls associate additional_vips skip of
        Inl commands \<Rightarrow> ret commands
      | Inr (commands, ls_refs) \<Rightarrow>
          bnd (lift (write_ls_refs E u ext ls_refs update_ls_ref is_sync)) (\<lambda>write.
          ret (commands @ write)))))"

definition get_lb_to_ls_association_commands ::
  "'w env \<Rightarrow> string \<Rightarrow> string option \<Rightarrow> string option \<Rightarrow> bool \<Rightarrow> bool \<Rightarrow> bool \<Rightarrow> bool \<Rightarrow> ('w, cmd list) io"
where
  "get_lb_to_ls_association_commands E u network_id subnet_id associate update_ls_ref
     additional_vips is_sync =
     (let with_switch = (\<lambda>ls_name.
            case ls_name of
              None \<Rightarrow> ls_association_commands E u None None associate update_ls_ref additional_vips is_sync
            | Some name \<Rightarrow>
                bnd (attempt (nb_ls_get E name)) (\<lambda>r.
                case r of
                  Inr ls \<Rightarrow> ls_association_commands E u (Some name) (Some ls) associate update_ls_ref
                             additional_vips is_sync
                | Inl e \<Rightarrow>
                    if e \<noteq> RowNotFound then throw e
                    else if associate then ret []
                    else ls_association_commands E u (Some name) None associate update_ls_ref
                           additional_vips is_sync))
      in
      if \<not> truthy network_id \<and> \<not> truthy subnet_id then ret []
      else if truthy network_id then with_switch (Some (ovn_name (the network_id)))
      else
        bnd (get_neutron_client_or_none E) (\<lambda>client.
        if \<not> client then ret []
        else
          bnd (attempt (nt_get_subnet E subnet_id)) (\<lambda>r.
          case r of
            Inr subnet \<Rightarrow> with_switch (Some (ovn_name (sn_network_id subnet)))
          | Inl e \<Rightarrow> if e = ResourceNotFound then with_switch None else throw e)))"

definition retry_row_not_found :: "exn \<Rightarrow> bool" where
  "retry_row_not_found e \<longleftrightarrow> e = RowNotFound"

definition update_lb_to_ls_association ::
  "'w env \<Rightarrow> string \<Rightarrow> string option \<Rightarrow> string option \<Rightarrow> bool \<Rightarrow> bool \<Rightarrow> bool \<Rightarrow> bool \<Rightarrow> ('w, unit) io"
where
  "update_lb_to_ls_association E u network_id subnet_id associate update_ls_ref additional_vips is_sync =
     retry_unit E retry_row_not_found (StopAfterAttempt 3)
       (bnd (get_lb_to_ls_association_commands E u network_id subnet_id associate update_ls_ref
               additional_vips is_sync)
          (execute_commands E))"

section \<open>Logical routers\<close>

definition version_of_vip :: "'a lib_scheme \<Rightarrow> string pydict \<Rightarrow> nat res" where
  "version_of_vip L ext =
     (case dict_get ext LB_EXT_IDS_VIP_KEY of None \<Rightarrow> ip_version_none L | Some vip \<Rightarrow> ip_version L vip)"

primrec find_ls_for_lr :: "'a lib_scheme \<Rightarrow> lrp_row list \<Rightarrow> nat \<Rightarrow> string list res" where
  "find_ls_for_lr L [] version = Inr []"
| "find_ls_for_lr L (port # ports) version =
     (if lrp_gateway_chassis port \<noteq> [] then find_ls_for_lr L ports version
      else
        rbind (item (lrp_networks port) 0) (\<lambda>cidr.
        rbind (ip_version L cidr) (\<lambda>v.
        if v \<noteq> version then find_ls_for_lr L ports version
        else
          (let port_network_name = dict_get (lrp_external_ids port) OVN_NETWORK_NAME_EXT_ID_KEY in
           rbind (find_ls_for_lr L ports version) (\<lambda>ls.
           Inr (if truthy port_network_name then ovn_name (the port_network_name) # ls else ls))))))"

definition del_lb_to_lr_association ::
  "'a lib_scheme \<Rightarrow> lb_row \<Rightarrow> lr_row \<Rightarrow> string option \<Rightarrow> cmd list res" where
  "del_lb_to_lr_association L ovn_lb ovn_lr lr_ref =
     (let u = lb_uuid ovn_lb;
          unref =
            (if truthy lr_ref then
               (let rest = filter (\<lambda>r. r \<noteq> rt_name ovn_lr) (map strip (split_on CHR '','' (the lr_ref))) in
                (if rest \<noteq> []
                 then [db_set Load_Balancer u EXT_IDS (StrMap [(LB_EXT_IDS_LR_REF_KEY, join '','' rest)])]
                 else [db_remove Load_Balancer u EXT_IDS LB_EXT_IDS_LR_REF_KEY])
                @ [lr_lb_del (rt_uuid ovn_lr) u True])
             else [])
      in
      rbind (version_of_vip L (lb_external_ids ovn_lb)) (\<lambda>version.
      rbind (find_ls_for_lr L (rt_ports ovn_lr) version) (\<lambda>nets.
      Inr (unref @ map (\<lambda>net. ls_lb_del net u True) nets))))"

definition add_lr_ref :: "string \<Rightarrow> string \<Rightarrow> string option \<Rightarrow> cmd list" where
  "add_lr_ref u name lr_rf =
     (if \<not> contains name (str_opt lr_rf) then
        [db_set Load_Balancer u EXT_IDS
          (StrMap [(LB_EXT_IDS_LR_REF_KEY,
                    if truthy lr_rf then the lr_rf @ '','' @ name else name)])]
      else [])"

text \<open>On a sync a switch that already has the load balancer is skipped.\<close>

definition skip_synced_ls :: "'w env \<Rightarrow> string \<Rightarrow> string \<Rightarrow> ('w, bool) io" where
  "skip_synced_ls E u net =
     catch (bnd (nb_ls_get E net) (\<lambda>ovn_ls. ret (u \<in> set (sw_load_balancer ovn_ls))))
       (\<lambda>e. if e = RowNotFound then ret False else throw e)"

definition add_lb_to_lr_association ::
  "'w env \<Rightarrow> lb_row \<Rightarrow> lr_row \<Rightarrow> string option \<Rightarrow> bool \<Rightarrow> ('w, cmd list) io" where
  "add_lb_to_lr_association E ovn_lb ovn_lr lr_rf is_sync =
     (let u = lb_uuid ovn_lb;
          need_lr_sync = (is_sync \<and> u \<notin> set (rt_load_balancer ovn_lr));
          add_lr = (if \<not> is_sync \<or> need_lr_sync then [lr_lb_add (rt_uuid ovn_lr) u True] else [])
      in
      bnd (lift (version_of_vip E (lb_external_ids ovn_lb))) (\<lambda>version.
      bnd (lift (find_ls_for_lr E (rt_ports ovn_lr) version)) (\<lambda>nets.
      bnd (fold_io (\<lambda>net commands.
             bnd (if is_sync then skip_synced_ls E u net else ret False) (\<lambda>skip.
             ret (if skip then commands else commands @ [ls_lb_add net u True]))) nets add_lr) (\<lambda>commands.
      ret (commands @ add_lr_ref u (rt_name ovn_lr) lr_rf)))))"

definition get_lb_to_lr_association_commands ::
  "'w env \<Rightarrow> string \<Rightarrow> string \<Rightarrow> bool \<Rightarrow> bool \<Rightarrow> ('w, cmd list) io" where
  "get_lb_to_lr_association_commands E u lr delete is_sync =
     bnd (nb_lb E u) (\<lambda>ovn_lb.
     bnd (nb_lr E lr) (\<lambda>ovn_lr.
     let lr_ref = dict_get (lb_external_ids ovn_lb) LB_EXT_IDS_LR_REF_KEY in
     if delete then lift (del_lb_to_lr_association E ovn_lb ovn_lr lr_ref)
     else add_lb_to_lr_association E ovn_lb ovn_lr lr_ref is_sync))"

definition update_lb_to_lr_association ::
  "'w env \<Rightarrow> string \<Rightarrow> string \<Rightarrow> bool \<Rightarrow> bool \<Rightarrow> ('w, unit) io" where
  "update_lb_to_lr_association E u lr delete is_sync =
     retry_unit E retry_row_not_found (StopAfterAttempt 3)
       (bnd (get_lb_to_lr_association_commands E u lr delete is_sync) (execute_commands E))"

fun is_ls_lb_cmd :: "cmd \<Rightarrow> bool" where
  "is_ls_lb_cmd (ls_lb_add ls u m) = True"
| "is_ls_lb_cmd (ls_lb_del ls u i) = True"
| "is_ls_lb_cmd c = False"

definition update_lb_to_lr_association_by_step ::
  "'w env \<Rightarrow> string \<Rightarrow> string \<Rightarrow> bool \<Rightarrow> bool \<Rightarrow> ('w, unit) io" where
  "update_lb_to_lr_association_by_step E u lr delete is_sync =
     bnd (get_lb_to_lr_association_commands E u lr delete is_sync)
       (for_each (\<lambda>command.
          catch (nb_exec E command)
            (\<lambda>e. if e = RowNotFound \<and> is_ls_lb_cmd command then ret () else throw e)))"

text \<open>The pattern of every caller: all at once, and on RowNotFound step by step.\<close>

definition associate_lr_or_by_step ::
  "'w env \<Rightarrow> string \<Rightarrow> string \<Rightarrow> bool \<Rightarrow> ('w, unit) io" where
  "associate_lr_or_by_step E u lr delete =
     catch (update_lb_to_lr_association E u lr delete False)
       (\<lambda>e. if e = RowNotFound then update_lb_to_lr_association_by_step E u lr delete False else throw e)"

section \<open>The router of a switch\<close>

primrec has_gateway :: "'a lib_scheme \<Rightarrow> string \<Rightarrow> string list \<Rightarrow> bool res" where
  "has_gateway L gateway [] = Inr False"
| "has_gateway L gateway (port_cidr # cidrs) =
     rbind (net_ip L port_cidr) (\<lambda>port_ip.
     rbind (ip_address L gateway) (\<lambda>gw.
     if gw = port_ip then Inr True else has_gateway L gateway cidrs))"

primrec find_router_port :: "'a lib_scheme \<Rightarrow> string option \<Rightarrow> lsp_row list \<Rightarrow> lsp_row option res" where
  "find_router_port L gateway [] = Inr None"
| "find_router_port L gateway (port # ports) =
     (if lsp_type port = ''router'' \<and>
         dict_get (lsp_external_ids port) OVN_DEVICE_OWNER_EXT_ID_KEY = Some DEVICE_OWNER_ROUTER_INTF
      then
        (if truthy gateway then
           rbind (dict_item (lsp_external_ids port) OVN_PORT_CIDR_EXT_ID_KEY) (\<lambda>cidrs.
           rbind (has_gateway L (the gateway) (split_ws cidrs)) (\<lambda>found.
           if found then Inr (Some port) else find_router_port L gateway ports))
         else Inr (Some port))
      else find_router_port L gateway ports)"

definition is_router_of :: "string \<Rightarrow> lr_row \<Rightarrow> bool" where
  "is_router_of lrp lr \<longleftrightarrow>
     list_ex (\<lambda>p. lrp_name p = lrp) (rt_ports lr) \<or>
     ovn_lrouter_port_name (dict_get (rt_external_ids lr) OVN_GW_PORT_EXT_ID_KEY) = lrp"

definition find_lr_of_ls :: "'w env \<Rightarrow> ls_row \<Rightarrow> string option \<Rightarrow> ('w, string option) io" where
  "find_lr_of_ls E ovn_ls subnet_gateway_ip =
     bnd (lift (find_router_port E subnet_gateway_ip (sw_ports ovn_ls))) (\<lambda>lsp_router_port.
     case lsp_router_port of
       None \<Rightarrow> ret None
     | Some lsp \<Rightarrow>
         (let lrp = dict_get (lsp_options lsp) ''router-port'' in
          if \<not> truthy lrp then ret None
          else bnd (nb_lr_rows E) (\<lambda>lrs.
               ret (map_option rt_uuid (find (is_router_of (the lrp)) lrs)))))"

end
