(* ===== verification/Lookup.thy ===== *)
theory Lookup
  imports Assoc Vips
begin

text \<open>
  Finding rows and ports (\<open>helper.py\<close>): the load balancer rows of an Octavia load balancer (one per
  protocol), the row that holds a pool, the VIP port and its subnet, and the deletion of a port.
\<close>

section \<open>Load balancer rows\<close>

definition find_ovn_lbs :: "'w env \<Rightarrow> string \<Rightarrow> ('w, string list) io" where
  "find_ovn_lbs E lb_id =
     bnd (nb_lbs_by_name E lb_id) (\<lambda>lbs. if lbs \<noteq> [] then ret lbs else throw RowNotFound)"

text \<open>With a protocol the result is one row. A row without protocol has no \<open>protocol[0]\<close> (IndexError).\<close>

primrec find_lb_of_protocol :: "'w env \<Rightarrow> string \<Rightarrow> string list \<Rightarrow> ('w, string) io" where
  "find_lb_of_protocol E protocol [] = throw RowNotFound"
| "find_lb_of_protocol E protocol (u # us) =
     bnd (nb_lb E u) (\<lambda>lb.
     bnd (lift (item (lb_protocol lb) 0)) (\<lambda>p.
     if upper p = upper protocol then ret u else find_lb_of_protocol E protocol us))"

definition find_ovn_lb_with_protocol :: "'w env \<Rightarrow> string \<Rightarrow> string \<Rightarrow> ('w, string) io" where
  "find_ovn_lb_with_protocol E lb_id protocol =
     bnd (nb_lbs_by_name E lb_id) (\<lambda>lbs.
     case lbs of
       [u] \<Rightarrow> bnd (nb_lb E u) (\<lambda>lb.
              if lb_protocol lb = [] then ret u else find_lb_of_protocol E protocol lbs)
     | _ \<Rightarrow> find_lb_of_protocol E protocol lbs)"

definition find_ovn_lbs_with_retry :: "'w env \<Rightarrow> string \<Rightarrow> ('w, string list) io" where
  "find_ovn_lbs_with_retry E lb_id =
     retry_rows E retry_row_not_found (StopAfterDelay 10) (find_ovn_lbs E lb_id)"

text \<open>Rows of the port forwarding plugin are skipped.\<close>

primrec search_pool_key :: "'w env \<Rightarrow> string \<Rightarrow> string list \<Rightarrow> ('w, string option) io" where
  "search_pool_key E pool_key [] = ret None"
| "search_pool_key E pool_key (u # us) =
     bnd (nb_lb E u) (\<lambda>lb.
     if dict_get (lb_external_ids lb) OVN_DEVICE_OWNER_EXT_ID_KEY = Some PORT_FORWARDING_PLUGIN
     then search_pool_key E pool_key us
     else if dict_has (lb_external_ids lb) pool_key then ret (Some u)
     else search_pool_key E pool_key us)"

definition find_ovn_lb_with_pool_key :: "'w env \<Rightarrow> string \<Rightarrow> ('w, string option) io" where
  "find_ovn_lb_with_pool_key E pool_key = bnd (nb_lb_rows E) (search_pool_key E pool_key)"

definition find_ovn_lb_by_pool_id :: "'w env \<Rightarrow> string \<Rightarrow> ('w, string \<times> string option) io" where
  "find_ovn_lb_by_pool_id E pool_id =
     (let pool_key = get_pool_key pool_id True in
      bnd (find_ovn_lb_with_pool_key E pool_key) (\<lambda>ovn_lb.
      if ovn_lb = None then
        (let pool_key = get_pool_key pool_id False in
         bnd (find_ovn_lb_with_pool_key E pool_key) (\<lambda>ovn_lb. ret (pool_key, ovn_lb)))
      else ret (pool_key, ovn_lb)))"

definition check_lb_protocol :: "'w env \<Rightarrow> string \<Rightarrow> string \<Rightarrow> ('w, bool) io" where
  "check_lb_protocol E lb_id listener_protocol =
     bnd (find_ovn_lb_with_protocol E lb_id listener_protocol) (\<lambda>u.
     bnd (nb_lb E u) (\<lambda>ovn_lb.
     ret (if \<not> is_listener_in_lb ovn_lb then True
          else lower listener_protocol \<in> set (lb_protocol ovn_lb))))"

section \<open>Selection fields\<close>

text \<open>\<open>Backend.is_col_present\<close> of \<open>ovsdb/impl_idl_ovn.py\<close>.\<close>

definition is_col_present :: "'w env \<Rightarrow> string \<Rightarrow> string \<Rightarrow> bool" where
  "is_col_present E table col =
     (case nb_schema E table of None \<Rightarrow> False | Some columns \<Rightarrow> col \<in> set columns)"

definition are_selection_fields_supported :: "'w env \<Rightarrow> bool" where
  "are_selection_fields_supported E = is_col_present E Load_Balancer ''selection_fields''"

definition get_selection_keys :: "string option \<Rightarrow> string list res" where
  "get_selection_keys lb_algorithm =
     (case map_of LB_SELECTION_FIELDS_MAP lb_algorithm of None \<Rightarrow> Inl KeyError | Some fs \<Rightarrow> Inr fs)"

section \<open>Ports\<close>

definition neutron_list_ports :: "'w env \<Rightarrow> string \<Rightarrow> ('w, port list) io" where
  "neutron_list_ports E network_id =
     retry_ports E is_http_exn (StopAfterDelay 10) (nt_ports_of_network E network_id)"

definition neutron_find_port :: "'w env \<Rightarrow> string option \<Rightarrow> string \<Rightarrow> ('w, port option) io" where
  "neutron_find_port E network_id name =
     retry_port E is_http_exn (StopAfterDelay 10) (nt_find_port E network_id name)"

definition delete_port :: "'w env \<Rightarrow> string \<Rightarrow> ('w, unit) io" where
  "delete_port E port_id =
     retry_unit E is_http_exn (StopAfterAttempt 15)
       (bnd (get_neutron_client E) (\<lambda>_.
        catch (nt_delete_port E port_id)
          (\<lambda>e. if e = ResourceNotFound then ret () else throw e)))"

text \<open>The subnet of the first fixed IP with the address, if there is one.\<close>

primrec subnet_of_address ::
  "'w env \<Rightarrow> bool \<Rightarrow> string option \<Rightarrow> fixed_ip list \<Rightarrow> ('w, bool \<times> subnet option) io" where
  "subnet_of_address E subnet_required address [] = ret (False, None)"
| "subnet_of_address E subnet_required address (ip # ips) =
     (if Some (fi_ip_address ip) = address then
        (if subnet_required
         then bnd (nt_get_subnet E (Some (fi_subnet_id ip))) (\<lambda>sn. ret (True, Some sn))
         else ret (True, None))
      else subnet_of_address E subnet_required address ips)"

text \<open>The search by address leaves only the inner loop, so the last port with the address wins.\<close>

definition get_port_from_info ::
  "'w env \<Rightarrow> string option \<Rightarrow> string option \<Rightarrow> string option \<Rightarrow> bool \<Rightarrow>
   ('w, port option \<times> subnet option) io"
where
  "get_port_from_info E port_id network_id address subnet_required =
     (if truthy port_id then
        bnd (nt_get_port E (the port_id)) (\<lambda>port.
        case port of
          None \<Rightarrow> throw AttributeError
        | Some p \<Rightarrow> bnd (subnet_of_address E subnet_required address (p_fixed_ips p))
                     (\<lambda>(_, subnet). ret (Some p, subnet)))
      else if truthy network_id \<and> truthy address then
        bnd (neutron_list_ports E (the network_id)) (\<lambda>ports.
        fold_io (\<lambda>p (port, subnet).
          bnd (subnet_of_address E subnet_required address (p_fixed_ips p)) (\<lambda>(found, sn).
          ret (if found then (Some p, if subnet_required then sn else subnet) else (port, subnet))))
          ports (None, None))
      else ret (None, None))"

definition get_vip_port_from_loadbalancer_id :: "'w env \<Rightarrow> string \<Rightarrow> ('w, string option) io" where
  "get_vip_port_from_loadbalancer_id E lb_id =
     bnd (oc_get_loadbalancer E lb_id) (\<lambda>lb.
     ret (case lb of None \<Rightarrow> None
          | Some l \<Rightarrow> if truthy (ocl_vip_port_id l) then ocl_vip_port_id l else None))"

definition get_additional_vips_from_loadbalancer_id ::
  "'w env \<Rightarrow> string \<Rightarrow> ('w, additional_vip list) io" where
  "get_additional_vips_from_loadbalancer_id E lb_id =
     bnd (oc_get_loadbalancer E lb_id) (\<lambda>lb.
     ret (case lb of None \<Rightarrow> [] | Some l \<Rightarrow> ocl_additional_vips l))"

definition get_subnet_from_pool ::
  "'w env \<Rightarrow> string \<Rightarrow> ('w, (string \<times> string) option) io" where
  "get_subnet_from_pool E pool_id =
     bnd (oc_get_pool E pool_id) (\<lambda>pool.
     case pool of
       None \<Rightarrow> ret None
     | Some p \<Rightarrow>
         bnd (oc_get_loadbalancer E (ocp_loadbalancer_id p)) (\<lambda>lb.
         case lb of
           None \<Rightarrow> ret None
         | Some l \<Rightarrow>
             if truthy (ocl_vip_subnet_id l) then
               bnd (get_neutron_client E) (\<lambda>_.
               catch (bnd (nt_get_subnet E (ocl_vip_subnet_id l)) (\<lambda>subnet.
                      ret (Some (the (ocl_vip_subnet_id l), sn_cidr subnet))))
                 (\<lambda>e. if e = ResourceNotFound then ret None else throw e))
             else ret None))"

definition check_ip_in_subnet :: "'a lib_scheme \<Rightarrow> string \<Rightarrow> string \<Rightarrow> bool res" where
  "check_ip_in_subnet L ip subnet = ip_in_net L ip subnet"

section \<open>Status reports\<close>

definition entry2 :: "string \<Rightarrow> string \<Rightarrow> entry" where
  "entry2 i prov = [(ID, Some i), (PROVISIONING_STATUS, Some prov)]"

definition entry3 :: "string \<Rightarrow> string \<Rightarrow> string \<Rightarrow> entry" where
  "entry3 i prov oper =
     [(ID, Some i), (PROVISIONING_STATUS, Some prov), (OPERATING_STATUS, Some oper)]"

end
