(* ===== verification/LbOps.thy ===== *)
theory LbOps
  imports Lookup
begin

text \<open>
  \<open>lb_create\<close>, \<open>_get_or_create_ovn_lb\<close> and \<open>lb_update\<close> of \<open>helper.py\<close>. A row per protocol: the first
  listener or pool of a second protocol makes \<open>_get_or_create_ovn_lb\<close> create another row with the
  data of the first one.
\<close>

section \<open>lb_create\<close>

text \<open>The dict \<open>lb_create\<close> is given; what a caller may leave out is an option.\<close>

record lb_info =
  li_id :: string
  li_vip_address :: "string option"
  li_vip_port_id :: "string option"
  li_vip_network_id :: "string option"
  li_admin_state_up :: bool
  li_additional_vips :: "additional_vip list"
  li_vip_fip :: "string option"
  li_additional_vip_fip :: "string option"
  li_lr_ref :: "string option"
  li_ls_refs :: "string option"
  li_lb_algorithm :: "string option"

text \<open>The first block: the ports found before an exception, and the exception.\<close>

primrec collect_additional_ports ::
  "'w env \<Rightarrow> additional_vip list \<Rightarrow> port option list \<Rightarrow> ('w, port option list \<times> exn option) io" where
  "collect_additional_ports E [] ports = ret (ports, None)"
| "collect_additional_ports E (v # vs) ports =
     bnd (attempt (get_port_from_info E (Some (av_port_id v)) (av_network_id v)
                     (Some (av_ip_address v)) False)) (\<lambda>r.
     case r of
       Inl e \<Rightarrow> ret (ports, Some e)
     | Inr (ad_port, _) \<Rightarrow> collect_additional_ports E vs (ports @ [ad_port]))"

definition lb_create_ports ::
  "'w env \<Rightarrow> lb_info \<Rightarrow> ('w, port option \<times> subnet option \<times> port option list \<times> exn option) io" where
  "lb_create_ports E loadbalancer =
     bnd (attempt (bnd (get_neutron_client E) (\<lambda>_.
            get_port_from_info E (li_vip_port_id loadbalancer) (li_vip_network_id loadbalancer)
              (li_vip_address loadbalancer) True))) (\<lambda>r.
     case r of
       Inl e \<Rightarrow> ret (None, None, [], Some e)
     | Inr (port, subnet) \<Rightarrow>
         bnd (collect_additional_ports E (li_additional_vips loadbalancer) []) (\<lambda>(ports, err).
         ret (port, subnet, ports, err)))"

text \<open>
  The error path: every port found is deleted, a failed deletion is logged. The handler for an
  additional port that was not found (None) reads its id again and raises AttributeError.
\<close>

definition lb_create_cleanup :: "'w env \<Rightarrow> port option \<Rightarrow> port option list \<Rightarrow> ('w, unit) io" where
  "lb_create_cleanup E port additional_ports =
     bnd (case port of None \<Rightarrow> ret () | Some p \<Rightarrow> catch (delete_port E (p_id p)) (\<lambda>_. ret ())) (\<lambda>_.
     for_each (\<lambda>addi_port.
       case addi_port of
         None \<Rightarrow> throw AttributeError
       | Some p \<Rightarrow> catch (delete_port E (p_id p)) (\<lambda>_. ret ())) additional_ports)"

definition lb_error_status :: "lb_info \<Rightarrow> status" where
  "lb_error_status loadbalancer = [(LOADBALANCERS, [entry3 (li_id loadbalancer) ERROR ERROR])]"

definition opt_set :: "string option pydict \<Rightarrow> string \<Rightarrow> string option \<Rightarrow> string option pydict" where
  "opt_set d k v = (if truthy v then dict_set d k v else d)"

definition lb_create_external_ids :: "lb_info \<Rightarrow> port option \<Rightarrow> string option pydict res" where
  "lb_create_external_ids loadbalancer port =
     rbind (if truthy (li_vip_port_id loadbalancer) then Inr (the (li_vip_port_id loadbalancer))
            else (case port of None \<Rightarrow> Inl AttributeError | Some p \<Rightarrow> Inr (p_id p))) (\<lambda>vip_port_id.
     let external_ids =
           [(LB_EXT_IDS_VIP_KEY, li_vip_address loadbalancer),
            (LB_EXT_IDS_VIP_PORT_ID_KEY, Some vip_port_id),
            (''enabled'', Some (str_bool (li_admin_state_up loadbalancer)))];
         external_ids =
           (if li_additional_vips loadbalancer \<noteq> [] then
              dict_set
                (dict_set external_ids LB_EXT_IDS_ADDIT_VIP_KEY
                  (Some (join '','' (map av_ip_address (li_additional_vips loadbalancer)))))
                LB_EXT_IDS_ADDIT_VIP_PORT_ID_KEY
                  (Some (join '','' (map av_port_id (li_additional_vips loadbalancer))))
            else external_ids);
         external_ids = opt_set external_ids LB_EXT_IDS_VIP_FIP_KEY (li_vip_fip loadbalancer);
         external_ids = opt_set external_ids LB_EXT_IDS_ADDIT_VIP_FIP_KEY (li_additional_vip_fip loadbalancer);
         external_ids = opt_set external_ids LB_EXT_IDS_LR_REF_KEY (li_lr_ref loadbalancer)
     in Inr external_ids)"

definition lb_create_kwargs :: "'w env \<Rightarrow> lb_info \<Rightarrow> string option \<Rightarrow> port option \<Rightarrow> lb_kwargs res" where
  "lb_create_kwargs E loadbalancer protocol port =
     rbind (lb_create_external_ids loadbalancer port) (\<lambda>external_ids.
     rbind (if are_selection_fields_supported E
            then rbind (get_selection_keys (li_lb_algorithm loadbalancer)) (\<lambda>fs. Inr (Some fs))
            else Inr None) (\<lambda>selection_fields.
     Inr \<lparr>kw_name = li_id loadbalancer,
          kw_protocol = (if truthy protocol then [the protocol] else []),
          kw_external_ids = external_ids,
          kw_selection_fields = selection_fields\<rparr>))"

text \<open>The references of another row of the same load balancer, applied to the new one.\<close>

definition apply_ls_refs :: "'w env \<Rightarrow> string \<Rightarrow> string \<Rightarrow> string option \<Rightarrow> bool \<Rightarrow> ('w, unit) io" where
  "apply_ls_refs E u ovn_ls_name ls_refs is_sync =
     bnd (lift (loads_refs E ls_refs)) (\<lambda>refs.
     for_each (\<lambda>ls.
       if ls = ovn_ls_name then ret ()
       else update_lb_to_ls_association E u (Some (ovn_uuid ls)) None True True False is_sync)
       (dict_keys refs))"

definition lb_create_associate ::
  "'w env \<Rightarrow> lb_info \<Rightarrow> string \<Rightarrow> port option \<Rightarrow> subnet option \<Rightarrow> ('w, unit) io" where
  "lb_create_associate E loadbalancer u port subnet =
     (case port of
        None \<Rightarrow> throw AttributeError
      | Some p \<Rightarrow>
          bnd (nt_get_network E (p_network_id p)) (\<lambda>network.
          case network of
            None \<Rightarrow> throw AttributeError
          | Some n \<Rightarrow>
              bnd (if \<not> truthy (nw_provider_physical_network n)
                   then update_lb_to_ls_association E u (Some (p_network_id p)) None True True True False
                   else ret ()) (\<lambda>_.
              bnd (nb_ls_get E (ovn_name (p_network_id p))) (\<lambda>ovn_ls.
              case subnet of
                None \<Rightarrow> throw AttributeError
              | Some s \<Rightarrow>
                  bnd (find_lr_of_ls E ovn_ls (sn_gateway_ip s)) (\<lambda>ovn_lr.
                  bnd (case ovn_lr of None \<Rightarrow> ret () | Some lr \<Rightarrow> associate_lr_or_by_step E u lr False) (\<lambda>_.
                  if truthy (li_ls_refs loadbalancer)
                  then apply_ls_refs E u (sw_name ovn_ls) (li_ls_refs loadbalancer) False
                  else ret ()))))))"

definition lb_create :: "'w env \<Rightarrow> lb_info \<Rightarrow> string option \<Rightarrow> ('w, status) io" where
  "lb_create E loadbalancer protocol =
     bnd (lb_create_ports E loadbalancer) (\<lambda>(port, subnet, additional_ports, err).
     if err \<noteq> None then
       bnd (lb_create_cleanup E port additional_ports) (\<lambda>_. ret (lb_error_status loadbalancer))
     else
       (let protocol = (if truthy protocol then map_option lower protocol else None) in
        bnd (lift (lb_create_kwargs E loadbalancer protocol port)) (\<lambda>kwargs.
        catch
          (bnd (nb_create_lb E kwargs) (\<lambda>_.
           bnd (if truthy protocol then find_ovn_lb_with_protocol E (li_id loadbalancer) (the protocol)
                else bnd (find_ovn_lbs E (li_id loadbalancer)) (\<lambda>us. lift (item us 0))) (\<lambda>u.
           bnd (lb_create_associate E loadbalancer u port subnet) (\<lambda>_.
           let operating_status = (if \<not> li_admin_state_up loadbalancer then OFFLINE else ONLINE) in
           ret [(LOADBALANCERS, [entry3 (li_id loadbalancer) ACTIVE operating_status])]))))
          (\<lambda>_. bnd (lb_create_cleanup E port additional_ports) (\<lambda>_.
               ret (lb_error_status loadbalancer))))))"

section \<open>_get_or_create_ovn_lb\<close>

definition get_or_create_ovn_lb ::
  "'w env \<Rightarrow> string \<Rightarrow> string \<Rightarrow> bool \<Rightarrow> string option \<Rightarrow> ('w, string) io" where
  "get_or_create_ovn_lb E lb_id protocol admin_state_up lb_algorithm =
     (let protocol = lower protocol in
      bnd (find_ovn_lbs E lb_id) (\<lambda>ovn_lbs.
      bnd (map_io (nb_lb E) ovn_lbs) (\<lambda>rows.
      let with_required = filter (\<lambda>(u, lb). protocol \<in> set (lb_protocol lb)) (zip ovn_lbs rows);
          with_no_protocol = filter (\<lambda>(u, lb). lb_protocol lb = []) (zip ovn_lbs rows)
      in
      case with_required of
        (u, _) # _ \<Rightarrow> ret u
      | [] \<Rightarrow>
          bnd
            (case with_no_protocol of
               (u, lb) # _ \<Rightarrow> nb_exec E (db_set Load_Balancer (lb_uuid lb) ''protocol'' (StrVal protocol))
             | [] \<Rightarrow>
                 (let ext = lb_external_ids (hd rows) in
                  bnd (get_additional_vips_from_loadbalancer_id E lb_id) (\<lambda>additional_vips.
                  bnd (lb_create E
                         \<lparr>li_id = lb_id,
                          li_vip_address = dict_get ext LB_EXT_IDS_VIP_KEY,
                          li_vip_port_id = dict_get ext LB_EXT_IDS_VIP_PORT_ID_KEY,
                          li_vip_network_id = None,
                          li_admin_state_up = admin_state_up,
                          li_additional_vips = additional_vips,
                          li_vip_fip = dict_get ext LB_EXT_IDS_VIP_FIP_KEY,
                          li_additional_vip_fip = dict_get ext LB_EXT_IDS_ADDIT_VIP_FIP_KEY,
                          li_lr_ref = dict_get ext LB_EXT_IDS_LR_REF_KEY,
                          li_ls_refs = dict_get ext LB_EXT_IDS_LS_REFS_KEY,
                          li_lb_algorithm = lb_algorithm\<rparr>
                         (Some protocol)) (\<lambda>_.
                  ret ()))))
            (\<lambda>_. find_ovn_lb_with_protocol E lb_id protocol))))"

section \<open>lb_update\<close>

text \<open>
  \<open>ovn_lb.external_ids['enabled'] = ...\<close> assigns into the dict the row object returned; what later
  reads of the row see of it is \<open>nb_mutate_ext_id\<close>.
\<close>

definition lb_update_row :: "'w env \<Rightarrow> bool \<Rightarrow> string \<Rightarrow> ('w, unit) io" where
  "lb_update_row E lb_enabled u =
     bnd (nb_lb E u) (\<lambda>ovn_lb.
     bnd (lift (dict_item (lb_external_ids ovn_lb) ''enabled'')) (\<lambda>enabled.
     if enabled \<noteq> str_bool lb_enabled then
       bnd (nb_mutate_ext_id E u ''enabled'' (str_bool lb_enabled)) (\<lambda>_.
       bnd (nb_lb E u) (\<lambda>ovn_lb.
       bnd (lift (refresh_lb_vips E ovn_lb (lb_external_ids ovn_lb) False)) (\<lambda>refresh.
       execute_commands E
         (db_set Load_Balancer u EXT_IDS (StrMap [(''enabled'', str_bool lb_enabled)]) # refresh))))
     else ret ()))"

text \<open>The request holds \<open>admin_state_up\<close> only if it changes.\<close>

definition lb_update :: "'w env \<Rightarrow> string \<Rightarrow> bool option \<Rightarrow> ('w, status) io" where
  "lb_update E lb_id admin_state_up =
     (case admin_state_up of
        None \<Rightarrow> ret [(LOADBALANCERS, [entry2 lb_id ACTIVE])]
      | Some lb_enabled \<Rightarrow>
          catch
            (bnd (find_ovn_lbs E lb_id) (\<lambda>ovn_lbs.
             bnd (for_each (lb_update_row E lb_enabled) ovn_lbs) (\<lambda>_.
             ret [(LOADBALANCERS, [entry3 lb_id ACTIVE (if lb_enabled then ONLINE else OFFLINE)])])))
            (\<lambda>_. ret [(LOADBALANCERS, [entry3 lb_id ERROR ERROR])]))"

end
