(* ===== verification/ListenerOps.thy ===== *)
theory ListenerOps
  imports LbOps
begin

text \<open>
  Listeners (\<open>listener_create\<close>, \<open>listener_sync\<close>, \<open>listener_delete\<close>, \<open>listener_update\<close> of \<open>helper.py\<close>): a
  listener is one key of the row of its protocol; every change rebuilds the \<open>vips\<close> column in the
  same transaction.
\<close>

section \<open>Requests and shared steps\<close>

text \<open>The listener dict. A key that a request may leave out has an outer None.\<close>

record listener_dict =
  ld_id :: string
  ld_loadbalancer_id :: string
  ld_protocol :: string
  ld_protocol_port :: port_val
  ld_default_pool_id :: "string option option"
  ld_admin_state_up :: "bool option"

definition default_pool :: "listener_dict \<Rightarrow> string option" where
  "default_pool listener =
     (case ld_default_pool_id listener of None \<Rightarrow> None | Some p \<Rightarrow> p)"

definition update_lbhc_vip_port :: "'w env \<Rightarrow> hc_row \<Rightarrow> port_val \<Rightarrow> ('w, bool) io" where
  "update_lbhc_vip_port E lbhc vip_port =
     bnd (lift
       (if hc_vip lbhc \<noteq> [] then
          Inr (hd (split_on CHR '':'' (hc_vip lbhc)) @ '':'' @ str_port vip_port)
        else
          (let vip = dict_get_default (hc_external_ids lbhc) LB_EXT_IDS_HM_VIP [] in
           if vip \<noteq> [] then
             rbind (ip_version E vip) (\<lambda>version.
             Inr ((if version = 6 then bracketed vip else vip) @ '':'' @ str_port vip_port))
           else Inr vip))) (\<lambda>vip.
     bnd (execute_commands E [db_set Load_Balancer_Health_Check (hc_uuid lbhc) ''vip'' (StrVal vip)]) (\<lambda>_.
     ret True))"

text \<open>Whether the row of a protocol that lost its last listener and pool is deleted.\<close>

definition clean_lb_if_empty ::
  "'w env \<Rightarrow> string \<Rightarrow> string \<Rightarrow> string pydict \<Rightarrow> ('w, cmd list \<times> bool) io" where
  "clean_lb_if_empty E u lb_id external_ids =
     (if is_lb_empty external_ids then
        bnd (catch (find_ovn_lbs E lb_id) (\<lambda>e. if e = RowNotFound then ret [] else throw e)) (\<lambda>defined_ovn_lbs.
        ret (if length defined_ovn_lbs = 1 then ([db_set Load_Balancer u ''protocol'' (StrList [])], False)
             else if length defined_ovn_lbs > 1 then ([lb_del u], True)
             else ([], False)))
      else ret ([], False))"

section \<open>listener_create\<close>

definition listener_error_status :: "listener_dict \<Rightarrow> status" where
  "listener_error_status listener =
     [(LISTENERS, [entry3 (ld_id listener) ERROR ERROR]),
      (LOADBALANCERS, [entry2 (ld_loadbalancer_id listener) ACTIVE])]"

definition listener_create_commands ::
  "'a lib_scheme \<Rightarrow> lb_row \<Rightarrow> listener_dict \<Rightarrow> string \<Rightarrow> string \<Rightarrow> cmd list res" where
  "listener_create_commands L ovn_lb listener listener_key pool_key =
     (let value = make_listener_key_value (ld_protocol_port listener) pool_key;
          external_ids = dict_set (lb_external_ids ovn_lb) listener_key value
      in
      rbind (refresh_lb_vips L ovn_lb external_ids False) (\<lambda>refresh.
      Inr ([db_set Load_Balancer (lb_uuid ovn_lb) EXT_IDS (StrMap [(listener_key, value)])]
           @ (if \<not> is_listener_in_lb ovn_lb
              then [db_set Load_Balancer (lb_uuid ovn_lb) ''protocol'' (StrVal (lower (ld_protocol listener)))]
              else [])
           @ refresh)))"

definition listener_create_health_checks ::
  "'w env \<Rightarrow> string \<Rightarrow> listener_dict \<Rightarrow> string \<Rightarrow> ('w, unit) io" where
  "listener_create_health_checks E u listener pool_key =
     (if pool_key \<noteq> [] then
        bnd (nb_lb E u) (\<lambda>ovn_lb.
        for_each (\<lambda>hc.
          bnd (nb_hc E hc) (\<lambda>lb_hc.
          if Some (drop (length LB_EXT_IDS_POOL_PREFIX) pool_key)
             = dict_get (hc_external_ids lb_hc) LB_EXT_IDS_HM_POOL_KEY
          then bnd (update_lbhc_vip_port E lb_hc (ld_protocol_port listener)) (\<lambda>_. ret ())
          else ret ())) (lb_health_check ovn_lb))
      else ret ())"

definition listener_create :: "'w env \<Rightarrow> listener_dict \<Rightarrow> ('w, status) io" where
  "listener_create E listener =
     bnd (lift (key_of (ld_admin_state_up listener))) (\<lambda>admin_state_up.
     bnd (get_or_create_ovn_lb E (ld_loadbalancer_id listener) (ld_protocol listener) admin_state_up
            (Some LB_ALGORITHM_SOURCE_IP_PORT)) (\<lambda>u.
     bnd (nb_lb E u) (\<lambda>ovn_lb.
     let listener_key = get_listener_key (ld_id listener) admin_state_up;
         pool_key = (if truthy (default_pool listener)
                     then get_pool_key (the (default_pool listener)) True else [])
     in
     bnd (attempt
       (bnd (lift (listener_create_commands E ovn_lb listener listener_key pool_key)) (execute_commands E))) (\<lambda>r.
     case r of
       Inl _ \<Rightarrow> ret (listener_error_status listener)
     | Inr _ \<Rightarrow>
         bnd (listener_create_health_checks E u listener pool_key) (\<lambda>_.
         ret [(LISTENERS, [entry3 (ld_id listener) ACTIVE (if \<not> admin_state_up then OFFLINE else ONLINE)]),
              (LOADBALANCERS, [entry2 (ld_loadbalancer_id listener) ACTIVE])])))))"

section \<open>listener_sync\<close>

text \<open>\<open>listener.get('admin_state_up')\<close>: a missing key counts as disabled.\<close>

definition build_listener_info ::
  "listener_dict \<Rightarrow> string pydict \<Rightarrow> string \<times> string pydict \<times> string pydict" where
  "build_listener_info listener external_ids =
     (let listener_key = get_listener_key (ld_id listener) (ld_admin_state_up listener = Some True);
          pool_key = (if truthy (default_pool listener)
                      then get_pool_key (the (default_pool listener)) True else []);
          value = make_listener_key_value (ld_protocol_port listener) pool_key
      in (listener_key, [(listener_key, value)], dict_set external_ids listener_key value))"

definition update_listener_key_if_needed :: "string \<Rightarrow> string pydict \<Rightarrow> lb_row \<Rightarrow> cmd list" where
  "update_listener_key_if_needed listener_key listener_info ovn_lb =
     (let prev = dict_get_default (lb_external_ids ovn_lb) listener_key [] in
      if \<not> dict_has (lb_external_ids ovn_lb) listener_key \<or> dict_get listener_info listener_key \<noteq> Some prev
      then [db_set Load_Balancer (lb_uuid ovn_lb) EXT_IDS (StrMap listener_info)] else [])"

definition update_protocol_if_needed :: "listener_dict \<Rightarrow> lb_row \<Rightarrow> cmd list" where
  "update_protocol_if_needed listener ovn_lb =
     (let current_protocol = (case lb_protocol ovn_lb of [] \<Rightarrow> [] | p # _ \<Rightarrow> lower p);
          listener_protocol = lower (ld_protocol listener)
      in if current_protocol \<noteq> listener_protocol
         then [db_set Load_Balancer (lb_uuid ovn_lb) ''protocol'' (StrVal listener_protocol)] else [])"

definition listener_sync :: "'w env \<Rightarrow> listener_dict \<Rightarrow> string \<Rightarrow> ('w, unit) io" where
  "listener_sync E listener u =
     bnd (nb_lb E u) (\<lambda>ovn_lb.
     case build_listener_info listener (lb_external_ids ovn_lb) of
       (listener_key, listener_info, external_ids) \<Rightarrow>
     let commands = update_listener_key_if_needed listener_key listener_info ovn_lb
                    @ update_protocol_if_needed listener ovn_lb
     in
     case refresh_lb_vips E ovn_lb external_ids True of
       Inl _ \<Rightarrow> ret ()
     | Inr refresh \<Rightarrow> catch (execute_commands E (commands @ refresh)) (\<lambda>_. ret ()))"

section \<open>listener_delete\<close>

definition listener_deleted_status :: "listener_dict \<Rightarrow> status" where
  "listener_deleted_status listener =
     [(LISTENERS, [entry3 (ld_id listener) DELETED OFFLINE]),
      (LOADBALANCERS, [entry2 (ld_loadbalancer_id listener) ACTIVE])]"

definition listener_delete_commands ::
  "'a lib_scheme \<Rightarrow> lb_row \<Rightarrow> string \<Rightarrow> cmd list \<Rightarrow> bool \<Rightarrow> cmd list res" where
  "listener_delete_commands L ovn_lb listener_key cmds lb_to_delete =
     (let external_ids = dict_del (lb_external_ids ovn_lb) listener_key in
      rbind (if \<not> lb_to_delete then refresh_lb_vips L ovn_lb external_ids False else Inr []) (\<lambda>refresh.
      Inr ([db_remove Load_Balancer (lb_uuid ovn_lb) EXT_IDS listener_key] @ cmds @ refresh)))"

definition listener_delete :: "'w env \<Rightarrow> listener_dict \<Rightarrow> ('w, status) io" where
  "listener_delete E listener =
     bnd (attempt (find_ovn_lb_with_protocol E (ld_loadbalancer_id listener) (ld_protocol listener))) (\<lambda>r.
     case r of
       Inl e \<Rightarrow> if e = RowNotFound then ret (listener_deleted_status listener) else throw e
     | Inr u \<Rightarrow>
         bnd (nb_lb E u) (\<lambda>ovn_lb.
         let external_ids = lb_external_ids ovn_lb;
             listener_key = get_listener_key (ld_id listener) True
         in
         if dict_has external_ids listener_key then
           catch
             (bnd (clean_lb_if_empty E u (ld_loadbalancer_id listener) (dict_del external_ids listener_key))
                (\<lambda>(cmds, lb_to_delete).
              bnd (lift (listener_delete_commands E ovn_lb listener_key cmds lb_to_delete)) (\<lambda>commands.
              bnd (execute_commands E commands) (\<lambda>_.
              ret (listener_deleted_status listener)))))
             (\<lambda>_. ret (listener_error_status listener))
         else ret (listener_deleted_status listener)))"

section \<open>listener_update\<close>

definition listener_update_status ::
  "listener_dict \<Rightarrow> string \<Rightarrow> string \<Rightarrow> string option \<Rightarrow> entry list \<Rightarrow> status" where
  "listener_update_status listener listener_prov lb_prov oper pools =
     [(LISTENERS,
        [entry2 (ld_id listener) listener_prov
         @ (case oper of None \<Rightarrow> [] | Some s \<Rightarrow> [(OPERATING_STATUS, Some s)])]),
      (LOADBALANCERS, [entry2 (ld_loadbalancer_id listener) lb_prov]),
      (POOLS, pools)]"

definition present_listener_key :: "listener_dict \<Rightarrow> string pydict \<Rightarrow> string option" where
  "present_listener_key listener external_ids =
     (if dict_has external_ids (get_listener_key (ld_id listener) True)
      then Some (get_listener_key (ld_id listener) True)
      else if dict_has external_ids (get_listener_key (ld_id listener) False)
      then Some (get_listener_key (ld_id listener) False)
      else None)"

text \<open>The new key, the changed \<open>external_ids\<close>, what to write and what to remove.\<close>

definition listener_update_keys ::
  "listener_dict \<Rightarrow> string \<Rightarrow> string pydict \<Rightarrow> (string pydict \<times> string pydict \<times> string option) res" where
  "listener_update_keys listener present_l_key external_ids =
     rbind
       (case ld_admin_state_up listener of
          None \<Rightarrow> Inr (present_l_key, external_ids, [], None)
        | Some up \<Rightarrow>
            (let new_l_key = get_listener_key (ld_id listener) up in
             if present_l_key \<noteq> new_l_key then
               rbind (dict_item external_ids present_l_key) (\<lambda>v.
               Inr (new_l_key, dict_del (dict_set external_ids new_l_key v) present_l_key,
                    [(new_l_key, v)], Some present_l_key))
             else Inr (new_l_key, external_ids, [], None)))
       (\<lambda>(new_l_key, external_ids, l_key_to_add, l_key_to_remove).
     case ld_default_pool_id listener of
       None \<Rightarrow> Inr (external_ids, l_key_to_add, l_key_to_remove)
     | Some pool_id \<Rightarrow>
         (let l_key_value = make_listener_key_value (ld_protocol_port listener)
                              (get_pool_key (str_opt pool_id) True)
          in Inr (dict_set external_ids new_l_key l_key_value, dict_set l_key_to_add new_l_key l_key_value,
                  l_key_to_remove)))"

definition listener_update_commands ::
  "'a lib_scheme \<Rightarrow> lb_row \<Rightarrow> listener_dict \<Rightarrow> string \<Rightarrow> cmd list res" where
  "listener_update_commands L ovn_lb listener present_l_key =
     rbind (listener_update_keys listener present_l_key (lb_external_ids ovn_lb))
       (\<lambda>(external_ids, l_key_to_add, l_key_to_remove).
     rbind (refresh_lb_vips L ovn_lb external_ids False) (\<lambda>refresh.
     Inr ((case l_key_to_remove of None \<Rightarrow> []
           | Some k \<Rightarrow> [db_remove Load_Balancer (lb_uuid ovn_lb) EXT_IDS k])
          @ (if l_key_to_add \<noteq> [] then [db_set Load_Balancer (lb_uuid ovn_lb) EXT_IDS (StrMap l_key_to_add)]
             else [])
          @ refresh)))"

definition listener_update :: "'w env \<Rightarrow> listener_dict \<Rightarrow> ('w, status) io" where
  "listener_update E listener =
     bnd (attempt (find_ovn_lb_with_protocol E (ld_loadbalancer_id listener) (ld_protocol listener))) (\<lambda>r.
     case r of
       Inl e \<Rightarrow>
         if e = RowNotFound then ret (listener_update_status listener ERROR ERROR None []) else throw e
     | Inr u \<Rightarrow>
         bnd (nb_lb E u) (\<lambda>ovn_lb.
         if ld_admin_state_up listener = None \<and> ld_default_pool_id listener = None
         then ret (listener_update_status listener ACTIVE ACTIVE None [])
         else
         (case present_listener_key listener (lb_external_ids ovn_lb) of
            None \<Rightarrow> ret (listener_update_status listener ACTIVE ACTIVE None [])
          | Some present_l_key \<Rightarrow>
              catch
                (bnd (lift (listener_update_commands E ovn_lb listener present_l_key)) (\<lambda>commands.
                 bnd (execute_commands E commands) (\<lambda>_.
                 ret (listener_update_status listener ACTIVE ACTIVE
                       (map_option (\<lambda>up. if up then ONLINE else OFFLINE) (ld_admin_state_up listener))
                       (case ld_default_pool_id listener of
                          None \<Rightarrow> []
                        | Some pool_id \<Rightarrow>
                            [[(ID, pool_id), (PROVISIONING_STATUS, Some ACTIVE)]])))))
                (\<lambda>_. ret
                  [(LISTENERS, [entry2 (ld_id listener) ERROR]),
                   (LOADBALANCERS, [entry2 (ld_loadbalancer_id listener) ACTIVE])]))))"

end
