(* ===== verification/PoolOps.thy ===== *)
theory PoolOps
  imports ListenerOps
begin

text \<open>
  Pools (\<open>pool_create\<close>, \<open>pool_sync\<close>, \<open>pool_delete\<close>, \<open>pool_update\<close> of \<open>helper.py\<close>): a pool is one key of
  the row of its protocol; its value is the list of members, and the value of every listener
  that forwards to it ends with its key.
\<close>

section \<open>Requests\<close>

text \<open>
  \<open>sp_timeout\<close>: no \<open>persistence_timeout\<close> in the dict is an outer None. A session persistence that is
  None or an empty dict is None here: the code only asks for its truth value.
\<close>

record session =
  sp_type :: "string option"
  sp_timeout :: "port_val option option"

record pool_dict =
  pl_id :: string
  pl_loadbalancer_id :: string
  pl_protocol :: string
  pl_lb_algorithm :: string
  pl_listener_id :: "string option"
  pl_admin_state_up :: "bool option"
  pl_session_persistence :: "session option option"

text \<open>\<open>pool.get(SESSION_PERSISTENCE)\<close>, and the timeout with its default.\<close>

definition pool_session :: "pool_dict \<Rightarrow> session option" where
  "pool_session pool = (case pl_session_persistence pool of None \<Rightarrow> None | Some s \<Rightarrow> s)"

definition session_timeout :: "session \<Rightarrow> port_val option" where
  "session_timeout s = (case sp_timeout s of None \<Rightarrow> Some (PortStr ''360'') | Some t \<Rightarrow> t)"

definition extract_persistence_timeout :: "pool_dict \<Rightarrow> port_val option" where
  "extract_persistence_timeout pool =
     (case pool_session pool of None \<Rightarrow> None | Some s \<Rightarrow> session_timeout s)"

definition port_truthy :: "port_val option \<Rightarrow> bool" where
  "port_truthy t = (case t of None \<Rightarrow> False | Some (PortInt n) \<Rightarrow> n \<noteq> 0 | Some (PortStr s) \<Rightarrow> s \<noteq> [])"

definition str_port_opt :: "port_val option \<Rightarrow> string" where
  "str_port_opt t = (case t of None \<Rightarrow> ''None'' | Some p \<Rightarrow> str_port p)"

definition set_options :: "lb_row \<Rightarrow> port_val option \<Rightarrow> cmd" where
  "set_options ovn_lb timeout =
     db_set Load_Balancer (lb_uuid ovn_lb) ''options''
       (StrMap (dict_set (lb_options ovn_lb) AFFINITY_TIMEOUT (str_port_opt timeout)))"

section \<open>pool_create\<close>

definition pool_create_external_ids :: "pool_dict \<Rightarrow> bool \<Rightarrow> string pydict \<Rightarrow> string pydict" where
  "pool_create_external_ids pool admin_state_up ext =
     (let pool_key = get_pool_key (pl_id pool) admin_state_up;
          external_ids = dict_set ext pool_key []
      in
      if truthy (pl_listener_id pool) then
        (let listener_key = get_listener_key (the (pl_listener_id pool)) True in
         case dict_get ext listener_key of
           None \<Rightarrow> external_ids
         | Some value \<Rightarrow>
             if \<not> contains pool_key value then dict_set external_ids listener_key (value @ pool_key)
             else external_ids)
      else external_ids)"

definition pool_create_commands :: "lb_row \<Rightarrow> pool_dict \<Rightarrow> bool \<Rightarrow> cmd list" where
  "pool_create_commands ovn_lb pool admin_state_up =
     (let timeout = extract_persistence_timeout pool in
      [db_set Load_Balancer (lb_uuid ovn_lb) EXT_IDS
         (StrMap (pool_create_external_ids pool admin_state_up (lb_external_ids ovn_lb)))]
      @ (if port_truthy timeout then [set_options ovn_lb timeout] else []))"

definition pool_create_status :: "pool_dict \<Rightarrow> entry \<Rightarrow> status" where
  "pool_create_status pool pool_entry =
     [(POOLS, [pool_entry]),
      (LOADBALANCERS, [entry2 (pl_loadbalancer_id pool) ACTIVE])]
     @ (if truthy (pl_listener_id pool)
        then [(LISTENERS, [entry2 (the (pl_listener_id pool)) ACTIVE])] else [])"

definition pool_create :: "'w env \<Rightarrow> pool_dict \<Rightarrow> ('w, status) io" where
  "pool_create E pool =
     bnd (lift (key_of (pl_admin_state_up pool))) (\<lambda>admin_state_up.
     bnd (get_or_create_ovn_lb E (pl_loadbalancer_id pool) (pl_protocol pool) admin_state_up
            (Some (pl_lb_algorithm pool))) (\<lambda>u.
     bnd (nb_lb E u) (\<lambda>ovn_lb.
     catch
       (bnd (execute_commands E (pool_create_commands ovn_lb pool admin_state_up)) (\<lambda>_.
        ret (pool_create_status pool
               (entry3 (pl_id pool) ACTIVE (if truthy (pl_listener_id pool) then ONLINE else OFFLINE)))))
       (\<lambda>_. ret (pool_create_status pool (entry2 (pl_id pool) ERROR))))))"

section \<open>pool_sync\<close>

text \<open>The value of the listener loses every occurrence of the pool's keys before it gets the new one.\<close>

definition update_listener_association ::
  "pool_dict \<Rightarrow> lb_row \<Rightarrow> string pydict \<Rightarrow> string \<Rightarrow> string pydict" where
  "update_listener_association pool ovn_lb external_ids pool_key =
     (let listener_key = get_listener_key (str_opt (pl_listener_id pool)) True in
      case dict_get (lb_external_ids ovn_lb) listener_key of
        None \<Rightarrow> external_ids
      | Some value \<Rightarrow>
          (let pool_key_enable = get_pool_key (pl_id pool) True;
               pool_key_disable = get_pool_key (pl_id pool) False;
               value = (if contains (pl_id pool) value
                        then replace pool_key_enable [] (replace pool_key_disable [] value)
                        else value)
           in dict_set external_ids listener_key (value @ pool_key)))"

definition prepare_external_ids :: "pool_dict \<Rightarrow> lb_row \<Rightarrow> string pydict res" where
  "prepare_external_ids pool ovn_lb =
     rbind (key_of (pl_admin_state_up pool)) (\<lambda>admin_state_up.
     let pool_key = get_pool_key (pl_id pool) admin_state_up;
         external_ids = dict_set (lb_external_ids ovn_lb) pool_key []
     in Inr (if truthy (pl_listener_id pool)
             then update_listener_association pool ovn_lb external_ids pool_key
             else external_ids))"

definition persistence_timeout_command :: "lb_row \<Rightarrow> port_val option \<Rightarrow> cmd list" where
  "persistence_timeout_command ovn_lb timeout =
     (let options = dict_set (lb_options ovn_lb) AFFINITY_TIMEOUT (str_port_opt timeout) in
      if \<not> dict_eq (lb_options ovn_lb) options then [set_options ovn_lb timeout] else [])"

definition pool_sync :: "'w env \<Rightarrow> pool_dict \<Rightarrow> string \<Rightarrow> ('w, unit) io" where
  "pool_sync E pool u =
     bnd (nb_lb E u) (\<lambda>ovn_lb.
     bnd (lift (prepare_external_ids pool ovn_lb)) (\<lambda>external_ids.
     let timeout = extract_persistence_timeout pool in
     catch (execute_commands E
              ([db_set Load_Balancer (lb_uuid ovn_lb) EXT_IDS (StrMap external_ids)]
               @ (if port_truthy timeout then persistence_timeout_command ovn_lb timeout else [])))
       (\<lambda>_. ret ())))"

section \<open>pool_delete\<close>

definition pool_status_entries :: "pool_dict \<Rightarrow> entry \<Rightarrow> status" where
  "pool_status_entries pool pool_entry =
     [(POOLS, [pool_entry]), (LOADBALANCERS, [entry2 (pl_loadbalancer_id pool) ACTIVE])]"

definition listener_entries_of :: "string list \<Rightarrow> status" where
  "listener_entries_of pool_listeners = [(LISTENERS, map (\<lambda>l. entry2 l ACTIVE) pool_listeners)]"

text \<open>
  The loop that detaches the listeners sets \<open>external_ids[key]\<close> and appends a command that holds the
  dict itself: every one of these commands writes the dict as the loop leaves it.
\<close>

definition detached_listeners :: "string pydict \<Rightarrow> string \<Rightarrow> string list" where
  "detached_listeners ext pool_key =
     map fst (filter (\<lambda>(k, v). startswith k LB_EXT_IDS_LISTENER_PREFIX \<and> contains pool_key v) ext)"

definition detach_listeners :: "string pydict \<Rightarrow> string \<Rightarrow> string pydict \<Rightarrow> string pydict" where
  "detach_listeners ext pool_key external_ids =
     fold (\<lambda>k acc. dict_set acc k (hd (split_on CHR '':'' (the (dict_get ext k))) @ '':''))
       (detached_listeners ext pool_key) external_ids"

definition pool_delete_commands ::
  "'a lib_scheme \<Rightarrow> lb_row \<Rightarrow> pool_dict \<Rightarrow> (cmd list \<times> string pydict) res" where
  "pool_delete_commands L ovn_lb pool =
     (let u = lb_uuid ovn_lb;
          ext = lb_external_ids ovn_lb;
          pool_key = get_pool_key (pl_id pool) True;
          pool_key_when_disabled = get_pool_key (pl_id pool) False;
          remaining = (if dict_has ext pool_key then dict_del ext pool_key else ext)
      in
      rbind (if dict_has ext pool_key
             then rbind (refresh_lb_vips L ovn_lb remaining False) (\<lambda>refresh.
                  Inr (db_remove Load_Balancer u EXT_IDS pool_key # refresh))
             else Inr []) (\<lambda>remove.
      let external_ids = detach_listeners ext pool_key remaining in
      Inr (remove
           @ map (\<lambda>k. db_set Load_Balancer u EXT_IDS (StrMap external_ids)) (detached_listeners ext pool_key)
           @ (if dict_has ext pool_key_when_disabled
              then [db_remove Load_Balancer u EXT_IDS pool_key_when_disabled] else [])
           @ (if dict_has (lb_options ovn_lb) AFFINITY_TIMEOUT
              then [db_remove Load_Balancer u ''options'' AFFINITY_TIMEOUT] else []),
           external_ids)))"

definition pool_delete :: "'w env \<Rightarrow> pool_dict \<Rightarrow> ('w, status) io" where
  "pool_delete E pool =
     (let deleted = pool_status_entries pool (entry2 (pl_id pool) DELETED) in
      bnd (attempt (find_ovn_lb_with_protocol E (pl_loadbalancer_id pool) (pl_protocol pool))) (\<lambda>r.
      case r of
        Inl e \<Rightarrow> if e = RowNotFound then ret deleted else throw e
      | Inr u \<Rightarrow>
          bnd (nb_lb E u) (\<lambda>ovn_lb.
          let listeners = listener_entries_of (get_pool_listeners ovn_lb (get_pool_key (pl_id pool) True)) in
          catch
            (bnd (lift (pool_delete_commands E ovn_lb pool)) (\<lambda>(commands, external_ids).
             bnd (clean_lb_if_empty E u (pl_loadbalancer_id pool) external_ids) (\<lambda>(clean, _).
             bnd (execute_commands E (commands @ clean)) (\<lambda>_.
             ret (deleted @ listeners)))))
            (\<lambda>_. ret (pool_status_entries pool (entry2 (pl_id pool) ERROR) @ listeners)))))"

section \<open>pool_update\<close>

text \<open>What to remove, what to add, and the \<open>external_ids\<close> with the key moved; None: the key is as wanted.\<close>

definition move_pool_key ::
  "string \<Rightarrow> bool \<Rightarrow> string pydict \<Rightarrow> (string \<times> string pydict \<times> string pydict) option" where
  "move_pool_key pool_id up ext =
     (let from = get_pool_key pool_id (\<not> up); to = get_pool_key pool_id up in
      case dict_get ext from of
        None \<Rightarrow> None
      | Some v \<Rightarrow> Some (from, [(to, v)], dict_del (dict_set ext to v) from))"

definition pool_update_commands :: "'a lib_scheme \<Rightarrow> lb_row \<Rightarrow> pool_dict \<Rightarrow> cmd list res" where
  "pool_update_commands L ovn_lb pool =
     rbind
       (case pl_admin_state_up pool of
          None \<Rightarrow> Inr []
        | Some up \<Rightarrow>
            (case move_pool_key (pl_id pool) up (lb_external_ids ovn_lb) of
               None \<Rightarrow> Inr []
             | Some (p_key_to_remove, p_key_to_add, external_ids) \<Rightarrow>
                 rbind (refresh_lb_vips L ovn_lb external_ids False) (\<lambda>refresh.
                 Inr (db_remove Load_Balancer (lb_uuid ovn_lb) EXT_IDS p_key_to_remove
                      # db_set Load_Balancer (lb_uuid ovn_lb) EXT_IDS (StrMap p_key_to_add)
                      # refresh))))
       (\<lambda>commands.
     Inr (commands
          @ (case pool_session pool of None \<Rightarrow> [] | Some s \<Rightarrow> [set_options ovn_lb (session_timeout s)])))"

text \<open>The operating status reads \<open>pool['admin_state_up']\<close> after the commands ran.\<close>

definition pool_update :: "'w env \<Rightarrow> pool_dict \<Rightarrow> ('w, status) io" where
  "pool_update E pool =
     (if pl_admin_state_up pool = None \<and> pl_session_persistence pool = None
      then ret (pool_status_entries pool (entry2 (pl_id pool) ACTIVE))
      else
      bnd (attempt (find_ovn_lb_with_protocol E (pl_loadbalancer_id pool) (pl_protocol pool))) (\<lambda>r.
      case r of
        Inl e \<Rightarrow>
          if e = RowNotFound
          then ret [(POOLS, [entry2 (pl_id pool) ERROR]),
                    (LOADBALANCERS, [entry2 (pl_loadbalancer_id pool) ERROR])]
          else throw e
      | Inr u \<Rightarrow>
          bnd (nb_lb E u) (\<lambda>ovn_lb.
          let listeners = listener_entries_of (get_pool_listeners ovn_lb (get_pool_key (pl_id pool) True)) in
          catch
            (bnd (lift (pool_update_commands E ovn_lb pool)) (\<lambda>commands.
             bnd (execute_commands E commands) (\<lambda>_.
             bnd (lift (key_of (pl_admin_state_up pool))) (\<lambda>up.
             ret (pool_status_entries pool (entry3 (pl_id pool) ACTIVE (if up then ONLINE else OFFLINE))
                  @ listeners)))))
            (\<lambda>_. ret (pool_status_entries pool (entry2 (pl_id pool) ERROR) @ listeners)))))"

end
