(* ===== verification/Status.thy ===== *)
theory Status
  imports Lookup
begin

text \<open>
  Operating statuses (\<open>helper.py\<close>): the member statuses the row stores as a JSON document under
  \<open>neutron:member_status\<close>, and \<open>_get_current_operating_statuses\<close>, which aggregates them into the
  statuses of pools, listeners and the load balancer. An offline or erroneous member decides what
  Octavia shows of everything above it.
\<close>

section \<open>The document of member statuses\<close>

text \<open>\<open>jsonutils.loads\<close> of the key; a missing document (TypeError) is the empty dict.\<close>

definition member_status_doc :: "'a lib_scheme \<Rightarrow> string pydict \<Rightarrow> string pydict res" where
  "member_status_doc L ext =
     (case loads_opt (loads_strs L) (dict_get ext OVN_MEMBER_STATUS_KEY) of
        Inr d \<Rightarrow> Inr d
      | Inl e \<Rightarrow> if e = TypeError then Inr [] else Inl e)"

text \<open>\<open>change\<close> is None for \<open>delete=True\<close>, else the status to store.\<close>

definition change_member_status :: "string pydict \<Rightarrow> string \<Rightarrow> string option \<Rightarrow> string pydict" where
  "change_member_status existing_members member change =
     (case change of
        None \<Rightarrow> dict_del existing_members member
      | Some status \<Rightarrow> dict_set existing_members member status)"

definition member_status_command :: "'a lib_scheme \<Rightarrow> string \<Rightarrow> string pydict \<Rightarrow> cmd" where
  "member_status_command L u existing_members =
     (if existing_members \<noteq> []
      then db_set Load_Balancer u EXT_IDS
             (StrMap [(OVN_MEMBER_STATUS_KEY, dumps_strs L existing_members)])
      else db_remove Load_Balancer u EXT_IDS OVN_MEMBER_STATUS_KEY)"

definition update_external_ids_member_status ::
  "'w env \<Rightarrow> string \<Rightarrow> string \<Rightarrow> string option \<Rightarrow> ('w, unit) io" where
  "update_external_ids_member_status E u member change =
     bnd (nb_lb E u) (\<lambda>ovn_lb.
     bnd (lift (member_status_doc E (lb_external_ids ovn_lb))) (\<lambda>existing_members.
     catch (nb_exec_nocheck E
              (member_status_command E u (change_member_status existing_members member change)))
       (\<lambda>_. ret ())))"

definition update_member_statuses ::
  "'w env \<Rightarrow> string \<Rightarrow> string \<Rightarrow> string \<Rightarrow> string \<Rightarrow> ('w, entry list) io" where
  "update_member_statuses E u pool_id provisioning_status operating_status =
     bnd (nb_lb E u) (\<lambda>ovn_lb.
     case dict_get (lb_external_ids ovn_lb) (LB_EXT_IDS_POOL_PREFIX @ pool_id) of
       None \<Rightarrow> throw TypeError
     | Some existing_members \<Rightarrow>
         if existing_members \<noteq> [] then
           map_io (\<lambda>mem_info.
             bnd (lift (item (split_on CHR ''_'' mem_info) 1)) (\<lambda>mem_id.
             bnd (update_external_ids_member_status E u mem_id (Some operating_status)) (\<lambda>_.
             ret (entry3 mem_id provisioning_status operating_status))))
             (split_on CHR '','' existing_members)
         else ret [])"

section \<open>Aggregation\<close>

definition pool_operating_status :: "bool \<Rightarrow> string pydict \<Rightarrow> string list \<Rightarrow> string" where
  "pool_operating_status up member_statuses members =
     (if \<not> up \<or> member_statuses = [] then OFFLINE
      else if members \<noteq> [] \<and> list_all (\<lambda>s. s = ERROR) members then ERROR
      else if members \<noteq> [] \<and> list_ex (\<lambda>s. s = ERROR) members then DEGRADED
      else ONLINE)"

definition listener_operating_status :: "bool \<Rightarrow> string list \<Rightarrow> string" where
  "listener_operating_status up pools =
     (if \<not> up then OFFLINE
      else if list_ex (\<lambda>s. s = ERROR) pools then ERROR
      else if list_ex (\<lambda>s. s = DEGRADED) pools then DEGRADED
      else ONLINE)"

text \<open>The load balancer follows its listeners by the same rule.\<close>

definition lb_operating_status :: "bool \<Rightarrow> string list \<Rightarrow> string" where
  "lb_operating_status up listeners =
     (if \<not> up then OFFLINE
      else if list_ex (\<lambda>s. s = ERROR) listeners then ERROR
      else if list_ex (\<lambda>s. s = DEGRADED) listeners then DEGRADED
      else ONLINE)"

text \<open>The ids after the first underscore of the parts of a value that are kept.\<close>

definition ids_of_value :: "(string \<Rightarrow> bool) \<Rightarrow> string \<Rightarrow> string list res" where
  "ids_of_value keep v = mapR (\<lambda>x. item (split_on CHR ''_'' x) 1) (filter keep (split_on CHR '','' v))"

text \<open>The dicts \<open>listeners\<close> (their pools) and \<open>pools\<close> (their members), by id.\<close>

definition listeners_and_pools ::
  "string pydict \<Rightarrow> (string list pydict \<times> string list pydict) res" where
  "listeners_and_pools ext =
     foldR (\<lambda>(k, v) (listeners, pools).
       if contains LB_EXT_IDS_LISTENER_PREFIX k then
         rbind (item (split_on CHR ''_'' k) 1) (\<lambda>i.
         rbind (ids_of_value (contains LB_EXT_IDS_POOL_PREFIX) v) (\<lambda>ids.
         Inr (dict_set listeners i ids, pools)))
       else if contains LB_EXT_IDS_POOL_PREFIX k then
         rbind (item (split_on CHR ''_'' k) 1) (\<lambda>i.
         rbind (ids_of_value (\<lambda>x. x \<noteq> []) v) (\<lambda>ids.
         Inr (listeners, dict_set pools i ids)))
       else Inr (listeners, pools)) ext ([], [])"

text \<open>An id without local information counts as online.\<close>

definition statuses_of :: "string pydict \<Rightarrow> string list \<Rightarrow> string list" where
  "statuses_of known ids = map (\<lambda>i. dict_get_default known i ONLINE) ids"

definition get_pool_statuses ::
  "'w env \<Rightarrow> string pydict \<Rightarrow> string list pydict \<Rightarrow> ('w, string pydict) io" where
  "get_pool_statuses E member_statuses pools =
     map_io (\<lambda>(pool_id, members).
       bnd (oc_get_pool E pool_id) (\<lambda>p.
       case p of
         None \<Rightarrow> throw AttributeError
       | Some pool \<Rightarrow>
           ret (pool_id, pool_operating_status (ocp_admin_state_up pool) member_statuses
                           (statuses_of member_statuses members)))) pools"

definition get_listener_statuses ::
  "'w env \<Rightarrow> string pydict \<Rightarrow> string list pydict \<Rightarrow> ('w, string pydict) io" where
  "get_listener_statuses E pools listeners =
     map_io (\<lambda>(listener_id, listener_pools).
       bnd (oc_get_listener E listener_id) (\<lambda>l.
       case l of
         None \<Rightarrow> throw AttributeError
       | Some up \<Rightarrow>
           ret (listener_id, listener_operating_status up (statuses_of pools listener_pools)))) listeners"

definition active_entries :: "string pydict \<Rightarrow> entry list" where
  "active_entries d = map (\<lambda>(i, s). entry3 i ACTIVE s) d"

definition get_current_operating_statuses :: "'w env \<Rightarrow> string \<Rightarrow> ('w, status) io" where
  "get_current_operating_statuses E u =
     bnd (nb_lb E u) (\<lambda>ovn_lb.
     bnd (lift (member_status_doc E (lb_external_ids ovn_lb))) (\<lambda>member_statuses.
     bnd (lift (listeners_and_pools (lb_external_ids ovn_lb))) (\<lambda>(listeners, pools).
     bnd (get_pool_statuses E member_statuses pools) (\<lambda>pools.
     bnd (get_listener_statuses E pools listeners) (\<lambda>listeners.
     bnd (oc_get_loadbalancer E (lb_name ovn_lb)) (\<lambda>lb.
     case lb of
       None \<Rightarrow> throw AttributeError
     | Some l \<Rightarrow>
         ret [(LOADBALANCERS,
                [entry3 (lb_name ovn_lb) ACTIVE
                   (lb_operating_status (ocl_admin_state_up l) (map snd listeners))]),
              (LISTENERS, active_entries listeners),
              (POOLS, active_entries pools),
              (MEMBERS, active_entries member_statuses)]))))))"

section \<open>What is sent to Octavia\<close>

text \<open>
  \<open>re.sub(':D$', '', d)\<close>: the pattern also matches before a final newline; None is no string
  (TypeError).
\<close>

definition strip_disabled :: "string \<Rightarrow> string" where
  "strip_disabled d =
     (let n = length d in
      if drop (n - 2) d = '':D'' then take (n - 2) d
      else if n \<ge> 3 \<and> drop (n - 3) d = '':D\<newline>'' then take (n - 3) d @ ''\<newline>''
      else d)"

definition delete_disabled_from_entry :: "entry \<Rightarrow> entry res" where
  "delete_disabled_from_entry i =
     mapR (\<lambda>(c, d). case d of None \<Rightarrow> Inl TypeError | Some s \<Rightarrow> Inr (c, Some (strip_disabled s))) i"

definition delete_disabled_from_status :: "status \<Rightarrow> status res" where
  "delete_disabled_from_status status =
     mapR (\<lambda>(k, v). rbind (mapR delete_disabled_from_entry v) (\<lambda>es. Inr (k, es))) status"

definition retry_update_status_error :: "exn \<Rightarrow> bool" where
  "retry_update_status_error e \<longleftrightarrow> e = UpdateStatusError"

definition update_status_to_octavia :: "'w env \<Rightarrow> status \<Rightarrow> ('w, unit) io" where
  "update_status_to_octavia E status =
     retry_unit E retry_update_status_error (StopAfterAttempt 15)
       (bnd (lift (delete_disabled_from_status status)) (oc_update_status E))"

end
