(* ===== verification/HmPorts.thy ===== *)
theory HmPorts
  imports Status
begin

text \<open>
  The ports health checks are sent from and the \<open>ip_port_mappings\<close> column (\<open>helper.py\<close>, and the two
  commands \<open>ovsdb/impl_idl_ovn.py\<close> defines for it): one port per subnet, created on demand and deleted
  when no load balancer uses its address.
\<close>

section \<open>Health monitor ports\<close>

definition lb_hm_port_name :: "string \<Rightarrow> string" where
  "lb_hm_port_name subnet_id = LB_HM_PORT_PREFIX @ subnet_id"

text \<open>Is the address part of a mapping of some load balancer with a health check?\<close>

primrec search_hm_ip :: "'w env \<Rightarrow> string \<Rightarrow> string list \<Rightarrow> ('w, bool) io" where
  "search_hm_ip E hm_port_ip [] = ret False"
| "search_hm_ip E hm_port_ip (u # us) =
     bnd (nb_lb E u) (\<lambda>lb.
     if list_ex (\<lambda>(k, v). contains hm_port_ip v) (lb_ip_port_mappings lb) then ret True
     else search_hm_ip E hm_port_ip us)"

definition last_ip_on_subnet :: "string \<Rightarrow> fixed_ip list \<Rightarrow> string option \<Rightarrow> string option" where
  "last_ip_on_subnet subnet_id ips found =
     fold (\<lambda>ip acc. if fi_subnet_id ip = subnet_id then Some (fi_ip_address ip) else acc) ips found"

text \<open>\<open>hm_port_ip\<close> is not reset between two ports; the first port still in use ends the loop.\<close>

primrec clean_hm_ports :: "'w env \<Rightarrow> string \<Rightarrow> string option \<Rightarrow> port list \<Rightarrow> ('w, unit) io" where
  "clean_hm_ports E subnet_id hm_port_ip [] = ret ()"
| "clean_hm_ports E subnet_id hm_port_ip (hm_port # ports) =
     (let hm_port_ip = last_ip_on_subnet subnet_id (p_fixed_ips hm_port) hm_port_ip in
      if truthy hm_port_ip then
        bnd (nb_lbs_with_health_check E) (\<lambda>lbs.
        bnd (search_hm_ip E (the hm_port_ip) lbs) (\<lambda>in_use.
        if in_use then ret ()
        else bnd (delete_port E (p_id hm_port)) (\<lambda>_. clean_hm_ports E subnet_id hm_port_ip ports)))
      else clean_hm_ports E subnet_id hm_port_ip ports)"

definition clean_up_hm_port :: "'w env \<Rightarrow> string \<Rightarrow> ('w, unit) io" where
  "clean_up_hm_port E subnet_id =
     bnd (get_neutron_client E) (\<lambda>_.
     bnd (retry_ports E is_http_exn (StopAfterDelay 10) (nt_ports_named E (lb_hm_port_name subnet_id))) (\<lambda>ports.
     clean_hm_ports E subnet_id None ports))"

definition create_hm_port ::
  "'w env \<Rightarrow> string \<Rightarrow> string \<Rightarrow> string option \<Rightarrow> ('w, port option) io" where
  "create_hm_port E network_id subnet_id project_id =
     bnd (get_neutron_client E) (\<lambda>_.
     catch
       (bnd (nt_create_hm_port E
               \<lparr>hp_name = lb_hm_port_name subnet_id, hp_network_id = network_id,
                hp_subnet_id = subnet_id, hp_device_owner = OVN_LB_HM_PORT_DISTRIBUTED,
                hp_device_id = lb_hm_port_name subnet_id, hp_project_id = project_id\<rparr>) (\<lambda>p.
        ret (Some p)))
       (\<lambda>e. if is_http_exn e then bnd (clean_up_hm_port E subnet_id) (\<lambda>_. ret None) else throw e))"

definition ensure_hm_ovn_port ::
  "'w env \<Rightarrow> string \<Rightarrow> string \<Rightarrow> string option \<Rightarrow> ('w, port option) io" where
  "ensure_hm_ovn_port E network_id subnet_id project_id =
     bnd (get_neutron_client E) (\<lambda>_.
     bnd (neutron_find_port E (Some network_id) (lb_hm_port_name subnet_id)) (\<lambda>hm_checks_port.
     case hm_checks_port of
       Some p \<Rightarrow> ret (Some p)
     | None \<Rightarrow> create_hm_port E network_id subnet_id project_id))"

section \<open>ip_port_mappings\<close>

text \<open>\<open>AddBackendToIPPortMapping\<close> and \<open>DelBackendFromIPPortMapping\<close>: IPv6 addresses get brackets.\<close>

definition lb_add_ip_port_mapping ::
  "'a lib_scheme \<Rightarrow> string \<Rightarrow> string \<Rightarrow> string \<Rightarrow> string \<Rightarrow> cmd res" where
  "lb_add_ip_port_mapping L lb backend_ip port_name src_ip =
     rbind (ip_version L backend_ip) (\<lambda>version.
     Inr (if version = 6 then set_ip_port_mapping lb (bracketed backend_ip) (port_name @ '':'' @ bracketed src_ip)
          else set_ip_port_mapping lb backend_ip (port_name @ '':'' @ src_ip)))"

definition lb_del_ip_port_mapping :: "'a lib_scheme \<Rightarrow> string \<Rightarrow> string \<Rightarrow> cmd res" where
  "lb_del_ip_port_mapping L lb backend_ip =
     rbind (ip_version L backend_ip) (\<lambda>version.
     Inr (del_ip_port_mapping lb (if version = 6 then bracketed backend_ip else backend_ip)))"

definition update_ip_port_mappings ::
  "'w env \<Rightarrow> string \<Rightarrow> string \<Rightarrow> string \<Rightarrow> string \<Rightarrow> bool \<Rightarrow> ('w, unit) io" where
  "update_ip_port_mappings E u backend_ip port_name src_ip delete =
     bnd (lift (if delete then lb_del_ip_port_mapping E u backend_ip
                else lb_add_ip_port_mapping E u backend_ip port_name src_ip)) (nb_exec_nocheck E)"

text \<open>The members of every other pool of the row.\<close>

definition other_pool_members :: "string pydict \<Rightarrow> string \<Rightarrow> mem_info list res" where
  "other_pool_members ext pool_key =
     rbind (mapR (\<lambda>(k, v). extract_member_info v)
       (filter (\<lambda>(k, v). contains LB_EXT_IDS_POOL_PREFIX k \<and> k \<noteq> pool_key) ext)) (\<lambda>ms. Inr (concat ms))"

text \<open>No other member with the address has a status other than NO_MONITOR.\<close>

definition mapping_unused :: "string pydict \<Rightarrow> mem_info list \<Rightarrow> string \<Rightarrow> bool" where
  "mapping_unused member_statuses other_members mb_ip =
     list_all (\<lambda>(ip, port, sub, member_id).
       ip = mb_ip \<longrightarrow> dict_get_default member_statuses member_id [] = NO_MONITOR) other_members"

definition clean_ip_port_mappings :: "'w env \<Rightarrow> string \<Rightarrow> string option \<Rightarrow> ('w, unit) io" where
  "clean_ip_port_mappings E u pool_key =
     (if \<not> truthy pool_key then nb_exec_nocheck E (db_clear Load_Balancer u ''ip_port_mappings'')
      else
        bnd (nb_lb E u) (\<lambda>ovn_lb.
        let ext = lb_external_ids ovn_lb in
        bnd (lift (rbind (dict_item ext (the pool_key)) extract_member_info)) (\<lambda>members_try_remove.
        bnd (lift (other_pool_members ext (the pool_key))) (\<lambda>other_members.
        bnd (lift (member_status_doc E ext)) (\<lambda>member_statuses.
        for_each (\<lambda>(mb_ip, mb_port, mb_subnet, mb_id).
          if mapping_unused member_statuses other_members mb_ip
          then bnd (lift (lb_del_ip_port_mapping E u mb_ip)) (nb_exec_nocheck E)
          else ret ()) members_try_remove)))))"

section \<open>The mapping of one member\<close>

definition get_member_lsp :: "'w env \<Rightarrow> string \<Rightarrow> string \<Rightarrow> ('w, lsp_row option) io" where
  "get_member_lsp E member_ip member_subnet_id =
     bnd (get_neutron_client E) (\<lambda>_.
     bnd (attempt (nt_get_subnet E (Some member_subnet_id))) (\<lambda>r.
     case r of
       Inl e \<Rightarrow> if e = ResourceNotFound then ret None else throw e
     | Inr member_subnet \<Rightarrow>
         bnd (attempt (nb_lookup_ls E (ovn_name (sn_network_id member_subnet)))) (\<lambda>r.
         case r of
           Inl e \<Rightarrow> if e = RowNotFound then ret None else throw e
         | Inr ls \<Rightarrow>
             ret (find (\<lambda>port. member_ip \<in> set (remove_macs_from_lsp_addresses E (lsp_addresses port)))
                    (sw_ports ls)))))"

text \<open>\<open>external_ids.get(network name).split('neutron-')[1]\<close>\<close>

definition network_of_lsp :: "lsp_row \<Rightarrow> string res" where
  "network_of_lsp lsp =
     (case dict_get (lsp_external_ids lsp) OVN_NETWORK_NAME_EXT_ID_KEY of
        None \<Rightarrow> Inl AttributeError
      | Some name \<Rightarrow> item (split_str OVN_NAME_PREFIX name) 1)"

definition map_hm_member ::
  "'w env \<Rightarrow> string \<Rightarrow> string \<Rightarrow> string \<Rightarrow> lsp_row \<Rightarrow> bool \<Rightarrow> ('w, string option) io" where
  "map_hm_member E u mb_ip mb_subnet member_lsp delete =
     bnd (lift (network_of_lsp member_lsp)) (\<lambda>network_id.
     bnd (ensure_hm_ovn_port E network_id mb_subnet
            (dict_get (lsp_external_ids member_lsp) OVN_PROJECT_EXT_ID_KEY)) (\<lambda>hm_port.
     case hm_port of
       None \<Rightarrow> ret None
     | Some p \<Rightarrow>
         (case find (\<lambda>fixed_ip. fi_subnet_id fixed_ip = mb_subnet) (p_fixed_ips p) of
            None \<Rightarrow> ret None
          | Some fixed_ip \<Rightarrow>
              if fi_ip_address fixed_ip = [] then ret None
              else bnd (update_ip_port_mappings E u mb_ip (lsp_name member_lsp) (fi_ip_address fixed_ip) delete)
                     (\<lambda>_. ret (Some ONLINE)))))"

text \<open>
  The result is ONLINE, ERROR (no member with the address, or no port has the address) or None (no
  health monitor port). The first member with the address decides.
\<close>

definition update_hm_member ::
  "'w env \<Rightarrow> string \<Rightarrow> string \<Rightarrow> string option \<Rightarrow> bool \<Rightarrow> ('w, string option) io" where
  "update_hm_member E u pool_key backend_ip delete =
     bnd (nb_lb E u) (\<lambda>ovn_lb.
     bnd (lift (rbind (dict_item (lb_external_ids ovn_lb) pool_key) extract_member_info)) (\<lambda>members.
     case find (\<lambda>(mb_ip, _). Some mb_ip = backend_ip) members of
       None \<Rightarrow> ret (Some ERROR)
     | Some (mb_ip, mb_port, mb_subnet, mb_id) \<Rightarrow>
         bnd (get_member_lsp E mb_ip mb_subnet) (\<lambda>member_lsp.
         case member_lsp of
           None \<Rightarrow> ret (Some ERROR)
         | Some lsp \<Rightarrow> map_hm_member E u mb_ip mb_subnet lsp delete)))"

end
