(* ===== verification/MemberOps.thy ===== *)
theory MemberOps
  imports PoolOps HmPorts
begin

text \<open>
  Members (\<open>member_create\<close>, \<open>member_sync\<close>, \<open>member_delete\<close>, \<open>member_update\<close>, \<open>get_pool_member_id\<close> of
  \<open>helper.py\<close>): a member is one part of the value of its pool's key. The handlers run a block under
  \<open>except Exception\<close> and then use the variable \<open>ovn_lb\<close>, which the block may have left unbound or None.
\<close>

section \<open>Variables the block may not have bound\<close>

definition bound :: "'a res \<Rightarrow> ('w, 'a) io" where
  "bound r = (case r of Inl e \<Rightarrow> throw UnboundLocalError | Inr x \<Rightarrow> ret x)"

text \<open>An attribute of a row that may be None.\<close>

definition the_row :: "string option \<Rightarrow> ('w, string) io" where
  "the_row u = (case u of None \<Rightarrow> throw AttributeError | Some x \<Rightarrow> ret x)"

definition find_pool_of_member ::
  "'w env \<Rightarrow> member_dict \<Rightarrow> ('w, string \<times> string option) io" where
  "find_pool_of_member E member =
     bnd (lift (key_of (md_pool_id member))) (find_ovn_lb_by_pool_id E)"

section \<open>The value of the pool\<close>

text \<open>\<open>_add_member\<close>: None when the member is already there.\<close>

definition add_member_data :: "member_dict \<Rightarrow> string \<Rightarrow> (string \<times> string) option res" where
  "add_member_data member existing =
     rbind (get_member_info member) (\<lambda>member_info.
     Inr (if existing \<noteq> []
          then (let members = split_on CHR '','' existing in
                if member_info \<in> set members then None
                else Some (member_info, join '','' (members @ [member_info])))
          else Some (member_info, member_info)))"

text \<open>\<open>_update_pool_data\<close>: a missing key counts as an empty pool.\<close>

definition update_pool_data :: "member_dict \<Rightarrow> string \<Rightarrow> string pydict \<Rightarrow> string option res" where
  "update_pool_data member pool_key external_ids =
     rbind (get_member_info member) (\<lambda>member_info.
     let existing_members = dict_get_default external_ids pool_key [] in
     Inr (if existing_members \<noteq> []
          then (let members = split_on CHR '','' existing_members in
                if member_info \<notin> set members then Some (join '','' (members @ [member_info])) else None)
          else Some member_info))"

text \<open>\<open>_remove_member\<close>: the members that remain; None when the member is not there.\<close>

definition remove_member_data :: "member_dict \<Rightarrow> string \<Rightarrow> string list option res" where
  "remove_member_data member existing =
     rbind (get_member_info member) (\<lambda>member_info.
     let members = split_on CHR '','' existing in
     Inr (if member_info \<in> set members then Some (remove1 member_info members) else None))"

definition pool_value_commands ::
  "'a lib_scheme \<Rightarrow> lb_row \<Rightarrow> string \<Rightarrow> string \<Rightarrow> bool \<Rightarrow> bool \<Rightarrow> cmd list res" where
  "pool_value_commands L ovn_lb pool_key value refresh_vips is_sync =
     rbind (if refresh_vips
            then refresh_lb_vips L ovn_lb (dict_set (lb_external_ids ovn_lb) pool_key value) is_sync
            else Inr []) (\<lambda>refresh.
     Inr (db_set Load_Balancer (lb_uuid ovn_lb) EXT_IDS (StrMap [(pool_key, value)]) # refresh))"

section \<open>member_create\<close>

definition get_related_lr :: "'w env \<Rightarrow> string \<Rightarrow> ('w, string option) io" where
  "get_related_lr E subnet_id =
     bnd (get_neutron_client E) (\<lambda>_.
     catch
       (bnd (nt_get_subnet E (Some subnet_id)) (\<lambda>subnet.
        bnd (nb_ls_get E (ovn_name (sn_network_id subnet))) (\<lambda>ovn_ls.
        find_lr_of_ls E ovn_ls (sn_gateway_ip subnet))))
       (\<lambda>e. if e = ResourceNotFound \<or> e = RowNotFound then ret None else throw e))"

definition add_member :: "'w env \<Rightarrow> member_dict \<Rightarrow> string option \<Rightarrow> string \<Rightarrow> ('w, string option) io" where
  "add_member E member row pool_key =
     bnd (the_row row) (\<lambda>u.
     bnd (nb_lb E u) (\<lambda>ovn_lb.
     bnd (lift (dict_item (lb_external_ids ovn_lb) pool_key)) (\<lambda>existing_members.
     bnd (lift (add_member_data member existing_members)) (\<lambda>data.
     case data of
       None \<Rightarrow> ret None
     | Some (member_info, value) \<Rightarrow>
         bnd (lift (pool_value_commands E ovn_lb pool_key value (md_admin_state_up member = Some True) False))
           (\<lambda>commands.
         bnd (execute_commands E commands) (\<lambda>_.
         bnd (lift (key_of (md_subnet_id member))) (\<lambda>subnet_id.
         bnd (update_lb_to_ls_association E u None (Some subnet_id) True True False False) (\<lambda>_.
         bnd (get_related_lr E subnet_id) (\<lambda>ovn_lr.
         bnd (case ovn_lr of None \<Rightarrow> ret () | Some lr \<Rightarrow> associate_lr_or_by_step E u lr False) (\<lambda>_.
         ret (Some member_info)))))))))))"

text \<open>The status of an enabled new member whose row has a health check.\<close>

definition monitored_member_status ::
  "'w env \<Rightarrow> string \<Rightarrow> string \<Rightarrow> string \<Rightarrow> ('w, string) io" where
  "monitored_member_status E u pool_key new_member =
     bnd (lift (rbind (extract_member_info new_member) (\<lambda>infos. item infos 0))) (\<lambda>(mb_ip, _).
     bnd (update_hm_member E u pool_key (Some mb_ip) False) (\<lambda>mb_status.
     ret (if mb_status = Some ONLINE then ONLINE else ERROR)))"

definition new_member_status ::
  "'w env \<Rightarrow> (string \<times> string option) res \<Rightarrow> string option res \<Rightarrow> bool \<Rightarrow> ('w, string) io" where
  "new_member_status E found added up =
     (if \<not> up then ret OFFLINE
      else
        (case added of
           Inl _ \<Rightarrow> ret ERROR
         | Inr None \<Rightarrow> ret NO_MONITOR
         | Inr (Some new_member) \<Rightarrow>
             bnd (bound found) (\<lambda>(pool_key, row).
             bnd (the_row row) (\<lambda>u.
             bnd (nb_lb E u) (\<lambda>ovn_lb.
             if lb_health_check ovn_lb \<noteq> [] then monitored_member_status E u pool_key new_member
             else ret NO_MONITOR)))))"

definition member_create :: "'w env \<Rightarrow> member_dict \<Rightarrow> ('w, status) io" where
  "member_create E member =
     bnd (attempt (find_pool_of_member E member)) (\<lambda>found.
     bnd (attempt (bnd (lift found) (\<lambda>(pool_key, row). add_member E member row pool_key))) (\<lambda>added.
     bnd (lift (key_of (md_admin_state_up member))) (\<lambda>up.
     bnd (new_member_status E found added up) (\<lambda>operating_status.
     bnd (bound found) (\<lambda>(pool_key, row).
     bnd (the_row row) (\<lambda>u.
     bnd (update_external_ids_member_status E u (md_id member) (Some operating_status)) (\<lambda>_.
     get_current_operating_statuses E u)))))))"

section \<open>member_sync\<close>

definition sync_lb_to_lr_association :: "'w env \<Rightarrow> string \<Rightarrow> string \<Rightarrow> ('w, unit) io" where
  "sync_lb_to_lr_association E u lr =
     catch (update_lb_to_lr_association E u lr False True)
       (\<lambda>e. if e = RowNotFound
            then catch (update_lb_to_lr_association_by_step E u lr False True) (\<lambda>_. ret ())
            else throw e)"

text \<open>The two \<open>try\<close> blocks; False: one of them failed and the handler returns.\<close>

definition member_sync_vips :: "'w env \<Rightarrow> member_dict \<Rightarrow> lb_row \<Rightarrow> string \<Rightarrow> string option \<Rightarrow> ('w, bool) io"
where
  "member_sync_vips E member ovn_lb pool_key pool_data =
     (let external_ids = (case pool_data of None \<Rightarrow> lb_external_ids ovn_lb
                          | Some value \<Rightarrow> dict_set (lb_external_ids ovn_lb) pool_key value);
          set_pool = (case pool_data of None \<Rightarrow> []
                      | Some value \<Rightarrow> [db_set Load_Balancer (lb_uuid ovn_lb) EXT_IDS (StrMap [(pool_key, value)])])
      in
      case (if md_admin_state_up member = Some True then refresh_lb_vips E ovn_lb external_ids True
            else Inr []) of
        Inl _ \<Rightarrow> ret False
      | Inr refresh \<Rightarrow>
          catch (bnd (execute_commands E (set_pool @ refresh)) (\<lambda>_. ret True)) (\<lambda>_. ret False))"

definition member_sync :: "'w env \<Rightarrow> member_dict \<Rightarrow> string \<Rightarrow> string \<Rightarrow> ('w, unit) io" where
  "member_sync E member u pool_key =
     bnd (nb_lb E u) (\<lambda>ovn_lb.
     bnd (lift (update_pool_data member pool_key (lb_external_ids ovn_lb))) (\<lambda>pool_data.
     bnd (member_sync_vips E member ovn_lb pool_key pool_data) (\<lambda>ok.
     if \<not> ok then ret ()
     else
       bnd (lift (key_of (md_subnet_id member))) (\<lambda>subnet_id.
       bnd (update_lb_to_ls_association E u None (Some subnet_id) True True False True) (\<lambda>_.
       bnd (get_related_lr E subnet_id) (\<lambda>ovn_lr.
       bnd (case ovn_lr of None \<Rightarrow> ret () | Some lr \<Rightarrow> sync_lb_to_lr_association E u lr) (\<lambda>_.
       update_external_ids_member_status E u (md_id member) (Some NO_MONITOR))))))))"

section \<open>member_delete\<close>

definition remove_member :: "'w env \<Rightarrow> member_dict \<Rightarrow> string option \<Rightarrow> string \<Rightarrow> ('w, string option) io" where
  "remove_member E member row pool_key =
     bnd (the_row row) (\<lambda>u.
     bnd (nb_lb E u) (\<lambda>ovn_lb.
     bnd (lift (dict_item (lb_external_ids ovn_lb) pool_key)) (\<lambda>existing.
     bnd (lift (remove_member_data member existing)) (\<lambda>data.
     case data of
       None \<Rightarrow> ret None
     | Some members \<Rightarrow>
         bnd (if lb_health_check ovn_lb \<noteq> []
              then bnd (update_hm_member E u pool_key (md_address member) True) (\<lambda>_. ret ())
              else ret ()) (\<lambda>_.
         bnd (lift (pool_value_commands E ovn_lb pool_key (join '','' members) True False)) (\<lambda>commands.
         bnd (execute_commands E commands) (\<lambda>_.
         bnd (update_lb_to_ls_association E u None (md_subnet_id member) False True False False) (\<lambda>_.
         ret (Some (if members = [] then OFFLINE else ONLINE))))))))))"

text \<open>Every part of every pool value must have exactly four fields (ValueError).\<close>

definition member_subnet :: "string \<Rightarrow> string res" where
  "member_subnet m_info =
     (case tl (split_on CHR ''_'' m_info) of [mem_id, mem_ip_port, mem_subnet] \<Rightarrow> Inr mem_subnet
      | _ \<Rightarrow> Inl ValueError)"

fun search_subnet :: "string \<Rightarrow> string list \<Rightarrow> bool res" where
  "search_subnet subnet_id [] = Inr False"
| "search_subnet subnet_id (m_info # ms) =
     rbind (member_subnet m_info) (\<lambda>mem_subnet.
     if mem_subnet = subnet_id then Inr True else search_subnet subnet_id ms)"

definition members_in_subnet :: "string pydict \<Rightarrow> string \<Rightarrow> bool res" where
  "members_in_subnet ext subnet_id =
     search_subnet subnet_id
       (concat (map (\<lambda>(key, value).
          if startswith key LB_EXT_IDS_POOL_PREFIX \<and> value \<noteq> [] then split_on CHR '','' value else []) ext))"

definition clean_member_hm_port :: "'w env \<Rightarrow> member_dict \<Rightarrow> string \<Rightarrow> ('w, unit) io" where
  "clean_member_hm_port E member u =
     bnd (nb_lb E u) (\<lambda>ovn_lb.
     if lb_health_check ovn_lb \<noteq> [] then
       bnd (lift (key_of (md_subnet_id member))) (\<lambda>mem_subnet.
       bnd (lift (members_in_subnet (lb_external_ids ovn_lb) mem_subnet)) (\<lambda>others.
       if \<not> others then clean_up_hm_port E mem_subnet else ret ()))
     else ret ())"

definition member_delete :: "'w env \<Rightarrow> member_dict \<Rightarrow> ('w, status) io" where
  "member_delete E member =
     bnd (attempt (find_pool_of_member E member)) (\<lambda>found.
     bnd (attempt
       (bnd (lift found) (\<lambda>(pool_key, row).
        bnd (remove_member E member row pool_key) (\<lambda>_.
        bnd (the_row row) (clean_member_hm_port E member))))) (\<lambda>deleted.
     bnd (bound found) (\<lambda>(pool_key, row).
     bnd (the_row row) (\<lambda>u.
     bnd (update_external_ids_member_status E u (md_id member) None) (\<lambda>_.
     bnd (get_current_operating_statuses E u) (\<lambda>status.
     ret (dict_set status MEMBERS
            [entry2 (md_id member) (case deleted of Inl _ \<Rightarrow> ERROR | Inr _ \<Rightarrow> DELETED)])))))))"

section \<open>member_update\<close>

definition updated_member_status :: "lb_row \<Rightarrow> string \<Rightarrow> bool \<Rightarrow> string" where
  "updated_member_status ovn_lb last_status up =
     (if up then (if lb_health_check ovn_lb \<noteq> [] then last_status else NO_MONITOR) else OFFLINE)"

text \<open>The status is stored; the \<open>vips\<close> are rebuilt only when the member goes offline or comes back.\<close>

definition apply_member_update ::
  "'w env \<Rightarrow> string \<Rightarrow> string \<Rightarrow> string \<Rightarrow> string \<Rightarrow> ('w, unit) io" where
  "apply_member_update E u member_id last_status member_operating_status =
     bnd (update_external_ids_member_status E u member_id (Some member_operating_status)) (\<lambda>_.
     if (last_status \<noteq> OFFLINE \<and> member_operating_status = OFFLINE) \<or>
        (last_status = OFFLINE \<and> member_operating_status \<noteq> OFFLINE)
     then
       bnd (nb_lb E u) (\<lambda>ovn_lb.
       bnd (lift (refresh_lb_vips E ovn_lb (lb_external_ids ovn_lb) False)) (execute_commands E))
     else ret ())"

text \<open>Up to the new status: the row and the status before the update.\<close>

definition member_update_status ::
  "'w env \<Rightarrow> member_dict \<Rightarrow> string option \<Rightarrow> ('w, string \<times> string) io" where
  "member_update_status E member row =
     bnd (the_row row) (\<lambda>u.
     bnd (nb_lb E u) (\<lambda>ovn_lb.
     bnd (lift (find_member_status E ovn_lb (md_id member))) (\<lambda>last_status.
     ret (last_status,
          case md_admin_state_up member of
            None \<Rightarrow> NO_MONITOR
          | Some up \<Rightarrow> updated_member_status ovn_lb last_status up))))"

definition member_update :: "'w env \<Rightarrow> member_dict \<Rightarrow> ('w, status) io" where
  "member_update E member =
     bnd (attempt (find_pool_of_member E member)) (\<lambda>found.
     bnd (attempt (bnd (lift found) (\<lambda>(pool_key, row). member_update_status E member row))) (\<lambda>computed.
     bnd (attempt
       (bnd (lift found) (\<lambda>(pool_key, row).
        bnd (lift computed) (\<lambda>(last_status, member_operating_status).
        bnd (the_row row) (\<lambda>u.
        if md_admin_state_up member = None then ret ()
        else apply_member_update E u (md_id member) last_status member_operating_status))))) (\<lambda>updated.
     bnd (bound found) (\<lambda>(pool_key, row).
     bnd (the_row row) (\<lambda>u.
     bnd (get_current_operating_statuses E u) (\<lambda>status.
     ret (dict_set status MEMBERS
            [entry3 (md_id member) (case updated of Inl _ \<Rightarrow> ERROR | Inr _ \<Rightarrow> ACTIVE)
               (case computed of Inl _ \<Rightarrow> NO_MONITOR | Inr (_, s) \<Rightarrow> s)])))))))"

section \<open>get_pool_member_id\<close>

definition get_existing_pool_members :: "'w env \<Rightarrow> string \<Rightarrow> ('w, string) io" where
  "get_existing_pool_members E pool_id =
     bnd (find_ovn_lb_by_pool_id E pool_id) (\<lambda>(pool_key, row).
     case row of
       None \<Rightarrow> throw DriverError
     | Some u \<Rightarrow> bnd (nb_lb E u) (\<lambda>ovn_lb. lift (dict_item (lb_external_ids ovn_lb) pool_key)))"

fun search_member_addr :: "string option \<Rightarrow> string list \<Rightarrow> string option res" where
  "search_member_addr mem_addr_port [] = Inr None"
| "search_member_addr mem_addr_port (meminf # ms) =
     rbind (item (split_on CHR ''_'' meminf) 2) (\<lambda>addr.
     if mem_addr_port = Some addr
     then rbind (item (split_on CHR ''_'' meminf) 1) (\<lambda>i. Inr (Some i))
     else search_member_addr mem_addr_port ms)"

definition get_pool_member_id :: "'w env \<Rightarrow> string \<Rightarrow> string option \<Rightarrow> ('w, string option) io" where
  "get_pool_member_id E pool_id mem_addr_port =
     bnd (get_existing_pool_members E pool_id) (\<lambda>existing_members.
     lift (search_member_addr mem_addr_port (split_on CHR '','' existing_members)))"

end
