(* ===== verification/HmOps.thy ===== *)
theory HmOps
  imports MemberOps
begin

text \<open>
  Health monitors (\<open>hm_create\<close>, \<open>hm_sync\<close>, \<open>hm_update\<close>, \<open>hm_delete\<close>, \<open>hm_purge\<close>, \<open>hm_update_event\<close> and the
  service monitor event of \<open>helper.py\<close>): one Load_Balancer_Health_Check row per VIP and floating IP,
  found again by the Octavia id in its \<open>external_ids\<close>. The commands of one transaction hold the
  Python objects they were built with; where the code goes on mutating a dict it has already
  passed, the rows get the last contents.
\<close>

section \<open>Lookup\<close>

record hm_info =
  hi_id :: string
  hi_pool_id :: string
  hi_interval :: "int option"
  hi_timeout :: "int option"
  hi_success_count :: "int option"
  hi_failure_count :: "int option"
  hi_admin_state_up :: bool

definition lookup_lbhcs_by_hm_id :: "'w env \<Rightarrow> string \<Rightarrow> ('w, hc_row list) io" where
  "lookup_lbhcs_by_hm_id E hm_id =
     bnd (nb_hc_rows E) (\<lambda>lbhc_rows.
     let lbhcs = filter (\<lambda>lbhc. dict_get (hc_external_ids lbhc) LB_EXT_IDS_HM_KEY = Some hm_id) lbhc_rows in
     if lbhcs \<noteq> [] then ret lbhcs else throw RowNotFound)"

primrec search_hm_id :: "'w env \<Rightarrow> string \<Rightarrow> string list \<Rightarrow> ('w, string option) io" where
  "search_hm_id E hm_id [] = ret None"
| "search_hm_id E hm_id (u # us) =
     bnd (nb_lb E u) (\<lambda>lb.
     case dict_get (lb_external_ids lb) LB_EXT_IDS_HMS_KEY of
       Some hms \<Rightarrow> if contains hm_id hms then ret (Some u) else search_hm_id E hm_id us
     | None \<Rightarrow> search_hm_id E hm_id us)"

definition find_ovn_lb_from_hm_id ::
  "'w env \<Rightarrow> string \<Rightarrow> string option \<Rightarrow> ('w, hc_row list \<times> string option) io" where
  "find_ovn_lb_from_hm_id E hm_id lbhc_vip =
     bnd (nb_lb_rows E) (\<lambda>lbs.
     bnd (search_hm_id E hm_id lbs) (\<lambda>ovn_lb.
     catch
       (bnd (lookup_lbhcs_by_hm_id E hm_id) (\<lambda>lbhcs.
        ret (if truthy lbhc_vip then filter (\<lambda>lbhc. Some (hc_vip lbhc) = lbhc_vip) lbhcs else lbhcs, ovn_lb)))
       (\<lambda>e. if e = RowNotFound then ret ([], ovn_lb) else throw e)))"

section \<open>The rows of a health monitor\<close>

text \<open>The address of the load balancer with its additional ones, and the floating IPs likewise.\<close>

definition addresses_of :: "string pydict \<Rightarrow> string \<Rightarrow> string \<Rightarrow> string list" where
  "addresses_of ext one_key many_key =
     (case dict_get ext one_key of None \<Rightarrow> [] | Some v \<Rightarrow> [v])
     @ (case dict_get ext many_key of None \<Rightarrow> [] | Some vs \<Rightarrow> split_on CHR '','' vs)"

definition hm_vips :: "string pydict \<Rightarrow> string list" where
  "hm_vips ext = addresses_of ext LB_EXT_IDS_VIP_KEY LB_EXT_IDS_ADDIT_VIP_KEY"

definition hm_fips :: "string pydict \<Rightarrow> string list" where
  "hm_fips ext = addresses_of ext LB_EXT_IDS_VIP_FIP_KEY LB_EXT_IDS_ADDIT_VIP_FIP_KEY"

definition hc_base_external_ids :: "string \<Rightarrow> string \<Rightarrow> string pydict" where
  "hc_base_external_ids hm_id pool_key =
     [(LB_EXT_IDS_HM_KEY, hm_id),
      (LB_EXT_IDS_HM_POOL_KEY, drop (length LB_EXT_IDS_POOL_PREFIX) pool_key)]"

definition str_int_opt :: "int option \<Rightarrow> string" where
  "str_int_opt n = (case n of None \<Rightarrow> ''None'' | Some i \<Rightarrow> str_int i)"

definition hm_options :: "hm_info \<Rightarrow> string pydict" where
  "hm_options info =
     [(''interval'', str_int_opt (hi_interval info)), (''timeout'', str_int_opt (hi_timeout info)),
      (''success_count'', str_int_opt (hi_success_count info)),
      (''failure_count'', str_int_opt (hi_failure_count info))]"

text \<open>The \<open>vip\<close> column: empty when no listener forwards to the pool.\<close>

definition hc_vip_value :: "'a lib_scheme \<Rightarrow> string option \<Rightarrow> string \<Rightarrow> string res" where
  "hc_vip_value L vip_port vip =
     rbind (ip_version L vip) (\<lambda>version.
     let vip = (if version = 6 then bracketed vip else vip) in
     Inr (if truthy vip_port then vip @ '':'' @ the vip_port else []))"

text \<open>\<open>external_ids.get(HMS_KEY, [])\<close>, loaded; an empty string has no \<open>append\<close>.\<close>

definition load_hms_key :: "'a lib_scheme \<Rightarrow> string pydict \<Rightarrow> string list res" where
  "load_hms_key L ext =
     (case dict_get ext LB_EXT_IDS_HMS_KEY of
        None \<Rightarrow> Inr []
      | Some s \<Rightarrow> if s = [] then Inl AttributeError else loads_list L s)"

definition set_hms_key :: "'a lib_scheme \<Rightarrow> string \<Rightarrow> string list \<Rightarrow> cmd" where
  "set_hms_key L u hms =
     db_set Load_Balancer u EXT_IDS (StrMap [(LB_EXT_IDS_HMS_KEY, dumps_list L hms)])"

section \<open>_add_lbhc\<close>

definition add_vip_lbhc ::
  "'a lib_scheme \<Rightarrow> lb_row \<Rightarrow> string \<Rightarrow> hm_info \<Rightarrow> string option \<Rightarrow> string \<Rightarrow> cmd list res" where
  "add_vip_lbhc L ovn_lb pool_key info vip_port vip =
     rbind (hc_vip_value L vip_port vip) (\<lambda>vip_value.
     rbind (load_hms_key L (lb_external_ids ovn_lb)) (\<lambda>hms_key.
     Inr [db_create_hc vip_value (hm_options info)
            (dict_set (hc_base_external_ids (hi_id info) pool_key) LB_EXT_IDS_HM_VIP vip),
          db_add_created_hc (lb_uuid ovn_lb),
          set_hms_key L (lb_uuid ovn_lb) (hms_key @ [hi_id info])]))"

text \<open>All floating IPs share one \<open>external_ids\<close> dict: at the commit it holds the last of them.\<close>

definition add_fip_lbhc ::
  "'a lib_scheme \<Rightarrow> lb_row \<Rightarrow> string \<Rightarrow> hm_info \<Rightarrow> string option \<Rightarrow> string \<Rightarrow> string \<Rightarrow> cmd list res" where
  "add_fip_lbhc L ovn_lb pool_key info vip_port last_fip fip =
     rbind (hc_vip_value L vip_port fip) (\<lambda>vip_value.
     Inr [db_create_hc vip_value (hm_options info)
            (dict_set (hc_base_external_ids (hi_id info) pool_key) LB_EXT_IDS_HM_VIP last_fip),
          db_add_created_hc (lb_uuid ovn_lb)])"

definition add_lbhc_commands ::
  "'a lib_scheme \<Rightarrow> lb_row \<Rightarrow> string \<Rightarrow> hm_info \<Rightarrow> cmd list res" where
  "add_lbhc_commands L ovn_lb pool_key info =
     (let vip_port = get_pool_listener_port ovn_lb pool_key;
          fips = hm_fips (lb_external_ids ovn_lb)
      in
      rbind (mapR (add_vip_lbhc L ovn_lb pool_key info vip_port) (hm_vips (lb_external_ids ovn_lb))) (\<lambda>vip_cmds.
      rbind (mapR (add_fip_lbhc L ovn_lb pool_key info vip_port (last fips)) fips) (\<lambda>fip_cmds.
      Inr (concat vip_cmds @ concat fip_cmds))))"

definition add_lbhc :: "'w env \<Rightarrow> string \<Rightarrow> string \<Rightarrow> hm_info \<Rightarrow> ('w, entry) io" where
  "add_lbhc E u pool_key info =
     bnd (nb_lb E u) (\<lambda>ovn_lb.
     if hm_vips (lb_external_ids ovn_lb) = [] then ret (entry3 (hi_id info) ERROR ERROR)
     else
       catch
         (bnd (lift (add_lbhc_commands E ovn_lb pool_key info)) (\<lambda>commands.
          bnd (nb_txn E commands) (\<lambda>_.
          ret (entry3 (hi_id info) ACTIVE (if \<not> hi_admin_state_up info then OFFLINE else ONLINE)))))
         (\<lambda>_. ret (entry3 (hi_id info) ERROR ERROR)))"

section \<open>hm_create\<close>

text \<open>The loop over the members; False: a member could not be mapped and the loop was left.\<close>

primrec hm_create_members :: "'w env \<Rightarrow> string \<Rightarrow> string \<Rightarrow> mem_info list \<Rightarrow> ('w, bool) io" where
  "hm_create_members E u pool_key [] = ret True"
| "hm_create_members E u pool_key (m # ms) =
     (case m of (mb_ip, mb_port, mb_subnet, mb_id) \<Rightarrow>
      bnd (update_hm_member E u pool_key (Some mb_ip) False) (\<lambda>mb_status.
      if \<not> truthy mb_status then
        bnd (clean_ip_port_mappings E u (Some pool_key)) (\<lambda>_. ret False)
      else
        bnd (update_external_ids_member_status E u mb_id mb_status) (\<lambda>_.
        hm_create_members E u pool_key ms)))"

definition hm_create_status ::
  "hm_info \<Rightarrow> string \<Rightarrow> string list \<Rightarrow> entry list \<Rightarrow> status" where
  "hm_create_status info name pool_listeners member_status =
     [(HEALTHMONITORS,
        [[(ID, Some (hi_id info)), (OPERATING_STATUS, Some NO_MONITOR), (PROVISIONING_STATUS, Some ERROR)]]),
      (LOADBALANCERS, [entry2 name ACTIVE]),
      (POOLS, [entry3 (hi_pool_id info) ACTIVE ONLINE]),
      (LISTENERS, map (\<lambda>l. entry3 l ACTIVE ONLINE) pool_listeners),
      (MEMBERS, member_status)]"

definition hm_create_on_row :: "'w env \<Rightarrow> hm_info \<Rightarrow> string \<Rightarrow> string \<Rightarrow> ('w, status) io" where
  "hm_create_on_row E info u pool_key =
     bnd (nb_lb E u) (\<lambda>ovn_lb.
     let pool_listeners = get_pool_listeners ovn_lb pool_key in
     bnd (update_member_statuses E u (hi_pool_id info) ACTIVE ONLINE) (\<lambda>member_status.
     let status = hm_create_status info (lb_name ovn_lb) pool_listeners member_status in
     bnd (add_lbhc E u pool_key info) (\<lambda>hm_status.
     if dict_get hm_status PROVISIONING_STATUS = Some (Some ACTIVE) then
       bnd (nb_lb E u) (\<lambda>ovn_lb.
       bnd (lift (rbind (dict_item (lb_external_ids ovn_lb) pool_key) extract_member_info)) (\<lambda>members.
       bnd (hm_create_members E u pool_key members) (\<lambda>completed.
       if completed
       then bnd (get_current_operating_statuses E u) (\<lambda>status.
            ret (dict_set status HEALTHMONITORS [hm_status]))
       else ret (dict_set status HEALTHMONITORS [entry3 (hi_id info) ERROR ERROR]))))
     else ret (dict_set status HEALTHMONITORS [hm_status]))))"

definition hm_create :: "'w env \<Rightarrow> hm_info \<Rightarrow> ('w, status) io" where
  "hm_create E info =
     (let failed = (HEALTHMONITORS,
            [[(ID, Some (hi_id info)), (OPERATING_STATUS, Some NO_MONITOR), (PROVISIONING_STATUS, Some ERROR)]])
      in
      bnd (find_ovn_lb_by_pool_id E (hi_pool_id info)) (\<lambda>(pool_key, row).
      case row of
        None \<Rightarrow> ret [failed]
      | Some u \<Rightarrow>
          bnd (nb_lb E u) (\<lambda>ovn_lb.
          if \<not> dict_has (lb_external_ids ovn_lb) pool_key
          then ret [failed, (LOADBALANCERS, [entry2 (lb_name ovn_lb) ACTIVE]),
                    (POOLS, [[(ID, Some (hi_pool_id info)), (OPERATING_STATUS, Some OFFLINE)]])]
          else hm_create_on_row E info u pool_key)))"

section \<open>_sync_lbhc and hm_sync\<close>

text \<open>
  One address of the load balancer. \<open>compared\<close> is what the row's \<open>external_ids\<close> are compared with,
  \<open>written\<close> what is written: the code compares the rows of a floating IP with the dict of the last
  VIP. \<open>link\<close>: whether the loop also repairs the references to the rows (only for VIPs).
\<close>

definition sync_hc_columns ::
  "string \<Rightarrow> string pydict \<Rightarrow> string pydict \<Rightarrow> string pydict \<Rightarrow> hc_row \<Rightarrow> cmd list" where
  "sync_hc_columns vip_value options compared written lbhc =
     (let hc = hc_uuid lbhc in
      (if hc_vip lbhc \<noteq> vip_value
       then [db_set Load_Balancer_Health_Check hc ''vip'' (StrVal vip_value)] else [])
      @ (if \<not> dict_eq (hc_options lbhc) options
         then [db_set Load_Balancer_Health_Check hc ''options'' (StrMap options)] else [])
      @ (if \<not> dict_eq (hc_external_ids lbhc) compared
         then [db_set Load_Balancer_Health_Check hc EXT_IDS (StrMap written)] else []))"

text \<open>The rows of one VIP: \<open>hms_key\<close> grows when the id is missing, once.\<close>

definition sync_vip_lbhcs ::
  "'a lib_scheme \<Rightarrow> lb_row \<Rightarrow> hm_info \<Rightarrow> string \<Rightarrow> string pydict \<Rightarrow> hc_row list \<Rightarrow> string list res \<Rightarrow>
   (cmd list \<times> string list res) res" where
  "sync_vip_lbhcs L ovn_lb info vip_value external_ids_vip lbhcs hms_key =
     foldR (\<lambda>lbhc (commands, hms_key).
       let columns = sync_hc_columns vip_value (hm_options info) external_ids_vip external_ids_vip lbhc;
           relink = (if hc_uuid lbhc \<notin> set (lb_health_check ovn_lb)
                     then [db_add_hc (lb_uuid ovn_lb) (hc_uuid lbhc)] else [])
       in
       rbind hms_key (\<lambda>hms.
       if hi_id info \<notin> set hms
       then Inr (commands @ columns @ relink @ [set_hms_key L (lb_uuid ovn_lb) (hms @ [hi_id info])],
                 Inr (hms @ [hi_id info]))
       else Inr (commands @ columns @ relink, Inr hms))) lbhcs ([], hms_key)"

definition recreate_vip_lbhc ::
  "'a lib_scheme \<Rightarrow> lb_row \<Rightarrow> hm_info \<Rightarrow> string \<Rightarrow> string pydict \<Rightarrow> string list res \<Rightarrow> cmd list res" where
  "recreate_vip_lbhc L ovn_lb info vip_value external_ids_vip hms_key =
     rbind hms_key (\<lambda>hms.
     Inr ([db_create_hc vip_value (hm_options info) external_ids_vip,
           db_set_created_hc_vip vip_value, db_add_created_hc (lb_uuid ovn_lb)]
          @ (if hi_id info \<notin> set hms
             then [set_hms_key L (lb_uuid ovn_lb) (hms @ [hi_id info])] else [])))"

text \<open>
  An empty string under \<open>octavia:healthmonitors\<close> is not loaded and only raises where it is
  appended to; a malformed document raises before any lookup.
\<close>

definition sync_vip ::
  "'w env \<Rightarrow> lb_row \<Rightarrow> string \<Rightarrow> hm_info \<Rightarrow> string option \<Rightarrow> string \<Rightarrow> ('w, cmd list) io" where
  "sync_vip E ovn_lb pool_key info vip_port vip =
     (let external_ids_vip = dict_set (hc_base_external_ids (hi_id info) pool_key) LB_EXT_IDS_HM_VIP vip;
          hms_key = load_hms_key E (lb_external_ids ovn_lb)
      in
      bnd (lift (hc_vip_value E vip_port vip)) (\<lambda>vip_value.
      bnd (if dict_get (lb_external_ids ovn_lb) LB_EXT_IDS_HMS_KEY = Some [] then ret ()
           else bnd (lift hms_key) (\<lambda>_. ret ())) (\<lambda>_.
      bnd (find_ovn_lb_from_hm_id E (hi_id info) None) (\<lambda>(lbhcs, _).
      if lbhcs = [] then lift (recreate_vip_lbhc E ovn_lb info vip_value external_ids_vip hms_key)
      else bnd (lift (sync_vip_lbhcs E ovn_lb info vip_value external_ids_vip lbhcs hms_key))
             (\<lambda>(commands, _). ret commands)))))"

definition sync_fip ::
  "'w env \<Rightarrow> lb_row \<Rightarrow> string \<Rightarrow> hm_info \<Rightarrow> string option \<Rightarrow> string \<Rightarrow> string \<Rightarrow> string \<Rightarrow> ('w, cmd list) io" where
  "sync_fip E ovn_lb pool_key info vip_port last_vip last_fip fip =
     (let base = hc_base_external_ids (hi_id info) pool_key;
          external_ids_vip = dict_set base LB_EXT_IDS_HM_VIP last_vip;
          external_ids_fip = dict_set base LB_EXT_IDS_HM_VIP last_fip
      in
      bnd (lift (hc_vip_value E vip_port fip)) (\<lambda>vip_value.
      bnd (find_ovn_lb_from_hm_id E (hi_id info) None) (\<lambda>(lbhcs, _).
      if lbhcs = []
      then ret [db_create_hc vip_value (hm_options info) external_ids_fip,
                db_set_created_hc_vip vip_value, db_add_created_hc (lb_uuid ovn_lb)]
      else ret (concat (map (sync_hc_columns vip_value (hm_options info) external_ids_vip external_ids_fip)
                  lbhcs)))))"

text \<open>
  The transactions \<open>_execute_commands\<close> opens inside the block join the outer one (ovsdbapp nests the
  transactions of a thread), so everything is committed at its end or not at all.
\<close>

definition sync_lbhc :: "'w env \<Rightarrow> string \<Rightarrow> string \<Rightarrow> hm_info \<Rightarrow> ('w, unit) io" where
  "sync_lbhc E u pool_key hm =
     bnd (nb_lb E u) (\<lambda>ovn_lb.
     let vips = hm_vips (lb_external_ids ovn_lb);
         fips = hm_fips (lb_external_ids ovn_lb);
         vip_port = get_pool_listener_port ovn_lb pool_key
     in
     if vips = [] then throw DriverError
     else
       catch
         (bnd (map_io (sync_vip E ovn_lb pool_key hm vip_port) vips) (\<lambda>vip_cmds.
          bnd (map_io (sync_fip E ovn_lb pool_key hm vip_port (last vips) (last fips)) fips) (\<lambda>fip_cmds.
          nb_txn E (concat vip_cmds @ concat fip_cmds))))
         (\<lambda>_. throw DriverError))"

definition hm_sync :: "'w env \<Rightarrow> hm_info \<Rightarrow> string \<Rightarrow> ('w, unit) io" where
  "hm_sync E hm pool_key =
     bnd (find_ovn_lb_from_hm_id E (hi_id hm) None) (\<lambda>(lbhcs, row).
     if lbhcs = [] then bnd (hm_create E hm) (\<lambda>_. ret ())
     else
       bnd (the_row row) (\<lambda>u.
       bnd (update_member_statuses E u (hi_pool_id hm) ACTIVE ONLINE) (\<lambda>_.
       bnd (catch (sync_lbhc E u pool_key hm) (\<lambda>_. ret ())) (\<lambda>_.
       bnd (nb_lb E u) (\<lambda>ovn_lb.
       bnd (lift (rbind (dict_item (lb_external_ids ovn_lb) pool_key) extract_member_info)) (\<lambda>members.
       bnd (hm_create_members E u pool_key members) (\<lambda>_. ret ())))))))"

section \<open>hm_update\<close>

text \<open>Only the options of the request that are set (None and 0 are not) are written.\<close>

definition hm_update_options :: "hm_info \<Rightarrow> string pydict" where
  "hm_update_options info =
     concat (map (\<lambda>(k, n). case n of None \<Rightarrow> [] | Some i \<Rightarrow> if i = 0 then [] else [(k, str_int i)])
       [(''interval'', hi_interval info), (''timeout'', hi_timeout info),
        (''success_count'', hi_success_count info), (''failure_count'', hi_failure_count info)])"

definition hm_update_row :: "'w env \<Rightarrow> hm_info \<Rightarrow> hc_row list \<Rightarrow> string \<Rightarrow> ('w, status) io" where
  "hm_update_row E info lbhcs u =
     bnd (execute_commands E
            (map (\<lambda>lbhc. db_set Load_Balancer_Health_Check (hc_uuid lbhc) ''options''
                           (StrMap (hm_update_options info))) lbhcs)) (\<lambda>_.
     bnd (nb_lb E u) (\<lambda>ovn_lb.
     ret [(LOADBALANCERS, [entry2 (lb_name ovn_lb) ACTIVE]),
          (POOLS, [entry2 (hi_pool_id info) ACTIVE]),
          (HEALTHMONITORS,
            [[(ID, Some (hi_id info)),
              (OPERATING_STATUS, Some (if \<not> hi_admin_state_up info then OFFLINE else ONLINE)),
              (PROVISIONING_STATUS, Some ACTIVE)]])]))"

definition hm_update :: "'w env \<Rightarrow> hm_info \<Rightarrow> ('w, status) io" where
  "hm_update E info =
     (let failed = [(HEALTHMONITORS,
            [[(ID, Some (hi_id info)), (OPERATING_STATUS, Some ERROR), (PROVISIONING_STATUS, Some ERROR)]])]
      in
      bnd (find_ovn_lb_from_hm_id E (hi_id info) None) (\<lambda>(lbhcs, row).
      if lbhcs = [] then ret failed
      else
        (case row of
           Some u \<Rightarrow> hm_update_row E info lbhcs u
         | None \<Rightarrow>
             bnd (find_ovn_lb_by_pool_id E (hi_pool_id info)) (\<lambda>(_, row).
             case row of None \<Rightarrow> ret failed | Some u \<Rightarrow> hm_update_row E info lbhcs u))))"

section \<open>hm_delete\<close>

text \<open>The subnets of the members (a Python set, in the order it is iterated) and the listeners.\<close>

definition hm_delete_pool ::
  "'a lib_scheme \<Rightarrow> lb_row \<Rightarrow> string \<Rightarrow> (string list \<times> string list) res" where
  "hm_delete_pool L ovn_lb pool_id =
     (let pool_key = get_pool_key pool_id True in
      case dict_get (lb_external_ids ovn_lb) pool_key of
        None \<Rightarrow> Inr ([], [])
      | Some v \<Rightarrow>
          rbind (extract_member_info v) (\<lambda>members.
          Inr (set_order L (remdups (map (\<lambda>(mb_ip, mb_port, mb_subnet, mb_id). mb_subnet) members)),
               get_pool_listeners ovn_lb pool_key)))"

text \<open>The ids that remain; an unset or empty key has none.\<close>

definition remaining_hms :: "'a lib_scheme \<Rightarrow> string option \<Rightarrow> string \<Rightarrow> string list res" where
  "remaining_hms L hms_key hm_id =
     (if truthy hms_key then rbind (loads_list L (the hms_key)) (\<lambda>hms. Inr (remove1 hm_id hms)) else Inr [])"

definition hm_delete_commands ::
  "'a lib_scheme \<Rightarrow> string \<Rightarrow> hc_row list \<Rightarrow> string list \<Rightarrow> cmd list" where
  "hm_delete_commands L u lbhcs hms_key =
     concat (map (\<lambda>lbhc.
       [db_remove Load_Balancer u ''health_check'' (hc_uuid lbhc),
        db_destroy Load_Balancer_Health_Check (hc_uuid lbhc)]) lbhcs)
     @ (if hms_key \<noteq> [] then [set_hms_key L u hms_key]
        else [db_remove Load_Balancer u EXT_IDS LB_EXT_IDS_HMS_KEY])"

definition hm_deleted_entry :: "hm_info \<Rightarrow> entry" where
  "hm_deleted_entry info =
     [(ID, Some (hi_id info)), (OPERATING_STATUS, Some NO_MONITOR), (PROVISIONING_STATUS, Some DELETED)]"

definition hm_delete_row :: "'w env \<Rightarrow> hm_info \<Rightarrow> hc_row list \<Rightarrow> string \<Rightarrow> ('w, status) io" where
  "hm_delete_row E info lbhcs u =
     bnd (nb_lb E u) (\<lambda>ovn_lb.
     bnd (lift (hm_delete_pool E ovn_lb (hi_pool_id info))) (\<lambda>(member_subnets, pool_listeners).
     let hms_key = dict_get (lb_external_ids ovn_lb) LB_EXT_IDS_HMS_KEY in
     bnd (update_member_statuses E u (hi_pool_id info) ACTIVE NO_MONITOR) (\<lambda>member_status.
     bnd (lift (remaining_hms E hms_key (hi_id info))) (\<lambda>hms.
     bnd (clean_ip_port_mappings E u (Some (LB_EXT_IDS_POOL_PREFIX @ hi_pool_id info))) (\<lambda>_.
     bnd (execute_commands E (hm_delete_commands E u lbhcs hms)) (\<lambda>_.
     bnd (for_each (clean_up_hm_port E) member_subnets) (\<lambda>_.
     ret ([(LOADBALANCERS, [entry2 (lb_name ovn_lb) ACTIVE]),
           (POOLS, [entry2 (hi_pool_id info) ACTIVE]),
           (HEALTHMONITORS, [hm_deleted_entry info])]
          @ (if member_status \<noteq> [] then [(MEMBERS, member_status)] else [])
          @ [(LISTENERS, map (\<lambda>l. entry2 l ACTIVE) pool_listeners)]))))))))"

definition hm_delete :: "'w env \<Rightarrow> hm_info \<Rightarrow> ('w, status) io" where
  "hm_delete E info =
     bnd (find_ovn_lb_from_hm_id E (hi_id info) None) (\<lambda>(lbhcs, row).
     case row of
       None \<Rightarrow> ret [(HEALTHMONITORS, [hm_deleted_entry info])]
     | Some u \<Rightarrow>
         if lbhcs = [] then ret [(HEALTHMONITORS, [hm_deleted_entry info])]
         else hm_delete_row E info lbhcs u)"

section \<open>hm_purge\<close>

text \<open>The ids of a row; a malformed document raises.\<close>

definition hm_ids_of_row :: "'a lib_scheme \<Rightarrow> lb_row \<Rightarrow> string list res" where
  "hm_ids_of_row L ovn_lb =
     (let hms = dict_get (lb_external_ids ovn_lb) LB_EXT_IDS_HMS_KEY in
      if truthy hms then loads_list L (the hms) else Inr [])"

definition lbhc_uuids_of_hm :: "'w env \<Rightarrow> string \<Rightarrow> ('w, string list) io" where
  "lbhc_uuids_of_hm E hm_id =
     catch (bnd (lookup_lbhcs_by_hm_id E hm_id) (\<lambda>lbhcs. ret (map hc_uuid lbhcs)))
       (\<lambda>e. if e = RowNotFound then ret [] else throw e)"

text \<open>One row: the health checks of the row that no monitor accounts for (so far) are removed.\<close>

definition hm_purge_row :: "'w env \<Rightarrow> string \<Rightarrow> string list \<Rightarrow> ('w, string list) io" where
  "hm_purge_row E u fetch_hc_ids =
     bnd (nb_lb E u) (\<lambda>ovn_lb.
     bnd (lift (hm_ids_of_row E ovn_lb)) (\<lambda>hm_ids.
     bnd (map_io (lbhc_uuids_of_hm E) hm_ids) (\<lambda>ids.
     let fetch_hc_ids = fetch_hc_ids @ concat ids in
     bnd (for_each (\<lambda>hc.
            if hc \<in> set fetch_hc_ids then ret ()
            else catch (execute_commands E
                          [db_remove Load_Balancer u ''health_check'' hc,
                           db_destroy Load_Balancer_Health_Check hc])
                   (\<lambda>e. if e = RowNotFound then ret () else throw e))
            (lb_health_check ovn_lb)) (\<lambda>_.
     ret fetch_hc_ids))))"

definition hm_purge :: "'w env \<Rightarrow> string \<Rightarrow> ('w, unit) io" where
  "hm_purge E lb_id =
     bnd (catch (find_ovn_lbs_with_retry E lb_id) (\<lambda>e. if e = RowNotFound then ret [] else throw e)) (\<lambda>ovn_lbs.
     bnd (fold_io (hm_purge_row E) ovn_lbs []) (\<lambda>_. ret ()))"

section \<open>Service monitor events\<close>

record hm_event =
  he_ovn_lbs :: "string list"
  he_ip :: string
  he_port :: string
  he_status :: "string list"

definition get_lbs_on_hm_event :: "'w env \<Rightarrow> sm_row \<Rightarrow> ('w, string list option) io" where
  "get_lbs_on_hm_event E row =
     bnd (lift (ip_version E (sm_src_ip row))) (\<lambda>src_version.
     bnd (lift (ip_version E (sm_ip row))) (\<lambda>version.
     bnd (lift (item (sm_protocol row) 0)) (\<lambda>protocol.
     bnd (nb_lbs_by_mapping E
            (if version = 6 then bracketed (sm_ip row) else sm_ip row)
            (sm_logical_port row @ '':'' @
             (if src_version = 6 then bracketed (sm_src_ip row) else sm_src_ip row))
            protocol) (\<lambda>lbs.
     ret (if lbs \<noteq> [] then Some lbs else None)))))"

text \<open>The request the handler puts into the queue, if any.\<close>

definition sm_update_event_handler :: "'w env \<Rightarrow> sm_row \<Rightarrow> bool \<Rightarrow> ('w, hm_event option) io" where
  "sm_update_event_handler E row sm_delete_event =
     bnd (catch (get_lbs_on_hm_event E row) (\<lambda>e. if e = RowNotFound then ret None else throw e)) (\<lambda>ovn_lbs.
     ret (case ovn_lbs of
            None \<Rightarrow> None
          | Some lbs \<Rightarrow>
              Some \<lparr>he_ovn_lbs = lbs, he_ip = sm_ip row, he_port = str_int (sm_port row),
                    he_status = (if \<not> sm_delete_event then sm_status row
                                 else HM_EVENT_MEMBER_PORT_OFFLINE)\<rparr>))"

text \<open>
  The member of an event: a pool has one with the address and port, and then the id is that of
  the first part of the value that contains both as substrings.
\<close>

definition event_member_of_pool :: "string \<Rightarrow> string \<Rightarrow> string \<Rightarrow> string option res" where
  "event_member_of_pool ip port v =
     rbind (extract_member_info v) (\<lambda>members.
     if list_ex (\<lambda>(mb_ip, mb_port, _). ip = mb_ip \<and> port = mb_port) members then
       rbind (mapR (\<lambda>mb. item (split_on CHR ''_'' mb) 1)
                (filter (\<lambda>mb. contains ip mb \<and> contains port mb) (split_on CHR '','' v))) (\<lambda>ids.
       rbind (item ids 0) (\<lambda>i. Inr (Some i)))
     else Inr None)"

fun event_member :: "string \<Rightarrow> string \<Rightarrow> string pydict \<Rightarrow> string option res" where
  "event_member ip port [] = Inr None"
| "event_member ip port ((k, v) # items) =
     (if \<not> contains LB_EXT_IDS_POOL_PREFIX k then event_member ip port items
      else
        rbind (event_member_of_pool ip port v) (\<lambda>member_id.
        if truthy member_id then Inr member_id else event_member ip port items))"

definition event_member_status :: "string list \<Rightarrow> string" where
  "event_member_status st = (if st = HM_EVENT_MEMBER_PORT_OFFLINE then ERROR else ONLINE)"

primrec hm_event_statuses :: "'w env \<Rightarrow> hm_event \<Rightarrow> string list \<Rightarrow> ('w, status list) io" where
  "hm_event_statuses E info [] = ret []"
| "hm_event_statuses E info (u # us) =
     bnd (nb_lb E u) (\<lambda>ovn_lb.
     bnd (lift (event_member (he_ip info) (he_port info) (lb_external_ids ovn_lb))) (\<lambda>member_id.
     if \<not> truthy member_id then hm_event_statuses E info us
     else
       bnd (update_external_ids_member_status E u (the member_id)
              (Some (event_member_status (he_status info)))) (\<lambda>_.
       bnd (get_current_operating_statuses E u) (\<lambda>st.
       bnd (hm_event_statuses E info us) (\<lambda>sts. ret (st # sts))))))"

definition merge_statuses :: "status list \<Rightarrow> status" where
  "merge_statuses statuses =
     fold (\<lambda>status_lb status.
       fold (\<lambda>(k, es) status. dict_set status k (dict_get_default status k [] @ es)) status_lb status)
       statuses []"

definition hm_update_event :: "'w env \<Rightarrow> hm_event \<Rightarrow> ('w, status option) io" where
  "hm_update_event E info =
     bnd (hm_event_statuses E info (he_ovn_lbs info)) (\<lambda>statuses.
     ret (if statuses = [] then None else Some (merge_statuses statuses)))"

end
