(* ===== verification/FipOps.thy ===== *)
theory FipOps
  imports HmOps
begin

text \<open>
  Floating IPs (\<open>vip_port_update_handler\<close>, \<open>handle_vip_fip\<close>, \<open>handle_member_dvr\<close>, \<open>get_lsp\<close> of \<open>helper.py\<close>)
  and the event that reports them (\<open>LogicalSwitchPortUpdateEvent\<close> of \<open>event.py\<close>).
\<close>

section \<open>The address of a health check\<close>

definition check_lbhc_vip_format :: "string \<Rightarrow> bool" where
  "check_lbhc_vip_format vip =
     (vip \<noteq> [] \<and> (case rsplit1 CHR '':'' vip of [ip, port] \<Rightarrow> isdigit port | _ \<Rightarrow> False))"

definition get_vip_lbhc :: "hc_row \<Rightarrow> string" where
  "get_vip_lbhc lbhc =
     (let vip = dict_get_default (hc_external_ids lbhc) LB_EXT_IDS_HM_VIP [] in
      if vip \<noteq> [] then vip
      else if hc_vip lbhc \<noteq> [] then
        (case rsplit1 CHR '':'' (hc_vip lbhc) of [ip, port] \<Rightarrow> ip | _ \<Rightarrow> [])
      else [])"

section \<open>handle_vip_fip\<close>

record fip_info =
  vf_ovn_lb :: string
  vf_vip_fip :: string
  vf_vip_related :: "string list"
  vf_additional_vip_fip :: bool
  vf_action :: fip_action

text \<open>
  The floating IPs of the additional VIPs. An empty string stays a string in Python: it has
  neither \<open>append\<close> nor \<open>remove\<close> (AttributeError).
\<close>

definition append_addi_fip :: "string pydict \<Rightarrow> string \<Rightarrow> string res" where
  "append_addi_fip ext fip =
     (case dict_get ext LB_EXT_IDS_ADDIT_VIP_FIP_KEY of
        None \<Rightarrow> Inr fip
      | Some v \<Rightarrow> if v = [] then Inl AttributeError
                  else Inr (join '','' (split_on CHR '','' v @ [fip])))"

text \<open>What an association stores: the key and its new value.\<close>

definition vip_fip_info :: "string pydict \<Rightarrow> fip_info \<Rightarrow> (string \<times> string) res" where
  "vip_fip_info ext info =
     (if vf_additional_vip_fip info
      then rbind (append_addi_fip ext (vf_vip_fip info)) (\<lambda>v. Inr (LB_EXT_IDS_ADDIT_VIP_FIP_KEY, v))
      else Inr (LB_EXT_IDS_VIP_FIP_KEY, vf_vip_fip info))"

text \<open>The health check of the floating IP, with the port of the health check it is copied from.\<close>

definition fip_health_check :: "string \<Rightarrow> string \<Rightarrow> hc_row \<Rightarrow> cmd list" where
  "fip_health_check u fip lb_hc =
     [db_create_hc
        (if check_lbhc_vip_format (hc_vip lb_hc)
         then fip @ '':'' @ last (split_on CHR '':'' (hc_vip lb_hc)) else [])
        (hc_options lb_hc)
        (dict_set (hc_external_ids lb_hc) LB_EXT_IDS_HM_VIP fip),
      db_add_created_hc u]"

primrec any_hc_of_fip :: "'w env \<Rightarrow> string \<Rightarrow> string list \<Rightarrow> ('w, bool) io" where
  "any_hc_of_fip E fip [] = ret False"
| "any_hc_of_fip E fip (hc # hcs) =
     bnd (nb_hc E hc) (\<lambda>lb_hc. if get_vip_lbhc lb_hc = fip then ret True else any_hc_of_fip E fip hcs)"

definition create_fip_hcs :: "'w env \<Rightarrow> string \<Rightarrow> fip_info \<Rightarrow> string list \<Rightarrow> ('w, unit) io" where
  "create_fip_hcs E u info hcs =
     for_each (\<lambda>hc.
       bnd (nb_hc E hc) (\<lambda>lb_hc.
       if get_vip_lbhc lb_hc \<in> set (vf_vip_related info)
       then nb_txn E (fip_health_check u (vf_vip_fip info) lb_hc)
       else ret ())) hcs"

definition associate_vip_fip ::
  "'w env \<Rightarrow> lb_row \<Rightarrow> fip_info \<Rightarrow> ('w, cmd list \<times> string pydict) io" where
  "associate_vip_fip E ovn_lb info =
     (let u = lb_uuid ovn_lb; ext = lb_external_ids ovn_lb; is_sync = (vf_action info = REQ_INFO_ACTION_SYNC) in
      bnd (lift (vip_fip_info ext info)) (\<lambda>(key, value).
      let need_ext_set = (\<not> is_sync \<or> dict_get ext key \<noteq> Some value) in
      bnd (if is_sync then bnd (any_hc_of_fip E (vf_vip_fip info) (lb_health_check ovn_lb)) (\<lambda>b. ret (\<not> b))
           else ret True) (\<lambda>need_hc_set.
      bnd (if need_hc_set then create_fip_hcs E u info (lb_health_check ovn_lb) else ret ()) (\<lambda>_.
      ret (if need_ext_set then [db_set Load_Balancer u EXT_IDS (StrMap [(key, value)])] else [],
           dict_set ext key value)))))"

text \<open>
  The removal from the additional floating IPs. The local \<open>external_ids\<close> only changes when no
  floating IP is left.
\<close>

definition remove_addi_fip ::
  "string \<Rightarrow> string pydict \<Rightarrow> string \<Rightarrow> (cmd list \<times> string pydict) res" where
  "remove_addi_fip u ext fip =
     (case dict_get ext LB_EXT_IDS_ADDIT_VIP_FIP_KEY of
        None \<Rightarrow> Inr ([], ext)
      | Some v \<Rightarrow>
          if v = [] then (if fip = [] then Inl AttributeError else Inr ([], ext))
          else
            (let fips = split_on CHR '','' v; rest = remove1 fip fips in
             Inr (if fip \<notin> set fips then ([], ext)
                  else if rest \<noteq> [] then
                    ([db_set Load_Balancer u EXT_IDS
                        (StrMap [(LB_EXT_IDS_ADDIT_VIP_FIP_KEY, join '','' rest)])], ext)
                  else
                    ([db_remove Load_Balancer u EXT_IDS LB_EXT_IDS_ADDIT_VIP_FIP_KEY],
                     dict_del ext LB_EXT_IDS_ADDIT_VIP_FIP_KEY))))"

definition remove_vip_fip :: "string \<Rightarrow> string pydict \<Rightarrow> string \<Rightarrow> cmd list \<times> string pydict" where
  "remove_vip_fip u ext fip =
     (if dict_get ext LB_EXT_IDS_VIP_FIP_KEY = Some fip
      then ([db_remove Load_Balancer u EXT_IDS LB_EXT_IDS_VIP_FIP_KEY], dict_del ext LB_EXT_IDS_VIP_FIP_KEY)
      else ([], ext))"

text \<open>Only the first health check of the floating IP is removed.\<close>

primrec remove_fip_hc :: "'w env \<Rightarrow> string \<Rightarrow> string \<Rightarrow> string list \<Rightarrow> ('w, cmd list) io" where
  "remove_fip_hc E u fip [] = ret []"
| "remove_fip_hc E u fip (hc # hcs) =
     bnd (nb_hc E hc) (\<lambda>lb_hc.
     if get_vip_lbhc lb_hc = fip
     then ret [db_remove Load_Balancer u ''health_check'' (hc_uuid lb_hc),
               db_destroy Load_Balancer_Health_Check (hc_uuid lb_hc)]
     else remove_fip_hc E u fip hcs)"

definition disassociate_vip_fip ::
  "'w env \<Rightarrow> lb_row \<Rightarrow> fip_info \<Rightarrow> ('w, cmd list \<times> string pydict) io" where
  "disassociate_vip_fip E ovn_lb info =
     (let u = lb_uuid ovn_lb in
      bnd (lift (remove_addi_fip u (lb_external_ids ovn_lb) (vf_vip_fip info))) (\<lambda>(addi, ext).
      case remove_vip_fip u ext (vf_vip_fip info) of
        (fip, ext) \<Rightarrow>
      bnd (remove_fip_hc E u (vf_vip_fip info) (lb_health_check ovn_lb)) (\<lambda>hc.
      ret (addi @ fip @ hc, ext))))"

definition handle_vip_fip :: "'w env \<Rightarrow> fip_info \<Rightarrow> ('w, unit) io" where
  "handle_vip_fip E info =
     bnd (nb_lb E (vf_ovn_lb info)) (\<lambda>ovn_lb.
     bnd (if vf_action info = REQ_INFO_ACTION_ASSOCIATE \<or> vf_action info = REQ_INFO_ACTION_SYNC
          then associate_vip_fip E ovn_lb info else disassociate_vip_fip E ovn_lb info)
       (\<lambda>(commands, external_ids).
     bnd (lift (refresh_lb_vips E ovn_lb external_ids (vf_action info = REQ_INFO_ACTION_SYNC))) (\<lambda>refresh.
     execute_commands E (commands @ refresh))))"

section \<open>vip_port_update_handler\<close>

text \<open>
  The requests the handler queues, in order, and the exception that ended it early, if any; a
  sync handles each request at once instead.
\<close>

definition lb_of_vip_port :: "lsp_row \<Rightarrow> (string \<times> bool) res" where
  "lb_of_vip_port vip_lp =
     (case dict_get (lsp_external_ids vip_lp) OVN_PORT_NAME_EXT_ID_KEY of
        None \<Rightarrow> Inl AttributeError
      | Some port_name \<Rightarrow>
          Inr (if startswith port_name LB_VIP_ADDIT_PORT_PREFIX then (get_uuid port_name, True)
               else (drop (length LB_VIP_PORT_PREFIX) port_name, False)))"

primrec vip_port_requests ::
  "'w env \<Rightarrow> lsp_row \<Rightarrow> string \<Rightarrow> bool \<Rightarrow> fip_action \<Rightarrow> string list \<Rightarrow> ('w, fip_info list \<times> exn option) io"
where
  "vip_port_requests E vip_lp fip additional_vip action [] = ret ([], None)"
| "vip_port_requests E vip_lp fip additional_vip action (lb # lbs) =
     bnd (attempt (nt_get_port E (lsp_name vip_lp))) (\<lambda>r.
     case r of
       Inl e \<Rightarrow> ret ([], Some e)
     | Inr port \<Rightarrow>
         (let info = \<lparr>vf_ovn_lb = lb, vf_vip_fip = fip,
                      vf_vip_related = (case port of None \<Rightarrow> [] | Some p \<Rightarrow> map fi_ip_address (p_fixed_ips p)),
                      vf_additional_vip_fip = additional_vip, vf_action = action\<rparr>
          in
          if action \<noteq> REQ_INFO_ACTION_SYNC then
            bnd (vip_port_requests E vip_lp fip additional_vip action lbs) (\<lambda>(reqs, err).
            ret (info # reqs, err))
          else
            bnd (attempt (handle_vip_fip E info)) (\<lambda>r.
            case r of
              Inl e \<Rightarrow> ret ([], Some e)
            | Inr _ \<Rightarrow> vip_port_requests E vip_lp fip additional_vip action lbs)))"

definition vip_port_update_handler ::
  "'w env \<Rightarrow> lsp_row \<Rightarrow> string \<Rightarrow> fip_action \<Rightarrow> ('w, fip_info list \<times> exn option) io" where
  "vip_port_update_handler E vip_lp fip action =
     bnd (lift (lb_of_vip_port vip_lp)) (\<lambda>(lb_id, additional_vip).
     bnd (attempt (find_ovn_lbs_with_retry E lb_id)) (\<lambda>r.
     case r of
       Inl e \<Rightarrow> if e = RowNotFound then ret ([], None) else throw e
     | Inr ovn_lbs \<Rightarrow>
         bnd (get_neutron_client E) (\<lambda>_.
         vip_port_requests E vip_lp fip additional_vip action ovn_lbs)))"

section \<open>The event\<close>

definition lsp_event_match :: "lsp_row \<Rightarrow> bool \<Rightarrow> bool" where
  "lsp_event_match row old_has_external_ids =
     (old_has_external_ids \<and>
      startswith (dict_get_default (lsp_external_ids row) OVN_PORT_NAME_EXT_ID_KEY []) LB_VIP_PORT_PREFIX)"

text \<open>The action of a change of the floating IP and its address; None: no change.\<close>

definition lsp_fip_change :: "string option \<Rightarrow> string option \<Rightarrow> (fip_action \<times> string option) option" where
  "lsp_fip_change fip_old fip_new =
     (if fip_old \<noteq> fip_new then
        Some (if truthy fip_old \<and> fip_new = None then (REQ_INFO_ACTION_DISASSOCIATE, fip_old)
              else (REQ_INFO_ACTION_ASSOCIATE, fip_new))
      else None)"

definition lsp_event_change :: "lsp_row \<Rightarrow> string pydict \<Rightarrow> (fip_action \<times> string option) option" where
  "lsp_event_change row old_external_ids =
     lsp_fip_change (dict_get old_external_ids OVN_PORT_FIP_EXT_ID_KEY)
       (dict_get (lsp_external_ids row) OVN_PORT_FIP_EXT_ID_KEY)"

section \<open>handle_member_dvr\<close>

record dvr_info =
  dv_id :: string
  dv_address :: string
  dv_pool_id :: string
  dv_subnet_id :: "string option"
  dv_action :: member_action

text \<open>The NAT row of the floating IP of a member, if it has one.\<close>

definition member_fip :: "'w env \<Rightarrow> string \<Rightarrow> ls_row \<Rightarrow> ('w, nat_row option) io" where
  "member_fip E address ls =
     (case find (\<lambda>port. address \<in> set (remove_macs_from_lsp_addresses E (lsp_addresses port))) (sw_ports ls) of
        None \<Rightarrow> ret None
      | Some port \<Rightarrow>
          bnd (nb_nats_of_port E (lsp_name port)) (\<lambda>fips.
          ret (case fips of [] \<Rightarrow> None | fip # _ \<Rightarrow> Some fip)))"

text \<open>An empty update of the floating IP makes Neutron recompute it.\<close>

definition decentralize_fip :: "'w env \<Rightarrow> nat_row \<Rightarrow> ('w, unit) io" where
  "decentralize_fip E fip =
     catch
       (bnd (lift (dict_item (nat_external_ids fip) OVN_FIP_EXT_ID_KEY)) (\<lambda>fip_id.
        bnd (nt_get_ip E fip_id) (\<lambda>description.
        nt_update_ip E fip_id description)))
       (\<lambda>e. if e = ResourceNotFound then ret () else throw e)"

definition centralize_fip :: "'w env \<Rightarrow> nat_row \<Rightarrow> ('w, unit) io" where
  "centralize_fip E fip =
     bnd (nb_exec E (db_clear ''NAT'' (nat_uuid fip) ''external_mac'')) (\<lambda>_.
     nb_exec E (db_clear ''NAT'' (nat_uuid fip) ''logical_port''))"

definition handle_member_dvr :: "'w env \<Rightarrow> dvr_info \<Rightarrow> ('w, unit) io" where
  "handle_member_dvr E info =
     bnd (find_ovn_lb_by_pool_id E (dv_pool_id info)) (\<lambda>(pool_key, row).
     bnd (the_row row) (\<lambda>u.
     bnd (nb_lb E u) (\<lambda>ovn_lb.
     if \<not> truthy (dict_get (lb_external_ids ovn_lb) LB_EXT_IDS_VIP_FIP_KEY) \<and>
        \<not> truthy (dict_get (lb_external_ids ovn_lb) LB_EXT_IDS_ADDIT_VIP_FIP_KEY)
     then ret ()
     else
       bnd (get_neutron_client E) (\<lambda>_.
       bnd (lift (key_of (dv_subnet_id info))) (\<lambda>subnet_id.
       bnd (attempt (nt_get_subnet E (Some subnet_id))) (\<lambda>r.
       case r of
         Inl e \<Rightarrow> if e = ResourceNotFound then ret () else throw e
       | Inr subnet \<Rightarrow>
           bnd (attempt (nb_lookup_ls E (ovn_name (sn_network_id subnet)))) (\<lambda>r.
           case r of
             Inl e \<Rightarrow> if e = RowNotFound then ret () else throw e
           | Inr ls \<Rightarrow>
               bnd (member_fip E (dv_address info) ls) (\<lambda>fip.
               case fip of
                 None \<Rightarrow> ret ()
               | Some f \<Rightarrow>
                   if dv_action info = REQ_INFO_MEMBER_ADDED then centralize_fip E f
                   else decentralize_fip E f))))))))"

section \<open>Ports of a VIP\<close>

definition get_lsp :: "'w env \<Rightarrow> string \<Rightarrow> string \<Rightarrow> ('w, lsp_row option) io" where
  "get_lsp E port_id network_id =
     bnd (attempt (nb_lookup_ls E (ovn_name network_id))) (\<lambda>r.
     case r of
       Inl e \<Rightarrow> if e = RowNotFound then ret None else throw e
     | Inr ls \<Rightarrow> ret (find (\<lambda>port. contains port_id (lsp_name port)) (sw_ports ls)))"

text \<open>\<open>get_fip_from_vip\<close>: an HTTP error is logged and gives None.\<close>

definition get_fip_from_vip :: "'w env \<Rightarrow> string option \<Rightarrow> ('w, string list option) io" where
  "get_fip_from_vip E vip_port_id =
     bnd (get_neutron_client E) (\<lambda>_.
     catch (bnd (nt_ips_of_port E vip_port_id) (\<lambda>ips. ret (Some ips)))
       (\<lambda>e. if is_http_exn e then ret None else throw e))"

end
