(* ===== verification/RowSteps.thy ===== *)
theory RowSteps
  imports NbRows FipOps
begin

text \<open>
  The life of a load balancer row as a step relation: every transaction the handlers commit on the
  \<open>external_ids\<close> of a row is one step, given by the very function that builds its commands. Guards
  are what Octavia and Neutron ensure (a pool is created once; ids are not substrings of each
  other). The invariant: on every reachable row the \<open>vips\<close> column is exactly what its listeners, pools
  and members ask for (\<open>vips_ok\<close>).
\<close>

section \<open>Association commands\<close>

text \<open>
  What the association with switches and routers does to a row: its two reference keys only. A health
  monitor adds its id and its health checks; the choice of a protocol for a row without one
  (\<open>_get_or_create_ovn_lb\<close>) is as harmless.
\<close>

abbreviation bookkeeping_keys :: "string set" where
  "bookkeeping_keys \<equiv> {LB_EXT_IDS_LS_REFS_KEY, LB_EXT_IDS_LR_REF_KEY, LB_EXT_IDS_HMS_KEY}"

fun assoc_cmd :: "cmd \<Rightarrow> bool" where
  "assoc_cmd (ls_lb_add ls u m) = True"
| "assoc_cmd (ls_lb_del ls u i) = True"
| "assoc_cmd (lr_lb_add ls u m) = True"
| "assoc_cmd (lr_lb_del ls u i) = True"
| "assoc_cmd (db_set t u col (StrMap m)) =
     (col = EXT_IDS \<and> list_all (\<lambda>(k, v). k \<in> bookkeeping_keys) m)"
| "assoc_cmd (db_set t u col (StrVal p)) = (col = ''protocol'')"
| "assoc_cmd (db_remove t u col k) =
     (col = EXT_IDS \<and> k \<in> {LB_EXT_IDS_LR_REF_KEY, LB_EXT_IDS_HMS_KEY} \<or> col = ''health_check'')"
| "assoc_cmd (db_create_hc v o1 e) = True"
| "assoc_cmd (db_add_created_hc u) = True"
| "assoc_cmd (db_destroy t u) = True"
| "assoc_cmd c = False"

lemma update_ls_refs_assoc:
  "case update_ls_refs u ext refs name ls associate additional skip of
     Inl cmds \<Rightarrow> list_all assoc_cmd cmds | Inr (cmds, refs') \<Rightarrow> list_all assoc_cmd cmds"
  by (auto simp: update_ls_refs_def Let_def split: option.splits)

lemma write_ls_refs_assoc: "write_ls_refs L u ext refs upd sync = Inr cmds \<Longrightarrow> list_all assoc_cmd cmds"
  by (auto simp: write_ls_refs_def split: if_splits)

lemma add_lr_ref_assoc: "list_all assoc_cmd (add_lr_ref u name rf)"
  by (simp add: add_lr_ref_def)

lemma del_lb_to_lr_assoc: "del_lb_to_lr_association L lb lr rf = Inr cmds \<Longrightarrow> list_all assoc_cmd cmds"
  by (auto simp: del_lb_to_lr_association_def Let_def list_all_iff split: if_splits)

lemma assoc_leaves: "list_all assoc_cmd cmds \<Longrightarrow> leaves ''vips'' cmds"
proof -
  have "assoc_cmd c \<Longrightarrow> leaves ''vips'' [c]" for c
    by (induction c rule: assoc_cmd.induct) (auto simp: leaves_def)
  then show "list_all assoc_cmd cmds \<Longrightarrow> leaves ''vips'' cmds"
    by (auto simp: leaves_def list_all_iff)
qed

lemma assoc_keys:
  "list_all assoc_cmd cmds \<Longrightarrow> k \<notin> bookkeeping_keys \<Longrightarrow>
   map_of (cols_after u EXT_IDS cmds d) k = map_of d k"
proof (induction cmds arbitrary: d)
  case (Cons c cmds)
  have "map_of (dict_merge d m) k = map_of d k"
    if "list_all (\<lambda>(k, v). k \<in> bookkeeping_keys) m" for m :: "string pydict"
    by (rule dict_merge_get_other) (use that Cons.prems(2) in \<open>auto simp: list_all_iff\<close>)
  then have "map_of (map_col u EXT_IDS c d) k = map_of d k"
    using Cons.prems by (cases "(u, EXT_IDS, c, d)" rule: map_col.cases) auto
  with Cons show ?case by simp
qed simp

lemma assoc_irrelevant:
  "\<not> vip_relevant LB_EXT_IDS_LS_REFS_KEY" "\<not> vip_relevant LB_EXT_IDS_LR_REF_KEY"
  "\<not> vip_relevant LB_EXT_IDS_HMS_KEY"
  by (simp_all add: vip_relevant_def contains_simps startswith_def)

section \<open>Steps\<close>

text \<open>The key of the pool is new, and a listener it is created for has no pool yet.\<close>

definition fresh_pool :: "pool_dict \<Rightarrow> bool \<Rightarrow> string pydict \<Rightarrow> bool" where
  "fresh_pool pool up ext \<longleftrightarrow>
     \<not> dict_has ext (get_pool_key (pl_id pool) up) \<and>
     (truthy (pl_listener_id pool) \<longrightarrow>
        (case dict_get ext (get_listener_key (the (pl_listener_id pool)) True) of
           None \<Rightarrow> True
         | Some v \<Rightarrow> (\<exists>p. v = make_listener_key_value p [])))"

text \<open>The floating IP is no additional one, or the only one (see \<open>remove_addi_fip\<close>).\<close>

definition only_addi_fip :: "string pydict \<Rightarrow> string \<Rightarrow> bool" where
  "only_addi_fip ext fip \<longleftrightarrow>
     (case dict_get ext LB_EXT_IDS_ADDIT_VIP_FIP_KEY of
        None \<Rightarrow> True
      | Some v \<Rightarrow> fip \<notin> set (split_on CHR '','' v) \<or> split_on CHR '','' v = [fip])"

text \<open>\<open>pool_delete\<close> detaches every listener whose value contains the pool's key; it must be its pool.\<close>

definition exact_pool_refs :: "string \<Rightarrow> string pydict \<Rightarrow> bool" where
  "exact_pool_refs pool_key ext \<longleftrightarrow>
     (\<forall>k v. dict_get ext k = Some v \<longrightarrow> startswith k LB_EXT_IDS_LISTENER_PREFIX \<longrightarrow> contains pool_key v \<longrightarrow>
        snd (extract_listener_key_value v) \<in> {None, Some pool_key})"

inductive row_step :: "'a lib_scheme \<Rightarrow> lb_row \<Rightarrow> lb_row \<Rightarrow> bool" for L where
  listener_created:
    "listener_create_commands L r l (get_listener_key (ld_id l) up)
       (if truthy (default_pool l) then get_pool_key (the (default_pool l)) True else []) = Inr cmds \<Longrightarrow>
     applied cmds r r' \<Longrightarrow> row_step L r r'"
| listener_updated:
    "present_listener_key l (lb_external_ids r) = Some k \<Longrightarrow>
     listener_update_commands L r l k = Inr cmds \<Longrightarrow> applied cmds r r' \<Longrightarrow> row_step L r r'"
| listener_deleted:
    "listener_delete_commands L r (get_listener_key i True) clean False = Inr cmds \<Longrightarrow>
     clean \<in> {[], [db_set Load_Balancer (lb_uuid r) ''protocol'' (StrList [])]} \<Longrightarrow>
     applied cmds r r' \<Longrightarrow> row_step L r r'"
| listener_synced:
    "build_listener_info l (lb_external_ids r) = (k, info, ext) \<Longrightarrow>
     refresh_lb_vips L r ext True = Inr refresh \<Longrightarrow>
     applied ((update_listener_key_if_needed k info r @ update_protocol_if_needed l r) @ refresh) r r' \<Longrightarrow>
     row_step L r r'"
| pool_created:
    "fresh_pool pool up (lb_external_ids r) \<Longrightarrow>
     applied (pool_create_commands r pool up) r r' \<Longrightarrow> row_step L r r'"
| pool_updated:
    "pool_update_commands L r pool = Inr cmds \<Longrightarrow> applied cmds r r' \<Longrightarrow> row_step L r r'"
| pool_deleted:
    "exact_pool_refs (get_pool_key (pl_id pool) True) (lb_external_ids r) \<Longrightarrow>
     \<not> contains LB_EXT_IDS_LISTENER_PREFIX (get_pool_key (pl_id pool) True) \<Longrightarrow>
     pool_delete_commands L r pool = Inr (cmds, ext) \<Longrightarrow>
     clean \<in> {[], [db_set Load_Balancer (lb_uuid r) ''protocol'' (StrList [])]} \<Longrightarrow>
     applied (cmds @ clean) r r' \<Longrightarrow> row_step L r r'"
| pool_value_changed:
    "startswith pool_key LB_EXT_IDS_POOL_PREFIX \<Longrightarrow> \<not> contains LB_EXT_IDS_LISTENER_PREFIX pool_key \<Longrightarrow>
     pool_value_commands L r pool_key value True is_sync = Inr cmds \<Longrightarrow>
     applied cmds r r' \<Longrightarrow> row_step L r r'"
| member_updated:
    "written \<in> {[], [member_status_command L (lb_uuid r) d]} \<Longrightarrow> applied written r r1 \<Longrightarrow>
     refresh_lb_vips L r1 (lb_external_ids r1) False = Inr cmds \<Longrightarrow>
     applied cmds r1 r' \<Longrightarrow> row_step L r r'"
| fip_associated:
    "vip_fip_info (lb_external_ids r) info = Inr (k, v) \<Longrightarrow>
     refresh_lb_vips L r (dict_set (lb_external_ids r) k v) False = Inr refresh \<Longrightarrow>
     applied ([db_set Load_Balancer (lb_uuid r) EXT_IDS (StrMap [(k, v)])] @ refresh) r r' \<Longrightarrow>
     row_step L r r'"
| fip_disassociated:
    "only_addi_fip (lb_external_ids r) fip \<Longrightarrow>
     remove_addi_fip (lb_uuid r) (lb_external_ids r) fip = Inr (addi, ext1) \<Longrightarrow>
     remove_vip_fip (lb_uuid r) ext1 fip = (cmds, ext) \<Longrightarrow>
     refresh_lb_vips L r ext False = Inr refresh \<Longrightarrow>
     applied ((addi @ cmds) @ refresh) r r' \<Longrightarrow> row_step L r r'"
| status_written:
    "applied [member_status_command L (lb_uuid r) d] r r' \<Longrightarrow> same_offline L r r' \<Longrightarrow> row_step L r r'"
| associated:
    "list_all assoc_cmd cmds \<Longrightarrow> applied cmds r r' \<Longrightarrow> row_step L r r'"

inductive_cases row_stepE: "row_step L r r'"

text \<open>A row as \<open>lb_create\<close> makes it: addresses, but no listener, no pool, no vips.\<close>

definition created_row :: "lb_row \<Rightarrow> bool" where
  "created_row r \<longleftrightarrow>
     lb_vips r = [] \<and> distinct (dict_keys (lb_external_ids r)) \<and>
     list_all (\<lambda>k. \<not> contains LB_EXT_IDS_LISTENER_PREFIX k) (dict_keys (lb_external_ids r))"

inductive reachable_row :: "'a lib_scheme \<Rightarrow> lb_row \<Rightarrow> bool" for L where
  created: "created_row r \<Longrightarrow> reachable_row L r"
| step: "reachable_row L r \<Longrightarrow> row_step L r r' \<Longrightarrow> reachable_row L r'"

section \<open>The invariant\<close>

definition row_inv :: "'a lib_scheme \<Rightarrow> lb_row \<Rightarrow> bool" where
  "row_inv L r \<longleftrightarrow> distinct (dict_keys (lb_external_ids r)) \<and> wf_refs (lb_external_ids r) \<and> vips_ok L r"

lemma created_row_inv: "created_row r \<Longrightarrow> row_inv L r"
proof -
  assume r: "created_row r"
  have no: "\<not> contains LB_EXT_IDS_LISTENER_PREFIX k" if "(k, v) \<in> set (lb_external_ids r)" for k v
    using r that by (force simp: created_row_def list_all_iff)
  then have "wf_refs (lb_external_ids r)" by (auto simp: wf_refs_def)
  moreover have "\<not> serves_row L r (lb_external_ids r) key val" for key val
    unfolding serves_row_def using no serves_listener by (blast dest: dict_get_mem)
  ultimately show "row_inv L r"
    using r by (simp add: row_inv_def vips_ok_def vips_match_def created_row_def)
qed

text \<open>The steps that end with the commands of \<open>_refresh_lb_vips\<close>.\<close>

lemma refresh_post_inv:
  assumes "refresh_lb_vips L r ext' is_sync = Inr refresh" and "applied (pre @ refresh @ post) r r'"
    and "leaves ''vips'' pre" and "leaves ''vips'' post" and "leaves EXT_IDS post"
    and "map_of (cols_after (lb_uuid r) EXT_IDS pre (lb_external_ids r)) = map_of ext'"
    and "dict_get ext' OVN_MEMBER_STATUS_KEY = dict_get (lb_external_ids r) OVN_MEMBER_STATUS_KEY"
    and "distinct (dict_keys ext')" and "wf_refs ext'"
  shows "row_inv L r'"
  using refresh_applied [OF assms] appliedD(3) [OF assms(2)] assms(8,9)
    wf_refs_cong [of "lb_external_ids r'" ext']
  by (simp add: row_inv_def)

lemma refresh_inv:
  assumes "refresh_lb_vips L r ext' is_sync = Inr refresh" and "applied (pre @ refresh) r r'"
    and "leaves ''vips'' pre"
    and "map_of (cols_after (lb_uuid r) EXT_IDS pre (lb_external_ids r)) = map_of ext'"
    and "dict_get ext' OVN_MEMBER_STATUS_KEY = dict_get (lb_external_ids r) OVN_MEMBER_STATUS_KEY"
    and "distinct (dict_keys ext')" and "wf_refs ext'"
  shows "row_inv L r'"
  by (rule refresh_post_inv [OF assms(1) _ assms(3) _ _ assms(4-7), where post = "[]"])
    (use assms(2) in simp_all)

text \<open>What a rebuild of the \<open>vips\<close> needs; the column itself may hold anything.\<close>

definition refs_ok :: "lb_row \<Rightarrow> bool" where
  "refs_ok r \<longleftrightarrow> distinct (dict_keys (lb_external_ids r)) \<and> wf_refs (lb_external_ids r)"

lemma refs_okD:
  assumes "refs_ok r"
  shows "distinct (dict_keys (lb_external_ids r))" "wf_refs (lb_external_ids r)"
  using assms by (simp_all add: refs_ok_def)

lemma row_inv_refs: "row_inv L r \<Longrightarrow> refs_ok r"
  by (simp add: refs_ok_def row_inv_def)

lemma row_invD:
  assumes "row_inv L r"
  shows "distinct (dict_keys (lb_external_ids r))" "wf_refs (lb_external_ids r)" "vips_ok L r"
  using assms by (simp_all add: row_inv_def)

lemma leaves_set_ext [simp]:
  "leaves ''vips'' [db_set t u EXT_IDS v]" "leaves ''vips'' [db_remove t u EXT_IDS k]"
  "leaves ''vips'' [db_set t u ''protocol'' w]" "leaves ''vips'' [db_set t u ''options'' w]"
  by (simp_all add: leaves_def)

lemma keys_neq_status [simp]:
  "get_listener_key i en \<noteq> OVN_MEMBER_STATUS_KEY" "OVN_MEMBER_STATUS_KEY \<noteq> get_listener_key i en"
  "get_pool_key i en \<noteq> OVN_MEMBER_STATUS_KEY" "OVN_MEMBER_STATUS_KEY \<noteq> get_pool_key i en"
  by (simp_all add: get_listener_key_def get_pool_key_def Let_def)

lemma listener_created_inv:
  assumes "refs_ok r" and "applied cmds r r'"
    and "listener_create_commands L r l (get_listener_key i up) q = Inr cmds"
    and "q = [] \<or> startswith q LB_EXT_IDS_POOL_PREFIX"
  shows "row_inv L r'"
proof -
  let ?k = "get_listener_key i up" and ?v = "make_listener_key_value (ld_protocol_port l) q"
  let ?pre = "[db_set Load_Balancer (lb_uuid r) EXT_IDS (StrMap [(?k, ?v)])]
    @ (if \<not> is_listener_in_lb r
       then [db_set Load_Balancer (lb_uuid r) ''protocol'' (StrVal (lower (ld_protocol l)))] else [])"
  from assms(3) obtain refresh where
    f: "refresh_lb_vips L r (dict_set (lb_external_ids r) ?k ?v) False = Inr refresh"
    and c: "cmds = ?pre @ refresh"
    by (auto simp: listener_create_commands_def Let_def)
  show ?thesis
    by (rule refresh_inv [OF f, where pre = ?pre])
      (use assms(2,4) refs_okD [OF assms(1)] in
        \<open>simp_all add: c distinct_dict wf_refs_set forwards_make\<close>)
qed

lemma listener_updated_inv:
  assumes "refs_ok r" and "applied cmds r r'"
    and "present_listener_key l (lb_external_ids r) = Some k"
    and "listener_update_commands L r l k = Inr cmds"
  shows "row_inv L r'"
proof -
  let ?ext = "lb_external_ids r"
  from assms(3) obtain en where k: "k = get_listener_key (ld_id l) en" and has: "dict_has ?ext k"
    by (auto simp: present_listener_key_def split: if_splits)
  then obtain v where v: "dict_get ?ext k = Some v" by (auto simp: dict_has_def)
  have fv: "forwards_to_pools v"
    using refs_okD [OF assms(1)] v by (auto simp: wf_refs_get k)
  from assms(4) obtain ext' add rem refresh where
    keys: "listener_update_keys l k ?ext = Inr (ext', add, rem)"
    and f: "refresh_lb_vips L r ext' False = Inr refresh"
    and c: "cmds = ((case rem of None \<Rightarrow> [] | Some k \<Rightarrow> [db_remove Load_Balancer (lb_uuid r) EXT_IDS k])
          @ (if add \<noteq> [] then [db_set Load_Balancer (lb_uuid r) EXT_IDS (StrMap add)] else [])) @ refresh"
    by (auto simp: listener_update_commands_def)
  let ?pre = "(case rem of None \<Rightarrow> [] | Some k \<Rightarrow> [db_remove Load_Balancer (lb_uuid r) EXT_IDS k])
          @ (if add \<noteq> [] then [db_set Load_Balancer (lb_uuid r) EXT_IDS (StrMap add)] else [])"
  have ext: "map_of (cols_after (lb_uuid r) EXT_IDS ?pre ?ext) = map_of ext'"
    and st: "dict_get ext' OVN_MEMBER_STATUS_KEY = dict_get ?ext OVN_MEMBER_STATUS_KEY"
    and d: "distinct (dict_keys ext')" and wf: "wf_refs ext'"
    using keys refs_okD [OF assms(1)] v fv
    by (auto simp: listener_update_keys_def k Let_def distinct_dict wf_refs_set wf_refs_del fun_eq_iff
        split: option.splits if_splits)
  have "leaves ''vips'' ?pre" by (auto split: option.splits)
  from refresh_inv [OF f assms(2) [unfolded c] this ext st d wf] show ?thesis .
qed

lemma listener_deleted_inv:
  assumes "refs_ok r" and "applied cmds r r'"
    and "listener_delete_commands L r (get_listener_key i True) clean False = Inr cmds"
    and "clean \<in> {[], [db_set Load_Balancer (lb_uuid r) ''protocol'' (StrList [])]}"
  shows "row_inv L r'"
proof -
  let ?k = "get_listener_key i True"
  let ?pre = "[db_remove Load_Balancer (lb_uuid r) EXT_IDS ?k] @ clean"
  from assms(3) obtain refresh where
    f: "refresh_lb_vips L r (dict_del (lb_external_ids r) ?k) False = Inr refresh"
    and c: "cmds = ?pre @ refresh"
    by (auto simp: listener_delete_commands_def Let_def)
  show ?thesis
    by (rule refresh_inv [OF f, where pre = ?pre])
      (use assms(2,4) refs_okD [OF assms(1)] in \<open>auto simp: c distinct_dict wf_refs_del leaves_def\<close>)
qed

lemma listener_synced_inv:
  assumes "refs_ok r"
    and "build_listener_info l (lb_external_ids r) = (k, info, ext)"
    and f: "refresh_lb_vips L r ext True = Inr refresh"
    and a: "applied ((update_listener_key_if_needed k info r @ update_protocol_if_needed l r) @ refresh) r r'"
  shows "row_inv L r'"
proof -
  let ?pre = "update_listener_key_if_needed k info r @ update_protocol_if_needed l r"
  define en where "en = (ld_admin_state_up l = Some True)"
  define q where "q = (if truthy (default_pool l) then get_pool_key (the (default_pool l)) True else [])"
  have q: "q = [] \<or> startswith q LB_EXT_IDS_POOL_PREFIX"
    by (simp add: q_def get_pool_key_def startswith_def)
  have k: "k = get_listener_key (ld_id l) en"
    and i: "info = [(k, make_listener_key_value (ld_protocol_port l) q)]"
    and e: "ext = dict_set (lb_external_ids r) k (make_listener_key_value (ld_protocol_port l) q)"
    using assms(2) by (auto simp: build_listener_info_def Let_def q_def en_def)
  have "map_of (cols_after (lb_uuid r) EXT_IDS ?pre (lb_external_ids r)) = map_of ext"
    by (auto simp: update_listener_key_if_needed_def update_protocol_if_needed_def i e Let_def fun_eq_iff
        dict_get_default_def dict_has_def split: option.splits)
  then show ?thesis
    by (intro refresh_inv [OF f a])
      (use refs_okD [OF assms(1)] q in \<open>auto simp: update_listener_key_if_needed_def
        update_protocol_if_needed_def e k Let_def distinct_dict wf_refs_set forwards_make\<close>)
qed

lemma contains_listener_pool [simp]: "\<not> contains LB_EXT_IDS_LISTENER_PREFIX OVN_MEMBER_STATUS_KEY"
  by (simp add: contains_simps)

text \<open>A new pool is empty and its listener had none, so nothing is served that was not before.\<close>

lemma split_make_listener:
  assumes "forwards_to_pools v" and "extract_listener_key_value v = (Some p, Some q)" and "q \<noteq> []"
  shows "startswith q LB_EXT_IDS_POOL_PREFIX"
  using assms by (simp add: forwards_to_pools_def)

lemma applied_external_ids:
  assumes "applied cmds r r'" and "map_of (cols_after (lb_uuid r) EXT_IDS cmds (lb_external_ids r)) = map_of ext'"
    and "distinct (dict_keys ext')" and "wf_refs ext'"
  shows "map_of (lb_external_ids r') = map_of ext'" "wf_refs (lb_external_ids r')"
  using appliedD(1,3) [OF assms(1)] assms(2-4) wf_refs_cong [of "lb_external_ids r'" ext'] by simp_all

text \<open>Changes of \<open>external_ids\<close> under which the same entries are served.\<close>

lemma same_serves_inv:
  assumes inv: "row_inv L r" and a: "applied cmds r r'" and "leaves ''vips'' cmds"
    and ext: "map_of (cols_after (lb_uuid r) EXT_IDS cmds (lb_external_ids r)) = map_of ext'"
    and "distinct (dict_keys ext')" and "wf_refs ext'"
    and "dict_get ext' OVN_MEMBER_STATUS_KEY = dict_get (lb_external_ids r) OVN_MEMBER_STATUS_KEY"
    and serves: "\<And>key val. serves_row L r ext' key val \<longleftrightarrow> serves_row L r (lb_external_ids r) key val"
  shows "row_inv L r'"
proof -
  note e = applied_external_ids [OF a ext assms(5,6)]
  have vips: "map_of (lb_vips r') = map_of (lb_vips r)"
    using appliedD(2) [OF a] by (simp add: cols_after_leaves [OF assms(3)])
  have "serves_row L r' (lb_external_ids r') key val \<longleftrightarrow> serves_row L r ext' key val" for key val
    by (rule serves_row_cong [symmetric])
      (simp_all add: same_vip_keys_def e assms(6,7) same_offlineI)
  with inv serves e vips appliedD(3) [OF a] show ?thesis
    by (simp add: row_inv_def vips_ok_def vips_match_def dict_has_def)
qed

lemma associated_inv:
  assumes inv: "row_inv L r" and "list_all assoc_cmd cmds" and a: "applied cmds r r'"
  shows "row_inv L r'"
proof -
  let ?ext = "lb_external_ids r" and ?refs = bookkeeping_keys
  have same: "map_of (lb_external_ids r') j = map_of ?ext j" if "j \<notin> ?refs" for j
    using appliedD(1) [OF a] assoc_keys [OF assms(2) that] by simp
  have rel: "j \<notin> ?refs" if "vip_relevant j" for j
    using that assoc_irrelevant by blast
  have vips: "same_vip_keys ?ext (lb_external_ids r')"
    using same rel by (simp add: same_vip_keys_def)
  have "same_offline L r r'" by (rule same_offlineI) (simp add: same)
  then have "vips_ok L r'"
    using appliedD(2) [OF a] cols_after_leaves [OF assoc_leaves [OF assms(2)]]
    by (intro unrelated_vips_ok [OF row_invD(3,2) [OF inv] vips]) simp_all
  moreover have "wf_refs (lb_external_ids r')"
    unfolding wf_refs_get [OF appliedD(3) [OF a]]
  proof (intro allI impI)
    fix j v
    assume j: "map_of (lb_external_ids r') j = Some v" "contains LB_EXT_IDS_LISTENER_PREFIX j"
    from j(2) have "j \<notin> ?refs" by (intro rel) (simp add: vip_relevant_def)
    from same [OF this] j row_invD(1,2) [OF inv] show "forwards_to_pools v"
      by (simp add: wf_refs_get)
  qed
  ultimately show ?thesis using appliedD(3) [OF a] by (simp add: row_inv_def)
qed

text \<open>A status that takes no member offline and brings none back.\<close>

lemma status_written_inv:
  assumes inv: "row_inv L r" and a: "applied [member_status_command L (lb_uuid r) d] r r'" and "same_offline L r r'"
  shows "row_inv L r'"
proof -
  have same: "map_of (lb_external_ids r') j = map_of (lb_external_ids r) j" if "j \<noteq> OVN_MEMBER_STATUS_KEY" for j
    using appliedD(1) [OF a] that by (simp add: member_status_command_def split: if_splits)
  have "leaves ''vips'' [member_status_command L (lb_uuid r) d]"
    by (simp add: member_status_command_def)
  note vips = appliedD(2) [OF a, unfolded cols_after_leaves [OF this]]
  have rel: "\<not> vip_relevant OVN_MEMBER_STATUS_KEY"
    by (simp add: vip_relevant_def contains_simps startswith_def)
  have "dict_get (lb_external_ids r') k = dict_get (lb_external_ids r) k" if "vip_relevant k" for k
    by (rule same) (use that rel in blast)
  then have "same_vip_keys (lb_external_ids r) (lb_external_ids r')"
    by (simp add: same_vip_keys_def)
  from unrelated_vips_ok [OF row_invD(3,2) [OF inv] this vips [symmetric] assms(3)] have "vips_ok L r'" .
  moreover have "wf_refs (lb_external_ids r')"
    unfolding wf_refs_get [OF appliedD(3) [OF a]]
  proof (intro allI impI)
    fix j v
    assume j: "map_of (lb_external_ids r') j = Some v" "contains LB_EXT_IDS_LISTENER_PREFIX j"
    from j(2) rel have "j \<noteq> OVN_MEMBER_STATUS_KEY" by (auto simp: vip_relevant_def)
    from same [OF this] j row_invD(1,2) [OF inv] show "forwards_to_pools v"
      by (simp add: wf_refs_get)
  qed
  ultimately show ?thesis using appliedD(3) [OF a] by (simp add: row_inv_def)
qed

lemma pool_updated_inv:
  assumes inv: "row_inv L r" and a: "applied cmds r r'" and c: "pool_update_commands L r pool = Inr cmds"
  shows "row_inv L r'"
proof -
  let ?ext = "lb_external_ids r"
  let ?opts = "case pool_session pool of None \<Rightarrow> [] | Some s \<Rightarrow> [set_options r (session_timeout s)]"
  have lo: "leaves ''vips'' ?opts" "leaves EXT_IDS ?opts"
    by (auto simp: leaves_def set_options_def split: option.splits)
  show ?thesis
  proof (cases "\<exists>up p. pl_admin_state_up pool = Some up \<and> move_pool_key (pl_id pool) up ?ext = Some p")
    case False
    with c have cmds: "cmds = ?opts"
      by (auto simp: pool_update_commands_def split: option.splits)
    with lo show ?thesis
      by (intro same_serves_inv [OF inv a, where ext' = ?ext])
        (use row_invD [OF inv] in \<open>simp_all add: cols_after_leaves\<close>)
  next
    case True
    then obtain up rem add ext' where up: "pl_admin_state_up pool = Some up"
      and m: "move_pool_key (pl_id pool) up ?ext = Some (rem, add, ext')" by auto
    from c up m obtain refresh where f: "refresh_lb_vips L r ext' False = Inr refresh"
      and cmds: "cmds = db_remove Load_Balancer (lb_uuid r) EXT_IDS rem
        # db_set Load_Balancer (lb_uuid r) EXT_IDS (StrMap add) # refresh @ ?opts"
      by (auto simp: pool_update_commands_def)
    let ?pre = "[db_remove Load_Balancer (lb_uuid r) EXT_IDS rem,
        db_set Load_Balancer (lb_uuid r) EXT_IDS (StrMap add)]"
    from m obtain v where mv: "rem = get_pool_key (pl_id pool) (\<not> up)"
      "add = [(get_pool_key (pl_id pool) up, v)]"
      "ext' = dict_del (dict_set ?ext (get_pool_key (pl_id pool) up) v) (get_pool_key (pl_id pool) (\<not> up))"
      by (auto simp: move_pool_key_def Let_def split: option.splits)
    have neq: "get_pool_key (pl_id pool) up \<noteq> get_pool_key (pl_id pool) (\<not> up)"
      by (cases up) (simp_all add: get_pool_key_def)
    have fv: "forwards_to_pools v" if "contains LB_EXT_IDS_LISTENER_PREFIX (get_pool_key (pl_id pool) up)"
      using m that row_invD(1,2) [OF inv]
      by (auto simp: move_pool_key_def Let_def mv wf_refs_get contains_listener_pool_key split: option.splits)
    have app: "applied (?pre @ refresh @ ?opts) r r'" using a cmds by simp
    have ext: "map_of (cols_after (lb_uuid r) EXT_IDS ?pre ?ext) = map_of ext'"
      using neq row_invD(1) [OF inv] by (auto simp: mv fun_eq_iff distinct_dict)
    show ?thesis
      by (rule refresh_post_inv [OF f app _ lo ext])
        (use row_invD [OF inv] fv in \<open>simp_all add: mv distinct_dict wf_refs_del wf_refs_set\<close>)
  qed
qed


text \<open>What is served depends on which ports forward to which members, and on the addresses.\<close>

lemma serves_row_same:
  assumes "\<And>x. \<exists>k v. dict_get ext' k = Some v \<and> serving_pool ext' (k, v) = Some x \<Longrightarrow>
                 \<exists>k v. dict_get ext k = Some v \<and> serving_pool ext (k, v) = Some x"
    and "\<And>k. k \<in> {''enabled'', LB_EXT_IDS_VIP_KEY, LB_EXT_IDS_ADDIT_VIP_KEY, LB_EXT_IDS_VIP_FIP_KEY,
          LB_EXT_IDS_ADDIT_VIP_FIP_KEY} \<Longrightarrow> dict_get ext' k = dict_get ext k"
    and "serves_row L lb ext' key val"
  shows "serves_row L lb ext key val"
proof -
  have addr: "answers_on L ext' = answers_on L ext"
    by (simp add: answers_on_def lb_vip_addresses_def fun_eq_iff assms(2))
  from assms(3) obtain k v p members infos bs ver a where
    on: "dict_get ext' ''enabled'' \<noteq> Some ''False''"
    and kv: "dict_get ext' k = Some v" "serving_pool ext' (k, v) = Some (p, members)"
    and m: "extract_member_info members = Inr infos" "mapR (backend_of L lb) infos = Inr bs"
    and a: "answers_on L ext' ver a" "backends ver bs \<noteq> []"
    and key: "key = address_text ver a @ '':'' @ p" "val = join '','' (backends ver bs)"
    unfolding serves_row_def serves_def by blast
  from assms(1) [of "(p, members)"] kv obtain k v where
    new: "dict_get ext k = Some v" "serving_pool ext (k, v) = Some (p, members)" by blast
  have "serves L lb ext (k, v) key val"
    unfolding key by (rule servesI [OF _ new(2) m _ a(2)]) (use on a(1) addr assms(2) in auto)
  with new show ?thesis unfolding serves_row_def by blast
qed

lemma pool_key_neq [simp]:
  "get_pool_key i en \<noteq> ''enabled''" "get_pool_key i en \<noteq> LB_EXT_IDS_VIP_KEY"
  "get_pool_key i en \<noteq> LB_EXT_IDS_ADDIT_VIP_KEY" "get_pool_key i en \<noteq> LB_EXT_IDS_VIP_FIP_KEY"
  "get_pool_key i en \<noteq> LB_EXT_IDS_ADDIT_VIP_FIP_KEY"
  by (simp_all add: get_pool_key_def Let_def)

lemma listener_key_neq [simp]:
  "get_listener_key i en \<noteq> ''enabled''" "get_listener_key i en \<noteq> LB_EXT_IDS_VIP_KEY"
  "get_listener_key i en \<noteq> LB_EXT_IDS_ADDIT_VIP_KEY" "get_listener_key i en \<noteq> LB_EXT_IDS_VIP_FIP_KEY"
  "get_listener_key i en \<noteq> LB_EXT_IDS_ADDIT_VIP_FIP_KEY"
  by (simp_all add: get_listener_key_def Let_def)

lemma serving_pool_elim:
  assumes "serving_pool ext (k, v) = Some (p, members)"
  obtains q where "contains LB_EXT_IDS_LISTENER_PREFIX k" "\<not> is_listener_disabled k"
    "extract_listener_key_value v = (Some p, Some q)" "p \<noteq> []" "q \<noteq> []"
    "dict_get ext q = Some members" "members \<noteq> []"
  using assms by (auto simp: serving_pool_def split: if_splits option.splits prod.splits)

lemma serving_poolI:
  assumes "contains LB_EXT_IDS_LISTENER_PREFIX k" "\<not> is_listener_disabled k"
    "extract_listener_key_value v = (Some p, Some q)" "p \<noteq> []" "q \<noteq> []"
    "dict_get ext q = Some members" "members \<noteq> []"
  shows "serving_pool ext (k, v) = Some (p, members)"
  using assms by (simp add: serving_pool_def)


text \<open>The dict \<open>pool_create\<close> writes: the pool with no member, and its listener forwarding to it.\<close>

lemma pool_create_dict:
  assumes "fresh_pool pool up ext"
  defines "pk \<equiv> get_pool_key (pl_id pool) up" and "ext' \<equiv> pool_create_external_ids pool up ext"
  obtains k where
    "dict_get ext pk = None" "dict_get ext' pk = Some []" "contains LB_EXT_IDS_LISTENER_PREFIX k"
    "\<not> startswith k LB_EXT_IDS_POOL_PREFIX"
    "\<And>j. j \<noteq> pk \<Longrightarrow> j \<noteq> k \<Longrightarrow> dict_get ext' j = dict_get ext j"
    "dict_get ext' k = dict_get ext k \<or>
     (\<exists>p. dict_get ext k = Some (make_listener_key_value p []) \<and>
          dict_get ext' k = Some (make_listener_key_value p pk))"
proof (rule that [of "get_listener_key (the (pl_listener_id pool)) True"])
  show "dict_get ext pk = None"
    using assms(1) by (simp add: fresh_pool_def pk_def dict_has_def)
  let ?lk = "get_listener_key (the (pl_listener_id pool)) True"
  show "\<not> startswith ?lk LB_EXT_IDS_POOL_PREFIX"
    by (simp add: get_listener_key_def startswith_def)
  have d: "ext' = (if truthy (pl_listener_id pool) \<and>
      (\<exists>p. dict_get ext ?lk = Some (make_listener_key_value p []) \<and> \<not> contains pk (make_listener_key_value p []))
    then dict_set (dict_set ext pk []) ?lk (the (dict_get ext ?lk) @ pk) else dict_set ext pk [])"
    using assms(1) unfolding ext'_def pool_create_external_ids_def pk_def [symmetric]
    by (auto simp: fresh_pool_def Let_def split: option.splits)
  show "dict_get ext' ?lk = dict_get ext ?lk \<or>
     (\<exists>p. dict_get ext ?lk = Some (make_listener_key_value p []) \<and>
          dict_get ext' ?lk = Some (make_listener_key_value p pk))"
    by (auto simp: d pk_def make_listener_key_value_def)
  show "dict_get ext' pk = Some []" "\<And>j. j \<noteq> pk \<Longrightarrow> j \<noteq> ?lk \<Longrightarrow> dict_get ext' j = dict_get ext j"
    by (simp_all add: d pk_def)
qed simp

lemma pool_created_serves:
  assumes fresh: "fresh_pool pool up ext" and wf: "wf_refs ext" and d: "distinct (dict_keys ext)"
  shows "serves_row L lb (pool_create_external_ids pool up ext) key val \<longleftrightarrow> serves_row L lb ext key val"
proof -
  let ?pk = "get_pool_key (pl_id pool) up" and ?ext' = "pool_create_external_ids pool up ext"
  obtain lk where n: "dict_get ext ?pk = None" "dict_get ?ext' ?pk = Some []"
    and l: "contains LB_EXT_IDS_LISTENER_PREFIX lk" "\<not> startswith lk LB_EXT_IDS_POOL_PREFIX"
    and o: "\<And>j. j \<noteq> ?pk \<Longrightarrow> j \<noteq> lk \<Longrightarrow> dict_get ?ext' j = dict_get ext j"
    and lv: "dict_get ?ext' lk = dict_get ext lk \<or>
     (\<exists>p. dict_get ext lk = Some (make_listener_key_value p []) \<and>
          dict_get ?ext' lk = Some (make_listener_key_value p ?pk))"
    by (rule pool_create_dict [OF fresh]) (rule that; assumption)
  have fwd: "startswith q LB_EXT_IDS_POOL_PREFIX"
    if "dict_get ext k = Some v" "contains LB_EXT_IDS_LISTENER_PREFIX k"
      "extract_listener_key_value v = (Some p, Some q)" "q \<noteq> []" for k v p q
    using wf that by (force simp: wf_refs_get [OF d] forwards_to_pools_def)
  have same: "(\<exists>k v. dict_get ?ext' k = Some v \<and> serving_pool ?ext' (k, v) = Some (p, m)) \<longleftrightarrow>
        (\<exists>k v. dict_get ext k = Some v \<and> serving_pool ext (k, v) = Some (p, m))" for p m
  proof (intro iffI; elim exE conjE)
    fix k v assume v: "dict_get ?ext' k = Some v" and s: "serving_pool ?ext' (k, v) = Some (p, m)"
    from s obtain q where q: "contains LB_EXT_IDS_LISTENER_PREFIX k" "\<not> is_listener_disabled k"
      "extract_listener_key_value v = (Some p, Some q)" "p \<noteq> []" "q \<noteq> []" "dict_get ?ext' q = Some m" "m \<noteq> []"
      by (rule serving_pool_elim)
    from q(6,7) n have "q \<noteq> ?pk" by auto
    moreover from v n(2) q(3) have "k \<noteq> ?pk" by (auto simp: extract_listener_key_value_def)
    ultimately have kv: "dict_get ext k = Some v"
      using v o [of k] lv extract_make q(3) by (cases "k = lk") auto
    with fwd q l(2) have "q \<noteq> lk" by blast
    with o [OF \<open>q \<noteq> ?pk\<close>] q serving_poolI [of k v p q ext m] kv
    show "\<exists>k v. dict_get ext k = Some v \<and> serving_pool ext (k, v) = Some (p, m)" by auto
  next
    fix k v assume v: "dict_get ext k = Some v" and s: "serving_pool ext (k, v) = Some (p, m)"
    from s obtain q where q: "contains LB_EXT_IDS_LISTENER_PREFIX k" "\<not> is_listener_disabled k"
      "extract_listener_key_value v = (Some p, Some q)" "p \<noteq> []" "q \<noteq> []" "dict_get ext q = Some m" "m \<noteq> []"
      by (rule serving_pool_elim)
    from q(6) v n(1) have neq: "q \<noteq> ?pk" "k \<noteq> ?pk" by auto
    with v o [of k] lv extract_make q(3,5) have kv: "dict_get ?ext' k = Some v" by (cases "k = lk") auto
    from fwd [OF v q(1,3,5)] l(2) have "q \<noteq> lk" by blast
    with o [OF neq(1)] q serving_poolI [of k v p q ?ext' m] kv
    show "\<exists>k v. dict_get ?ext' k = Some v \<and> serving_pool ?ext' (k, v) = Some (p, m)" by auto
  qed
  have addr: "dict_get ?ext' k = dict_get ext k"
    if "k \<in> {''enabled'', LB_EXT_IDS_VIP_KEY, LB_EXT_IDS_ADDIT_VIP_KEY, LB_EXT_IDS_VIP_FIP_KEY,
          LB_EXT_IDS_ADDIT_VIP_FIP_KEY}" for k
    by (rule o) (use that l in \<open>auto simp: contains_simps startswith_def\<close>)
  show ?thesis
  proof
    show "serves_row L lb ?ext' key val \<Longrightarrow> serves_row L lb ext key val"
      by (erule serves_row_same [rotated -1]) (metis same prod.exhaust, rule addr)
    show "serves_row L lb ext key val \<Longrightarrow> serves_row L lb ?ext' key val"
      by (erule serves_row_same [rotated -1]) (metis same prod.exhaust, rule addr [symmetric])
  qed
qed

lemma set_options_leaves [simp]: "leaves ''vips'' [set_options r t]" "leaves EXT_IDS [set_options r t]"
  by (simp_all add: leaves_def set_options_def)

lemma distinct_pool_create:
  "distinct (dict_keys ext) \<Longrightarrow> distinct (dict_keys (pool_create_external_ids pool up ext))"
  by (simp add: pool_create_external_ids_def Let_def distinct_dict split: option.splits)

lemma forwards_Nil [simp]: "forwards_to_pools []"
  by (simp add: forwards_to_pools_def extract_listener_key_value_def)

lemma pool_created_wf:
  assumes fresh: "fresh_pool pool up ext" and wf: "wf_refs ext" and d: "distinct (dict_keys ext)"
  shows "wf_refs (pool_create_external_ids pool up ext)"
    and "dict_has ext k \<Longrightarrow> dict_has (pool_create_external_ids pool up ext) k"
proof -
  let ?pk = "get_pool_key (pl_id pool) up" and ?ext' = "pool_create_external_ids pool up ext"
  obtain lk where n: "dict_get ext ?pk = None" "dict_get ?ext' ?pk = Some []"
    and o: "\<And>j. j \<noteq> ?pk \<Longrightarrow> j \<noteq> lk \<Longrightarrow> dict_get ?ext' j = dict_get ext j"
    and lv: "dict_get ?ext' lk = dict_get ext lk \<or>
     (\<exists>p. dict_get ext lk = Some (make_listener_key_value p []) \<and>
          dict_get ?ext' lk = Some (make_listener_key_value p ?pk))"
    by (rule pool_create_dict [OF fresh]) (rule that; assumption)
  have "forwards_to_pools v" if "dict_get ?ext' j = Some v" "contains LB_EXT_IDS_LISTENER_PREFIX j" for j v
    using that n o [of j] lv wf by (cases "j = ?pk"; cases "j = lk") (auto simp: wf_refs_get [OF d])
  then show "wf_refs ?ext'"
    by (simp add: wf_refs_get [OF distinct_pool_create [OF d]])
  show "dict_has ext k \<Longrightarrow> dict_has ?ext' k"
    using n o [of k] lv by (cases "k = ?pk"; cases "k = lk") (auto simp: dict_has_def)
qed

lemma pool_created_inv:
  assumes inv: "row_inv L r" and a: "applied (pool_create_commands r pool up) r r'"
    and fresh: "fresh_pool pool up (lb_external_ids r)"
  shows "row_inv L r'"
proof -
  let ?ext = "lb_external_ids r" and ?ext' = "pool_create_external_ids pool up (lb_external_ids r)"
  note r = row_invD [OF inv]
  note d' = distinct_pool_create [OF r(1)]
  have cmds: "leaves ''vips'' (pool_create_commands r pool up)"
    "cols_after (lb_uuid r) EXT_IDS (pool_create_commands r pool up) ?ext = dict_merge ?ext ?ext'"
    by (simp_all add: pool_create_commands_def Let_def set_options_def)
  have merge: "map_of (dict_merge ?ext ?ext') = map_of ?ext'"
  proof
    fix k show "map_of (dict_merge ?ext ?ext') k = map_of ?ext' k"
      using pool_created_wf(2) [OF fresh r(2,1), of k]
      by (cases "map_of ?ext' k"; cases "map_of ?ext k") (auto simp: dict_merge_get [OF d'] dict_has_def)
  qed
  have "dict_get ?ext' OVN_MEMBER_STATUS_KEY = dict_get ?ext OVN_MEMBER_STATUS_KEY"
    by (simp add: pool_create_external_ids_def Let_def split: option.splits)
  from same_serves_inv [OF inv a cmds(1) _ d' pool_created_wf(1) [OF fresh r(2,1)] this
      pool_created_serves [OF fresh r(2,1)]] merge
  show ?thesis by (simp add: cmds(2))
qed

text \<open>The steps that set or remove one key and rebuild the vips.\<close>

lemma key_set_inv:
  assumes "refs_ok r" and f: "refresh_lb_vips L r (dict_set (lb_external_ids r) k v) is_sync = Inr refresh"
    and "applied ([db_set Load_Balancer (lb_uuid r) EXT_IDS (StrMap [(k, v)])] @ refresh) r r'"
    and "k \<noteq> OVN_MEMBER_STATUS_KEY" and "\<not> contains LB_EXT_IDS_LISTENER_PREFIX k"
  shows "row_inv L r'"
  by (rule refresh_inv [OF f assms(3)])
    (use assms(4,5) refs_okD [OF assms(1)] in \<open>auto simp: distinct_dict intro!: wf_refs_set\<close>)

lemma pool_value_inv:
  assumes "refs_ok r" and "applied cmds r r'"
    and "pool_value_commands L r k value True is_sync = Inr cmds"
    and "startswith k LB_EXT_IDS_POOL_PREFIX" and "\<not> contains LB_EXT_IDS_LISTENER_PREFIX k"
  shows "row_inv L r'"
proof -
  from assms(3) obtain refresh where
    f: "refresh_lb_vips L r (dict_set (lb_external_ids r) k value) is_sync = Inr refresh"
    and c: "cmds = [db_set Load_Balancer (lb_uuid r) EXT_IDS (StrMap [(k, value)])] @ refresh"
    by (auto simp: pool_value_commands_def)
  show ?thesis
    by (rule key_set_inv [OF assms(1) f assms(2) [unfolded c] _ assms(5)])
      (use assms(4) in \<open>auto simp: startswith_def\<close>)
qed

lemma member_updated_inv:
  assumes "refs_ok r" and w: "written \<in> {[], [member_status_command L (lb_uuid r) d]}" and a1: "applied written r r1"
    and f: "refresh_lb_vips L r1 (lb_external_ids r1) False = Inr cmds" and a: "applied cmds r1 r'"
  shows "row_inv L r'"
proof -
  note r = refs_okD [OF assms(1)]
  have "forwards_to_pools v"
    if "dict_get (lb_external_ids r1) k = Some v" "contains LB_EXT_IDS_LISTENER_PREFIX k" for k v
    using that r(1,2) w appliedD(1) [OF a1]
    by (cases "k = OVN_MEMBER_STATUS_KEY")
      (auto simp: wf_refs_get member_status_command_def split: if_splits)
  then have "wf_refs (lb_external_ids r1)"
    by (simp add: wf_refs_get [OF appliedD(3) [OF a1]])
  then show ?thesis
    by (intro refresh_inv [OF f, where pre = "[]"]) (use a appliedD(3) [OF a1] in simp_all)
qed

lemma fip_associated_inv:
  assumes "refs_ok r" and "vip_fip_info (lb_external_ids r) info = Inr (k, v)"
    and "refresh_lb_vips L r (dict_set (lb_external_ids r) k v) False = Inr refresh"
    and "applied ([db_set Load_Balancer (lb_uuid r) EXT_IDS (StrMap [(k, v)])] @ refresh) r r'"
  shows "row_inv L r'"
proof -
  have "k = LB_EXT_IDS_ADDIT_VIP_FIP_KEY \<or> k = LB_EXT_IDS_VIP_FIP_KEY"
    using assms(2) by (auto simp: vip_fip_info_def split: if_splits)
  then show ?thesis
    by (intro key_set_inv [OF assms(1,3,4)]) (auto simp: contains_simps)
qed

lemma fip_disassociated_inv:
  assumes "refs_ok r" and "only_addi_fip (lb_external_ids r) fip"
    and "remove_addi_fip (lb_uuid r) (lb_external_ids r) fip = Inr (addi, ext1)"
    and "remove_vip_fip (lb_uuid r) ext1 fip = (cmds, ext)"
    and f: "refresh_lb_vips L r ext False = Inr refresh"
    and a: "applied ((addi @ cmds) @ refresh) r r'"
  shows "row_inv L r'"
proof -
  note r = refs_okD [OF assms(1)]
  let ?A = LB_EXT_IDS_ADDIT_VIP_FIP_KEY and ?F = LB_EXT_IDS_VIP_FIP_KEY
  have e1: "addi = [] \<and> ext1 = lb_external_ids r \<or>
      addi = [db_remove Load_Balancer (lb_uuid r) EXT_IDS ?A] \<and> ext1 = dict_del (lb_external_ids r) ?A"
    using assms(2,3) by (auto simp: remove_addi_fip_def only_addi_fip_def Let_def split: option.splits if_splits)
  have e2: "cmds = [] \<and> ext = ext1 \<or>
      cmds = [db_remove Load_Balancer (lb_uuid r) EXT_IDS ?F] \<and> ext = dict_del ext1 ?F"
    using assms(4) by (auto simp: remove_vip_fip_def split: if_splits)
  show ?thesis
    by (rule refresh_inv [OF f a])
      (use e1 e2 r in \<open>auto simp: distinct_dict wf_refs_del fun_eq_iff\<close>)
qed

section \<open>Deleting a pool\<close>

lemma fold_dict_set_get:
  "map_of (fold (\<lambda>k acc. dict_set acc k (f k)) ks d) j = (if j \<in> set ks then Some (f j) else map_of d j)"
  by (induction ks arbitrary: d) auto

lemma merge_superset:
  fixes d e :: "string pydict"
  assumes "distinct (dict_keys e)" and "dom (map_of d) \<subseteq> dom (map_of e)"
  shows "map_of (dict_merge d e) = map_of e"
proof
  fix k show "map_of (dict_merge d e) k = map_of e k"
    using assms(2) by (cases "map_of e k"; cases "map_of d k") (auto simp: dict_merge_get [OF assms(1)])
qed

text \<open>The row's \<open>external_ids\<close> once the pool is gone.\<close>

definition without_pool :: "string \<Rightarrow> string pydict \<Rightarrow> string pydict" where
  "without_pool i ext =
     dict_del (detach_listeners ext (get_pool_key i True) (dict_del ext (get_pool_key i True))) (get_pool_key i False)"

lemma dict_del_absent: "\<not> dict_has d k \<Longrightarrow> dict_del d k = d"
  by (simp add: dict_has_def delete_id map_of_eq_None_iff)

lemma detached_mem:
  "distinct (dict_keys ext) \<Longrightarrow> k \<in> set (detached_listeners ext pk) \<longleftrightarrow>
     (\<exists>v. dict_get ext k = Some v \<and> startswith k LB_EXT_IDS_LISTENER_PREFIX \<and> contains pk v)"
  by (auto simp: detached_listeners_def map_of_eq_Some_iff image_iff)

lemma detach_get:
  "map_of (detach_listeners ext pk d) j =
     (if j \<in> set (detached_listeners ext pk)
      then Some (hd (split_on CHR '':'' (the (dict_get ext j))) @ '':'') else map_of d j)"
  unfolding detach_listeners_def by (rule fold_dict_set_get)

lemma distinct_detach:
  "distinct (dict_keys d) \<Longrightarrow> distinct (dict_keys (detach_listeners ext pk d))"
proof -
  have "distinct (dict_keys d) \<Longrightarrow> distinct (dict_keys (fold (\<lambda>k acc. dict_set acc k (f k)) ks d))"
    for ks and f :: "string \<Rightarrow> string"
    by (induction ks arbitrary: d) (simp_all add: distinct_dict)
  then show "distinct (dict_keys d) \<Longrightarrow> ?thesis" by (simp add: detach_listeners_def)
qed

lemma sets_of_detached:
  assumes "distinct (dict_keys d)"
  shows "map_of (cols_after u EXT_IDS (map (\<lambda>k. db_set Load_Balancer u EXT_IDS (StrMap (detach_listeners ext pk d)))
           (detached_listeners ext pk)) d) = map_of (detach_listeners ext pk d)"
proof -
  let ?dl = "detach_listeners ext pk d"
  have dom: "dom (map_of d) \<subseteq> dom (map_of ?dl)"
    by (auto simp: detach_get)
  have all: "map_of (cols_after u EXT_IDS (map (\<lambda>k. db_set Load_Balancer u EXT_IDS (StrMap ?dl)) ks) e) = map_of ?dl"
    if "ks \<noteq> []" "dom (map_of e) \<subseteq> dom (map_of ?dl)" for ks :: "string list" and e
    using that
  proof (induction ks arbitrary: e)
    case (Cons k ks)
    have "map_of (dict_merge e ?dl) = map_of ?dl"
      by (rule merge_superset [OF distinct_detach [OF assms] Cons.prems(2)])
    with Cons.IH [of "dict_merge e ?dl"] show ?case by (cases "ks = []") simp_all
  qed simp
  show ?thesis
  proof (cases "detached_listeners ext pk = []")
    case True
    then show ?thesis by (simp add: detach_listeners_def)
  qed (simp add: all dom)
qed

lemma extract_parts:
  assumes "extract_listener_key_value v = (x, Some q)"
  shows "CHR '':'' \<notin> set q" and "v = a @ '':'' \<Longrightarrow> q = []"
proof -
  from assms have len: "length (split_on CHR '':'' v) = 2" and q: "q = split_on CHR '':'' v ! 1"
    by (auto simp: extract_listener_key_value_def Let_def split: if_splits)
  from len have "q \<in> set (split_on CHR '':'' v)" unfolding q by (intro nth_mem) simp
  then show "CHR '':'' \<notin> set q" by (rule split_on_elems)
  assume v: "v = a @ '':''"
  obtain b c where bc: "split_on CHR '':'' v = [b, c]" using len by (cases "split_on CHR '':'' v"; cases "tl (split_on CHR '':'' v)") auto
  have "v = b @ CHR '':'' # c" using join_split_on [of "CHR '':''" v] by (simp add: bc)
  moreover from bc have "CHR '':'' \<notin> set c" using split_on_elems [of c "CHR '':''" v] by simp
  ultimately have "c = []" using v last_sep_unique [of b "CHR '':''" c a "[]"] by simp
  then show "q = []" by (simp add: q bc)
qed

lemma without_pool_serves:
  assumes ex: "exact_pool_refs (get_pool_key i True) ext" and d: "distinct (dict_keys ext)" and wf: "wf_refs ext"
    and no: "\<not> contains LB_EXT_IDS_LISTENER_PREFIX (get_pool_key i True)"
  shows "serves_row L lb (without_pool i ext) key val \<longleftrightarrow> serves_row L lb (dict_del ext (get_pool_key i True)) key val"
proof -
  let ?pk = "get_pool_key i True" and ?pd = "get_pool_key i False"
  let ?rem = "dict_del ext ?pk" and ?ext' = "without_pool i ext" and ?D = "set (detached_listeners ext ?pk)"
  have get: "dict_get ?ext' j = (if j = ?pd then None else if j \<in> ?D
      then Some (hd (split_on CHR '':'' (the (dict_get ext j))) @ '':'') else dict_get ?rem j)" for j
    by (simp add: without_pool_def detach_get)
  have D: "startswith j LB_EXT_IDS_LISTENER_PREFIX" if "j \<in> ?D" for j
    using that by (auto simp: detached_mem [OF d])
  have pool: "startswith q LB_EXT_IDS_POOL_PREFIX"
    if "dict_get ?rem k = Some v" "contains LB_EXT_IDS_LISTENER_PREFIX k"
      "extract_listener_key_value v = (Some p, Some q)" "q \<noteq> []" for k v p q
    using wf that by (force simp: wf_refs_get [OF d] forwards_to_pools_def delete_conv' split: if_splits)
  have nD: "q \<notin> ?D" if "startswith q LB_EXT_IDS_POOL_PREFIX" for q
    using that D [of q] by (auto simp: startswith_def prefix_def)
  have "(\<exists>k v. dict_get ?ext' k = Some v \<and> serving_pool ?ext' (k, v) = Some (p, m)) \<longleftrightarrow>
        (\<exists>k v. dict_get ?rem k = Some v \<and> serving_pool ?rem (k, v) = Some (p, m))" for p m
  proof (intro iffI; elim exE conjE)
    fix k v assume v: "dict_get ?ext' k = Some v" and s: "serving_pool ?ext' (k, v) = Some (p, m)"
    from s obtain q where q: "contains LB_EXT_IDS_LISTENER_PREFIX k" "\<not> is_listener_disabled k"
      "extract_listener_key_value v = (Some p, Some q)" "p \<noteq> []" "q \<noteq> []" "dict_get ?ext' q = Some m" "m \<noteq> []"
      by (rule serving_pool_elim)
    have "k \<notin> ?D" using v q(5) extract_parts(2) [OF q(3)] by (auto simp: get split: if_splits)
    with v have kv: "dict_get ?rem k = Some v" by (simp add: get split: if_splits)
    from nD [OF pool [OF kv q(1,3,5)]] q(6) have "dict_get ?rem q = Some m" by (simp add: get split: if_splits)
    with kv q serving_poolI [of k v p q ?rem m]
    show "\<exists>k v. dict_get ?rem k = Some v \<and> serving_pool ?rem (k, v) = Some (p, m)" by blast
  next
    fix k v assume v: "dict_get ?rem k = Some v" and s: "serving_pool ?rem (k, v) = Some (p, m)"
    from s obtain q where q: "contains LB_EXT_IDS_LISTENER_PREFIX k" "\<not> is_listener_disabled k"
      "extract_listener_key_value v = (Some p, Some q)" "p \<noteq> []" "q \<noteq> []" "dict_get ?rem q = Some m" "m \<noteq> []"
      by (rule serving_pool_elim)
    have "k \<noteq> ?pd"
      using q(1) no contains_listener_pool_key [of i True] contains_listener_pool_key [of i False] by auto
    moreover have "k \<notin> ?D"
    proof
      assume "k \<in> ?D"
      with ex v have "snd (extract_listener_key_value v) \<in> {None, Some ?pk}"
        by (auto simp: detached_mem [OF d] exact_pool_refs_def split: if_splits)
      with q(3) have "q = ?pk" by simp
      with q(6) show False by simp
    qed
    ultimately have kv: "dict_get ?ext' k = Some v" using v by (simp add: get)
    have "q \<noteq> ?pd" using extract_parts(1) [OF q(3)] by (auto simp: get_pool_key_def)
    with nD [OF pool [OF v q(1,3,5)]] q(6) have "dict_get ?ext' q = Some m" by (simp add: get)
    with kv q serving_poolI [of k v p q ?ext' m]
    show "\<exists>k v. dict_get ?ext' k = Some v \<and> serving_pool ?ext' (k, v) = Some (p, m)" by blast
  qed
  note same = this
  have addr: "dict_get ?ext' k = dict_get ?rem k"
    if "k \<in> {''enabled'', LB_EXT_IDS_VIP_KEY, LB_EXT_IDS_ADDIT_VIP_KEY, LB_EXT_IDS_VIP_FIP_KEY,
          LB_EXT_IDS_ADDIT_VIP_FIP_KEY}" for k
    using that D [of k] by (auto simp: get startswith_def pool_key_neq [THEN not_sym])
  show ?thesis
  proof
    show "serves_row L lb ?ext' key val \<Longrightarrow> serves_row L lb ?rem key val"
      by (erule serves_row_same [rotated -1]) (metis same prod.exhaust, rule addr)
    show "serves_row L lb ?rem key val \<Longrightarrow> serves_row L lb ?ext' key val"
      by (erule serves_row_same [rotated -1]) (metis same prod.exhaust, rule addr [symmetric])
  qed
qed

lemma without_pool_wf:
  assumes "wf_refs ext" and "distinct (dict_keys ext)"
  shows "wf_refs (without_pool i ext)" and "distinct (dict_keys (without_pool i ext))"
proof -
  have d: "distinct (dict_keys (detach_listeners ext k (dict_del ext k)))" for k
    by (rule distinct_detach) (simp add: assms(2) distinct_dict)
  then show "distinct (dict_keys (without_pool i ext))"
    by (simp add: without_pool_def distinct_dict)
  have "forwards_to_pools (a @ '':'')" for a
    using extract_parts(2) [of "a @ '':''" _ _ a]
    by (cases "extract_listener_key_value (a @ '':'')") (auto simp: forwards_to_pools_def split: option.splits)
  then have "wf_refs (detach_listeners ext k (dict_del ext k))" for k
    using assms by (auto simp: wf_refs_get [OF d] wf_refs_get [OF assms(2)] detach_get delete_conv')
  then show "wf_refs (without_pool i ext)"
    unfolding without_pool_def by (rule wf_refs_del) (rule d)
qed

text \<open>The effect of the commands on the two columns.\<close>

lemma pool_delete_columns:
  assumes c: "pool_delete_commands L r pool = Inr (cmds, e)" and d: "distinct (dict_keys (lb_external_ids r))"
  defines "ext \<equiv> lb_external_ids r" and "pk \<equiv> get_pool_key (pl_id pool) True"
  shows "map_of (cols_after (lb_uuid r) EXT_IDS cmds ext) = map_of (without_pool (pl_id pool) ext)"
    and "\<not> dict_has ext pk \<Longrightarrow> leaves ''vips'' cmds"
    and "dict_has ext pk \<Longrightarrow> \<exists>v. frame_vip_ips L r (dict_del ext pk) = Inr v \<and>
           map_of (cols_after (lb_uuid r) ''vips'' cmds (lb_vips r)) = map_of v"
proof -
  let ?u = "lb_uuid r" and ?pd = "get_pool_key (pl_id pool) False" and ?rem = "dict_del ext pk"
  let ?sets = "map (\<lambda>k. db_set Load_Balancer ?u EXT_IDS (StrMap (detach_listeners ext pk ?rem))) (detached_listeners ext pk)"
  let ?post = "(if dict_has ext ?pd then [db_remove Load_Balancer ?u EXT_IDS ?pd] else [])
     @ (if dict_has (lb_options r) AFFINITY_TIMEOUT then [db_remove Load_Balancer ?u ''options'' AFFINITY_TIMEOUT] else [])"
  have rem: "(if dict_has ext pk then dict_del ext pk else ext) = ?rem"
    by (simp add: dict_del_absent)
  obtain remove where cmds: "cmds = remove @ ?sets @ ?post" and
    r: "(if dict_has ext pk then rbind (refresh_lb_vips L r ?rem False)
           (\<lambda>refresh. Inr (db_remove Load_Balancer ?u EXT_IDS pk # refresh)) else Inr []) = Inr remove"
    using c [unfolded pool_delete_commands_def Let_def, folded ext_def pk_def, unfolded rem] by auto
  have lv: "leaves ''vips'' (?sets @ ?post)"
    by (auto simp: leaves_def list_all_iff)
  have e: "cols_after ?u EXT_IDS remove ext = ?rem"
    using r by (auto simp: refresh_lb_vips_def dict_del_absent split: if_splits)
  have dd: "distinct (dict_keys ?rem)" using d by (simp add: ext_def distinct_dict)
  have p: "map_of (cols_after ?u EXT_IDS ?post x) = map_of (dict_del x ?pd)"
    if "dict_has ext ?pd \<or> \<not> dict_has x ?pd" for x
    using that by (auto simp: dict_del_absent)
  have "\<not> dict_has ext ?pd \<Longrightarrow> dict_get (detach_listeners ext pk ?rem) ?pd = None"
    using d by (auto simp: detach_get dict_has_def ext_def [symmetric] detached_mem delete_conv')
  then have "map_of (cols_after ?u EXT_IDS (?sets @ ?post) ?rem) = map_of (without_pool (pl_id pool) ext)"
    using sets_of_detached [OF dd, of ?u ext pk]
    by (auto simp: without_pool_def pk_def [symmetric] delete_conv' dict_has_def p)
  then show "map_of (cols_after ?u EXT_IDS cmds ext) = map_of (without_pool (pl_id pool) ext)"
    by (simp add: cmds e)
  show "leaves ''vips'' cmds" if "\<not> dict_has ext pk"
    using r that lv by (simp add: cmds)
  assume "dict_has ext pk"
  with r obtain v where v: "frame_vip_ips L r ?rem = Inr v" and remove:
    "remove = [db_remove Load_Balancer ?u EXT_IDS pk, db_clear Load_Balancer ?u ''vips'',
               db_set Load_Balancer ?u ''vips'' (StrMap v)]"
    by (auto simp: refresh_lb_vips_def)
  then show "\<exists>v. frame_vip_ips L r ?rem = Inr v \<and> map_of (cols_after ?u ''vips'' cmds (lb_vips r)) = map_of v"
    using dict_merge_Nil_get [OF frame_distinct [OF v]] cols_after_leaves [OF lv, of ?u]
    by (intro exI [of _ v]) (simp add: cmds del: leaves_append)
qed

lemma pool_deleted_inv:
  assumes inv: "row_inv L r" and a: "applied (cmds @ clean) r r'"
    and ex: "exact_pool_refs (get_pool_key (pl_id pool) True) (lb_external_ids r)"
    and no: "\<not> contains LB_EXT_IDS_LISTENER_PREFIX (get_pool_key (pl_id pool) True)"
    and c: "pool_delete_commands L r pool = Inr (cmds, e)"
    and clean: "clean \<in> {[], [db_set Load_Balancer (lb_uuid r) ''protocol'' (StrList [])]}"
  shows "row_inv L r'"
proof -
  let ?ext = "lb_external_ids r" and ?pk = "get_pool_key (pl_id pool) True"
  let ?ext' = "without_pool (pl_id pool) ?ext" and ?rem = "dict_del ?ext ?pk"
  note r = row_invD [OF inv]
  note cols = pool_delete_columns [OF c r(1)]
  have lc: "leaves EXT_IDS clean" "leaves ''vips'' clean" using clean by (auto simp: leaves_def)
  note wf' = without_pool_wf [OF r(2,1), of "pl_id pool"]
  have ext: "map_of (cols_after (lb_uuid r) EXT_IDS (cmds @ clean) ?ext) = map_of ?ext'"
    by (simp add: cols_after_leaves [OF lc(1)] cols(1))
  note e = applied_external_ids [OF a ext wf'(2,1)]
  have st: "dict_get ?ext' OVN_MEMBER_STATUS_KEY = dict_get ?ext OVN_MEMBER_STATUS_KEY"
    using r(1) by (auto simp: without_pool_def detach_get delete_conv' detached_mem startswith_def)
  have "serves_row L r' (lb_external_ids r') key val \<longleftrightarrow> serves_row L r ?ext' key val" for key val
    by (rule serves_row_cong [symmetric]) (simp_all add: same_vip_keys_def e wf' st same_offlineI)
  then have same: "serves_row L r' (lb_external_ids r') key val \<longleftrightarrow> serves_row L r ?rem key val" for key val
    by (simp add: without_pool_serves [OF ex r(1,2) no])
  have "vips_match L r ?rem (lb_vips r')"
  proof (cases "dict_has ?ext ?pk")
    case True
    with cols(3) obtain v where f: "frame_vip_ips L r ?rem = Inr v"
      and v: "map_of (cols_after (lb_uuid r) ''vips'' cmds (lb_vips r)) = map_of v" by blast
    have "map_of (lb_vips r') = map_of v"
      using appliedD(2) [OF a] v by (simp add: cols_after_leaves [OF lc(2)])
    with frame_match [OF f distinct_dict_del [OF r(1)]] show ?thesis
      by (simp add: vips_match_def dict_has_def)
  next
    case False
    have "map_of (lb_vips r') = map_of (lb_vips r)"
      using appliedD(2) [OF a] by (simp add: cols_after_leaves [OF cols(2) [OF False]] cols_after_leaves [OF lc(2)])
    with r(3) show ?thesis
      by (simp add: dict_del_absent [OF False] vips_ok_def vips_match_def dict_has_def)
  qed
  with same e appliedD(3) [OF a] show ?thesis
    by (simp add: row_inv_def vips_ok_def vips_match_def)
qed

section \<open>Every reachable row is consistent\<close>

lemma row_step_inv:
  assumes "row_step L r r'" and inv: "row_inv L r"
  shows "row_inv L r'"
  using assms(1)
proof cases
  case (listener_created l up cmds)
  have "(if truthy (default_pool l) then get_pool_key (the (default_pool l)) True else []) = [] \<or>
    startswith (if truthy (default_pool l) then get_pool_key (the (default_pool l)) True else [])
      LB_EXT_IDS_POOL_PREFIX"
    by (simp add: get_pool_key_def startswith_def)
  from listener_created_inv [OF row_inv_refs [OF inv] listener_created(2,1) this] show ?thesis .
next
  case listener_updated
  from listener_updated_inv [OF row_inv_refs [OF inv] this(3,1,2)] show ?thesis .
next
  case listener_deleted
  from listener_deleted_inv [OF row_inv_refs [OF inv] this(3,1,2)] show ?thesis .
next
  case listener_synced
  from listener_synced_inv [OF row_inv_refs [OF inv] this] show ?thesis .
next
  case pool_created
  from pool_created_inv [OF inv this(2,1)] show ?thesis .
next
  case pool_updated
  from pool_updated_inv [OF inv this(2,1)] show ?thesis .
next
  case pool_deleted
  from pool_deleted_inv [OF inv this(5,1-4)] show ?thesis .
next
  case pool_value_changed
  from pool_value_inv [OF row_inv_refs [OF inv] this(4,3,1,2)] show ?thesis .
next
  case member_updated
  from member_updated_inv [OF row_inv_refs [OF inv] this] show ?thesis .
next
  case fip_associated
  from fip_associated_inv [OF row_inv_refs [OF inv] this] show ?thesis .
next
  case fip_disassociated
  from fip_disassociated_inv [OF row_inv_refs [OF inv] this] show ?thesis .
next
  case status_written
  from status_written_inv [OF inv this] show ?thesis .
next
  case associated
  from associated_inv [OF inv this] show ?thesis .
qed

lemma reachable_row_inv: "reachable_row L r \<Longrightarrow> row_inv L r"
  by (induction rule: reachable_row.induct) (auto intro: created_row_inv row_step_inv)

end
