(* ===== verification/RefLib.thy ===== *)
theory RefLib
  imports World PyStr
begin

text \<open>
  A concrete library, on which the witnesses evaluate the model: addresses are told apart by their
  colons, and documents are written as length-prefixed strings, so that reading a document gives
  back what was written, for every dict. No definition of the model refers to this theory; it only
  shows that the hypotheses on the third-party code can hold together.
\<close>

section \<open>Addresses\<close>

definition ref_ip_version :: "string \<Rightarrow> nat res" where
  "ref_ip_version a =
     (if a = [] \<or> CHR ''['' \<in> set a then Inl AddrFormatError
      else if CHR '':'' \<in> set a then Inr 6 else Inr 4)"

definition ref_address :: "string \<Rightarrow> string res" where
  "ref_address a = (if a = [] \<or> CHR ''['' \<in> set a then Inl AddrFormatError else Inr (takeWhile (\<lambda>c. c \<noteq> CHR ''/'') a))"

text \<open>A network is written with its last group zero: the groups before it decide.\<close>

definition ref_ip_in_net :: "string \<Rightarrow> string \<Rightarrow> bool res" where
  "ref_ip_in_net a n =
     (let c = (if CHR '':'' \<in> set a then CHR '':'' else CHR ''.'') in
      Inr (hd (rsplit1 c a) = hd (rsplit1 c n)))"

section \<open>Documents\<close>

text \<open>A string as its length in unary, a zero, and its characters.\<close>

definition put_str :: "string \<Rightarrow> string" where
  "put_str s = replicate (length s) CHR ''1'' @ CHR ''0'' # s"

definition get_str :: "string \<Rightarrow> (string \<times> string) res" where
  "get_str s =
     (let n = length (takeWhile (\<lambda>c. c = CHR ''1'') s); rest = drop n s in
      case rest of
        [] \<Rightarrow> Inl ValueError
      | c # t \<Rightarrow> if c = CHR ''0'' \<and> n \<le> length t then Inr (take n t, drop n t) else Inl ValueError)"

lemma get_put_str [simp]: "get_str (put_str s @ t) = Inr (s, t)"
proof -
  have n: "takeWhile (\<lambda>c. c = CHR ''1'') (replicate n CHR ''1'' @ CHR ''0'' # u) = replicate n CHR ''1''"
    for n u by (induction n) auto
  show ?thesis
    by (simp add: put_str_def get_str_def n Let_def)
qed

primrec put_list :: "string list \<Rightarrow> string" where
  "put_list [] = ''e''"
| "put_list (x # xs) = CHR ''c'' # put_str x @ put_list xs"

text \<open>The fuel is the length of the text; every element takes at least one character.\<close>

primrec get_list :: "nat \<Rightarrow> string \<Rightarrow> string list res" where
  "get_list 0 s = Inl ValueError"
| "get_list (Suc n) s =
     (case s of
        [] \<Rightarrow> Inl ValueError
      | c # t \<Rightarrow>
          if c = CHR ''e'' then (if t = [] then Inr [] else Inl ValueError)
          else if c = CHR ''c'' then
            rbind (get_str t) (\<lambda>(x, u). rbind (get_list n u) (\<lambda>xs. Inr (x # xs)))
          else Inl ValueError)"

lemma get_put_list: "length (put_list xs) \<le> n \<Longrightarrow> get_list n (put_list xs) = Inr xs"
proof (induction xs arbitrary: n)
  case Nil
  then show ?case by (cases n) auto
next
  case (Cons x xs)
  then obtain m where "n = Suc m" by (cases n) auto
  with Cons show ?case by auto
qed

definition ref_loads_list :: "string \<Rightarrow> string list res" where
  "ref_loads_list s = get_list (length s) s"

primrec pairs_of :: "string pydict \<Rightarrow> string list" where
  "pairs_of [] = []"
| "pairs_of (kv # d) = fst kv # snd kv # pairs_of d"

fun of_pairs :: "string list \<Rightarrow> string pydict res" where
  "of_pairs [] = Inr []"
| "of_pairs [k] = Inl ValueError"
| "of_pairs (k # v # xs) = rbind (of_pairs xs) (\<lambda>d. Inr ((k, v) # d))"

definition ref_loads_strs :: "string \<Rightarrow> string pydict res" where
  "ref_loads_strs s = rbind (ref_loads_list s) of_pairs"

text \<open>An integer as a sign and as many characters as its absolute value.\<close>

definition put_int :: "int \<Rightarrow> string" where
  "put_int i = (if i < 0 then ''-'' else []) @ replicate (nat \<bar>i\<bar>) CHR ''1''"

definition get_int :: "string \<Rightarrow> int" where
  "get_int s = (if s \<noteq> [] \<and> hd s = CHR ''-'' then - int (length (tl s)) else int (length s))"

lemma get_put_int [simp]: "get_int (put_int i) = i"
proof (cases "i < 0")
  case False
  then show ?thesis
    by (cases "nat i") (auto simp: put_int_def get_int_def)
qed (simp add: put_int_def get_int_def)

definition ref_dumps_ints :: "int pydict \<Rightarrow> string" where
  "ref_dumps_ints d = put_list (pairs_of (map (\<lambda>(k, i). (k, put_int i)) d))"

definition ref_loads_ints :: "string \<Rightarrow> int pydict res" where
  "ref_loads_ints s = rbind (ref_loads_strs s) (\<lambda>d. Inr (map (\<lambda>(k, v). (k, get_int v)) d))"

definition ref_lib :: lib where
  "ref_lib =
     \<lparr>ip_version = ref_ip_version, ip_version_none = Inl TypeError,
      ip_address = ref_address, net_ip = ref_address, ip_in_net = ref_ip_in_net,
      is_valid_ipv4 = (\<lambda>a. ref_ip_version a = Inr 4), is_valid_ipv6 = (\<lambda>a. ref_ip_version a = Inr 6),
      loads_ints = ref_loads_ints, dumps_ints = ref_dumps_ints,
      loads_strs = ref_loads_strs, dumps_strs = (\<lambda>d. put_list (pairs_of d)),
      loads_list = ref_loads_list, dumps_list = put_list, set_order = (\<lambda>xs. xs)\<rparr>"

lemma of_pairs_of [simp]: "of_pairs (pairs_of d) = Inr d"
  by (induction d) auto

lemma ref_documents [simp]:
  "ref_loads_list (put_list xs) = Inr xs"
  "ref_loads_strs (put_list (pairs_of d)) = Inr d"
  "ref_loads_ints (ref_dumps_ints e) = Inr e"
  by (simp_all add: ref_loads_list_def ref_loads_strs_def ref_loads_ints_def ref_dumps_ints_def
      get_put_list case_prod_beta' comp_def map_idI)

lemma ref_lib_simps [simp]:
  "ip_version ref_lib = ref_ip_version" "ip_address ref_lib = ref_address" "net_ip ref_lib = ref_address"
  "ip_in_net ref_lib = ref_ip_in_net"
  "loads_ints ref_lib = ref_loads_ints" "dumps_ints ref_lib = ref_dumps_ints"
  "loads_strs ref_lib = ref_loads_strs" "loads_list ref_lib = ref_loads_list" "dumps_list ref_lib = put_list"
  "dumps_strs ref_lib d = put_list (pairs_of d)"
  by (simp_all add: ref_lib_def)

end
