(* ===== verification/Traffic.thy ===== *)
theory Traffic
  imports RowSteps RefLib
begin

text \<open>
  What the \<open>vips\<close> column means for traffic: the properties of \<open>_frame_vip_ips\<close> and of the handlers'
  transactions on a row, with a sample row (two listeners, an IPv6 address, an offline member) as witness.
\<close>

section \<open>A sample row\<close>

definition sample_ext :: "string pydict" where
  "sample_ext =
     [(''enabled'', ''True''),
      (LB_EXT_IDS_VIP_KEY, ''10.0.0.4''),
      (LB_EXT_IDS_ADDIT_VIP_KEY, ''fd00::4''),
      (LB_EXT_IDS_VIP_FIP_KEY, ''172.24.4.9''),
      (''listener_l1'', ''80:pool_p1''),
      (''listener_l2'', ''81:pool_p2''),
      (''listener_l3:D'', ''82:pool_p1''),
      (''pool_p1'', ''member_m1_10.0.0.10:8080_s1,member_m2_10.0.0.11:8080_s1''),
      (''pool_p2'', ''member_m3_fd00::10:8080_s2''),
      (OVN_MEMBER_STATUS_KEY, put_list [''m1'', ONLINE, ''m2'', OFFLINE])]"

definition sample_vips :: "string pydict" where
  "sample_vips =
     [(''10.0.0.4:80'', ''10.0.0.10:8080''),
      (''172.24.4.9:80'', ''10.0.0.10:8080''),
      (''[fd00::4]:81'', ''[fd00::10]:8080'')]"

definition sample_row :: lb_row where
  "sample_row =
     \<lparr>lb_uuid = ''u1'', lb_name = ''lb1'', lb_protocol = [''tcp''], lb_external_ids = sample_ext,
      lb_vips = sample_vips, lb_options = [], lb_selection_fields = [], lb_health_check = [],
      lb_ip_port_mappings = []\<rparr>"

lemma sample_frame: "frame_vip_ips ref_lib sample_row sample_ext = Inr sample_vips"
  by code_simp

lemma sample_unique: "unique_ports sample_ext"
  by code_simp

lemma sample_distinct: "distinct (dict_keys sample_ext)"
  by code_simp

section \<open>Which entries there are\<close>

text \<open>C1: When every listener has a port of its own, the \<open>vips\<close> column that \<open>_frame_vip_ips\<close> computes holds
  an entry if and only if it is served: the load balancer is enabled, the entry's port is the port
  of an enabled listener with a pool, its address is a VIP (or an IPv4 floating IP), its value lists,
  in order, the pool's members that are of the address's IP version and not offline.\<close>

theorem frame_vip_ips_exact:
  assumes "frame_vip_ips L lb ext = Inr vips" and "distinct (dict_keys ext)"
    and "unique_ports ext" and "rejects_brackets L"
  shows "dict_get vips key = Some val \<longleftrightarrow> serves_row L lb ext key val"
  by (rule frame_exact [OF assms])

lemma ref_rejects_brackets: "rejects_brackets ref_lib"
  by (simp add: rejects_brackets_def bracketed_def ref_ip_version_def)

theorem frame_vip_ips_exact_witness:
  "serves_row ref_lib sample_row sample_ext ''[fd00::4]:81'' ''[fd00::10]:8080''"
  by (rule frame_vip_ips_exact [OF sample_frame sample_distinct sample_unique ref_rejects_brackets, THEN iffD1])
    (simp add: sample_vips_def)

text \<open>Without any assumption on ports, every entry of the computed column is served by some
  listener, and every served address and port has an entry.\<close>

theorem frame_vip_ips_match:
  assumes "frame_vip_ips L lb ext = Inr vips" and "distinct (dict_keys ext)"
  shows "vips_match L lb ext vips"
  by (rule frame_match [OF assms])

theorem frame_vip_ips_match_witness: "vips_match ref_lib sample_row sample_ext sample_vips"
  by (rule frame_vip_ips_match [OF sample_frame sample_distinct])

text \<open>C2: Provided that no two listeners that serve traffic share a port (with a shared port the listener that
  is read last wins), the column does not depend on the order in which Python iterates \<open>external_ids\<close>:
  for two orders of one dict (distinct keys, the same entries) for which the computation returns, the columns are the
  same map. The listeners hold no port or a port and a pool key, as the code writes them (\<open>wf_refs\<close>), and
  the library does not take an address in brackets for one of IPv4.\<close>

theorem frame_vip_ips_order:
  assumes "frame_vip_ips L lb ext = Inr vips" and "frame_vip_ips L lb ext' = Inr vips'"
    and "map_of ext = map_of ext'" and "distinct (dict_keys ext)" and "distinct (dict_keys ext')"
    and "unique_ports ext" and "unique_ports ext'" and "rejects_brackets L" and "wf_refs ext"
  shows "map_of vips = map_of vips'"
proof
  fix key
  have "same_vip_keys ext ext'" and "same_offline L lb lb"
    using assms(3) by (simp_all add: same_vip_keys_def same_offline_def)
  from serves_row_cong [OF this(1) assms(9) this(2)]
  have "dict_get vips key = Some val \<longleftrightarrow> dict_get vips' key = Some val" for val
    by (simp add: frame_exact [OF assms(1,4,6,8)] frame_exact [OF assms(2,5,7,8)])
  then show "map_of vips key = map_of vips' key"
    by (metis not_None_eq)
qed

lemma sample_rev:
  "frame_vip_ips ref_lib sample_row (rev sample_ext)
   = Inr [sample_vips ! 2, sample_vips ! 0, sample_vips ! 1]"
  by code_simp

theorem frame_vip_ips_order_witness:
  "map_of sample_vips = map_of [sample_vips ! 2, sample_vips ! 0, sample_vips ! 1]"
proof (rule frame_vip_ips_order [OF sample_frame sample_rev])
  show "map_of sample_ext = map_of (rev sample_ext)"
    unfolding dict_eq_iff [symmetric] by code_simp
  show "unique_ports (rev sample_ext)" "wf_refs sample_ext" "distinct (dict_keys (rev sample_ext))"
    by code_simp+
qed (simp_all add: sample_unique sample_distinct ref_rejects_brackets)

section \<open>Where traffic goes\<close>

lemma split_parts: "x \<in> set (split_on c s) \<Longrightarrow> d \<in> set x \<Longrightarrow> d \<in> set s"
proof (induction s arbitrary: x)
  case (Cons y s)
  then show ?case
    using Cons.IH [of "hd (split_on c s)"] Cons.IH [of x]
    by (cases "split_on c s") (auto split: if_splits)
qed simp

lemma rsplit1_parts: "x \<in> set (rsplit1 c s) \<Longrightarrow> d \<in> set x \<Longrightarrow> d \<in> set s"
proof -
  have tl: "set (tl ys) \<subseteq> set ys" for ys :: string by (cases ys) auto
  assume "x \<in> set (rsplit1 c s)" "d \<in> set x"
  then show "d \<in> set s"
    using tl [of "dropWhile (\<lambda>x. x \<noteq> c) (rev s)"] set_dropWhileD [of d "\<lambda>x. x \<noteq> c" "rev s"]
      set_takeWhileD [of d "\<lambda>x. x \<noteq> c" "rev s"]
    by (auto simp: rsplit1_def split: if_splits)
qed

lemma item_mem: "item xs i = Inr x \<Longrightarrow> x \<in> set xs"
  by (auto simp: item_def split: if_splits)

lemma extract_one_comma_free:
  assumes "extract_one_member s = Inr (ip, port, sub, mid)" and "CHR '','' \<notin> set s"
  shows "CHR '','' \<notin> set ip" "CHR '','' \<notin> set port"
proof -
  from assms(1) obtain x where "item (split_on CHR ''_'' s) 2 = Inr x" and r: "rsplit1 CHR '':'' x = [ip, port]"
    by (auto simp: extract_one_member_def Let_def split: list.splits)
  then have "CHR '','' \<notin> set x"
    using split_parts [of x "CHR ''_''" s "CHR '',''"] assms(2) item_mem [of _ _ x] by blast
  with rsplit1_parts [of _ "CHR '':''" x "CHR '',''"] r
  show "CHR '','' \<notin> set ip" "CHR '','' \<notin> set port" by fastforce+
qed

lemma extract_info_comma_free:
  assumes "extract_member_info s = Inr infos" and "(ip, port, sub, mid) \<in> set infos"
  shows "CHR '','' \<notin> set ip" "CHR '','' \<notin> set port"
proof -
  have "s \<noteq> []" using assms by (auto simp: extract_member_info_def split: if_splits)
  with assms obtain x where "x \<in> set (split_on CHR '','' s)" "extract_one_member x = Inr (ip, port, sub, mid)"
    using mapR_set [of extract_one_member "split_on CHR '','' s" infos "(ip, port, sub, mid)"]
    by (auto simp: extract_member_info_def)
  with extract_one_comma_free [of x] split_on_elems [of x]
  show "CHR '','' \<notin> set ip" "CHR '','' \<notin> set port" by blast+
qed

text \<open>The members a listener can send traffic to: they are of its pool, and online.\<close>

definition online_target :: "'a lib_scheme \<Rightarrow> lb_row \<Rightarrow> string pydict \<Rightarrow> string \<Rightarrow> bool" where
  "online_target L lb ext t \<longleftrightarrow>
     (\<exists>k v p members infos ip port sub mid s.
        dict_get ext k = Some v \<and> serving_pool ext (k, v) = Some (p, members) \<and>
        extract_member_info members = Inr infos \<and> (ip, port, sub, mid) \<in> set infos \<and>
        find_member_status L lb mid = Inr s \<and> s \<noteq> OFFLINE \<and>
        (t = ip @ '':'' @ port \<or> t = bracketed ip @ '':'' @ port))"

lemma serves_targets:
  assumes "serves L lb ext (k, v) key val" and "dict_get ext k = Some v"
    and t: "t \<in> set (split_on CHR '','' val)"
  shows "online_target L lb ext t"
proof -
  from assms(1) obtain p members infos bs ver a where
    kv: "serving_pool ext (k, v) = Some (p, members)"
    and m: "extract_member_info members = Inr infos" "mapR (backend_of L lb) infos = Inr bs"
    and b: "backends ver bs \<noteq> []" "val = join '','' (backends ver bs)"
    unfolding serves_def by blast
  have free: "CHR '','' \<notin> set x" if "x \<in> set (backends ver bs)" for x
    using backends_mem [OF m(2) that] extract_info_comma_free [OF m(1)]
    by (fastforce simp: address_text_def bracketed_def split: if_splits)
  then have "split_on CHR '','' val = backends ver bs"
    unfolding b(2) by (intro split_on_join [OF b(1)]) (simp add: list_all_iff)
  with backends_mem [OF m(2), of t ver] t obtain ip port sub mid s where
    "(ip, port, sub, mid) \<in> set infos" "find_member_status L lb mid = Inr s" "s \<noteq> OFFLINE"
    "t = ip @ '':'' @ port \<or> t = bracketed ip @ '':'' @ port"
    by (auto simp: address_text_def)
  with kv m(1) assms(2) show ?thesis unfolding online_target_def by blast
qed

text \<open>C3: Every backend in the computed column is a member of the pool of an enabled listener, and
  its stored status is not OFFLINE: traffic never goes to a member known to be down.\<close>

theorem vips_only_online_members:
  assumes "frame_vip_ips L lb ext = Inr vips" and "distinct (dict_keys ext)"
    and "dict_get vips key = Some val" and "t \<in> set (split_on CHR '','' val)"
  shows "online_target L lb ext t"
  using frame_sound [OF assms(1-3)] serves_targets assms(4) unfolding serves_row_def by blast

theorem vips_only_online_members_witness: "online_target ref_lib sample_row sample_ext ''10.0.0.10:8080''"
  by (rule vips_only_online_members [OF sample_frame sample_distinct, of "''172.24.4.9:80''" "''10.0.0.10:8080''"])
    (simp_all add: sample_vips_def)

section \<open>The life of a row\<close>

text \<open>C4: On every row that is reached from one without listeners and \<open>vips\<close> by committed
  transactions of the handlers - listeners created, updated, deleted and synced, pools created, updated, deleted and
  given members, member statuses and floating IPs changed, switches and routers associated, in any order - the stored
  \<open>vips\<close> column is consistent with the row's \<open>external_ids\<close>. The transactions are those of
  \<open>row_step\<close>, under its guards: a pool is created once, and for a listener that has no pool
  (\<open>fresh_pool\<close>); the key of a deleted pool is part of a listener's value only when the listener points
  to that pool (\<open>exact_pool_refs\<close>); no pool key that is deleted or given members holds the listener
  prefix; a floating IP that is disassociated is no additional one or the only one (\<open>only_addi_fip\<close>;
  otherwise the entry stays, as the theory \<open>Repair\<close> shows); a status that is written without a rebuild
  takes no member offline and brings none back (\<open>same_offline\<close>); an update of a member is both its
  transactions. Enabling or disabling the load balancer is not among the steps (\<open>Repair\<close> again).\<close>

theorem reachable_vips_ok: "reachable_row L r \<Longrightarrow> vips_ok L r"
  using reachable_row_inv by (auto simp: row_inv_def)

definition new_row :: lb_row where
  "new_row =
     \<lparr>lb_uuid = ''u1'', lb_name = ''lb1'', lb_protocol = [],
      lb_external_ids = [(''enabled'', ''True''), (LB_EXT_IDS_VIP_KEY, ''10.0.0.4'')],
      lb_vips = [], lb_options = [], lb_selection_fields = [], lb_health_check = [], lb_ip_port_mappings = []\<rparr>"

definition sample_listener :: listener_dict where
  "sample_listener =
     \<lparr>ld_id = ''l1'', ld_loadbalancer_id = ''lb1'', ld_protocol = ''TCP'', ld_protocol_port = PortInt 80,
      ld_default_pool_id = None, ld_admin_state_up = Some True\<rparr>"

definition sample_pool :: pool_dict where
  "sample_pool =
     \<lparr>pl_id = ''p1'', pl_loadbalancer_id = ''lb1'', pl_protocol = ''TCP'', pl_lb_algorithm = ''SOURCE_IP_PORT'',
      pl_listener_id = Some ''l1'', pl_admin_state_up = Some True, pl_session_persistence = None\<rparr>"

definition row1 :: lb_row where
  "row1 = (case listener_create_commands ref_lib new_row sample_listener (get_listener_key ''l1'' True) [] of
             Inl e \<Rightarrow> new_row | Inr cmds \<Rightarrow> run_row cmds new_row)"

definition row2 :: lb_row where
  "row2 = run_row (pool_create_commands row1 sample_pool True) row1"

definition row3 :: lb_row where
  "row3 = (case pool_value_commands ref_lib row2 ''pool_p1'' ''member_m1_10.0.0.10:8080_s1'' True False of
             Inl e \<Rightarrow> row2 | Inr cmds \<Rightarrow> run_row cmds row2)"

lemma row3_vips: "lb_vips row3 = [(''10.0.0.4:80'', ''10.0.0.10:8080'')]"
  by code_simp

lemma created_new_row: "created_row new_row"
  by code_simp

lemma row1_reachable: "reachable_row ref_lib row1"
proof -
  obtain cmds where c: "listener_create_commands ref_lib new_row sample_listener
      (get_listener_key ''l1'' True) [] = Inr cmds"
    by (cases "listener_create_commands ref_lib new_row sample_listener (get_listener_key ''l1'' True) []")
      (code_simp, blast)
  have "row_step ref_lib new_row row1"
    by (rule listener_created [of ref_lib new_row sample_listener True cmds])
      (use c in \<open>simp_all add: row1_def sample_listener_def default_pool_def applied_run_row new_row_def\<close>)
  with created [OF created_new_row] show ?thesis by (rule step)
qed

lemma row1_ext:
  "lb_external_ids row1 = [(''enabled'', ''True''), (LB_EXT_IDS_VIP_KEY, ''10.0.0.4''), (''listener_l1'', ''80:'')]"
  by code_simp

lemma row2_reachable: "reachable_row ref_lib row2"
proof -
  have "make_listener_key_value (PortInt 80) [] = ''80:''" by code_simp
  then have "fresh_pool sample_pool True (lb_external_ids row1)"
    by (auto simp: fresh_pool_def row1_ext sample_pool_def dict_has_def get_pool_key_simps
        get_listener_key_simps truthy_def intro: sym)
  then have "row_step ref_lib row1 row2"
    by (rule pool_created) (simp add: row2_def row1_ext applied_run_row)
  with row1_reachable show ?thesis by (rule step)
qed

lemma row2_ext:
  "lb_external_ids row2 = [(''enabled'', ''True''), (LB_EXT_IDS_VIP_KEY, ''10.0.0.4''),
     (''listener_l1'', ''80:pool_p1''), (''pool_p1'', [])]"
  by code_simp

lemma row3_reachable: "reachable_row ref_lib row3"
proof -
  obtain cmds where c: "pool_value_commands ref_lib row2 ''pool_p1'' ''member_m1_10.0.0.10:8080_s1'' True False = Inr cmds"
    by (cases "pool_value_commands ref_lib row2 ''pool_p1'' ''member_m1_10.0.0.10:8080_s1'' True False")
      (code_simp, blast)
  have "row_step ref_lib row2 row3"
    by (rule pool_value_changed [OF _ _ c])
      (use c in \<open>simp_all add: row3_def row2_ext applied_run_row startswith_def contains_simps\<close>)
  with row2_reachable show ?thesis by (rule step)
qed

theorem reachable_vips_ok_witness:
  "vips_ok ref_lib row3 \<and> lb_vips row3 = [(''10.0.0.4:80'', ''10.0.0.10:8080'')]"
  using reachable_vips_ok [OF row3_reachable] row3_vips by simp

end
