(* ===== verification/RefDb.thy ===== *)
theory RefDb
  imports RefLib NbRows
begin

text \<open>
  A concrete outside: an in-memory northbound database with switches, routers and load balancers,
  and a Neutron and an Octavia that know a few objects. Like \<open>RefLib\<close> it only serves the witnesses: the
  properties that name a hypothesis on the outside are applied to it.
\<close>

record db =
  db_lbs :: "lb_row list"
  db_hcs :: "hc_row list"
  db_lss :: "ls_row list"
  db_lrs :: "lr_row list"
  db_ports :: "port list"
  db_subnets :: "(string \<times> subnet) list"
  db_oc_lbs :: "(string \<times> oc_lb) list"
  db_oc_pools :: "(string \<times> oc_pool) list"
  db_oc_listeners :: "(string \<times> bool) list"
  db_sent :: "status list"          \<comment> \<open>the statuses Octavia received\<close>
  db_writes :: "cmd list"           \<comment> \<open>the commands that were executed\<close>

definition get_row :: "('r \<Rightarrow> bool) \<Rightarrow> (db \<Rightarrow> 'r list) \<Rightarrow> (db, 'r) io" where
  "get_row p t w = (case find p (t w) of None \<Rightarrow> (Inl RowNotFound, w) | Some r \<Rightarrow> (Inr r, w))"

definition ask :: "(db \<Rightarrow> 'a) \<Rightarrow> (db, 'a) io" where
  "ask f w = (Inr (f w), w)"

text \<open>A switch that does not exist makes its commands fail.\<close>

fun missing_switch :: "db \<Rightarrow> cmd \<Rightarrow> bool" where
  "missing_switch w (ls_lb_add ls u m) = (\<not> list_ex (\<lambda>s. sw_uuid s = ls \<or> sw_name s = ls) (db_lss w))"
| "missing_switch w (ls_lb_del ls u i) = (\<not> list_ex (\<lambda>s. sw_uuid s = ls \<or> sw_name s = ls) (db_lss w))"
| "missing_switch w c = False"

fun run_ls :: "cmd \<Rightarrow> ls_row \<Rightarrow> ls_row" where
  "run_ls (ls_lb_add ls u m) s =
     (if (sw_uuid s = ls \<or> sw_name s = ls) \<and> u \<notin> set (sw_load_balancer s)
      then s\<lparr>sw_load_balancer := sw_load_balancer s @ [u]\<rparr> else s)"
| "run_ls (ls_lb_del ls u i) s =
     (if sw_uuid s = ls \<or> sw_name s = ls
      then s\<lparr>sw_load_balancer := removeAll u (sw_load_balancer s)\<rparr> else s)"
| "run_ls c s = s"

definition run_db :: "cmd list \<Rightarrow> db \<Rightarrow> db" where
  "run_db cmds w =
     w\<lparr>db_lbs := map (run_row cmds) (filter (\<lambda>r. \<not> deletes_row (lb_uuid r) cmds) (db_lbs w)),
       db_lss := map (fold run_ls cmds) (db_lss w),
       db_writes := db_writes w @ cmds\<rparr>"

definition ref_txn :: "cmd list \<Rightarrow> (db, unit) io" where
  "ref_txn cmds w = (if list_ex (missing_switch w) cmds then (Inl RowNotFound, w) else (Inr (), run_db cmds w))"

definition ref_new_row :: "lb_kwargs \<Rightarrow> lb_row" where
  "ref_new_row k =
     \<lparr>lb_uuid = kw_name k @ concat (kw_protocol k), lb_name = kw_name k, lb_protocol = kw_protocol k,
      lb_external_ids = dict_merge [] (map (\<lambda>(i, v). (i, str_opt v)) (kw_external_ids k)),
      lb_vips = [], lb_options = [],
      lb_selection_fields = (case kw_selection_fields k of None \<Rightarrow> [] | Some fs \<Rightarrow> fs),
      lb_health_check = [], lb_ip_port_mappings = []\<rparr>"

definition ref_create_lb :: "lb_kwargs \<Rightarrow> (db, unit) io" where
  "ref_create_lb k w = (Inr (), w\<lparr>db_lbs := db_lbs w @ [ref_new_row k]\<rparr>)"

definition ref_port :: "string \<Rightarrow> port" where
  "ref_port n = \<lparr>p_id = n, p_name = n, p_network_id = [], p_fixed_ips = []\<rparr>"

definition ref_env :: "db env" where
  "ref_env =
     \<lparr>ip_version = ref_ip_version, ip_version_none = Inl TypeError,
      ip_address = ref_address, net_ip = ref_address, ip_in_net = ref_ip_in_net,
      is_valid_ipv4 = (\<lambda>a. ref_ip_version a = Inr 4), is_valid_ipv6 = (\<lambda>a. ref_ip_version a = Inr 6),
      loads_ints = ref_loads_ints, dumps_ints = ref_dumps_ints,
      loads_strs = ref_loads_strs, dumps_strs = (\<lambda>d. put_list (pairs_of d)),
      loads_list = ref_loads_list, dumps_list = put_list, set_order = (\<lambda>xs. xs),
      nb_schema = (\<lambda>t. Some [''vips'', ''selection_fields'']),
      nb_lbs_by_name = (\<lambda>n. ask (\<lambda>w. map lb_uuid (filter (\<lambda>r. lb_name r = n) (db_lbs w)))),
      nb_lb_rows = ask (\<lambda>w. map lb_uuid (db_lbs w)),
      nb_lb = (\<lambda>u. get_row (\<lambda>r. lb_uuid r = u) db_lbs),
      nb_hc = (\<lambda>u. get_row (\<lambda>r. hc_uuid r = u) db_hcs),
      nb_hc_rows = ask db_hcs,
      nb_ls_get = (\<lambda>n. get_row (\<lambda>r. sw_name r = n) db_lss),
      nb_ls = (\<lambda>u. get_row (\<lambda>r. sw_uuid r = u) db_lss),
      nb_lookup_ls = (\<lambda>n. get_row (\<lambda>r. sw_name r = n) db_lss),
      nb_lookup_lr = (\<lambda>n. get_row (\<lambda>r. rt_name r = n) db_lrs),
      nb_lr = (\<lambda>u. get_row (\<lambda>r. rt_uuid r = u) db_lrs),
      nb_ls_rows = ask db_lss,
      nb_lr_rows = ask db_lrs,
      nb_lbs_with_health_check = ask (\<lambda>w. map lb_uuid (filter (\<lambda>r. lb_health_check r \<noteq> []) (db_lbs w))),
      nb_lbs_with_mappings = ask (\<lambda>w. map lb_uuid (filter (\<lambda>r. lb_ip_port_mappings r \<noteq> []) (db_lbs w))),
      nb_lbs_by_mapping = (\<lambda>ip lp src. ask (\<lambda>w. map lb_uuid
         (filter (\<lambda>r. dict_get (lb_ip_port_mappings r) ip = Some (lp @ '':'' @ src)) (db_lbs w)))),
      nb_nats_of_port = (\<lambda>p. ask (\<lambda>w. [])),
      nb_lsps_named = (\<lambda>n. ask (\<lambda>w. filter (\<lambda>p. lsp_name p = n) (concat (map sw_ports (db_lss w))))),
      nb_txn = ref_txn,
      nb_exec = (\<lambda>c. ref_txn [c]),
      nb_exec_nocheck = (\<lambda>c w. (Inr (), run_db [c] w)),
      nb_create_lb = ref_create_lb,
      nb_mutate_ext_id = (\<lambda>u k v. ret ()),
      nt_client = ret (),
      nt_get_port = (\<lambda>i. ask (\<lambda>w. find (\<lambda>p. p_id p = i) (db_ports w))),
      nt_get_subnet = (\<lambda>i w. case i of None \<Rightarrow> (Inl ResourceNotFound, w)
         | Some s \<Rightarrow> (case map_of (db_subnets w) s of None \<Rightarrow> (Inl ResourceNotFound, w) | Some n \<Rightarrow> (Inr n, w))),
      nt_get_network = (\<lambda>n. ret None),
      nt_ports_of_network = (\<lambda>n. ask (\<lambda>w. filter (\<lambda>p. p_network_id p = n) (db_ports w))),
      nt_ports_named = (\<lambda>n. ask (\<lambda>w. filter (\<lambda>p. p_name p = n) (db_ports w))),
      nt_find_port = (\<lambda>net n. ask (\<lambda>w. find (\<lambda>p. p_name p = n) (db_ports w))),
      nt_create_port = (\<lambda>r w. (Inr (ref_port (pr_name r)), w\<lparr>db_ports := db_ports w @ [ref_port (pr_name r)]\<rparr>)),
      nt_create_hm_port = (\<lambda>r w. (Inr (ref_port (hp_name r)), w\<lparr>db_ports := db_ports w @ [ref_port (hp_name r)]\<rparr>)),
      nt_ports_owned_by = (\<lambda>d. ask (\<lambda>w. [])),
      nt_update_port = (\<lambda>i own d. ret ()),
      nt_ips_of_port = (\<lambda>p. ret []),
      nt_get_ip = (\<lambda>i. ret []),
      nt_update_ip = (\<lambda>i d. ret ()),
      nt_delete_port = (\<lambda>i w.
         if list_ex (\<lambda>p. p_id p = i) (db_ports w)
         then (Inr (), w\<lparr>db_ports := filter (\<lambda>p. p_id p \<noteq> i) (db_ports w)\<rparr>) else (Inl ResourceNotFound, w)),
      oc_get_pool = (\<lambda>i. ask (\<lambda>w. map_of (db_oc_pools w) i)),
      oc_get_listener = (\<lambda>i. ask (\<lambda>w. map_of (db_oc_listeners w) i)),
      oc_get_loadbalancer = (\<lambda>i. ask (\<lambda>w. map_of (db_oc_lbs w) i)),
      oc_update_status = (\<lambda>s w. (Inr (), w\<lparr>db_sent := db_sent w @ [s]\<rparr>)),
      retry_unit = (\<lambda>p s m. m), retry_rows = (\<lambda>p s m. m), retry_ports = (\<lambda>p s m. m), retry_port = (\<lambda>p s m. m)\<rparr>"

lemma ref_env_lib [simp]:
  "ip_version ref_env = ref_ip_version" "ip_address ref_env = ref_address" "net_ip ref_env = ref_address"
  "ip_in_net ref_env = ref_ip_in_net"
  "loads_ints ref_env = ref_loads_ints" "dumps_ints ref_env = ref_dumps_ints"
  "loads_strs ref_env = ref_loads_strs" "loads_list ref_env = ref_loads_list" "dumps_list ref_env = put_list"
  "dumps_strs ref_env d = put_list (pairs_of d)"
  by (simp_all add: ref_env_def)

lemma ref_env_nb [simp]:
  "nb_lbs_by_name ref_env n = ask (\<lambda>w. map lb_uuid (filter (\<lambda>r. lb_name r = n) (db_lbs w)))"
  "nb_lb_rows ref_env = ask (\<lambda>w. map lb_uuid (db_lbs w))"
  "nb_lb ref_env u = get_row (\<lambda>r. lb_uuid r = u) db_lbs"
  "nb_lr ref_env u = get_row (\<lambda>r. rt_uuid r = u) db_lrs"
  "nb_txn ref_env = ref_txn" "nb_exec ref_env c = ref_txn [c]"
  by (simp_all add: ref_env_def)

definition empty_db :: db where
  "empty_db =
     \<lparr>db_lbs = [], db_hcs = [], db_lss = [], db_lrs = [], db_ports = [], db_subnets = [], db_oc_lbs = [],
      db_oc_pools = [], db_oc_listeners = [], db_sent = [], db_writes = []\<rparr>"

end
