(* ===== verification/AssocSpec.thy ===== *)
theory AssocSpec
  imports Assoc RefDb "HOL-Library.Multiset"
begin

text \<open>
  What the two references of a load balancer promise. \<open>ls_refs\<close> is a reference count: it represents the
  multiset of the objects (the VIP, the members) that use a switch, and the switch has the load
  balancer exactly while something uses it. \<open>lr_ref\<close> represents a list of routers.
\<close>

section \<open>Reference counts\<close>

definition refs_of :: "int pydict \<Rightarrow> string multiset \<Rightarrow> bool" where
  "refs_of refs uses \<longleftrightarrow>
     (\<forall>n. dict_get refs n = (if n \<in># uses then Some (int (count uses n)) else None))"

lemma refs_of_Nil [simp]: "refs_of [] {#}"
  by (simp add: refs_of_def)

lemma refs_of_get: "refs_of refs uses \<Longrightarrow> dict_get refs n = (if n \<in># uses then Some (int (count uses n)) else None)"
  by (simp add: refs_of_def)

lemma refs_of_has: "refs_of refs uses \<Longrightarrow> dict_has refs n \<longleftrightarrow> n \<in># uses"
  by (simp add: refs_of_get dict_has_def)

text \<open>
  The uses: \<open>Associate n additional sync\<close> as the handlers call the association, for the VIP with \<open>additional\<close>,
  for a member without, for a synchronisation with \<open>sync\<close>.
\<close>

datatype ls_use = Associate string bool bool | Disassociate string

fun use_name :: "ls_use \<Rightarrow> string" where
  "use_name (Associate n additional sync) = n"
| "use_name (Disassociate n) = n"

text \<open>The first association of the VIP stands for the additional VIPs too.\<close>

definition first_uses :: "string pydict \<Rightarrow> bool \<Rightarrow> nat" where
  "first_uses ext additional =
     (let vips = dict_get_default ext LB_EXT_IDS_ADDIT_VIP_KEY [] in
      if additional \<and> vips \<noteq> [] then 1 + length (split_on CHR '','' vips) else 1)"

text \<open>A synchronisation adds a use only when there is none.\<close>

fun uses_after :: "string pydict \<Rightarrow> ls_use \<Rightarrow> string multiset \<Rightarrow> string multiset" where
  "uses_after ext (Associate n additional sync) uses =
     (if n \<notin># uses then uses + replicate_mset (first_uses ext additional) n
      else if sync then uses else add_mset n uses)"
| "uses_after ext (Disassociate n) uses = uses - {#n#}"

text \<open>The switches that have the load balancer, under the commands of an update.\<close>

fun attached_after :: "cmd \<Rightarrow> string set \<Rightarrow> string set" where
  "attached_after (ls_lb_add s u m) att = insert s att"
| "attached_after (ls_lb_del s u i) att = att - {s}"
| "attached_after c att = att"

text \<open>
  One association or disassociation of a switch that exists, as \<open>_get_lb_to_ls_association_commands\<close> does it: a
  synchronisation skips a switch that has the load balancer.
\<close>

definition use_switch ::
  "string \<Rightarrow> (string \<Rightarrow> ls_row) \<Rightarrow> string pydict \<Rightarrow> ls_use \<Rightarrow> int pydict \<times> string set \<Rightarrow> int pydict \<times> string set"
where
  "use_switch u sw ext use st =
     (case st of (refs, att) \<Rightarrow>
      let ls = sw (use_name use);
          (associate, additional, skip) =
            (case use of
               Associate n additional sync \<Rightarrow> (True, additional, sync \<and> sw_uuid ls \<in> att)
             | Disassociate n \<Rightarrow> (False, False, False)) in
      case update_ls_refs u ext refs (Some (use_name use)) (Some ls) associate additional skip of
        Inl cmds \<Rightarrow> (refs, fold attached_after cmds att)
      | Inr (cmds, refs') \<Rightarrow> (refs', fold attached_after cmds att))"

definition switch_inv :: "(string \<Rightarrow> ls_row) \<Rightarrow> string multiset \<Rightarrow> int pydict \<times> string set \<Rightarrow> bool" where
  "switch_inv sw uses st \<longleftrightarrow> refs_of (fst st) uses \<and> snd st = (sw_uuid \<circ> sw) ` set_mset uses"

lemma associate_inv:
  assumes r: "refs_of refs uses" and a: "att = (sw_uuid \<circ> sw) ` set_mset uses"
    and inj: "inj (sw_uuid \<circ> sw)" and n: "n \<noteq> []"
  shows "switch_inv sw (uses_after ext (Associate n additional sync) uses)
    (use_switch u sw ext (Associate n additional sync) (refs, att))"
proof -
  have here: "sw_uuid (sw n) \<in> att \<longleftrightarrow> n \<in># uses"
    using inj by (auto simp: a inj_def)
  note get = refs_of_get [OF r]
  have count: "(if additional \<and> dict_get_default ext LB_EXT_IDS_ADDIT_VIP_KEY [] \<noteq> []
      then 1 + int (length (split_on CHR '','' (dict_get_default ext LB_EXT_IDS_ADDIT_VIP_KEY []))) else 1)
      = int (first_uses ext additional)"
    by (simp add: first_uses_def Let_def)
  have pos: "0 < first_uses ext additional" by (simp add: first_uses_def Let_def)
  show ?thesis
  proof (cases "n \<in># uses")
    case True
    then show ?thesis
      using r n by (auto simp: switch_inv_def use_switch_def update_ls_refs_def refs_of_has [OF r] here a truthy_def
          refs_of_def get Let_def)
  next
    case False
    have "use_switch u sw ext (Associate n additional sync) (refs, att)
        = (dict_set refs n (int (first_uses ext additional)), insert (sw_uuid (sw n)) att)"
      using False n by (simp add: use_switch_def update_ls_refs_def refs_of_has [OF r] here truthy_def Let_def
          first_uses_def)
    moreover have "refs_of (dict_set refs n (int (first_uses ext additional))) (uses + replicate_mset (first_uses ext additional) n)"
      using False pos by (auto simp: refs_of_def get not_in_iff)
    ultimately show ?thesis using False pos by (simp add: switch_inv_def a)
  qed
qed

lemma use_switch_inv:
  assumes "switch_inv sw uses st" and "inj (sw_uuid \<circ> sw)" and "use_name use \<noteq> []"
  shows "switch_inv sw (uses_after ext use uses) (use_switch u sw ext use st)"
proof -
  obtain refs att where st: "st = (refs, att)" by fastforce
  with assms(1) have r: "refs_of refs uses" and a: "att = (sw_uuid \<circ> sw) ` set_mset uses"
    by (simp_all add: switch_inv_def)
  note get = refs_of_get [OF r]
  have ne: "sw_uuid (sw m) = sw_uuid (sw n) \<longleftrightarrow> m = n" for m n
    using assms(2) by (auto simp: inj_def)
  show ?thesis
  proof (cases use)
    case (Associate n additional sync)
    with assms(3) show ?thesis unfolding st Associate by (intro associate_inv [OF r a assms(2)]) simp
  next
    case (Disassociate n)
    consider "n \<notin># uses" | "count uses n = 1" | k where "count uses n = Suc (Suc k)"
      by (metis One_nat_def not_in_iff old.nat.exhaust)
    then show ?thesis
    proof cases
      case 1
      with Disassociate show ?thesis
        by (auto simp: switch_inv_def use_switch_def st update_ls_refs_def refs_of_has [OF r] a r
            Let_def ne diff_single_trivial)
    next
      case 2
      then have n: "n \<in># uses" and left: "set_mset (uses - {#n#}) = set_mset uses - {n}"
        by (auto simp: set_eq_iff in_diff_count count_inI not_in_iff)
      have "use_switch u sw ext use st = (dict_del refs n, att - {sw_uuid (sw n)})"
        by (simp add: use_switch_def st Disassociate update_ls_refs_def refs_of_has [OF r] n get 2)
      moreover have "refs_of (dict_del refs n) (uses - {#n#})"
        using left by (auto simp: refs_of_def get)
      moreover have "att - {sw_uuid (sw n)} = (sw_uuid \<circ> sw) ` (set_mset uses - {n})"
        unfolding a using inj_on_image_set_diff [OF assms(2), of "set_mset uses" "{n}"] n by simp
      ultimately show ?thesis by (simp add: switch_inv_def Disassociate left)
    next
      case 3
      then have "n \<in># uses" "set_mset (uses - {#n#}) = set_mset uses"
        by (auto simp: set_eq_iff in_diff_count count_inI)
      with 3 Disassociate show ?thesis
        by (auto simp: switch_inv_def use_switch_def st update_ls_refs_def refs_of_has [OF r] a
            refs_of_def get Let_def)
    qed
  qed
qed

text \<open>C12: The reference count of switches: take any sequence of associations (of the VIP with its additional VIPs,
  of members, of synchronisations) and disassociations of named switches that exist, and switches that have the
  load balancer only by these. Then \<open>ls_refs\<close> counts exactly the uses of each switch that are left - the first
  association of the VIP counts one use and one more for every additional VIP, a synchronisation counts only when
  there was no use - and the load balancer is on exactly the switches with a use left. (A router association adds
  and removes switches without counting; that is not part of the sequence.)\<close>

theorem switches_follow_uses:
  assumes "switch_inv sw uses st" and "inj (sw_uuid \<circ> sw)" and "[] \<notin> use_name ` set ops"
  shows "switch_inv sw (fold (uses_after ext) ops uses) (fold (use_switch u sw ext) ops st)"
  using assms
proof (induction ops arbitrary: uses st)
  case (Cons use ops)
  then have "switch_inv sw (uses_after ext use uses) (use_switch u sw ext use st)"
    by (intro use_switch_inv [OF _ assms(2)]) auto
  with Cons show ?case by simp
qed simp

definition sample_switch :: "string \<Rightarrow> ls_row" where
  "sample_switch n = \<lparr>sw_uuid = n, sw_name = n, sw_ports = [], sw_load_balancer = []\<rparr>"

theorem switches_follow_uses_witness:
  "let st = fold (use_switch ''u'' sample_switch [(LB_EXT_IDS_ADDIT_VIP_KEY, ''10.0.0.5,10.0.0.6'')])
              [Associate ''a'' True False, Associate ''b'' False False, Associate ''a'' False True,
               Disassociate ''b'', Disassociate ''a''] ([], {})
   in switch_inv sample_switch {#''a'', ''a''#} st \<and> fst st = [(''a'', 2)]"
  using switches_follow_uses [of sample_switch "{#}" "([], {})"
      "[Associate ''a'' True False, Associate ''b'' False False, Associate ''a'' False True,
        Disassociate ''b'', Disassociate ''a'']" "[(LB_EXT_IDS_ADDIT_VIP_KEY, ''10.0.0.5,10.0.0.6'')]" "''u''"]
  by (simp add: switch_inv_def inj_def sample_switch_def use_switch_def update_ls_refs_def first_uses_def
      truthy_def dict_has_def dict_get_default_def Let_def numeral_3_eq_3)



section \<open>The routers of a load balancer\<close>

definition lr_ref_of :: "string list \<Rightarrow> string option" where
  "lr_ref_of rs = (if rs = [] then None else Some (join '','' rs))"

text \<open>Router names are \<open>neutron-<uuid>\<close>: no comma, no white space, and no other text.\<close>

definition router_name :: "string \<Rightarrow> bool" where
  "router_name n \<longleftrightarrow> n \<noteq> [] \<and> CHR '','' \<notin> set n \<and> strip n = n \<and> \<not> contains n ''None''"

lemma contains_join:
  assumes "CHR '','' \<notin> set n" and "rs \<noteq> []"
  shows "contains n (join '','' rs) \<longleftrightarrow> list_ex (contains n) rs"
  using assms(2)
proof (induction rs)
  case (Cons r rs)
  then show ?case
    using contains_sep [OF assms(1), of r "join '','' rs"]
    by (cases "rs = []") (simp_all add: join_Cons)
qed simp

definition with_router :: "string \<Rightarrow> string \<Rightarrow> string pydict \<Rightarrow> string pydict" where
  "with_router u name ext =
     cols_after u EXT_IDS (add_lr_ref u name (dict_get ext LB_EXT_IDS_LR_REF_KEY)) ext"

lemma with_router_ref:
  assumes "dict_get ext LB_EXT_IDS_LR_REF_KEY = lr_ref_of rs"
    and "list_all router_name (name # rs)" and "\<not> list_ex (contains name) rs"
  shows "dict_get (with_router u name ext) LB_EXT_IDS_LR_REF_KEY = lr_ref_of (rs @ [name])"
proof (cases "rs = []")
  case True
  with assms show ?thesis
    by (simp add: with_router_def lr_ref_of_def add_lr_ref_def str_opt_def router_name_def truthy_def)
next
  case False
  with assms(2) have "join '','' rs \<noteq> []"
    using join_eq_Nil [of "'',''" rs "hd rs"] by (cases rs) (auto simp: router_name_def)
  with False assms show ?thesis
    by (simp add: with_router_def lr_ref_of_def add_lr_ref_def str_opt_def router_name_def truthy_def
        contains_join join_append)
qed

lemma without_router_ref:
  assumes "dict_get (lb_external_ids lb) LB_EXT_IDS_LR_REF_KEY = lr_ref_of rs" and "rs \<noteq> []"
    and "list_all router_name rs"
    and "del_lb_to_lr_association L lb lr (dict_get (lb_external_ids lb) LB_EXT_IDS_LR_REF_KEY) = Inr cmds"
  shows "dict_get (cols_after (lb_uuid lb) EXT_IDS cmds (lb_external_ids lb)) LB_EXT_IDS_LR_REF_KEY
           = lr_ref_of (filter (\<lambda>r. r \<noteq> rt_name lr) rs)"
    and "lr_lb_del (rt_uuid lr) (lb_uuid lb) True \<in> set cmds"
proof -
  let ?j = "join '','' rs" and ?rest = "filter (\<lambda>r. r \<noteq> rt_name lr) rs"
  have ne: "?j \<noteq> []"
    using join_eq_Nil [of "'',''" rs "hd rs"] assms(2,3) by (cases rs) (auto simp: router_name_def)
  have "map strip (split_on CHR '','' ?j) = rs"
    using comma.dec_enc [OF assms(2)] assms(3) by (auto simp: list_all_iff router_name_def intro!: map_idI)
  then obtain nets where cmds: "cmds =
      (if ?rest \<noteq> [] then [db_set Load_Balancer (lb_uuid lb) EXT_IDS (StrMap [(LB_EXT_IDS_LR_REF_KEY, join '','' ?rest)])]
       else [db_remove Load_Balancer (lb_uuid lb) EXT_IDS LB_EXT_IDS_LR_REF_KEY])
      @ [lr_lb_del (rt_uuid lr) (lb_uuid lb) True] @ map (\<lambda>net. ls_lb_del net (lb_uuid lb) True) nets"
    using assms(1,2,4) ne by (auto simp: del_lb_to_lr_association_def lr_ref_of_def truthy_def Let_def)
  have "leaves EXT_IDS (map (\<lambda>net. ls_lb_del net (lb_uuid lb) True) nets)"
    by (simp add: leaves_def list_all_iff)
  then show "dict_get (cols_after (lb_uuid lb) EXT_IDS cmds (lb_external_ids lb)) LB_EXT_IDS_LR_REF_KEY
      = lr_ref_of ?rest"
    by (simp add: cmds lr_ref_of_def cols_after_leaves)
  show "lr_lb_del (rt_uuid lr) (lb_uuid lb) True \<in> set cmds" by (simp add: cmds)
qed

text \<open>C13: Associating a router and then disassociating it restores \<open>lr_ref\<close>, and the disassociation takes
  the load balancer off the router.\<close>

theorem router_roundtrip:
  assumes "dict_get ext LB_EXT_IDS_LR_REF_KEY = lr_ref_of rs"
    and "list_all router_name (rt_name lr # rs)" and "\<not> list_ex (contains (rt_name lr)) rs"
    and "lb_external_ids lb = with_router (lb_uuid lb) (rt_name lr) ext"
    and "del_lb_to_lr_association L lb lr (dict_get (lb_external_ids lb) LB_EXT_IDS_LR_REF_KEY) = Inr cmds"
  shows "dict_get (cols_after (lb_uuid lb) EXT_IDS cmds (lb_external_ids lb)) LB_EXT_IDS_LR_REF_KEY
           = dict_get ext LB_EXT_IDS_LR_REF_KEY \<and>
         lr_lb_del (rt_uuid lr) (lb_uuid lb) True \<in> set cmds"
proof -
  have ref: "dict_get (lb_external_ids lb) LB_EXT_IDS_LR_REF_KEY = lr_ref_of (rs @ [rt_name lr])"
    unfolding assms(4) by (rule with_router_ref [OF assms(1-3)])
  have "filter (\<lambda>r. r \<noteq> rt_name lr) rs = rs"
    using assms(3) by (auto simp: list_ex_iff contains_def intro!: filter_True)
  then show ?thesis
    using without_router_ref [OF ref _ _ assms(5)] assms(1,2) by simp
qed

definition sample_router :: lr_row where
  "sample_router =
     \<lparr>rt_uuid = ''r1'', rt_name = ''neutron-b'', rt_ports = [], rt_load_balancer = [], rt_external_ids = []\<rparr>"

definition sample_lb :: lb_row where
  "sample_lb =
     \<lparr>lb_uuid = ''u1'', lb_name = ''lb1'', lb_protocol = [],
      lb_external_ids = with_router ''u1'' ''neutron-b''
        [(LB_EXT_IDS_VIP_KEY, ''10.0.0.4''), (LB_EXT_IDS_LR_REF_KEY, ''neutron-a'')],
      lb_vips = [], lb_options = [], lb_selection_fields = [], lb_health_check = [], lb_ip_port_mappings = []\<rparr>"

lemma sample_lb_del:
  "del_lb_to_lr_association ref_lib sample_lb sample_router
     (dict_get (lb_external_ids sample_lb) LB_EXT_IDS_LR_REF_KEY)
   = Inr [db_set Load_Balancer ''u1'' EXT_IDS (StrMap [(LB_EXT_IDS_LR_REF_KEY, ''neutron-a'')]),
          lr_lb_del ''r1'' ''u1'' True]"
  by code_simp

theorem router_roundtrip_witness:
  "dict_get (lb_external_ids sample_lb) LB_EXT_IDS_LR_REF_KEY = Some ''neutron-a,neutron-b'' \<and>
   lr_lb_del ''r1'' ''u1'' True \<in> set [db_set Load_Balancer ''u1'' EXT_IDS (StrMap [(LB_EXT_IDS_LR_REF_KEY, ''neutron-a'')]),
          lr_lb_del ''r1'' ''u1'' True]"
proof
  show "dict_get (lb_external_ids sample_lb) LB_EXT_IDS_LR_REF_KEY = Some ''neutron-a,neutron-b''"
    by code_simp
  have u: "lb_uuid sample_lb = ''u1''" "rt_uuid sample_router = ''r1''"
    by (simp_all add: sample_lb_def sample_router_def)
  show "lr_lb_del ''r1'' ''u1'' True \<in> set [db_set Load_Balancer ''u1'' EXT_IDS (StrMap [(LB_EXT_IDS_LR_REF_KEY, ''neutron-a'')]),
          lr_lb_del ''r1'' ''u1'' True]"
    by (rule router_roundtrip [OF _ _ _ _ sample_lb_del, of "[(LB_EXT_IDS_VIP_KEY, ''10.0.0.4''),
          (LB_EXT_IDS_LR_REF_KEY, ''neutron-a'')]" "[''neutron-a'']", THEN conjunct2, unfolded u])
      code_simp+
qed

section \<open>Step by step\<close>

text \<open>A command that goes through, or fails on a switch that is gone.\<close>

definition tolerable :: "'w env \<Rightarrow> cmd \<Rightarrow> bool" where
  "tolerable E c \<longleftrightarrow>
     (\<forall>w. fst (nb_exec E c w) = Inr () \<or> fst (nb_exec E c w) = Inl RowNotFound \<and> is_ls_lb_cmd c)"

lemma by_step_loop:
  assumes "list_all (tolerable E) cmds"
  shows "for_each (\<lambda>command. catch (nb_exec E command)
            (\<lambda>e. if e = RowNotFound \<and> is_ls_lb_cmd command then ret () else throw e)) cmds w
         = (Inr (), fold (\<lambda>c w. snd (nb_exec E c w)) cmds w)"
  using assms
proof (induction cmds arbitrary: w)
  case (Cons c cmds)
  obtain r w' where r: "nb_exec E c w = (r, w')" by fastforce
  with Cons.prems have "r = Inr () \<or> r = Inl RowNotFound \<and> is_ls_lb_cmd c"
    by (auto simp: tolerable_def dest!: spec [of _ w])
  with Cons r show ?case by (auto simp: bnd_def catch_def)
qed simp

text \<open>C14: The association step by step: when the only failures are switches that are gone, it returns
  normally and has executed every command, in order, whichever of them failed.\<close>

theorem by_step_executes_all:
  assumes "get_lb_to_lr_association_commands E u lr delete is_sync w = (Inr cmds, w1)"
    and "list_all (tolerable E) cmds"
  shows "update_lb_to_lr_association_by_step E u lr delete is_sync w
         = (Inr (), fold (\<lambda>c w. snd (nb_exec E c w)) cmds w1)"
  by (simp add: update_lb_to_lr_association_by_step_def bnd_def assms(1) by_step_loop [OF assms(2)])

text \<open>A database whose router leads to a switch that is gone.\<close>

definition sample_lrp :: lrp_row where
  "sample_lrp =
     \<lparr>lrp_name = ''lrp-1'', lrp_networks = [''10.0.0.1/24''], lrp_gateway_chassis = [],
      lrp_external_ids = [(OVN_NETWORK_NAME_EXT_ID_KEY, ''neutron-gone'')]\<rparr>"

definition sample_db :: db where
  "sample_db = empty_db\<lparr>db_lbs := [sample_lb], db_lrs := [sample_router\<lparr>rt_ports := [sample_lrp]\<rparr>]\<rparr>"

lemma sample_commands:
  "get_lb_to_lr_association_commands ref_env ''u1'' ''r1'' True False sample_db
   = (Inr [db_set Load_Balancer ''u1'' EXT_IDS (StrMap [(LB_EXT_IDS_LR_REF_KEY, ''neutron-a'')]),
           lr_lb_del ''r1'' ''u1'' True, ls_lb_del ''neutron-gone'' ''u1'' True], sample_db)"
  by code_simp

lemma ref_env_tolerable: "tolerable ref_env c"
  by (cases c) (auto simp: tolerable_def ref_txn_def)

theorem by_step_executes_all_witness:
  "update_lb_to_lr_association_by_step ref_env ''u1'' ''r1'' True False sample_db
   = (Inr (), run_db [lr_lb_del ''r1'' ''u1'' True]
        (run_db [db_set Load_Balancer ''u1'' EXT_IDS (StrMap [(LB_EXT_IDS_LR_REF_KEY, ''neutron-a'')])] sample_db))"
  by (subst by_step_executes_all [OF sample_commands])
    (simp_all add: list_all_iff ref_env_tolerable ref_txn_def run_db_def sample_db_def empty_db_def)

end
