(* ===== verification/MemberSpec.thy ===== *)
theory MemberSpec
  imports MemberOps Traffic
begin

text \<open>
  What the member handlers do to the value of a pool: the value is a list of members, adding appends
  one, removing takes one away, and traffic follows.
\<close>

section \<open>The fields of a member\<close>

definition member_fields :: "member_dict \<Rightarrow> mem_info" where
  "member_fields m =
     (the (md_address m), str_port (the (md_protocol_port m)),
      case md_subnet_id m of None \<Rightarrow> [] | Some s \<Rightarrow> s, md_id m)"

definition storable_member :: "member_dict \<Rightarrow> bool" where
  "storable_member m \<longleftrightarrow> md_address m \<noteq> None \<and> md_protocol_port m \<noteq> None \<and> storable (member_fields m)"

lemma get_member_info_print:
  "storable_member m \<Longrightarrow> get_member_info m = Inr (print_member (member_fields m))"
  by (auto simp: storable_member_def get_member_info_def member_fields_def print_member_def Let_def)

text \<open>C15: What the code writes for the members of a pool it reads back: the parts of the stored value
  give exactly the address, port, subnet and id of every member, in order.\<close>

theorem pool_value_roundtrip:
  assumes "list_all storable_member ms"
  shows "\<exists>infos. mapR get_member_info ms = Inr infos \<and>
           extract_member_info (join '','' infos) = Inr (map member_fields ms)"
proof -
  have "mapR get_member_info ms = Inr (map (\<lambda>m. print_member (member_fields m)) ms)"
    by (rule mapR_Inr_map) (use assms get_member_info_print in \<open>auto simp: list_all_iff\<close>)
  moreover have "list_all storable (map member_fields ms)"
    using assms by (auto simp: list_all_iff storable_member_def)
  ultimately show ?thesis
    using extract_print_members [of "map member_fields ms"] by (simp add: comp_def)
qed

definition sample_member :: "string \<Rightarrow> string \<Rightarrow> member_dict" where
  "sample_member i ip =
     \<lparr>md_id = i, md_address = Some ip, md_protocol_port = Some (PortInt 80), md_pool_id = Some ''p1'',
      md_subnet_id = Some ''s1'', md_admin_state_up = Some True\<rparr>"

theorem pool_value_roundtrip_witness:
  "\<exists>infos. mapR get_member_info [sample_member ''m1'' ''10.0.0.10'', sample_member ''m2'' ''fd00::11''] = Inr infos \<and>
     extract_member_info (join '','' infos)
     = Inr (map member_fields [sample_member ''m1'' ''10.0.0.10'', sample_member ''m2'' ''fd00::11''])"
  by (rule pool_value_roundtrip) code_simp

section \<open>Adding and removing\<close>

text \<open>The parts of a stored value; the empty value has none.\<close>

definition parts :: "string \<Rightarrow> string list" where
  "parts v = (if v = [] then [] else split_on CHR '','' v)"

lemma join_parts [simp]: "join '','' (parts v) = v"
  by (simp add: parts_def join_split_on)

lemma parts_snoc:
  assumes "CHR '','' \<notin> set m" and "m \<noteq> []"
  shows "parts (join '','' (parts v @ [m])) = parts v @ [m]"
proof -
  have "join '','' (parts v @ [m]) \<noteq> []"
    using join_eq_Nil [of "'',''" "parts v @ [m]" m] assms(2) by auto
  moreover have "split_on CHR '','' (join '','' (parts v @ [m])) = parts v @ [m]"
    by (rule comma.dec_enc) (use assms(1) in \<open>auto simp: parts_def list_all_iff dest: split_on_elems\<close>)
  ultimately show ?thesis unfolding parts_def by simp
qed

lemma add_member_data_eq:
  assumes "storable_member m"
  defines "i \<equiv> print_member (member_fields m)"
  shows "add_member_data m v = Inr (if i \<in> set (parts v) then None else Some (i, join '','' (parts v @ [i])))"
  by (simp add: add_member_data_def get_member_info_print [OF assms(1)] i_def parts_def Let_def)

lemma update_pool_data_eq:
  assumes "storable_member m"
  defines "i \<equiv> print_member (member_fields m)"
  shows "update_pool_data m k ext
    = Inr (if i \<in> set (parts (dict_get_default ext k [])) then None
           else Some (join '','' (parts (dict_get_default ext k []) @ [i])))"
  by (simp add: update_pool_data_def get_member_info_print [OF assms(1)] i_def parts_def Let_def)

lemma remove_member_data_eq:
  assumes "storable_member m"
  defines "i \<equiv> print_member (member_fields m)"
  shows "remove_member_data m v = Inr (if i \<in> set (parts v) then Some (remove1 i (parts v)) else None)"
  by (simp add: remove_member_data_def get_member_info_print [OF assms(1)] i_def parts_def Let_def)

text \<open>C16: A member that was added is found again (adding it a second time changes nothing), and
  removing it gives back exactly the value the pool had before.\<close>

theorem member_add_remove:
  assumes "storable_member m" and "add_member_data m v = Inr (Some (info, v'))"
  shows "add_member_data m v' = Inr None \<and>
         (\<exists>rest. remove_member_data m v' = Inr (Some rest) \<and> join '','' rest = v)"
proof -
  let ?i = "print_member (member_fields m)"
  from assms have v': "v' = join '','' (parts v @ [?i])" and new: "?i \<notin> set (parts v)"
    by (auto simp: add_member_data_eq [OF assms(1)] split: if_splits)
  have p: "parts v' = parts v @ [?i]"
    unfolding v' by (rule parts_snoc) (use assms(1) print_member_comma_free in \<open>auto simp: storable_member_def\<close>)
  with new show ?thesis
    by (simp add: add_member_data_eq [OF assms(1)] remove_member_data_eq [OF assms(1)] remove1_append)
qed

theorem member_add_remove_witness:
  "add_member_data (sample_member ''m2'' ''10.0.0.11'')
     ''member_m1_10.0.0.10:80_s1,member_m2_10.0.0.11:80_s1'' = Inr None"
  by (rule member_add_remove [of "sample_member ''m2'' ''10.0.0.11''" "''member_m1_10.0.0.10:80_s1''"
        "''member_m2_10.0.0.11:80_s1''", THEN conjunct1])
    code_simp+

section \<open>Traffic follows\<close>

lemma extract_snoc:
  assumes "storable_member m" and "extract_member_info v = Inr infos"
  shows "extract_member_info (join '','' (parts v @ [print_member (member_fields m)]))
         = Inr (infos @ [member_fields m])"
proof -
  let ?i = "print_member (member_fields m)"
  have p: "parts (join '','' (parts v @ [?i])) = parts v @ [?i]"
    by (rule parts_snoc) (use assms(1) print_member_comma_free in \<open>auto simp: storable_member_def\<close>)
  have "extract_member_info w = mapR extract_one_member (parts w)" for w
    by (simp add: extract_member_info_def parts_def)
  moreover have "extract_one_member ?i = Inr (member_fields m)"
    by (rule members.dec_enc) (use assms(1) in \<open>simp add: storable_member_def\<close>)
  ultimately show ?thesis
    using assms(2) by (simp add: p mapR_append)
qed

text \<open>The entries of the specification.\<close>

lemma add_member_serves:
  assumes "storable_member m" and "add_member_data m v = Inr (Some (info, v'))"
    and "dict_get ext pool_key = Some v" and "extract_listener_key_value l = (Some p, Some pool_key)"
    and "serving_pool ext (k, l) = Some (p, v)"
    and "extract_member_info v = Inr infos" and "mapR (backend_of L lb) infos = Inr bs"
    and "is_member_offline L lb (md_id m) = Inr False" and "ip_version L (the (md_address m)) = Inr 4"
    and "answers_on L ext 4 a" and "dict_get ext ''enabled'' \<noteq> Some ''False''"
    and "startswith pool_key LB_EXT_IDS_POOL_PREFIX"
  shows "serves L lb (dict_set ext pool_key v') (k, l) (a @ '':'' @ p)
           (join '','' (backends 4 bs @ [the (md_address m) @ '':'' @ str_port (the (md_protocol_port m))]))"
proof -
  let ?ext' = "dict_set ext pool_key v'" and ?i = "print_member (member_fields m)"
  let ?b = "Some (4, the (md_address m) @ '':'' @ str_port (the (md_protocol_port m)))"
  have v': "v' = join '','' (parts v @ [?i])"
    using assms(2) by (auto simp: add_member_data_eq [OF assms(1)] split: if_splits)
  have infos: "extract_member_info v' = Inr (infos @ [member_fields m])"
    unfolding v' by (rule extract_snoc [OF assms(1,6)])
  then have "v' \<noteq> []" by (auto simp: extract_member_info_def)
  with assms(4,5) have pool: "serving_pool ?ext' (k, l) = Some (p, v')"
    by (auto simp: serving_pool_def split: if_splits option.splits)
  have bs: "mapR (backend_of L lb) (infos @ [member_fields m]) = Inr (bs @ [?b])"
    using assms(7-9) by (simp add: mapR_append backend_of_def member_fields_def address_text_def)
  have neq: "pool_key \<noteq> LB_EXT_IDS_VIP_KEY" "pool_key \<noteq> LB_EXT_IDS_ADDIT_VIP_KEY"
    "pool_key \<noteq> LB_EXT_IDS_VIP_FIP_KEY" "pool_key \<noteq> LB_EXT_IDS_ADDIT_VIP_FIP_KEY" "pool_key \<noteq> ''enabled''"
    using assms(12) by (auto simp: startswith_def)
  then have ans: "answers_on L ?ext' 4 a"
    using assms(10) by (simp add: answers_on_def lb_vip_addresses_def)
  have "backends 4 (bs @ [?b]) = backends 4 bs @ [the (md_address m) @ '':'' @ str_port (the (md_protocol_port m))]"
    by (simp add: backends_def)
  with servesI [OF _ pool infos bs ans] neq(5) assms(11) show ?thesis
    by (simp add: address_text_def)
qed

text \<open>C17: When an IPv4 member that is not stored as offline is added to the value of a pool, in the column that
  \<open>_frame_vip_ips\<close> computes every IPv4 address that had an entry for a listener of that pool has the same entry
  followed by the new member. The members can be written as text, both computations return, no two serving
  listeners share a port (before and after), and the library rejects bracketed addresses.\<close>

theorem add_member_traffic:
  assumes m: "storable_member m" and v': "add_member_data m v = Inr (Some (info, v'))"
    and online: "is_member_offline L lb (md_id m) = Inr False" and ip: "ip_version L (the (md_address m)) = Inr 4"
    and pool: "dict_get ext pool_key = Some v" "startswith pool_key LB_EXT_IDS_POOL_PREFIX"
    and l: "dict_get ext k = Some l" "extract_listener_key_value l = (Some p, Some pool_key)"
      "serving_pool ext (k, l) = Some (p, v)" and a: "ip_version L a = Inr 4"
    and ext: "distinct (dict_keys ext)" "unique_ports ext" "unique_ports (dict_set ext pool_key v')" "k \<noteq> pool_key"
    and L: "rejects_brackets L"
    and f: "frame_vip_ips L lb ext = Inr vips" "frame_vip_ips L lb (dict_set ext pool_key v') = Inr vips'"
    and old: "dict_get vips (a @ '':'' @ p) = Some val"
  shows "dict_get vips' (a @ '':'' @ p)
    = Some (val @ '','' @ the (md_address m) @ '':'' @ str_port (the (md_protocol_port m)))"
proof -
  from old have "serves_row L lb ext (a @ '':'' @ p) val" by (simp add: frame_exact [OF f(1) ext(1,2) L])
  then obtain k2 l2 p2 m2 infos bs ver a2 where
    s: "dict_get ext k2 = Some l2" "serving_pool ext (k2, l2) = Some (p2, m2)"
    "extract_member_info m2 = Inr infos" "mapR (backend_of L lb) infos = Inr bs" "answers_on L ext ver a2"
    "backends ver bs \<noteq> []" "a @ '':'' @ p = address_text ver a2 @ '':'' @ p2" "val = join '','' (backends ver bs)"
    and en: "dict_get ext ''enabled'' \<noteq> Some ''False''"
    unfolding serves_row_def serves_def by blast
  have eq: "a = address_text ver a2 \<and> p = p2"
    by (rule last_sep_unique [where c = "CHR '':''"])
      (use s(7) serving_pool_port [OF l(3)] serving_pool_port [OF s(2)] in simp_all)
  have "k = k2"
    using ext(2) [unfolded unique_ports_def] dict_get_mem [OF l(1)] dict_get_mem [OF s(1)] l(3) s(2) eq
    by (fastforce split: option.splits)
  with l s(1,2) have m2: "m2 = v" by simp
  have "ver = 4" "a2 = a"
    using eq answers_on_version [OF s(5)] a L by (auto simp: address_text_def rejects_brackets_def split: if_splits)
  note new = add_member_serves [OF m v' pool(1) l(2,3) s(3) [unfolded m2] s(4) online ip
      s(5) [unfolded \<open>ver = 4\<close> \<open>a2 = a\<close>] en pool(2)]
  have "dict_get (dict_set ext pool_key v') k = Some l" using l(1) ext(4) by simp
  with new have "serves_row L lb (dict_set ext pool_key v') (a @ '':'' @ p)
      (join '','' (backends 4 bs @ [the (md_address m) @ '':'' @ str_port (the (md_protocol_port m))]))"
    unfolding serves_row_def by blast
  with frame_exact [OF f(2) _ ext(3) L] ext(1) s(6,8) \<open>ver = 4\<close> show ?thesis
    by (simp add: distinct_dict join_append)
qed

theorem add_member_traffic_witness:
  "map_of [(''10.0.0.4:80'', ''10.0.0.10:8080,10.0.0.11:80'')] ''10.0.0.4:80'' = Some (''10.0.0.10:8080'' @ '','' @ ''10.0.0.11:80'')"
proof -
  let ?m = "sample_member ''m2'' ''10.0.0.11''"
  let ?v = "''member_m1_10.0.0.10:8080_s1''" and ?v' = "''member_m1_10.0.0.10:8080_s1,member_m2_10.0.0.11:80_s1''"
  let ?ext = "lb_external_ids row3"
  have f: "frame_vip_ips ref_lib row3 ?ext = Inr [(''10.0.0.4:80'', ''10.0.0.10:8080'')]"
    "frame_vip_ips ref_lib row3 (dict_set ?ext ''pool_p1'' ?v') = Inr [(''10.0.0.4:80'', ''10.0.0.10:8080,10.0.0.11:80'')]"
    by code_simp+
  have k: "''10.0.0.4'' @ '':'' @ ''80'' = ''10.0.0.4:80''"
    "'','' @ the (md_address ?m) @ '':'' @ str_port (the (md_protocol_port ?m)) = '','' @ ''10.0.0.11:80''"
    by code_simp+
  show ?thesis
    by (rule add_member_traffic [of ?m ?v "''member_m2_10.0.0.11:80_s1''" ?v' ref_lib row3 ?ext "''pool_p1''"
          "''listener_l1''" "''80:pool_p1''" "''80''" "''10.0.0.4''" _ _ "''10.0.0.10:8080''", unfolded k,
          OF _ _ _ _ _ _ _ _ _ _ _ _ _ _ ref_rejects_brackets f])
      code_simp+
qed

end
