(* ===== verification/AdminState.thy ===== *)
theory AdminState
  imports Traffic
begin

text \<open>
  The administrative state of listeners and pools is part of their keys: disabling one moves its value
  to the key with \<open>:D\<close>. The two families of keys share one interface.
\<close>

section \<open>Keys with an administrative state\<close>

locale admin_key =
  fixes key :: "string \<Rightarrow> bool \<Rightarrow> string"
  assumes key_neq: "key i up \<noteq> key i (\<not> up)"
begin

lemma moved_get:
  "map_of (dict_del (dict_set ext (key i up) v) (key i (\<not> up))) j =
     (if j = key i (\<not> up) then None else if j = key i up then Some v else map_of ext j)"
  using key_neq [of i up] by (auto simp: delete_conv' update_conv')

lemma moved_back:
  assumes "map_of ext (key i up) = None" and "map_of ext (key i (\<not> up)) = Some v"
  shows "map_of (dict_del (dict_set (dict_del (dict_set ext (key i up) v) (key i (\<not> up)))
           (key i (\<not> up)) v) (key i up)) = map_of ext"
  using assms key_neq [of i up] by (auto simp: fun_eq_iff delete_conv' update_conv')

end

interpretation listener_keys: admin_key get_listener_key
  by unfold_locales (simp add: get_listener_key_def Let_def)

interpretation pool_keys: admin_key get_pool_key
  by unfold_locales (simp add: get_pool_key_def Let_def)

text \<open>Disabling a pool and enabling it again, or the other way round, leaves \<open>external_ids\<close> as it
  was: the members, the referring listeners and everything else.\<close>

theorem pool_toggle_roundtrip:
  assumes "move_pool_key i up ext = Some (rem, add, ext1)" and "\<not> dict_has ext (get_pool_key i up)"
  shows "\<exists>rem' add' ext2. move_pool_key i (\<not> up) ext1 = Some (rem', add', ext2) \<and> map_of ext2 = map_of ext"
proof -
  from assms(1) obtain v where v: "dict_get ext (get_pool_key i (\<not> up)) = Some v"
    and e: "ext1 = dict_del (dict_set ext (get_pool_key i up) v) (get_pool_key i (\<not> up))"
    by (auto simp: move_pool_key_def Let_def split: option.splits)
  have "dict_get ext1 (get_pool_key i up) = Some v"
    unfolding e pool_keys.moved_get using pool_keys.key_neq [of i up] by simp
  with pool_keys.moved_back [OF _ v] assms(2) show ?thesis
    by (simp add: move_pool_key_def Let_def e dict_has_def)
qed

theorem pool_toggle_roundtrip_witness:
  "\<exists>rem' add' ext2.
     move_pool_key ''p1'' True [(''pool_p1:D'', ''member_m1_10.0.0.10:80_s1'')] = Some (rem', add', ext2) \<and>
     map_of ext2 = map_of [(''pool_p1'', ''member_m1_10.0.0.10:80_s1'')]"
  by (rule pool_toggle_roundtrip [of "''p1''" False "[(''pool_p1'', ''member_m1_10.0.0.10:80_s1'')]"
        "''pool_p1''" "[(''pool_p1:D'', ''member_m1_10.0.0.10:80_s1'')]"
        "[(''pool_p1:D'', ''member_m1_10.0.0.10:80_s1'')]", unfolded not_False_eq_True])
    code_simp+

text \<open>An update that only changes the administrative state of a listener is undone by the
  opposite update: the listener is found under its new key, and \<open>external_ids\<close> comes back.\<close>

theorem listener_toggle_roundtrip:
  assumes "ld_admin_state_up l = Some up" and "ld_default_pool_id l = None"
    and "present_listener_key l ext = Some (get_listener_key (ld_id l) (\<not> up))"
    and "\<not> dict_has ext (get_listener_key (ld_id l) up)"
    and "listener_update_keys l (get_listener_key (ld_id l) (\<not> up)) ext = Inr (ext1, add, rem)"
  defines "l' \<equiv> l\<lparr>ld_admin_state_up := Some (\<not> up)\<rparr>"
  shows "\<exists>ext2 add' rem'.
    present_listener_key l' ext1 = Some (get_listener_key (ld_id l) up) \<and>
    listener_update_keys l' (get_listener_key (ld_id l) up) ext1 = Inr (ext2, add', rem') \<and>
    map_of ext2 = map_of ext"
proof -
  let ?new = "get_listener_key (ld_id l) up" and ?old = "get_listener_key (ld_id l) (\<not> up)"
  have neq: "?new \<noteq> ?old" by (rule listener_keys.key_neq)
  with assms(1,2,5) obtain v where v: "dict_get ext ?old = Some v"
    and e: "ext1 = dict_del (dict_set ext ?new v) ?old"
    by (auto simp: listener_update_keys_def dict_item_def Let_def split: option.splits)
  have g: "dict_get ext1 ?new = Some v" "dict_get ext1 ?old = None"
    unfolding e listener_keys.moved_get using neq by simp_all
  then have "present_listener_key l' ext1 = Some ?new"
    by (cases up) (simp_all add: present_listener_key_def l'_def dict_has_def)
  moreover have "listener_update_keys l' ?new ext1 =
      Inr (dict_del (dict_set ext1 ?old v) ?new, [(?old, v)], Some ?new)"
    using assms(2) neq g by (simp add: listener_update_keys_def l'_def Let_def dict_item_def)
  ultimately show ?thesis
    using listener_keys.moved_back [OF _ v] assms(4) by (simp add: e dict_has_def)
qed

theorem listener_toggle_roundtrip_witness:
  "\<exists>ext2 add' rem'.
     present_listener_key sample_listener [(''listener_l1:D'', ''80:pool_p1'')]
       = Some (get_listener_key ''l1'' False) \<and>
     listener_update_keys sample_listener (get_listener_key ''l1'' False)
       [(''listener_l1:D'', ''80:pool_p1'')] = Inr (ext2, add', rem') \<and>
     map_of ext2 = map_of [(''listener_l1'', ''80:pool_p1'')]"
proof -
  let ?l = "sample_listener\<lparr>ld_admin_state_up := Some False\<rparr>"
  have l: "?l\<lparr>ld_admin_state_up := Some (\<not> False)\<rparr> = sample_listener\<lparr>ld_admin_state_up := Some (\<not> False)\<rparr>"
    "sample_listener\<lparr>ld_admin_state_up := Some (\<not> False)\<rparr> = sample_listener" "ld_id ?l = ''l1''"
    by (simp_all add: sample_listener_def)
  show ?thesis
    by (rule listener_toggle_roundtrip [of ?l False "[(''listener_l1'', ''80:pool_p1'')]"
          "[(''listener_l1:D'', ''80:pool_p1'')]" "[(''listener_l1:D'', ''80:pool_p1'')]" "Some ''listener_l1''",
          unfolded l])
      code_simp+
qed

text \<open>
  A pool created disabled for a listener is written behind the port with its suffix. The value then has three parts, so
  the listener has neither port nor pool for any reader of it, and gets no traffic when the pool is enabled later.
\<close>

lemma disabled_pool_unreadable:
  assumes l: "dict_get ext (get_listener_key i True) = Some (make_listener_key_value port [])"
    and p: "CHR '':'' \<notin> set (str_port port)" "pl_listener_id pool = Some i" "i \<noteq> []" "CHR '':'' \<notin> set (pl_id pool)"
  shows "extract_listener_key_value
    (dict_get_default (pool_create_external_ids pool False ext) (get_listener_key i True) []) = (None, None)"
proof -
  have "get_pool_key (pl_id pool) False \<noteq> get_listener_key i True"
    by (simp add: get_pool_key_def get_listener_key_def Let_def)
  moreover have "\<not> contains (get_pool_key (pl_id pool) False) (make_listener_key_value port [])"
  proof
    assume "contains (get_pool_key (pl_id pool) False) (make_listener_key_value port [])"
    then obtain a b where ab: "str_port port @ '':'' = a @ get_pool_key (pl_id pool) False @ b"
      by (auto simp: contains_def sublist_def make_listener_key_value_def)
    show False
    proof (cases b rule: rev_cases)
      case Nil
      with ab show False by (simp add: get_pool_key_def Let_def)
    next
      case (snoc b' c)
      with ab have "str_port port = a @ get_pool_key (pl_id pool) False @ b'" by simp
      with p(1) show False by (auto simp: get_pool_key_def Let_def)
    qed
  qed
  moreover have "CHR '':'' \<notin> set (get_pool_key (pl_id pool) True)"
    using p(4) by (simp add: get_pool_key_def Let_def)
  moreover have "split_on CHR '':'' (make_listener_key_value port [] @ get_pool_key (pl_id pool) False) = [str_port port, get_pool_key (pl_id pool) True, ''D'']"
    using p by (simp add: make_listener_key_value_def get_pool_key_def Let_def split_on_sep split_on_no_sep)
  ultimately show ?thesis using l p(2,3)
    by (simp add: pool_create_external_ids_def Let_def dict_get_default_def dict_has_def truthy_def extract_listener_key_value_def)
qed
text \<open>A listener that no other listener shares its port with.\<close>

definition alone_on :: "string pydict \<Rightarrow> string \<Rightarrow> string \<Rightarrow> bool" where
  "alone_on ext k p \<longleftrightarrow>
     list_all (\<lambda>(k', v'). contains LB_EXT_IDS_LISTENER_PREFIX k' \<and> k' \<noteq> k \<longrightarrow> fst (extract_listener_key_value v') \<noteq> Some p) ext"

lemma serving_parts:
  assumes "serving_pool ext (k, v) = Some (p, m)"
  shows "contains LB_EXT_IDS_LISTENER_PREFIX k" "\<not> is_listener_disabled k" "fst (extract_listener_key_value v) = Some p"
    "\<exists>q. snd (extract_listener_key_value v) = Some q \<and> dict_get ext q = Some m"
  using assms by (auto simp: serving_pool_def split: if_splits prod.splits option.splits)

text \<open>C18: What is disabled gets no traffic: in the column \<open>_frame_vip_ips\<close> computes, no address has an entry on the
  port of a listener that is disabled (its id has no colon), or whose pool was disabled by \<open>pool_update\<close>, provided
  that no other listener of the load balancer has the same port.\<close>

theorem disabled_gets_no_traffic:
  assumes f: "frame_vip_ips L lb ext = Inr vips" and d: "distinct (dict_keys ext)"
    and l: "dict_get ext k = Some v" "extract_listener_key_value v = (Some p, Some q)" "alone_on ext k p"
    and off: "CHR '':'' \<notin> set i \<and> k = get_listener_key i False \<or>
      move_pool_key j False ext0 = Some (rem, add, ext) \<and> q = get_pool_key j True"
  shows "dict_get vips (a @ '':'' @ p) = None"
proof (rule ccontr)
  assume "dict_get vips (a @ '':'' @ p) \<noteq> None"
  then obtain val where "dict_get vips (a @ '':'' @ p) = Some val" by blast
  from frame_sound [OF f d this] obtain k2 v2 p2 m ver a2 where s: "dict_get ext k2 = Some v2"
    "serving_pool ext (k2, v2) = Some (p2, m)" "a @ '':'' @ p = address_text ver a2 @ '':'' @ p2"
    unfolding serves_row_def serves_def by blast
  note parts = serving_parts [OF s(2)]
  have "p \<in> set (split_on CHR '':'' v)"
    using l(2) by (auto simp: extract_listener_key_value_def Let_def split: if_splits intro!: nth_mem)
  then have "CHR '':'' \<notin> set p" by (rule split_on_elems)
  then have p: "p2 = p"
    using last_sep_unique [of a "CHR '':''" p "address_text ver a2" p2] s(3) serving_pool_port [OF s(2)] by simp
  have "k2 = k"
    using l(3) dict_get_mem [OF s(1)] parts(1,3) p by (auto simp: alone_on_def list_all_iff)
  with l(1) s(1) have v: "v2 = v" by simp
  from off show False
  proof
    assume "CHR '':'' \<notin> set i \<and> k = get_listener_key i False"
    with parts(2) \<open>k2 = k\<close> is_listener_disabled_key [of i False] show False by simp
  next
    assume pool: "move_pool_key j False ext0 = Some (rem, add, ext) \<and> q = get_pool_key j True"
    then obtain x where "ext = dict_del (dict_set ext0 (get_pool_key j False) x) (get_pool_key j True)"
      by (auto simp: move_pool_key_def Let_def split: option.splits)
    then have "dict_get ext (get_pool_key j True) = None" by simp
    with parts(4) pool l(2) v show False by simp
  qed
qed

definition off_ext :: "string pydict" where
  "off_ext =
     [(LB_EXT_IDS_VIP_KEY, ''10.0.0.4''), (''listener_l1:D'', ''80:pool_p1''), (''listener_l2'', ''81:pool_p1''),
      (''pool_p1'', ''member_m1_10.0.0.10:8080_s1'')]"

theorem disabled_gets_no_traffic_witness:
  "frame_vip_ips ref_lib sample_row off_ext = Inr [(''10.0.0.4:81'', ''10.0.0.10:8080'')] \<and>
   map_of [(''10.0.0.4:81'', ''10.0.0.10:8080'')] (''10.0.0.4'' @ '':'' @ ''80'') = None"
proof
  show f: "frame_vip_ips ref_lib sample_row off_ext = Inr [(''10.0.0.4:81'', ''10.0.0.10:8080'')]" by code_simp
  show "map_of [(''10.0.0.4:81'', ''10.0.0.10:8080'')] (''10.0.0.4'' @ '':'' @ ''80'') = None"
    by (rule disabled_gets_no_traffic [OF f, where k = "''listener_l1:D''" and v = "''80:pool_p1''" and q = "''pool_p1''"
          and i = "''l1''", OF _ _ _ _ disjI1])
      code_simp+
qed

end
