(* ===== verification/LbDelete.thy ===== *)
theory LbDelete
  imports FipOps
begin

text \<open>
  \<open>lb_delete\<close> and \<open>_lb_delete\<close> of \<open>helper.py\<close>: a cascade removes every member of every pool, then the
  row is detached from its switches and routers and deleted, then the VIP ports go. The status
  dict is filled as the code proceeds, so an exception reports what was done before it.
\<close>

section \<open>The row is already gone\<close>

definition lb_deleted_entry :: "string \<Rightarrow> bool \<Rightarrow> entry" where
  "lb_deleted_entry lb_id ok = (if ok then entry3 lb_id DELETED OFFLINE else entry3 lb_id ERROR ERROR)"

text \<open>
  The handler of each block prints a variable that is unbound when the lookup itself raised.
  The result: was everything deleted?
\<close>

definition delete_lost_vip_port :: "'w env \<Rightarrow> string \<Rightarrow> ('w, bool) io" where
  "delete_lost_vip_port E lb_id =
     bnd (attempt (get_vip_port_from_loadbalancer_id E lb_id)) (\<lambda>r.
     case r of
       Inl _ \<Rightarrow> throw UnboundLocalError
     | Inr vip_port_id \<Rightarrow>
         catch (bnd (if truthy vip_port_id then delete_port E (the vip_port_id) else ret ()) (\<lambda>_. ret True))
           (\<lambda>_. ret False))"

definition delete_lost_additional_ports :: "'w env \<Rightarrow> string \<Rightarrow> ('w, bool) io" where
  "delete_lost_additional_ports E lb_id =
     bnd (attempt (get_additional_vips_from_loadbalancer_id E lb_id)) (\<lambda>r.
     case r of
       Inl _ \<Rightarrow> throw UnboundLocalError
     | Inr vips \<Rightarrow>
         catch (bnd (for_each (\<lambda>v. delete_port E (av_port_id v)) vips) (\<lambda>_. ret True)) (\<lambda>_. ret False))"

definition lb_delete_missing :: "'w env \<Rightarrow> string \<Rightarrow> ('w, status) io" where
  "lb_delete_missing E lb_id =
     bnd (delete_lost_vip_port E lb_id) (\<lambda>vip_ok.
     bnd (delete_lost_additional_ports E lb_id) (\<lambda>addi_ok.
     ret [(LOADBALANCERS, [lb_deleted_entry lb_id (vip_ok \<and> addi_ok)]),
          (LISTENERS, []), (POOLS, []), (MEMBERS, [])]))"

section \<open>The cascade\<close>

record deleted =
  del_listeners :: "entry list"
  del_pools :: "entry list"
  del_members :: "entry list"
  del_subnets :: "string list"

definition nothing_deleted :: deleted where
  "nothing_deleted = \<lparr>del_listeners = [], del_pools = [], del_members = [], del_subnets = []\<rparr>"

text \<open>One part of a pool value. The address is cut at its first colon.\<close>

definition delete_stored_member :: "'w env \<Rightarrow> string \<Rightarrow> string \<Rightarrow> ('w, entry \<times> string) io" where
  "delete_stored_member E pool_id mem_info =
     (let parts = split_on CHR ''_'' mem_info in
      bnd (lift (item parts 3)) (\<lambda>member_subnet.
      bnd (lift (item parts 1)) (\<lambda>member_id.
      bnd (lift (item parts 2)) (\<lambda>addr.
      bnd (lift (item (split_on CHR '':'' addr) 0)) (\<lambda>member_ip.
      bnd (lift (item (split_on CHR '':'' addr) 1)) (\<lambda>member_port.
      bnd (member_delete E
             \<lparr>md_id = member_id, md_address = Some member_ip, md_protocol_port = Some (PortStr member_port),
              md_pool_id = Some pool_id, md_subnet_id = Some member_subnet, md_admin_state_up = None\<rparr>) (\<lambda>_.
      bnd (handle_member_dvr E
             \<lparr>dv_id = member_id, dv_address = member_ip, dv_pool_id = pool_id,
              dv_subnet_id = Some member_subnet, dv_action = REQ_INFO_MEMBER_DELETED\<rparr>) (\<lambda>_.
      ret (entry2 member_id DELETED, member_subnet)))))))))"

primrec delete_pool_members ::
  "'w env \<Rightarrow> string \<Rightarrow> string list \<Rightarrow> deleted \<Rightarrow> ('w, deleted \<times> exn option) io" where
  "delete_pool_members E pool_id [] acc = ret (acc, None)"
| "delete_pool_members E pool_id (m # ms) acc =
     bnd (attempt (delete_stored_member E pool_id m)) (\<lambda>r.
     case r of
       Inl e \<Rightarrow> ret (acc, Some e)
     | Inr (e, subnet) \<Rightarrow>
         delete_pool_members E pool_id ms
           (acc\<lparr>del_members := del_members acc @ [e], del_subnets := del_subnets acc @ [subnet]\<rparr>))"

definition id_of_key :: "string \<Rightarrow> string res" where
  "id_of_key key = item (split_on CHR ''_'' key) 1"

fun cascade_delete ::
  "'w env \<Rightarrow> string pydict \<Rightarrow> deleted \<Rightarrow> ('w, deleted \<times> exn option) io" where
  "cascade_delete E [] acc = ret (acc, None)"
| "cascade_delete E ((key, value) # items) acc =
     (case id_of_key key of
        Inl e \<Rightarrow>
          if startswith key LB_EXT_IDS_POOL_PREFIX \<or> startswith key LB_EXT_IDS_LISTENER_PREFIX
          then ret (acc, Some e) else cascade_delete E items acc
      | Inr i \<Rightarrow>
          if startswith key LB_EXT_IDS_POOL_PREFIX then
            bnd (delete_pool_members E i (if value \<noteq> [] then split_on CHR '','' value else []) acc) (\<lambda>(acc, err).
            if err \<noteq> None then ret (acc, err)
            else cascade_delete E items (acc\<lparr>del_pools := del_pools acc @ [entry2 i DELETED]\<rparr>))
          else if startswith key LB_EXT_IDS_LISTENER_PREFIX then
            cascade_delete E items (acc\<lparr>del_listeners := del_listeners acc @ [entry3 i DELETED OFFLINE]\<rparr>)
          else cascade_delete E items acc)"

section \<open>_lb_delete\<close>

text \<open>\<open>FindLbInTableCommand\<close> of \<open>ovsdb/impl_idl_ovn.py\<close>\<close>

definition find_lb_in_switches :: "'w env \<Rightarrow> string \<Rightarrow> ('w, string list) io" where
  "find_lb_in_switches E u =
     bnd (nb_ls_rows E) (\<lambda>rows. ret (map sw_uuid (filter (\<lambda>r. u \<in> set (sw_load_balancer r)) rows)))"

definition find_lb_in_routers :: "'w env \<Rightarrow> string \<Rightarrow> ('w, string list) io" where
  "find_lb_in_routers E u =
     bnd (nb_lr_rows E) (\<lambda>rows. ret (map rt_uuid (filter (\<lambda>r. u \<in> set (rt_load_balancer r)) rows)))"

text \<open>A switch of \<open>ls_refs\<close> that is gone is skipped; an empty string has no keys.\<close>

definition unref_switches :: "'w env \<Rightarrow> string \<Rightarrow> string option \<Rightarrow> ('w, cmd list) io" where
  "unref_switches E u ls_refs =
     (if ls_refs = Some [] then throw AttributeError
      else
        bnd (lift (loads_refs E ls_refs)) (\<lambda>refs.
        bnd (map_io (\<lambda>ls_name.
               catch (bnd (nb_ls_get E ls_name) (\<lambda>ovn_ls. ret [ls_lb_del (sw_uuid ovn_ls) u False]))
                 (\<lambda>e. if e = RowNotFound then ret [] else throw e)) (dict_keys refs)) (\<lambda>cs.
        ret (concat cs))))"

definition unref_router :: "'w env \<Rightarrow> string \<Rightarrow> string option \<Rightarrow> ('w, cmd list) io" where
  "unref_router E u lr_ref =
     (if truthy lr_ref
      then catch (bnd (nb_lookup_lr E (the lr_ref)) (\<lambda>lr. ret [lr_lb_del (rt_uuid lr) u False]))
             (\<lambda>e. if e = RowNotFound then ret [] else throw e)
      else ret [])"

definition lb_delete_commands :: "'w env \<Rightarrow> string \<Rightarrow> ('w, cmd list) io" where
  "lb_delete_commands E u =
     bnd (nb_lb E u) (\<lambda>ovn_lb.
     let ext = lb_external_ids ovn_lb in
     bnd (unref_switches E u (dict_get ext LB_EXT_IDS_LS_REFS_KEY)) (\<lambda>ls_cmds.
     bnd (find_lb_in_switches E u) (\<lambda>switches.
     bnd (unref_router E u (dict_get ext LB_EXT_IDS_LR_REF_KEY)) (\<lambda>lr_cmds.
     bnd (find_lb_in_routers E u) (\<lambda>routers.
     ret ((if lb_health_check ovn_lb \<noteq> [] then [db_clear Load_Balancer u ''health_check''] else [])
          @ ls_cmds @ map (\<lambda>s. ls_lb_del s u True) switches
          @ lr_cmds @ map (\<lambda>r. lr_lb_del r u True) routers @ [lb_del u]))))))"

fun is_lb_del_cmd :: "cmd \<Rightarrow> bool" where
  "is_lb_del_cmd (ls_lb_del ls u i) = True"
| "is_lb_del_cmd (lr_lb_del lr u i) = True"
| "is_lb_del_cmd c = False"

text \<open>All at once; when a row is gone, one by one, passing over the switches and routers that are gone.\<close>

definition run_lb_delete :: "'w env \<Rightarrow> cmd list \<Rightarrow> ('w, unit) io" where
  "run_lb_delete E commands =
     catch (execute_commands E commands)
       (\<lambda>e. if e = RowNotFound
            then for_each (\<lambda>command.
                   catch (nb_exec E command)
                     (\<lambda>e. if e = RowNotFound \<and> is_lb_del_cmd command then ret () else throw e)) commands
            else throw e)"

text \<open>
  The status entries so far are kept when an exception ends the deletion. The health monitor
  ports are cleaned up when the row had a health check.
\<close>

definition lb_delete_row ::
  "'w env \<Rightarrow> bool \<Rightarrow> string \<Rightarrow> deleted \<Rightarrow> ('w, deleted \<times> exn option) io" where
  "lb_delete_row E cascade u acc =
     bnd (attempt (nb_lb E u)) (\<lambda>r.
     case r of
       Inl e \<Rightarrow> ret (acc, Some e)
     | Inr ovn_lb \<Rightarrow>
         bnd (if cascade then cascade_delete E (lb_external_ids ovn_lb) (acc\<lparr>del_subnets := []\<rparr>)
              else ret (acc\<lparr>del_subnets := []\<rparr>, None)) (\<lambda>(acc, err).
         if err \<noteq> None then ret (acc, err)
         else
           bnd (attempt
             (bnd (nb_lb E u) (\<lambda>ovn_lb.
              bnd (lb_delete_commands E u) (\<lambda>commands.
              bnd (run_lb_delete E commands) (\<lambda>_.
              if lb_health_check ovn_lb \<noteq> []
              then for_each (clean_up_hm_port E) (set_order E (remdups (del_subnets acc)))
              else ret ()))))) (\<lambda>r.
           ret (acc, case r of Inl e \<Rightarrow> Some e | Inr _ \<Rightarrow> None))))"

primrec lb_delete_rows ::
  "'w env \<Rightarrow> bool \<Rightarrow> string list \<Rightarrow> deleted \<Rightarrow> ('w, deleted \<times> exn option) io" where
  "lb_delete_rows E cascade [] acc = ret (acc, None)"
| "lb_delete_rows E cascade (u # us) acc =
     bnd (lb_delete_row E cascade u acc) (\<lambda>(acc, err).
     if err \<noteq> None then ret (acc, err) else lb_delete_rows E cascade us acc)"

section \<open>lb_delete\<close>

definition lb_delete_status :: "string \<Rightarrow> bool \<Rightarrow> deleted \<Rightarrow> status" where
  "lb_delete_status lb_id ok acc =
     [(LOADBALANCERS, [lb_deleted_entry lb_id ok]), (LISTENERS, del_listeners acc),
      (POOLS, del_pools acc), (MEMBERS, del_members acc)]"

definition drop_empty :: "status \<Rightarrow> status" where
  "drop_empty st = filter (\<lambda>(k, v). v \<noteq> []) st"

definition delete_vip_ports :: "'w env \<Rightarrow> string \<Rightarrow> string option \<Rightarrow> ('w, unit) io" where
  "delete_vip_ports E port_id additional =
     bnd (delete_port E port_id) (\<lambda>_.
     if truthy additional then for_each (delete_port E) (split_on CHR '','' (the additional)) else ret ())"

text \<open>An error before the empty lists are dropped leaves them in the status.\<close>

definition lb_delete :: "'w env \<Rightarrow> string \<Rightarrow> bool \<Rightarrow> ('w, status) io" where
  "lb_delete E lb_id cascade =
     bnd (attempt (find_ovn_lbs E lb_id)) (\<lambda>r.
     case r of
       Inl e \<Rightarrow> if e = RowNotFound then lb_delete_missing E lb_id else throw e
     | Inr ovn_lbs \<Rightarrow>
         bnd (attempt
           (bnd (lift (item ovn_lbs 0)) (\<lambda>u.
            bnd (nb_lb E u) (\<lambda>ovn_lb.
            bnd (lift (dict_item (lb_external_ids ovn_lb) LB_EXT_IDS_VIP_PORT_ID_KEY)) (\<lambda>port_id.
            ret (port_id, dict_get (lb_external_ids ovn_lb) LB_EXT_IDS_ADDIT_VIP_PORT_ID_KEY)))))) (\<lambda>ports.
         case ports of
           Inl _ \<Rightarrow> ret (lb_delete_status lb_id False nothing_deleted)
         | Inr (port_id, additional) \<Rightarrow>
             bnd (lb_delete_rows E cascade ovn_lbs nothing_deleted) (\<lambda>(acc, err).
             if err \<noteq> None then ret (lb_delete_status lb_id False acc)
             else
               bnd (attempt (delete_vip_ports E port_id additional)) (\<lambda>r.
               ret (drop_empty (lb_delete_status lb_id (case r of Inl _ \<Rightarrow> False | Inr _ \<Rightarrow> True) acc))))))"

end
