(* ===== verification/LrpOps.thy ===== *)
theory LrpOps
  imports FipOps
begin

text \<open>
  Router ports (\<open>LogicalRouterPortEvent\<close> of \<open>event.py\<close>; \<open>lb_create_lrp_assoc\<close> and \<open>lb_delete_lrp_assoc\<close>
  with their handlers in \<open>helper.py\<close>): when a network is plugged into a router, the load balancers of
  the network go to the router and those of the router to the network; when it is unplugged, they
  are taken away again.
\<close>

section \<open>Handlers\<close>

text \<open>The request info. Rows are live, so they are their uuids here.\<close>

record lrp_info =
  lp_router :: string
  lp_network :: string
  lp_is_gw_port :: bool

text \<open>\<open>_map_val\<close>: a missing key counts as a missing row.\<close>

definition map_val :: "string pydict \<Rightarrow> string \<Rightarrow> string res" where
  "map_val d key = (case dict_get d key of None \<Rightarrow> Inl RowNotFound | Some v \<Rightarrow> Inr v)"

definition get_nw_router_info_on_interface_event ::
  "'w env \<Rightarrow> lrp_row \<Rightarrow> ('w, string \<times> string) io" where
  "get_nw_router_info_on_interface_event E lrp =
     bnd (lift (map_val (lrp_external_ids lrp) OVN_ROUTER_NAME_EXT_ID_KEY)) (\<lambda>router_name.
     bnd (nb_lookup_lr E (ovn_name router_name)) (\<lambda>router.
     bnd (lift (map_val (lrp_external_ids lrp) OVN_NETWORK_NAME_EXT_ID_KEY)) (\<lambda>network_name.
     bnd (nb_lookup_ls E network_name) (\<lambda>network.
     ret (rt_uuid router, sw_uuid network)))))"

text \<open>\<open>strutils.bool_from_string\<close> (not strict): the words that mean true; anything else is false.\<close>

definition bool_from_string :: "string option \<Rightarrow> bool" where
  "bool_from_string s =
     (lower (strip (str_opt s)) \<in> set [''1'', ''t'', ''true'', ''on'', ''y'', ''yes''])"

definition lb_create_lrp_assoc_handler :: "'w env \<Rightarrow> lrp_row \<Rightarrow> ('w, lrp_info option) io" where
  "lb_create_lrp_assoc_handler E row =
     catch
       (bnd (get_nw_router_info_on_interface_event E row) (\<lambda>(router, network).
        ret (Some \<lparr>lp_router = router, lp_network = network,
                   lp_is_gw_port = bool_from_string (dict_get (lrp_external_ids row) OVN_ROUTER_IS_EXT_GW)\<rparr>)))
       (\<lambda>e. if e = RowNotFound then ret None else throw e)"

text \<open>The request of a deletion has no \<open>is_gw_port\<close>; nothing reads it there.\<close>

definition lb_delete_lrp_assoc_handler :: "'w env \<Rightarrow> lrp_row \<Rightarrow> ('w, lrp_info option) io" where
  "lb_delete_lrp_assoc_handler E row =
     catch
       (bnd (get_nw_router_info_on_interface_event E row) (\<lambda>(router, network).
        ret (Some \<lparr>lp_router = router, lp_network = network, lp_is_gw_port = False\<rparr>)))
       (\<lambda>e. if e = RowNotFound then ret None else throw e)"

section \<open>The association of a row with a switch or router, whose failures are tolerated\<close>

definition ls_association_or_skip :: "'w env \<Rightarrow> string \<Rightarrow> string \<Rightarrow> bool \<Rightarrow> ('w, unit) io" where
  "ls_association_or_skip E network_name lb associate =
     catch (update_lb_to_ls_association E lb (Some (ovn_uuid network_name)) None associate False False False)
       (\<lambda>e. if e = RowNotFound then ret () else throw e)"

section \<open>lb_create_lrp_assoc\<close>

definition set_minus :: "'a lib_scheme \<Rightarrow> string list \<Rightarrow> string list \<Rightarrow> string list" where
  "set_minus L xs ys = set_order L (filter (\<lambda>x. x \<notin> set ys) (remdups xs))"

definition lb_create_lrp_assoc :: "'w env \<Rightarrow> lrp_info \<Rightarrow> ('w, unit) io" where
  "lb_create_lrp_assoc E info =
     bnd (nb_lr E (lp_router info)) (\<lambda>router.
     bnd (nb_ls E (lp_network info)) (\<lambda>network.
     let router_lb = rt_load_balancer router; network_lb = sw_load_balancer network in
     bnd (for_each (\<lambda>lb. associate_lr_or_by_step E lb (lp_router info) False)
            (set_minus E network_lb router_lb)) (\<lambda>_.
     if lp_is_gw_port info then ret ()
     else for_each (\<lambda>lb. ls_association_or_skip E (sw_name network) lb True)
            (set_minus E router_lb network_lb))))"

section \<open>lb_delete_lrp_assoc\<close>

text \<open>The load balancers whose references name the network (as a substring of the JSON text).\<close>

definition find_lb_in_ls :: "'w env \<Rightarrow> ls_row \<Rightarrow> ('w, string list) io" where
  "find_lb_in_ls E network =
     bnd (map_io (\<lambda>lb.
            bnd (nb_lb E lb) (\<lambda>row.
            ret (case dict_get (lb_external_ids row) LB_EXT_IDS_LS_REFS_KEY of
                   None \<Rightarrow> []
                 | Some refs \<Rightarrow> if contains (sw_name network) refs then [lb] else [])))
            (sw_load_balancer network)) (\<lambda>lbs.
     ret (concat lbs))"

definition lb_delete_lrp_assoc :: "'w env \<Rightarrow> lrp_info \<Rightarrow> ('w, unit) io" where
  "lb_delete_lrp_assoc E info =
     bnd (nb_ls E (lp_network info)) (\<lambda>network.
     bnd (find_lb_in_ls E network) (\<lambda>nw_lb.
     bnd (nb_lr E (lp_router info)) (\<lambda>router.
     let r_lb = set_minus E (rt_load_balancer router) nw_lb in
     bnd (for_each (\<lambda>nlb. associate_lr_or_by_step E nlb (lp_router info) True)
            (set_order E (remdups nw_lb))) (\<lambda>_.
     for_each (\<lambda>rlb. ls_association_or_skip E (sw_name network) rlb False) r_lb))))"

end
