(* ===== verification/LbSync.thy ===== *)
theory LbSync
  imports MemberOps
begin

text \<open>
  \<open>lb_sync\<close> (the row of a load balancer is brought in line with Octavia) and \<open>create_vip_port\<close> with
  \<open>_create_neutron_port\<close> of \<open>helper.py\<close>.
\<close>

section \<open>lb_sync\<close>

definition get_vip_port_and_subnet_from_lb ::
  "'w env \<Rightarrow> string option \<Rightarrow> string option \<Rightarrow> string option \<Rightarrow> ('w, port option \<times> subnet option) io"
where
  "get_vip_port_and_subnet_from_lb E vip_port_id vip_net_id vip_address =
     catch (get_port_from_info E vip_port_id vip_net_id vip_address True)
       (\<lambda>e. if e = ResourceNotFound \<or> e = AttributeError then ret (None, None) else throw e)"

definition set_truthy :: "string pydict \<Rightarrow> string \<Rightarrow> string option \<Rightarrow> string pydict" where
  "set_truthy d k v = (if truthy v then dict_set d k (the v) else d)"

definition build_external_ids :: "lb_info \<Rightarrow> port \<Rightarrow> string \<Rightarrow> string pydict" where
  "build_external_ids loadbalancer p vip_address =
     (let external_ids =
            [(LB_EXT_IDS_VIP_KEY, vip_address),
             (LB_EXT_IDS_VIP_PORT_ID_KEY,
                if truthy (li_vip_port_id loadbalancer) then the (li_vip_port_id loadbalancer) else p_id p),
             (''enabled'', str_bool (li_admin_state_up loadbalancer))];
          external_ids =
            (if li_additional_vips loadbalancer \<noteq> [] then
               dict_merge external_ids
                 [(LB_EXT_IDS_ADDIT_VIP_KEY, join '','' (map av_ip_address (li_additional_vips loadbalancer))),
                  (LB_EXT_IDS_ADDIT_VIP_PORT_ID_KEY, join '','' (map av_port_id (li_additional_vips loadbalancer)))]
             else external_ids);
          external_ids = set_truthy external_ids LB_EXT_IDS_VIP_FIP_KEY (li_vip_fip loadbalancer);
          external_ids = set_truthy external_ids LB_EXT_IDS_ADDIT_VIP_FIP_KEY (li_additional_vip_fip loadbalancer)
      in set_truthy external_ids LB_EXT_IDS_LR_REF_KEY (li_lr_ref loadbalancer))"

text \<open>Written only when some value differs; keys of the row that are not built stay.\<close>

definition sync_external_ids :: "lb_row \<Rightarrow> string pydict \<Rightarrow> cmd list" where
  "sync_external_ids ovn_lb external_ids =
     (if list_all (\<lambda>(k, v). dict_get (lb_external_ids ovn_lb) k = Some v) external_ids then []
      else [db_set Load_Balancer (lb_uuid ovn_lb) EXT_IDS (StrMap external_ids)])"

definition build_selection_fields :: "'w env \<Rightarrow> lb_info \<Rightarrow> string list option res" where
  "build_selection_fields E loadbalancer =
     (if are_selection_fields_supported E then
        rbind (get_selection_keys
                 (Some (case li_lb_algorithm loadbalancer of
                          None \<Rightarrow> LB_ALGORITHM_SOURCE_IP_PORT | Some a \<Rightarrow> a))) (\<lambda>fs. Inr (Some fs))
      else Inr None)"

definition sync_selection_fields :: "lb_row \<Rightarrow> string list option \<Rightarrow> cmd list" where
  "sync_selection_fields ovn_lb selection_fields =
     (case selection_fields of
        None \<Rightarrow> []
      | Some fs \<Rightarrow>
          if fs \<noteq> [] \<and> fs \<noteq> lb_selection_fields ovn_lb
          then [db_set Load_Balancer (lb_uuid ovn_lb) ''selection_fields'' (StrList fs)] else [])"

text \<open>The name of the switch is only bound when the lookup did not raise.\<close>

definition sync_ls_refs :: "'w env \<Rightarrow> string \<Rightarrow> ls_row res \<Rightarrow> string option \<Rightarrow> ('w, unit) io" where
  "sync_ls_refs E u ovn_ls ls_refs =
     bnd (lift (loads_refs E ls_refs)) (\<lambda>refs.
     for_each (\<lambda>ls.
       bnd (bound ovn_ls) (\<lambda>sw.
       if ls = sw_name sw then ret ()
       else update_lb_to_ls_association E u (Some (ovn_uuid ls)) None True True False True))
       (dict_keys refs))"

definition sync_lb_associations :: "'w env \<Rightarrow> string \<Rightarrow> port \<Rightarrow> subnet \<Rightarrow> lb_info \<Rightarrow> ('w, unit) io" where
  "sync_lb_associations E u p s loadbalancer =
     bnd (nt_get_network E (p_network_id p)) (\<lambda>network.
     bnd (case network of
            None \<Rightarrow> ret ()
          | Some n \<Rightarrow>
              if truthy (nw_provider_physical_network n) then ret ()
              else catch (update_lb_to_ls_association E u (Some (p_network_id p)) None True True True True)
                     (\<lambda>e. if e = RowNotFound then ret () else throw e)) (\<lambda>_.
     bnd (attempt (nb_ls_get E (ovn_name (sn_network_id s)))) (\<lambda>ovn_ls.
     bnd (catch (bnd (lift ovn_ls) (\<lambda>ls. find_lr_of_ls E ls (sn_gateway_ip s))) (\<lambda>_. ret None)) (\<lambda>ovn_lr.
     bnd (case ovn_lr of None \<Rightarrow> ret () | Some lr \<Rightarrow> sync_lb_to_lr_association E u lr) (\<lambda>_.
     if truthy (li_ls_refs loadbalancer) then sync_ls_refs E u ovn_ls (li_ls_refs loadbalancer) else ret ())))))"

definition find_row_of_protocol_with_retry :: "'w env \<Rightarrow> string \<Rightarrow> string option \<Rightarrow> ('w, string) io" where
  "find_row_of_protocol_with_retry E lb_id protocol =
     bnd (retry_rows E retry_row_not_found (StopAfterDelay 10)
            (case protocol of
               None \<Rightarrow> find_ovn_lbs E lb_id
             | Some p \<Rightarrow> bnd (find_ovn_lb_with_protocol E lb_id p) (\<lambda>u. ret [u]))) (\<lambda>us.
     lift (item us 0))"

text \<open>
  A load balancer without an address has no subnet (no fixed IP matches), so it is left alone.
  Exceptions of the two transactions are logged.
\<close>

definition lb_sync_row ::
  "'w env \<Rightarrow> lb_info \<Rightarrow> string \<Rightarrow> port \<Rightarrow> subnet \<Rightarrow> string \<Rightarrow> ('w, unit) io" where
  "lb_sync_row E loadbalancer u p s vip_address =
     bnd (nb_lb E u) (\<lambda>ovn_lb.
     bnd (lift (build_selection_fields E loadbalancer)) (\<lambda>selection_fields.
     bnd (attempt (execute_commands E
            (sync_external_ids ovn_lb (build_external_ids loadbalancer p vip_address)
             @ sync_selection_fields ovn_lb selection_fields))) (\<lambda>r.
     case r of
       Inl _ \<Rightarrow> ret ()
     | Inr _ \<Rightarrow>
         bnd (nb_lb E u) (\<lambda>ovn_lb.
         let protocol = (case lb_protocol ovn_lb of [] \<Rightarrow> None | p # _ \<Rightarrow> Some (lower p)) in
         catch
           (bnd (find_row_of_protocol_with_retry E (li_id loadbalancer) protocol) (\<lambda>u.
            sync_lb_associations E u p s loadbalancer))
           (\<lambda>_. ret ())))))"

definition lb_sync :: "'w env \<Rightarrow> lb_info \<Rightarrow> string \<Rightarrow> ('w, unit) io" where
  "lb_sync E loadbalancer u =
     bnd (get_neutron_client_or_none E) (\<lambda>client.
     if \<not> client then ret ()
     else
       bnd (get_vip_port_and_subnet_from_lb E (li_vip_port_id loadbalancer)
              (li_vip_network_id loadbalancer) (li_vip_address loadbalancer)) (\<lambda>found.
       case (found, li_vip_address loadbalancer) of
         ((Some p, Some s), Some addr) \<Rightarrow> lb_sync_row E loadbalancer u p s addr
       | _ \<Rightarrow> ret ()))"

section \<open>create_vip_port\<close>

text \<open>A conflict means the port may already exist: it is looked up by its name.\<close>

definition create_neutron_port :: "'w env \<Rightarrow> port_request \<Rightarrow> ('w, port) io" where
  "create_neutron_port E request =
     catch (nt_create_port E request)
       (\<lambda>e. if e = ConflictException then
              bnd (neutron_find_port E (pr_network_id request) (pr_name request)) (\<lambda>port.
              case port of None \<Rightarrow> throw e | Some p \<Rightarrow> ret p)
            else throw e)"

text \<open>What the caller knows of a VIP.\<close>

record vip_dict =
  vd_network_id :: "string option"
  vd_subnet_id :: "string option"
  vd_ip_address :: "string option"

definition vip_port_request :: "string \<Rightarrow> string \<Rightarrow> vip_dict \<Rightarrow> port_request" where
  "vip_port_request name project_id v =
     \<lparr>pr_name = name, pr_network_id = vd_network_id v, pr_subnet_id = vd_subnet_id v,
      pr_ip_address = (if truthy (vd_ip_address v) then vd_ip_address v else None),
      pr_project_id = project_id\<rparr>"

definition additional_vip_name :: "nat \<Rightarrow> string \<Rightarrow> string" where
  "additional_vip_name index lb_id = LB_VIP_ADDIT_PORT_PREFIX @ str_nat index @ ''-'' @ lb_id"

primrec create_additional_ports ::
  "'w env \<Rightarrow> string \<Rightarrow> string \<Rightarrow> nat \<Rightarrow> vip_dict list \<Rightarrow> ('w, port list \<times> exn option) io" where
  "create_additional_ports E project_id lb_id index [] = ret ([], None)"
| "create_additional_ports E project_id lb_id index (v # vs) =
     bnd (attempt (create_neutron_port E
            (vip_port_request (additional_vip_name index lb_id) project_id v))) (\<lambda>r.
     case r of
       Inl e \<Rightarrow> ret ([], Some e)
     | Inr p \<Rightarrow>
         bnd (create_additional_ports E project_id lb_id (Suc index) vs) (\<lambda>(ps, err).
         ret (p # ps, err)))"

text \<open>On an HTTP error every port created so far is deleted before the error is raised again.\<close>

definition create_vip_port ::
  "'w env \<Rightarrow> string \<Rightarrow> string \<Rightarrow> vip_dict \<Rightarrow> vip_dict list \<Rightarrow> ('w, port \<times> port list) io" where
  "create_vip_port E project_id lb_id vip_d additional_vip_dicts =
     bnd (get_neutron_client E) (\<lambda>_.
     bnd (create_neutron_port E (vip_port_request (LB_VIP_PORT_PREFIX @ lb_id) project_id vip_d)) (\<lambda>vip_port.
     bnd (create_additional_ports E project_id lb_id 1 additional_vip_dicts) (\<lambda>(ports, err).
     case err of
       None \<Rightarrow> ret (vip_port, ports)
     | Some e \<Rightarrow>
         if is_http_exn e
         then bnd (for_each (delete_port E) (map p_id (vip_port # ports))) (\<lambda>_. throw e)
         else throw e)))"

end
