(* ===== verification/Requests.thy ===== *)
theory Requests
  imports LbDelete LrpOps LbSync
begin

text \<open>
  The queue (\<open>request_handler\<close>, \<open>add_request\<close>, \<open>_init_lb_actions\<close> of \<open>helper.py\<close>): one thread takes the
  requests in order and hands each to its handler; the status a handler returns goes to Octavia.
  The handlers of events put requests into the same queue.
\<close>

section \<open>Requests\<close>

text \<open>The types of requests (\<open>REQ_TYPE_...\<close>) with the info each one carries.\<close>

datatype request =
    REQ_TYPE_LB_CREATE lb_info
  | REQ_TYPE_LB_DELETE string bool
  | REQ_TYPE_LB_UPDATE string "bool option"
  | REQ_TYPE_LISTENER_CREATE listener_dict
  | REQ_TYPE_LISTENER_DELETE listener_dict
  | REQ_TYPE_LISTENER_UPDATE listener_dict
  | REQ_TYPE_POOL_CREATE pool_dict
  | REQ_TYPE_POOL_DELETE pool_dict
  | REQ_TYPE_POOL_UPDATE pool_dict
  | REQ_TYPE_MEMBER_CREATE member_dict
  | REQ_TYPE_MEMBER_DELETE member_dict
  | REQ_TYPE_MEMBER_UPDATE member_dict
  | REQ_TYPE_LB_CREATE_LRP_ASSOC lrp_info
  | REQ_TYPE_LB_DELETE_LRP_ASSOC lrp_info
  | REQ_TYPE_HANDLE_VIP_FIP fip_info
  | REQ_TYPE_HANDLE_MEMBER_DVR dvr_info
  | REQ_TYPE_HM_CREATE hm_info
  | REQ_TYPE_HM_UPDATE hm_info
  | REQ_TYPE_HM_DELETE hm_info
  | REQ_TYPE_HM_UPDATE_EVENT hm_event
  | REQ_TYPE_EXIT

definition with_status :: "('w, status) io \<Rightarrow> ('w, status option) io" where
  "with_status m = bnd m (\<lambda>st. ret (Some st))"

definition without_status :: "('w, unit) io \<Rightarrow> ('w, status option) io" where
  "without_status m = bnd m (\<lambda>_. ret None)"

text \<open>The table of \<open>_init_lb_actions\<close>; EXIT has no entry.\<close>

fun lb_request_func :: "'w env \<Rightarrow> request \<Rightarrow> ('w, status option) io" where
  "lb_request_func E (REQ_TYPE_LB_CREATE i) = with_status (lb_create E i None)"
| "lb_request_func E (REQ_TYPE_LB_DELETE i cascade) = with_status (lb_delete E i cascade)"
| "lb_request_func E (REQ_TYPE_LB_UPDATE i up) = with_status (lb_update E i up)"
| "lb_request_func E (REQ_TYPE_LISTENER_CREATE i) = with_status (listener_create E i)"
| "lb_request_func E (REQ_TYPE_LISTENER_DELETE i) = with_status (listener_delete E i)"
| "lb_request_func E (REQ_TYPE_LISTENER_UPDATE i) = with_status (listener_update E i)"
| "lb_request_func E (REQ_TYPE_POOL_CREATE i) = with_status (pool_create E i)"
| "lb_request_func E (REQ_TYPE_POOL_DELETE i) = with_status (pool_delete E i)"
| "lb_request_func E (REQ_TYPE_POOL_UPDATE i) = with_status (pool_update E i)"
| "lb_request_func E (REQ_TYPE_MEMBER_CREATE i) = with_status (member_create E i)"
| "lb_request_func E (REQ_TYPE_MEMBER_DELETE i) = with_status (member_delete E i)"
| "lb_request_func E (REQ_TYPE_MEMBER_UPDATE i) = with_status (member_update E i)"
| "lb_request_func E (REQ_TYPE_LB_CREATE_LRP_ASSOC i) = without_status (lb_create_lrp_assoc E i)"
| "lb_request_func E (REQ_TYPE_LB_DELETE_LRP_ASSOC i) = without_status (lb_delete_lrp_assoc E i)"
| "lb_request_func E (REQ_TYPE_HANDLE_VIP_FIP i) = without_status (handle_vip_fip E i)"
| "lb_request_func E (REQ_TYPE_HANDLE_MEMBER_DVR i) = without_status (handle_member_dvr E i)"
| "lb_request_func E (REQ_TYPE_HM_CREATE i) = with_status (hm_create E i)"
| "lb_request_func E (REQ_TYPE_HM_UPDATE i) = with_status (hm_update E i)"
| "lb_request_func E (REQ_TYPE_HM_DELETE i) = with_status (hm_delete E i)"
| "lb_request_func E (REQ_TYPE_HM_UPDATE_EVENT i) = hm_update_event E i"
| "lb_request_func E REQ_TYPE_EXIT = ret None"

section \<open>The thread\<close>

text \<open>One request: the handler, then the status unless it is None or empty.\<close>

definition handle_request :: "'w env \<Rightarrow> request \<Rightarrow> ('w, unit) io" where
  "handle_request E request =
     bnd (lb_request_func E request) (\<lambda>status.
     if status \<noteq> None \<and> status \<noteq> Some [] then update_status_to_octavia E (the status) else ret ())"

text \<open>
  The state of the thread: what the handlers act on, the requests that were completed
  (\<open>task_done\<close>) and those that ended in an exception, which is logged.
\<close>

record 'w thread =
  th_world :: 'w
  th_done :: "request list"
  th_failed :: "request list"

definition run_request :: "'w env \<Rightarrow> request \<Rightarrow> 'w thread \<Rightarrow> 'w thread" where
  "run_request E request t =
     (case handle_request E request (th_world t) of
        (Inr _, w) \<Rightarrow> t\<lparr>th_world := w, th_done := th_done t @ [request]\<rparr>
      | (Inl _, w) \<Rightarrow> t\<lparr>th_world := w, th_failed := th_failed t @ [request]\<rparr>)"

text \<open>
  The loop over what \<open>queue.get\<close> delivers: None is a timeout (queue.Empty). EXIT leaves the rest in
  the queue; at the end of the list the loop goes on waiting.
\<close>

fun request_handler ::
  "'w env \<Rightarrow> request option list \<Rightarrow> 'w thread \<Rightarrow> 'w thread \<times> request option list option" where
  "request_handler E [] t = (t, None)"
| "request_handler E (None # reqs) t = request_handler E reqs t"
| "request_handler E (Some request # reqs) t =
     (if request = REQ_TYPE_EXIT then (t, Some reqs)
      else request_handler E reqs (run_request E request t))"

section \<open>Event handlers\<close>

text \<open>\<open>LogicalRouterPortEvent.run\<close> and \<open>ServiceMonitorUpdateEvent.run\<close>: the requests they queue.\<close>

datatype row_event = ROW_CREATE | ROW_UPDATE | ROW_DELETE

definition queue_opt :: "('a \<Rightarrow> request) \<Rightarrow> ('w, 'a option) io \<Rightarrow> ('w, request list) io" where
  "queue_opt f m = bnd m (\<lambda>i. ret (case i of None \<Rightarrow> [] | Some x \<Rightarrow> [f x]))"

definition logical_router_port_event :: "'w env \<Rightarrow> row_event \<Rightarrow> lrp_row \<Rightarrow> ('w, request list) io" where
  "logical_router_port_event E event row =
     (case event of
        ROW_CREATE \<Rightarrow> queue_opt REQ_TYPE_LB_CREATE_LRP_ASSOC (lb_create_lrp_assoc_handler E row)
      | ROW_DELETE \<Rightarrow> queue_opt REQ_TYPE_LB_DELETE_LRP_ASSOC (lb_delete_lrp_assoc_handler E row)
      | ROW_UPDATE \<Rightarrow> ret [])"

definition service_monitor_update_event :: "'w env \<Rightarrow> row_event \<Rightarrow> sm_row \<Rightarrow> ('w, request list) io" where
  "service_monitor_update_event E event row =
     (case event of
        ROW_DELETE \<Rightarrow> queue_opt REQ_TYPE_HM_UPDATE_EVENT (sm_update_event_handler E row True)
      | ROW_UPDATE \<Rightarrow> queue_opt REQ_TYPE_HM_UPDATE_EVENT (sm_update_event_handler E row False)
      | ROW_CREATE \<Rightarrow> ret [])"

text \<open>
  \<open>LogicalSwitchPortUpdateEvent.run\<close>: the requests that are queued, and the exception that ended the
  handler early, if any. The address is None only when a stored floating IP was the empty string,
  which Neutron never writes; the model says nothing of that case.
\<close>

definition logical_switch_port_update_event ::
  "'w env \<Rightarrow> lsp_row \<Rightarrow> string pydict \<Rightarrow> ('w, request list \<times> exn option) io" where
  "logical_switch_port_update_event E row old_external_ids =
     (case lsp_event_change row old_external_ids of
        None \<Rightarrow> ret ([], None)
      | Some (action, fip) \<Rightarrow>
          bnd (vip_port_update_handler E row (the fip) action) (\<lambda>(infos, err).
          ret (map REQ_TYPE_HANDLE_VIP_FIP infos, err)))"

end
