(* ===== verification/StatusSpec.thy ===== *)
theory StatusSpec
  imports Requests RefDb
begin

text \<open>
  What Octavia is told, and by whom: the aggregated operating statuses, the ids in a report, and the
  order in which the thread of \<open>request_handler\<close> works through its queue.
\<close>

section \<open>Aggregation\<close>

text \<open>A load balancer as a tree: listeners with their administrative state, their pools, the members'
  statuses.\<close>

type_synonym lb_tree = "(bool \<times> (bool \<times> string list) list) list"

definition tree_status :: "bool \<Rightarrow> string pydict \<Rightarrow> lb_tree \<Rightarrow> string" where
  "tree_status up doc tree =
     lb_operating_status up (map (\<lambda>(l_up, pools).
       listener_operating_status l_up (map (\<lambda>(p_up, ms). pool_operating_status p_up doc ms) pools)) tree)"

definition pool_down :: "string pydict \<Rightarrow> bool \<times> string list \<Rightarrow> bool" where
  "pool_down doc p \<longleftrightarrow> (case p of (up, ms) \<Rightarrow> up \<and> doc \<noteq> [] \<and> ms \<noteq> [] \<and> list_all (\<lambda>s. s = ERROR) ms)"

definition pool_degraded :: "string pydict \<Rightarrow> bool \<times> string list \<Rightarrow> bool" where
  "pool_degraded doc p \<longleftrightarrow> (case p of (up, ms) \<Rightarrow> up \<and> doc \<noteq> [] \<and> list_ex (\<lambda>s. s = ERROR) ms)"

definition some_pool :: "(bool \<times> string list \<Rightarrow> bool) \<Rightarrow> lb_tree \<Rightarrow> bool" where
  "some_pool P tree \<longleftrightarrow> list_ex (\<lambda>(l_up, pools). l_up \<and> list_ex P pools) tree"

lemma pool_status_cases:
  "pool_operating_status up doc ms = ERROR \<longleftrightarrow> pool_down doc (up, ms)"
  "pool_operating_status up doc ms = DEGRADED \<longleftrightarrow> pool_degraded doc (up, ms) \<and> \<not> pool_down doc (up, ms)"
  by (auto simp: pool_operating_status_def pool_down_def pool_degraded_def)

lemma listener_status_cases:
  "listener_operating_status up pools = ERROR \<longleftrightarrow> up \<and> list_ex (\<lambda>s. s = ERROR) pools"
  "listener_operating_status up pools = DEGRADED \<longleftrightarrow>
     up \<and> list_ex (\<lambda>s. s = DEGRADED) pools \<and> \<not> list_ex (\<lambda>s. s = ERROR) pools"
  by (auto simp: listener_operating_status_def)

lemma lb_status_cases:
  "lb_operating_status up ls =
     (if \<not> up then OFFLINE else if list_ex (\<lambda>s. s = ERROR) ls then ERROR
      else if list_ex (\<lambda>s. s = DEGRADED) ls then DEGRADED else ONLINE)"
  by (simp add: lb_operating_status_def)

lemma list_ex_map: "list_ex P (map f xs) \<longleftrightarrow> list_ex (\<lambda>x. P (f x)) xs"
  by (induction xs) auto

abbreviation (input) pool_statuses :: "string pydict \<Rightarrow> (bool \<times> string list) list \<Rightarrow> string list" where
  "pool_statuses doc pools \<equiv> map (\<lambda>(p_up, ms). pool_operating_status p_up doc ms) pools"

lemma listener_of_pools:
  "listener_operating_status up (pool_statuses doc pools) = ERROR \<longleftrightarrow> up \<and> list_ex (pool_down doc) pools"
  "listener_operating_status up (pool_statuses doc pools) = DEGRADED \<longleftrightarrow>
     up \<and> list_ex (pool_degraded doc) pools \<and> \<not> list_ex (pool_down doc) pools"
proof -
  have e: "list_ex (\<lambda>s. s = ERROR) (pool_statuses doc pools) \<longleftrightarrow> list_ex (pool_down doc) pools"
    and d: "list_ex (\<lambda>s. s = DEGRADED) (pool_statuses doc pools) \<longleftrightarrow>
      list_ex (\<lambda>p. pool_degraded doc p \<and> \<not> pool_down doc p) pools"
    by (simp_all add: list_ex_map split_beta pool_status_cases)
  show "listener_operating_status up (pool_statuses doc pools) = ERROR \<longleftrightarrow> up \<and> list_ex (pool_down doc) pools"
    by (simp add: listener_status_cases e)
  show "listener_operating_status up (pool_statuses doc pools) = DEGRADED \<longleftrightarrow>
     up \<and> list_ex (pool_degraded doc) pools \<and> \<not> list_ex (pool_down doc) pools"
    unfolding listener_status_cases e d by (auto simp: list_ex_iff)
qed

text \<open>C19: The operating status of a load balancer, from the bottom up: it is ERROR exactly when an
  enabled listener has an enabled pool all of whose members are in ERROR, else DEGRADED exactly when
  an enabled listener has an enabled pool with some member in ERROR, else ONLINE; disabled it is OFFLINE.\<close>

theorem lb_status_from_members:
  "tree_status up doc tree =
     (if \<not> up then OFFLINE
      else if some_pool (pool_down doc) tree then ERROR
      else if some_pool (pool_degraded doc) tree then DEGRADED
      else ONLINE)"
proof -
  have d: "list_ex (\<lambda>(l_up, pools). l_up \<and> list_ex (pool_degraded doc) pools \<and> \<not> list_ex (pool_down doc) pools) tree
      \<longleftrightarrow> some_pool (pool_degraded doc) tree" if "\<not> some_pool (pool_down doc) tree"
    using that by (fastforce simp: some_pool_def list_ex_iff)
  show ?thesis
    by (simp add: tree_status_def lb_status_cases list_ex_map case_prod_unfold listener_of_pools [unfolded case_prod_unfold] some_pool_def
        d [unfolded some_pool_def case_prod_unfold])
qed

section \<open>Reports\<close>

lemma strip_disabled_id: "CHR '':'' \<notin> set i \<Longrightarrow> strip_disabled i = i"
proof -
  assume i: "CHR '':'' \<notin> set i"
  have "CHR '':'' \<notin> set (drop n i)" for n using i by (auto dest: in_set_dropD)
  then have "drop n i \<noteq> CHR '':'' # x" for n x by (metis list.set_intros(1))
  then show ?thesis by (simp add: strip_disabled_def Let_def)
qed

text \<open>The id that Octavia gets for a listener or a pool found under its key is the Octavia id,
  whether the key is that of an enabled or of a disabled one.\<close>

theorem reported_id:
  assumes "CHR '':'' \<notin> set i"
  shows "strip_disabled (drop (length LB_EXT_IDS_LISTENER_PREFIX) (get_listener_key i en)) = i \<and>
         strip_disabled (drop (length LB_EXT_IDS_POOL_PREFIX) (get_pool_key i en)) = i"
  using strip_disabled_id [OF assms]
  by (cases en) (simp_all add: get_listener_key_simps get_pool_key_simps strip_disabled_def)

theorem reported_id_witness:
  "strip_disabled (drop (length LB_EXT_IDS_LISTENER_PREFIX) (get_listener_key ''c0ffee'' False)) = ''c0ffee''"
  by (rule reported_id [THEN conjunct1]) simp

text \<open>What \<open>re.sub(':D$', '', x)\<close> means: a suffix \<open>:D\<close> goes, also before a final newline; other text stays.\<close>

definition suffix_removed :: "string \<Rightarrow> string \<Rightarrow> bool" where
  "suffix_removed x y \<longleftrightarrow>
     x = y @ '':D'' \<or> (\<exists>z. x = z @ '':D\<newline>'' \<and> y = z @ ''\<newline>'') \<or>
     y = x \<and> (\<nexists>z. x = z @ '':D'' \<or> x = z @ '':D\<newline>'')"

definition report_stripped :: "status \<Rightarrow> status \<Rightarrow> bool" where
  "report_stripped st st' \<longleftrightarrow>
     list_all2 (\<lambda>(k, es) (k', es'). k' = k \<and>
       list_all2 (list_all2 (\<lambda>(c, d) (c', d'). c' = c \<and>
         (\<exists>x y. d = Some x \<and> d' = Some y \<and> suffix_removed x y))) es es') st st'"

definition complete_status :: "status \<Rightarrow> bool" where
  "complete_status st \<longleftrightarrow> list_all (\<lambda>(k, es). list_all (list_all (\<lambda>(c, d). d \<noteq> None)) es) st"

lemma drop_suffix_iff: "drop (length x - length s) x = s \<longleftrightarrow> (\<exists>u. x = u @ s)"
  by (metis append_take_drop_id add_diff_cancel_right' append_eq_conv_conj length_append)

lemma suffix_removed_iff: "suffix_removed x y \<longleftrightarrow> y = strip_disabled x"
proof -
  have two: "drop (length x - 2) x = '':D'' \<longleftrightarrow> (\<exists>u. x = u @ '':D'')"
    and three: "drop (length x - 3) x = '':D\<newline>'' \<longleftrightarrow> (\<exists>u. x = u @ '':D\<newline>'')"
    using drop_suffix_iff [of x "'':D''"] drop_suffix_iff [of x "'':D\<newline>''"] by (simp_all add: numeral_2_eq_2 numeral_3_eq_3)
  consider (plain) u where "x = u @ '':D''" | (nl) u where "x = u @ '':D\<newline>''"
    | (none) "\<nexists>z. x = z @ '':D'' \<or> x = z @ '':D\<newline>''" by blast
  then show ?thesis
  proof cases
    case plain
    then show ?thesis by (auto simp: suffix_removed_def strip_disabled_def)
  next
    case nl
    then show ?thesis by (auto simp: suffix_removed_def strip_disabled_def two)
  next
    case none
    then show ?thesis using two three by (auto simp: suffix_removed_def strip_disabled_def Let_def)
  qed
qed

lemma rbind_Inr_iff: "rbind m g = Inr z \<longleftrightarrow> (\<exists>a. m = Inr a \<and> g a = Inr z)"
  by (cases m) simp_all

lemma mapR_list_all2:
  "mapR f xs = Inr ys \<longleftrightarrow> list_all2 (\<lambda>x y. f x = Inr y) xs ys"
proof (induction xs arbitrary: ys)
  case (Cons x xs)
  then show ?case by (auto simp: rbind_Inr_iff list_all2_Cons1)
qed auto

lemma mapR_error:
  assumes "\<And>x e'. f x = Inl e' \<longleftrightarrow> e' = e \<and> \<not> P x"
  shows "mapR f xs = Inl e' \<longleftrightarrow> e' = e \<and> \<not> list_all P xs"
proof (induction xs)
  case (Cons x xs)
  then show ?case using assms [of x] by (cases "f x") (auto simp: rbind_def split: sum.splits)
qed simp

text \<open>C21: A report reaches Octavia with the suffix \<open>:D\<close> of a disabled resource removed from every value and
  nothing else changed (a relation that says so without the code's slicing), and only if no value is missing: the
  one error there can be is the TypeError of a value None.\<close>

theorem report_total_iff_complete:
  "(delete_disabled_from_status st = Inr st' \<longleftrightarrow> report_stripped st st') \<and>
   (delete_disabled_from_status st = Inl e \<longleftrightarrow> e = TypeError \<and> \<not> complete_status st)"
proof
  have entry: "delete_disabled_from_entry i = Inr j \<longleftrightarrow>
      list_all2 (\<lambda>(c, d) (c', d'). c' = c \<and> (\<exists>x y. d = Some x \<and> d' = Some y \<and> suffix_removed x y)) i j" for i j
    unfolding delete_disabled_from_entry_def mapR_list_all2
    by (intro list.rel_cong) (auto simp: suffix_removed_iff split: option.splits)
  show "delete_disabled_from_status st = Inr st' \<longleftrightarrow> report_stripped st st'"
    unfolding delete_disabled_from_status_def report_stripped_def mapR_list_all2
  proof (rule list.rel_cong)
    fix x :: "string \<times> entry list" and y :: "string \<times> entry list"
    show "((case x of (k, v) \<Rightarrow> rbind (mapR delete_disabled_from_entry v) (\<lambda>es. Inr (k, es))) = Inr y) =
      (case x of (k, es) \<Rightarrow> \<lambda>(k', es'). k' = k \<and> list_all2 (list_all2 (\<lambda>(c, d) (c', d').
        c' = c \<and> (\<exists>x y. d = Some x \<and> d' = Some y \<and> suffix_removed x y))) es es') y"
      by (cases x; cases y) (simp only: prod.case rbind_Inr_iff mapR_list_all2 entry, auto)
  qed simp_all
  have "delete_disabled_from_entry i = Inl e \<longleftrightarrow> e = TypeError \<and> \<not> list_all (\<lambda>(c, d). d \<noteq> None) i" for i e
    unfolding delete_disabled_from_entry_def by (rule mapR_error) (auto split: option.splits)
  then have es: "mapR delete_disabled_from_entry es = Inl e \<longleftrightarrow>
      e = TypeError \<and> \<not> list_all (list_all (\<lambda>(c, d). d \<noteq> None)) es" for es e
    by (rule mapR_error)
  have "rbind (mapR delete_disabled_from_entry v) (\<lambda>es. Inr (k, es)) = Inl e \<longleftrightarrow>
      e = TypeError \<and> \<not> list_all (list_all (\<lambda>(c, d). d \<noteq> None)) v" for k :: string and v e
    using es [of v e] es [of v TypeError] by (cases "mapR delete_disabled_from_entry v") auto
  then show "delete_disabled_from_status st = Inl e \<longleftrightarrow> e = TypeError \<and> \<not> complete_status st"
    unfolding delete_disabled_from_status_def complete_status_def
    by (intro mapR_error) auto
qed

section \<open>The queue\<close>

text \<open>The requests the thread takes: up to EXIT, without the timeouts.\<close>

definition taken :: "request option list \<Rightarrow> request list" where
  "taken reqs = concat (map (\<lambda>r. case r of None \<Rightarrow> [] | Some x \<Rightarrow> [x]) (takeWhile (\<lambda>r. r \<noteq> Some REQ_TYPE_EXIT) reqs))"

text \<open>C20: The thread handles the requests in the order of the queue, one after the other, each in the
  state the previous one left, whatever the handlers raise; it stops at the first EXIT, leaving the rest
  of the queue, and never before.\<close>

theorem request_handler_fifo:
  "request_handler E reqs t =
     (fold (run_request E) (taken reqs) t,
      if Some REQ_TYPE_EXIT \<in> set reqs then Some (tl (dropWhile (\<lambda>r. r \<noteq> Some REQ_TYPE_EXIT) reqs)) else None)"
  by (induction E reqs t rule: request_handler.induct) (auto simp: taken_def)


end
