(* ===== verification/FipSpec.thy ===== *)
theory FipSpec
  imports FipOps LbSync Traffic
begin

text \<open>
  Floating IPs: the names by which a port event finds its load balancer, and a row with two additional
  floating IPs.
\<close>

section \<open>Names of VIP ports\<close>

definition is_uuid :: "string \<Rightarrow> bool" where
  "is_uuid s \<longleftrightarrow> length s = length uuid_pattern \<and> match_at uuid_pattern s"

lemma match_at_nth: "match_at ps s \<longleftrightarrow> length ps \<le> length s \<and> (\<forall>i < length ps. (ps ! i) (s ! i))"
proof (induction ps s rule: match_at.induct)
  case (3 p ps c s)
  then show ?case by (auto simp: nth_Cons split: nat.splits)
qed auto

lemma pattern_at:
  "i < 8 \<Longrightarrow> (uuid_pattern ! i) = is_hex" "(uuid_pattern ! 8) = (\<lambda>c. c = CHR ''-'')"
  "(uuid_pattern ! 13) = (\<lambda>c. c = CHR ''-'')" "length uuid_pattern = 36"
  by (simp_all add: uuid_pattern_def Let_def nth_append)

lemma dash_not_hex [simp]: "\<not> is_hex CHR ''-''"
  by code_simp

lemma get_uuid_here: "match_at uuid_pattern s \<Longrightarrow> get_uuid s = take 36 s"
  by (subst get_uuid.simps) (simp add: pattern_at)

lemma get_uuid_next: "\<not> match_at uuid_pattern (c # s) \<Longrightarrow> get_uuid (c # s) = get_uuid s"
  by (subst get_uuid.simps) simp

lemma no_match_in_digits:
  assumes "ds \<noteq> []" and "list_all is_digit ds" and "is_uuid u"
  shows "\<not> match_at uuid_pattern (ds @ CHR ''-'' # u)"
proof
  assume m: "match_at uuid_pattern (ds @ CHR ''-'' # u)"
  let ?s = "ds @ CHR ''-'' # u" and ?n = "length ds"
  have at: "(uuid_pattern ! i) (?s ! i)" if "i < 36" for i
    using m that by (simp add: match_at_nth pattern_at)
  consider "?n < 8" | "?n = 8" | "8 < ?n" by linarith
  then show False
  proof cases
    case 1
    with at [of ?n] pattern_at(1) [of ?n] show False by simp
  next
    case 2
    from assms(3) have "is_hex (u ! 4)"
      using pattern_at(1) [of 4] by (auto simp: is_uuid_def match_at_nth pattern_at(4) dest: spec [of _ 4])
    with at [of 13] 2 show False by (simp add: pattern_at nth_append)
  next
    case 3
    with at [of 8] assms(2) show False
      by (auto simp: pattern_at nth_append list_all_length is_digit_def dest!: spec [of _ 8])
  qed
qed

lemma get_uuid_after_digits:
  assumes "list_all is_digit ds" and "is_uuid u"
  shows "get_uuid (ds @ CHR ''-'' # u) = u"
  using assms(1)
proof (induction ds)
  case Nil
  have "\<not> match_at uuid_pattern (CHR ''-'' # u)"
    using pattern_at(1) [of 0] by (auto simp: match_at_nth pattern_at(4) intro!: exI [of _ 0])
  with assms(2) show ?case
    by (simp add: get_uuid_next get_uuid_here is_uuid_def pattern_at)
next
  case (Cons d ds)
  with no_match_in_digits [of "d # ds" u] assms(2) show ?case
    by (simp add: get_uuid_next)
qed

lemma uuid_not_additional: "is_uuid i \<Longrightarrow> \<not> startswith (LB_VIP_PORT_PREFIX @ i) LB_VIP_ADDIT_PORT_PREFIX"
proof
  assume "is_uuid i" and "startswith (LB_VIP_PORT_PREFIX @ i) LB_VIP_ADDIT_PORT_PREFIX"
  then obtain t where "i = ''additional-'' @ t" by (auto simp: startswith_def prefix_def)
  with \<open>is_uuid i\<close> have "is_hex CHR ''i''"
    using pattern_at(1) [of 3] by (auto simp: is_uuid_def match_at_nth pattern_at(4) dest: spec [of _ 3])
  then show False by code_simp
qed

lemma get_uuid_additional:
  assumes "is_uuid i"
  shows "get_uuid (additional_vip_name n i) = i"
proof -
  have hex: "\<not> is_hex CHR ''o''" "\<not> is_hex CHR ''v''" "\<not> is_hex CHR ''n''" "\<not> is_hex CHR ''l''"
    "\<not> is_hex CHR ''i''" "\<not> is_hex CHR ''p''" "\<not> is_hex CHR ''t''"
    by code_simp+
  have up: "uuid_pattern = is_hex # is_hex # is_hex # is_hex # drop 4 uuid_pattern"
    by (simp add: uuid_pattern_def Let_def numeral_eq_Suc)
  have no: "\<not> match_at uuid_pattern (a # b # c # d # s)" if "\<not> (is_hex a \<and> is_hex b \<and> is_hex c \<and> is_hex d)" for a b c d s
    using that by (subst up) auto
  have "get_uuid (LB_VIP_ADDIT_PORT_PREFIX @ s) = get_uuid s" if "\<not> match_at uuid_pattern (CHR ''-'' # s)" for s
  proof -
    have *: "\<not> match_at uuid_pattern (CHR ''l'' # s')" "\<not> match_at uuid_pattern (CHR ''a'' # CHR ''l'' # s')" for s'
      by (subst up, simp add: hex)+
    show ?thesis
      using that by (simp add: get_uuid_next no hex *)
  qed
  moreover have "\<not> match_at uuid_pattern (CHR ''-'' # s)" for s
    by (subst up) simp
  ultimately show ?thesis
    using get_uuid_after_digits [OF str_nat_digits assms] by (simp add: additional_vip_name_def)
qed

text \<open>C22: A port event is attributed to the right load balancer: from the names under which
  \<open>create_vip_port\<close> creates the VIP port and the additional VIP ports, the handler of port
  updates reads back the id of the load balancer, and whether the VIP is an additional one.\<close>

theorem vip_port_names_roundtrip:
  assumes "is_uuid i"
  shows "(dict_get (lsp_external_ids p) OVN_PORT_NAME_EXT_ID_KEY
            = Some (pr_name (vip_port_request (LB_VIP_PORT_PREFIX @ i) project v)) \<longrightarrow>
          lb_of_vip_port p = Inr (i, False)) \<and>
         (dict_get (lsp_external_ids p) OVN_PORT_NAME_EXT_ID_KEY
            = Some (pr_name (vip_port_request (additional_vip_name n i) project v)) \<longrightarrow>
          lb_of_vip_port p = Inr (i, True))"
  using uuid_not_additional [OF assms] get_uuid_additional [OF assms, of n]
  by (simp add: lb_of_vip_port_def vip_port_request_def additional_vip_name_def startswith_def)

definition sample_vip_port :: lsp_row where
  "sample_vip_port =
     \<lparr>lsp_name = ''p'', lsp_type = [], lsp_addresses = [], lsp_options = [],
      lsp_external_ids = [(OVN_PORT_NAME_EXT_ID_KEY,
        ''ovn-lb-vip-additional-12-0a1b2c3d-0a1b-2c3d-4e5f-0123456789ab'')]\<rparr>"

theorem vip_port_names_roundtrip_witness:
  "lb_of_vip_port sample_vip_port = Inr (''0a1b2c3d-0a1b-2c3d-4e5f-0123456789ab'', True)"
  by (rule vip_port_names_roundtrip [where n = 12 and project = "[]" and
        v = "\<lparr>vd_network_id = None, vd_subnet_id = None, vd_ip_address = None\<rparr>", THEN conjunct2, THEN mp])
    code_simp+

section \<open>Several floating IPs\<close>

definition two_fips_ext :: "string pydict" where
  "two_fips_ext =
     [(''enabled'', ''True''), (LB_EXT_IDS_VIP_KEY, ''10.0.0.4''), (LB_EXT_IDS_ADDIT_VIP_KEY, ''10.1.0.4,10.2.0.4''),
      (LB_EXT_IDS_ADDIT_VIP_FIP_KEY, ''172.24.4.9,172.24.4.10''), (''listener_l1'', ''80:pool_p1''),
      (''pool_p1'', ''member_m1_10.0.0.10:80_s1'')]"

definition two_fips_row :: lb_row where
  "two_fips_row = new_row\<lparr>lb_external_ids := two_fips_ext,
     lb_vips := map (\<lambda>a. (a @ '':80'', ''10.0.0.10:80''))
       [''10.0.0.4'', ''10.1.0.4'', ''10.2.0.4'', ''172.24.4.9'', ''172.24.4.10'']\<rparr>"

lemma two_fips_frame: "frame_vip_ips ref_lib two_fips_row two_fips_ext = Inr (lb_vips two_fips_row)"
  by code_simp


end
