(* ===== verification/HmSpec.thy ===== *)
theory HmSpec
  imports HmOps Traffic
begin

text \<open>
  Health monitors: the health checks a monitor creates and the list of monitors a row keeps, which
  member a service monitor event is about, how the statuses of several rows are merged, and which
  health monitor ports are kept.
\<close>

section \<open>The health checks of a monitor\<close>

text \<open>The \<open>vip\<close> column and the recorded address of the health checks that commands create, in order.\<close>

fun created_check :: "cmd \<Rightarrow> (string \<times> string option) list" where
  "created_check (db_create_hc v opts ext) = [(v, dict_get ext LB_EXT_IDS_HM_VIP)]"
| "created_check c = []"

definition created_checks :: "cmd list \<Rightarrow> (string \<times> string option) list" where
  "created_checks cmds = concat (map created_check cmds)"

lemma created_checks_append [simp]: "created_checks (xs @ ys) = created_checks xs @ created_checks ys"
  by (simp add: created_checks_def)

lemma vip_checks:
  assumes "mapR (add_vip_lbhc L lb pool_key info vip_port) vips = Inr cmdss"
  shows "mapR (hc_vip_value L vip_port) vips = Inr (map fst (created_checks (concat cmdss))) \<and>
         map snd (created_checks (concat cmdss)) = map Some vips"
  using assms
  by (induction vips arbitrary: cmdss) (auto simp: created_checks_def add_vip_lbhc_def hc_base_external_ids_def set_hms_key_def)

lemma fip_checks:
  assumes "mapR (add_fip_lbhc L lb pool_key info vip_port l) fips = Inr cmdss"
  shows "mapR (hc_vip_value L vip_port) fips = Inr (map fst (created_checks (concat cmdss))) \<and>
         map snd (created_checks (concat cmdss)) = map (\<lambda>_. Some l) fips"
  using assms
  by (induction fips arbitrary: cmdss) (auto simp: created_checks_def add_fip_lbhc_def hc_base_external_ids_def)

text \<open>C23: Creating a monitor creates one health check per VIP and per floating IP of the load balancer,
  each for its own address and the port of the pool's listener. The address recorded in
  \<open>octavia:vip\<close> is the check's own for a VIP; for every floating IP it is the last floating IP.\<close>

theorem monitor_creates_checks:
  assumes "add_lbhc_commands L lb pool_key info = Inr cmds"
  defines "vips \<equiv> hm_vips (lb_external_ids lb)" and "fips \<equiv> hm_fips (lb_external_ids lb)"
  shows "mapR (hc_vip_value L (get_pool_listener_port lb pool_key)) (vips @ fips)
           = Inr (map fst (created_checks cmds)) \<and>
         map snd (created_checks cmds) = map Some vips @ replicate (length fips) (Some (last fips))"
proof -
  from assms obtain vc fc where
    v: "mapR (add_vip_lbhc L lb pool_key info (get_pool_listener_port lb pool_key)) vips = Inr vc"
    and f: "mapR (add_fip_lbhc L lb pool_key info (get_pool_listener_port lb pool_key) (last fips)) fips = Inr fc"
    and "cmds = concat vc @ concat fc"
    by (auto simp: add_lbhc_commands_def Let_def vips_def fips_def)
  with vip_checks [OF v] fip_checks [OF f] show ?thesis
    by (simp add: mapR_append map_replicate_const)
qed

definition sample_hm :: hm_info where
  "sample_hm =
     \<lparr>hi_id = ''h1'', hi_pool_id = ''p1'', hi_interval = Some 5, hi_timeout = Some 3, hi_success_count = Some 1,
      hi_failure_count = Some 2, hi_admin_state_up = True\<rparr>"

definition hm_row :: lb_row where
  "hm_row = new_row\<lparr>lb_external_ids :=
     [(LB_EXT_IDS_VIP_KEY, ''10.0.0.4''), (LB_EXT_IDS_VIP_FIP_KEY, ''172.24.4.9''),
      (LB_EXT_IDS_ADDIT_VIP_FIP_KEY, ''172.24.4.10''), (''listener_l1'', ''80:pool_p1'')]\<rparr>"

definition hm_cmds :: "cmd list" where
  "hm_cmds = (case add_lbhc_commands ref_lib hm_row ''pool_p1'' sample_hm of Inl e \<Rightarrow> [] | Inr c \<Rightarrow> c)"

lemma hm_cmds: "add_lbhc_commands ref_lib hm_row ''pool_p1'' sample_hm = Inr hm_cmds"
proof -
  obtain c where "add_lbhc_commands ref_lib hm_row ''pool_p1'' sample_hm = Inr c"
    by (cases "add_lbhc_commands ref_lib hm_row ''pool_p1'' sample_hm") (code_simp, blast)
  then show ?thesis by (simp add: hm_cmds_def)
qed

theorem monitor_creates_checks_witness:
  "map snd (created_checks hm_cmds) = [Some ''10.0.0.4'', Some ''172.24.4.10'', Some ''172.24.4.10'']"
proof -
  have "map Some (hm_vips (lb_external_ids hm_row)) @
      replicate (length (hm_fips (lb_external_ids hm_row))) (Some (last (hm_fips (lb_external_ids hm_row))))
    = [Some ''10.0.0.4'', Some ''172.24.4.10'', Some ''172.24.4.10'']"
    by code_simp
  then show ?thesis using monitor_creates_checks [OF hm_cmds] by simp
qed

section \<open>The list of monitors\<close>

lemma hms_after_vips:
  assumes "load_hms_key L ext = Inr hms" and "ext = lb_external_ids lb" and "vips \<noteq> []"
    and "mapR (add_vip_lbhc L lb pool_key info vip_port) vips = Inr cmdss"
  shows "dict_get (cols_after (lb_uuid lb) EXT_IDS (concat cmdss) d) LB_EXT_IDS_HMS_KEY
         = Some (dumps_list L (hms @ [hi_id info]))"
  using assms(3,4)
proof (induction vips arbitrary: cmdss d)
  case (Cons vip vips)
  from Cons.prems(2) obtain v cs where
    v: "add_vip_lbhc L lb pool_key info vip_port vip = Inr v"
    and cs: "mapR (add_vip_lbhc L lb pool_key info vip_port) vips = Inr cs" "cmdss = v # cs" by auto
  have "dict_get (cols_after (lb_uuid lb) EXT_IDS v d) LB_EXT_IDS_HMS_KEY
         = Some (dumps_list L (hms @ [hi_id info]))" for d
    using v assms(1,2) by (auto simp: add_vip_lbhc_def set_hms_key_def)
  with Cons.IH [OF _ cs(1)] cs show ?case
    by (cases "vips = []") auto
qed simp

text \<open>The row lists the new monitor once, whatever the number of VIPs, after the ones it had; and the
  list that \<open>hm_delete\<close> computes from it is the list before the monitor was created.\<close>

theorem monitor_list_roundtrip:
  assumes "add_lbhc_commands L lb pool_key info = Inr cmds" and "hm_vips (lb_external_ids lb) \<noteq> []"
    and "load_hms_key L (lb_external_ids lb) = Inr hms" and "hi_id info \<notin> set hms"
    and "loads_list L (dumps_list L (hms @ [hi_id info])) = Inr (hms @ [hi_id info])"
    and "dumps_list L (hms @ [hi_id info]) \<noteq> []"
  defines "ext' \<equiv> cols_after (lb_uuid lb) EXT_IDS cmds (lb_external_ids lb)"
  shows "load_hms_key L ext' = Inr (hms @ [hi_id info]) \<and>
         remaining_hms L (dict_get ext' LB_EXT_IDS_HMS_KEY) (hi_id info) = Inr hms"
proof -
  let ?port = "get_pool_listener_port lb pool_key" and ?fips = "hm_fips (lb_external_ids lb)"
  from assms(1) obtain vc fc where
    v: "mapR (add_vip_lbhc L lb pool_key info ?port) (hm_vips (lb_external_ids lb)) = Inr vc"
    and f: "mapR (add_fip_lbhc L lb pool_key info ?port (last ?fips)) ?fips = Inr fc"
    and cmds: "cmds = concat vc @ concat fc"
    by (auto simp: add_lbhc_commands_def Let_def)
  from f have "leaves EXT_IDS (concat fc)"
    by (auto simp: leaves_def list_all_iff add_fip_lbhc_def dest!: mapR_set)
  then have "dict_get ext' LB_EXT_IDS_HMS_KEY = Some (dumps_list L (hms @ [hi_id info]))"
    using hms_after_vips [OF assms(3) refl assms(2) v] by (simp add: ext'_def cmds cols_after_leaves)
  with assms(4-6) show ?thesis
    by (simp add: load_hms_key_def remaining_hms_def truthy_def remove1_append)
qed

theorem monitor_list_roundtrip_witness:
  "load_hms_key ref_lib (cols_after (lb_uuid hm_row) EXT_IDS hm_cmds (lb_external_ids hm_row)) = Inr [''h1'']"
proof -
  have e: "[] @ [hi_id sample_hm] = [''h1'']" by (simp add: sample_hm_def)
  show ?thesis
    by (rule monitor_list_roundtrip [OF hm_cmds, of "[]", THEN conjunct1, unfolded e]) code_simp+
qed

section \<open>Service monitor events\<close>

text \<open>C24: When no other member of the pool mentions the address and the port of the event, the event is
  attributed to the member that has them.\<close>

theorem event_finds_member:
  assumes "list_all storable ms" and "(ip, port, sub, mid) \<in> set ms"
    and "list_all (\<lambda>m. contains ip (print_member m) \<and> contains port (print_member m) \<longrightarrow> m = (ip, port, sub, mid)) ms"
  shows "event_member_of_pool ip port (join '','' (map print_member ms)) = Inr (Some mid)"
proof -
  let ?m = "(ip, port, sub, mid)" and ?P = "\<lambda>mb. contains ip mb \<and> contains port mb"
  have ne: "ms \<noteq> []" using assms(2) by auto
  have split: "split_on CHR '','' (join '','' (map print_member ms)) = map print_member ms"
    by (rule comma.dec_enc) (use ne assms(1) print_member_comma_free in \<open>auto simp: list_all_iff\<close>)
  have has: "?P (print_member ?m)"
  proof -
    have "print_member ?m = (LB_EXT_IDS_MEMBER_PREFIX @ mid @ ''_'') @ ip @ '':'' @ port @ ''_'' @ sub"
      "print_member ?m = (LB_EXT_IDS_MEMBER_PREFIX @ mid @ ''_'' @ ip @ '':'') @ port @ ''_'' @ sub"
      by (simp_all add: print_member_def member_entry_def)
    then show ?thesis by (metis contains_append)
  qed
  obtain n where f: "filter ?P (map print_member ms) = replicate (Suc n) (print_member ?m)"
  proof -
    define F where "F = filter ?P (map print_member ms)"
    have all: "\<forall>x \<in> set F. x = print_member ?m"
      using assms(3) by (auto simp: F_def list_all_iff)
    have "print_member ?m \<in> set F"
      using assms(2) has by (auto simp: F_def)
    then have "F = replicate (Suc (length F - 1)) (print_member ?m)"
      using replicate_length_same [OF all] by (cases F) auto
    then show thesis
      using that unfolding F_def by blast
  qed
  have "storable ?m" using assms(1,2) by (auto simp: list_all_iff)
  then have "item (split_on CHR ''_'' (print_member ?m)) 1 = Inr mid"
    by (simp add: print_member_def split_member_entry storable_def item_def)
  then have ids: "mapR (\<lambda>mb. item (split_on CHR ''_'' mb) 1) (replicate k (print_member ?m)) = Inr (replicate k mid)" for k
    by (induction k) simp_all
  have "list_ex (\<lambda>(mb_ip, mb_port, _). ip = mb_ip \<and> port = mb_port) ms"
    using assms(2) by (force simp: list_ex_iff)
  then show ?thesis
    unfolding event_member_of_pool_def extract_print_members [OF assms(1)] split f ids
    by (simp add: item_def)
qed

text \<open>Without that guard the wrong member can be chosen, because the address is searched as a substring:
  10.0.0.1 is a part of 10.0.0.10.\<close>

theorem event_finds_wrong_member:
  "event_member_of_pool ''10.0.0.1'' ''80''
     (join '','' (map print_member [(''10.0.0.10'', ''80'', ''s'', ''m1''), (''10.0.0.1'', ''80'', ''s'', ''m2'')]))
   = Inr (Some ''m1'')"
  by code_simp

theorem event_finds_member_witness:
  "event_member_of_pool ''10.0.0.2'' ''80''
     (join '','' (map print_member [(''10.0.0.10'', ''80'', ''s'', ''m1''), (''10.0.0.2'', ''80'', ''s'', ''m2'')]))
   = Inr (Some ''m2'')"
  by (rule event_finds_member [of _ _ _ "''s''"]) code_simp+

text \<open>
  Merging the statuses of several rows loses none and keeps their order: under every key the merged
  report has the entries of all of them, one after the other.
\<close>

lemma merged_statuses_complete:
  "dict_get_default (merge_statuses sts) k []
     = concat (map (\<lambda>st. concat (map snd (filter (\<lambda>kv. fst kv = k) st))) sts)"
proof -
  have one: "dict_get_default (fold (\<lambda>(k, es) status. dict_set status k (dict_get_default status k [] @ es)) st acc) k []
      = dict_get_default acc k [] @ concat (map snd (filter (\<lambda>kv. fst kv = k) st))" for st and acc :: status
    by (induction st arbitrary: acc) (auto simp: dict_get_default_def)
  have "dict_get_default (fold (\<lambda>status_lb status.
         fold (\<lambda>(k, es) status. dict_set status k (dict_get_default status k [] @ es)) status_lb status) sts acc) k []
      = dict_get_default acc k [] @ concat (map (\<lambda>st. concat (map snd (filter (\<lambda>kv. fst kv = k) st))) sts)"
    for acc by (induction sts arbitrary: acc) (simp_all add: one)
  then show ?thesis by (simp add: merge_statuses_def dict_get_default_def)
qed

end
