(* ===== verification/Driver.thy ===== *)
theory Driver
  imports Requests
begin

text \<open>
  The provider driver (\<open>driver.py\<close>): what Octavia calls. A call checks the objects it is given, builds
  the info of each request and puts the requests into the queue of \<open>Requests\<close>; nothing is taken back
  when a later check fails.
  \<^item> the data model objects of octavia-lib, with Unset apart from None where the code tells them apart,
  \<^item> the effect type \<open>drv\<close>: the outside together with the queue,
  \<^item> the checks, then one definition per method of \<open>OvnProviderDriver\<close>.
\<close>

section \<open>Data models\<close>

text \<open>An attribute Octavia may leave out. Unset is false in a condition, as None is.\<close>

datatype 'a attr = Unset | Val 'a

primrec attr_or :: "'a \<Rightarrow> 'a attr \<Rightarrow> 'a" where
  "attr_or d Unset = d"
| "attr_or d (Val x) = x"

primrec attr_opt :: "'a attr \<Rightarrow> 'a option" where
  "attr_opt Unset = None"
| "attr_opt (Val x) = Some x"

text \<open>
  What Octavia requires of an object (its id, protocol, address) is there. The objects of an update
  (\<open>..._change\<close>) have only what changes; a member that is updated without address has the empty one.
\<close>

record hm_model =
  hmm_healthmonitor_id :: string
  hmm_pool_id :: string
  hmm_type :: "string attr"
  hmm_delay :: "int option"
  hmm_timeout :: "int option"
  hmm_max_retries_down :: "int option"
  hmm_max_retries :: "int option"
  hmm_admin_state_up :: "bool attr"

record driver_member = member_model +
  dm_pool_id :: string
  dm_admin_state_up :: "bool attr"
  dm_monitor_address :: "string option attr"
  dm_monitor_port :: "int option attr"

record pool_model =
  pm_pool_id :: string
  pm_loadbalancer_id :: string
  pm_protocol :: string
  pm_lb_algorithm :: string
  pm_listener_id :: "string option"
  pm_admin_state_up :: "bool attr"
  pm_session_persistence :: "session option attr"
  pm_healthmonitor :: "hm_model option attr"
  pm_members :: "driver_member list attr"

record pool_change =
  pc_protocol :: "string attr"
  pc_lb_algorithm :: "string attr"
  pc_admin_state_up :: "bool attr"
  pc_session_persistence :: "session option attr"

record listener_model =
  lm_listener_id :: string
  lm_loadbalancer_id :: string
  lm_protocol :: string
  lm_protocol_port :: int
  lm_default_pool_id :: "string option"
  lm_admin_state_up :: "bool attr"
  lm_allowed_cidrs :: "string list option attr"

record listener_change =
  lc_listener_id :: string
  lc_default_pool_id :: "string option attr"
  lc_admin_state_up :: "bool attr"
  lc_allowed_cidrs :: "string list option attr"

record lb_model =
  lbm_loadbalancer_id :: string
  lbm_vip_address :: "string option"
  lbm_vip_network_id :: "string option"
  lbm_vip_subnet_id :: "string option"
  lbm_vip_port_id :: "string option"
  lbm_admin_state_up :: "bool attr"
  lbm_additional_vips :: "additional_vip list attr"
  lbm_listeners :: "listener_model list attr"
  lbm_pools :: "pool_model list attr"

section \<open>The queue\<close>

type_synonym ('w, 'a) drv = "('w \<times> request list, 'a) io"

text \<open>A call of the helper that does not touch the queue, and \<open>add_request\<close>; the queue has no bound.\<close>

definition outside :: "('w, 'a) io \<Rightarrow> ('w, 'a) drv" where
  "outside m = (\<lambda>(w, q). case m w of (r, w') \<Rightarrow> (r, (w', q)))"

definition add_request :: "request \<Rightarrow> ('w, unit) drv" where
  "add_request req = (\<lambda>(w, q). (Inr (), (w, q @ [req])))"

section \<open>Checks\<close>

definition is_health_check_supported :: "'w env \<Rightarrow> bool" where
  "is_health_check_supported E = is_col_present E Load_Balancer ''health_check''"

definition check_for_supported_protocols :: "string \<Rightarrow> unit res" where
  "check_for_supported_protocols protocol =
     (if protocol \<notin> set OVN_NATIVE_LB_PROTOCOLS then Inl UnsupportedOptionError else Inr ())"

definition check_for_supported_algorithms :: "string \<Rightarrow> unit res" where
  "check_for_supported_algorithms algorithm =
     (if algorithm \<notin> set OVN_NATIVE_LB_ALGORITHMS then Inl UnsupportedOptionError else Inr ())"

text \<open>
  \<open>session\<close> is a dict: an empty one is false, and the message of the error reads the attribute
  \<open>session.type\<close>, which a dict does not have.
\<close>

definition session_truthy :: "session option \<Rightarrow> bool" where
  "session_truthy session =
     (case session of None \<Rightarrow> False | Some s \<Rightarrow> sp_type s \<noteq> None \<or> sp_timeout s \<noteq> None)"

definition native_session :: "session \<Rightarrow> bool" where
  "native_session s = (case sp_type s of None \<Rightarrow> False | Some t \<Rightarrow> t \<in> set OVN_NATIVE_SESSION_PERSISTENCE)"

definition check_for_supported_session_persistence :: "session option \<Rightarrow> unit res" where
  "check_for_supported_session_persistence session =
     (if session_truthy session \<and> \<not> native_session (the session) then Inl AttributeError else Inr ())"

definition check_for_allowed_cidrs :: "string list option attr \<Rightarrow> unit res" where
  "check_for_allowed_cidrs allowed_cidrs =
     (case allowed_cidrs of
        Val (Some (cidr # cidrs)) \<Rightarrow> Inl UnsupportedOptionError
      | _ \<Rightarrow> Inr ())"

definition check_monitor_options :: "driver_member \<Rightarrow> bool" where
  "check_monitor_options member =
     (if dm_monitor_address member = Unset \<and> dm_monitor_port member = Unset then False
      else truthy (attr_or None (dm_monitor_address member)) \<or>
           (case attr_or None (dm_monitor_port member) of None \<Rightarrow> False | Some port \<Rightarrow> port \<noteq> 0))"

definition check_member_monitor_options :: "driver_member \<Rightarrow> unit res" where
  "check_member_monitor_options member =
     (if check_monitor_options member then Inl UnsupportedOptionError else Inr ())"

datatype hm_action = HmActionCreate | HmActionUpdate

definition validate_hm_support :: "'w env \<Rightarrow> hm_model \<Rightarrow> hm_action \<Rightarrow> unit res" where
  "validate_hm_support E hm action =
     (if \<not> is_health_check_supported E then Inl UnsupportedOptionError
      else if action = HmActionCreate then
        (case hmm_type hm of
           Unset \<Rightarrow> Inl UnsupportedOptionError
         | Val t \<Rightarrow> if t \<notin> set SUPPORTED_HEALTH_MONITOR_TYPES then Inl UnsupportedOptionError else Inr ())
      else Inr ())"

text \<open>\<open>any(IPNetwork(vip).version != vip_version for vip in lb_vips if vip)\<close>\<close>

primrec versions_mixed :: "'a lib_scheme \<Rightarrow> nat \<Rightarrow> string list \<Rightarrow> bool res" where
  "versions_mixed L vip_version [] = Inr False"
| "versions_mixed L vip_version (vip # vips) =
     (if vip = [] then versions_mixed L vip_version vips
      else rbind (ip_version L vip) (\<lambda>v.
           if v \<noteq> vip_version then Inr True else versions_mixed L vip_version vips))"

text \<open>The first address is the VIP, None if the row has none.\<close>

definition version_differs :: "'a lib_scheme \<Rightarrow> string pydict \<Rightarrow> string \<Rightarrow> bool res" where
  "version_differs L external_ids address =
     (let vip = dict_get external_ids LB_EXT_IDS_VIP_KEY;
          additional = (case dict_get external_ids LB_EXT_IDS_ADDIT_VIP_KEY of
                          None \<Rightarrow> [] | Some s \<Rightarrow> split_on CHR '','' s);
          lb_vips = (case vip of None \<Rightarrow> additional | Some v \<Rightarrow> v # additional)
      in
      rbind (case vip of None \<Rightarrow> ip_version_none L | Some v \<Rightarrow> ip_version L v) (\<lambda>vip_version.
      rbind (versions_mixed L vip_version lb_vips) (\<lambda>vips_mixed.
      if vips_mixed then Inr False
      else rbind (ip_version L address) (\<lambda>v. Inr (vip_version \<noteq> v)))))"

definition ip_version_differs :: "'w env \<Rightarrow> driver_member \<Rightarrow> ('w, bool) io" where
  "ip_version_differs E member =
     bnd (find_ovn_lb_by_pool_id E (dm_pool_id member)) (\<lambda>(_, row).
     case row of
       None \<Rightarrow> ret False
     | Some u \<Rightarrow>
         bnd (nb_lb E u) (\<lambda>ovn_lb.
         lift (version_differs E (lb_external_ids ovn_lb) (mm_address member))))"

text \<open>The subnet of a member, or the subnet of the VIP when the member is in it.\<close>

definition member_subnet_id :: "'w env \<Rightarrow> driver_member \<Rightarrow> ('w, string) io" where
  "member_subnet_id E member =
     (if truthy (mm_subnet_id member) then ret (the (mm_subnet_id member))
      else
        bnd (get_subnet_from_pool E (dm_pool_id member)) (\<lambda>found.
        case found of
          None \<Rightarrow> throw UnsupportedOptionError
        | Some (subnet_id, subnet_cidr) \<Rightarrow>
            bnd (if subnet_id \<noteq> [] then lift (check_ip_in_subnet E (mm_address member) subnet_cidr)
                 else ret False) (\<lambda>inside.
            if inside then ret subnet_id else throw UnsupportedOptionError)))"

text \<open>\<open>if self._ip_version_differs(member): raise IPVersionsMixingNotSupportedError()\<close>\<close>

definition check_ip_version :: "'w env \<Rightarrow> driver_member \<Rightarrow> ('w, unit) io" where
  "check_ip_version E member =
     bnd (ip_version_differs E member) (\<lambda>differs.
     if differs then throw IPVersionsMixingNotSupportedError else ret ())"

section \<open>Load balancer, listener and pool infos\<close>

definition get_loadbalancer_request_info :: "lb_model \<Rightarrow> lb_info" where
  "get_loadbalancer_request_info loadbalancer =
     \<lparr>li_id = lbm_loadbalancer_id loadbalancer, li_vip_address = lbm_vip_address loadbalancer,
      li_vip_port_id = None, li_vip_network_id = lbm_vip_network_id loadbalancer,
      li_admin_state_up = attr_or True (lbm_admin_state_up loadbalancer),
      li_additional_vips = attr_or [] (lbm_additional_vips loadbalancer),
      li_vip_fip = None, li_additional_vip_fip = None, li_lr_ref = None, li_ls_refs = None,
      li_lb_algorithm = None\<rparr>"

text \<open>The dict both \<open>listener_create\<close> and \<open>_get_listener_request_info\<close> build after the same checks.\<close>

definition listener_request_info :: "listener_model \<Rightarrow> listener_dict" where
  "listener_request_info listener =
     \<lparr>ld_id = lm_listener_id listener, ld_loadbalancer_id = lm_loadbalancer_id listener,
      ld_protocol = lm_protocol listener, ld_protocol_port = PortInt (lm_protocol_port listener),
      ld_default_pool_id = Some (lm_default_pool_id listener),
      ld_admin_state_up = Some (attr_or True (lm_admin_state_up listener))\<rparr>"

definition get_listener_request_info :: "listener_model \<Rightarrow> listener_dict res" where
  "get_listener_request_info listener =
     rbind (check_for_supported_protocols (lm_protocol listener)) (\<lambda>_.
     rbind (check_for_allowed_cidrs (lm_allowed_cidrs listener)) (\<lambda>_.
     Inr (listener_request_info listener)))"

definition get_pool_request_info :: "pool_model \<Rightarrow> pool_dict res" where
  "get_pool_request_info pool =
     rbind (check_for_supported_protocols (pm_protocol pool)) (\<lambda>_.
     rbind (check_for_supported_algorithms (pm_lb_algorithm pool)) (\<lambda>_.
     rbind (case pm_session_persistence pool of
              Unset \<Rightarrow> Inr () | Val s \<Rightarrow> check_for_supported_session_persistence s) (\<lambda>_.
     Inr \<lparr>pl_id = pm_pool_id pool, pl_loadbalancer_id = pm_loadbalancer_id pool,
          pl_protocol = pm_protocol pool, pl_lb_algorithm = pm_lb_algorithm pool,
          pl_listener_id = pm_listener_id pool,
          pl_admin_state_up = Some (attr_or True (pm_admin_state_up pool)),
          pl_session_persistence = attr_opt (pm_session_persistence pool)\<rparr>)))"

text \<open>The key \<open>admin_state_up\<close> is left out when it is false or \<open>create\<close> is.\<close>

definition get_member_request_info :: "'w env \<Rightarrow> driver_member \<Rightarrow> bool \<Rightarrow> ('w, member_dict) io" where
  "get_member_request_info E member create =
     bnd (if create
          then bnd (lift (check_member_monitor_options member)) (\<lambda>_. check_ip_version E member)
          else ret ()) (\<lambda>_.
     bnd (member_subnet_id E member) (\<lambda>subnet_id.
     ret \<lparr>md_id = mm_member_id member, md_address = Some (mm_address member),
          md_protocol_port = Some (mm_protocol_port member), md_pool_id = Some (dm_pool_id member),
          md_subnet_id = Some subnet_id,
          md_admin_state_up =
            (if create \<and> attr_or True (dm_admin_state_up member) then Some True else None)\<rparr>))"

definition hm_request_info :: "string \<Rightarrow> hm_model \<Rightarrow> hm_info" where
  "hm_request_info pool_id hm =
     \<lparr>hi_id = hmm_healthmonitor_id hm, hi_pool_id = pool_id, hi_interval = hmm_delay hm,
      hi_timeout = hmm_timeout hm, hi_success_count = hmm_max_retries hm,
      hi_failure_count = hmm_max_retries_down hm,
      hi_admin_state_up = attr_or True (hmm_admin_state_up hm)\<rparr>"

definition get_healthmonitor_request_info :: "'w env \<Rightarrow> hm_model \<Rightarrow> hm_info res" where
  "get_healthmonitor_request_info E hm =
     rbind (validate_hm_support E hm HmActionCreate) (\<lambda>_.
     Inr (hm_request_info (hmm_pool_id hm) hm))"

section \<open>Health monitors\<close>

definition driver_health_monitor_create :: "'w env \<Rightarrow> hm_model \<Rightarrow> ('w, unit) drv" where
  "driver_health_monitor_create E hm =
     bnd (lift (validate_hm_support E hm HmActionCreate)) (\<lambda>_.
     add_request (REQ_TYPE_HM_CREATE (hm_request_info (hmm_pool_id hm) hm)))"

definition driver_health_monitor_update :: "'w env \<Rightarrow> hm_model \<Rightarrow> hm_model \<Rightarrow> ('w, unit) drv" where
  "driver_health_monitor_update E old_hm new_hm =
     bnd (lift (validate_hm_support E new_hm HmActionUpdate)) (\<lambda>_.
     add_request (REQ_TYPE_HM_UPDATE (hm_request_info (hmm_pool_id old_hm) new_hm)))"

text \<open>Only \<open>id\<close> and \<open>pool_id\<close> are in the dict.\<close>

definition driver_health_monitor_delete :: "hm_model \<Rightarrow> ('w, unit) drv" where
  "driver_health_monitor_delete hm =
     add_request (REQ_TYPE_HM_DELETE
       \<lparr>hi_id = hmm_healthmonitor_id hm, hi_pool_id = hmm_pool_id hm, hi_interval = None,
        hi_timeout = None, hi_success_count = None, hi_failure_count = None, hi_admin_state_up = True\<rparr>)"

section \<open>Listeners\<close>

text \<open>The methods that have the name of a handler of \<open>helper.py\<close> carry the prefix \<open>driver_\<close> here.\<close>

definition driver_listener_create :: "listener_model \<Rightarrow> ('w, unit) drv" where
  "driver_listener_create listener =
     bnd (lift (check_for_supported_protocols (lm_protocol listener))) (\<lambda>_.
     bnd (lift (check_for_allowed_cidrs (lm_allowed_cidrs listener))) (\<lambda>_.
     add_request (REQ_TYPE_LISTENER_CREATE (listener_request_info listener))))"

definition driver_listener_delete :: "listener_model \<Rightarrow> ('w, unit) drv" where
  "driver_listener_delete listener =
     add_request (REQ_TYPE_LISTENER_DELETE
       \<lparr>ld_id = lm_listener_id listener, ld_loadbalancer_id = lm_loadbalancer_id listener,
        ld_protocol = lm_protocol listener, ld_protocol_port = PortInt (lm_protocol_port listener),
        ld_default_pool_id = None, ld_admin_state_up = None\<rparr>)"

definition driver_listener_update :: "listener_model \<Rightarrow> listener_change \<Rightarrow> ('w, unit) drv" where
  "driver_listener_update old_listener new_listener =
     bnd (lift (check_for_allowed_cidrs (lc_allowed_cidrs new_listener))) (\<lambda>_.
     add_request (REQ_TYPE_LISTENER_UPDATE
       \<lparr>ld_id = lc_listener_id new_listener, ld_loadbalancer_id = lm_loadbalancer_id old_listener,
        ld_protocol = lm_protocol old_listener,
        ld_protocol_port = PortInt (lm_protocol_port old_listener),
        ld_default_pool_id = attr_opt (lc_default_pool_id new_listener),
        ld_admin_state_up = attr_opt (lc_admin_state_up new_listener)\<rparr>))"

section \<open>Members\<close>

definition driver_member_create :: "'w env \<Rightarrow> driver_member \<Rightarrow> ('w, unit) drv" where
  "driver_member_create E member =
     bnd (lift (check_member_monitor_options member)) (\<lambda>_.
     bnd (outside (check_ip_version E member)) (\<lambda>_.
     bnd (outside (member_subnet_id E member)) (\<lambda>subnet_id.
     bnd (add_request (REQ_TYPE_MEMBER_CREATE
            \<lparr>md_id = mm_member_id member, md_address = Some (mm_address member),
             md_protocol_port = Some (mm_protocol_port member), md_pool_id = Some (dm_pool_id member),
             md_subnet_id = Some subnet_id,
             md_admin_state_up = Some (attr_or True (dm_admin_state_up member))\<rparr>)) (\<lambda>_.
     add_request (REQ_TYPE_HANDLE_MEMBER_DVR
       \<lparr>dv_id = mm_member_id member, dv_address = mm_address member, dv_pool_id = dm_pool_id member,
        dv_subnet_id = Some subnet_id, dv_action = REQ_INFO_MEMBER_ADDED\<rparr>)))))"

definition driver_member_delete :: "'w env \<Rightarrow> driver_member \<Rightarrow> ('w, unit) drv" where
  "driver_member_delete E member =
     bnd (outside (member_subnet_id E member)) (\<lambda>subnet_id.
     bnd (add_request (REQ_TYPE_MEMBER_DELETE
            \<lparr>md_id = mm_member_id member, md_address = Some (mm_address member),
             md_protocol_port = Some (mm_protocol_port member), md_pool_id = Some (dm_pool_id member),
             md_subnet_id = Some subnet_id, md_admin_state_up = None\<rparr>)) (\<lambda>_.
     add_request (REQ_TYPE_HANDLE_MEMBER_DVR
       \<lparr>dv_id = mm_member_id member, dv_address = mm_address member, dv_pool_id = dm_pool_id member,
        dv_subnet_id = Some subnet_id, dv_action = REQ_INFO_MEMBER_DELETED\<rparr>)))"

text \<open>The key \<open>old_admin_state_up\<close> of the dict is read by no handler.\<close>

definition driver_member_update :: "'w env \<Rightarrow> driver_member \<Rightarrow> driver_member \<Rightarrow> ('w, unit) drv" where
  "driver_member_update E old_member new_member =
     bnd (lift (check_member_monitor_options new_member)) (\<lambda>_.
     bnd (if mm_address new_member \<noteq> [] then outside (check_ip_version E new_member) else ret ()) (\<lambda>_.
     add_request (REQ_TYPE_MEMBER_UPDATE
       \<lparr>md_id = mm_member_id new_member, md_address = Some (mm_address old_member),
        md_protocol_port = Some (mm_protocol_port old_member), md_pool_id = Some (dm_pool_id old_member),
        md_subnet_id = None, md_admin_state_up = attr_opt (dm_admin_state_up new_member)\<rparr>)))"

section \<open>Pools\<close>

definition driver_pool_create :: "'w env \<Rightarrow> pool_model \<Rightarrow> ('w, unit) drv" where
  "driver_pool_create E pool =
     bnd (lift (get_pool_request_info pool)) (\<lambda>request_info.
     bnd (add_request (REQ_TYPE_POOL_CREATE request_info)) (\<lambda>_.
     case pm_healthmonitor pool of
       Val (Some hm) \<Rightarrow> driver_health_monitor_create E hm
     | _ \<Rightarrow> ret ()))"

text \<open>Unset members cannot be iterated over (TypeError). The dict has only \<open>id\<close>, \<open>protocol\<close> and \<open>loadbalancer_id\<close>.\<close>

definition pool_members_of :: "pool_model \<Rightarrow> driver_member list res" where
  "pool_members_of pool = (case pm_members pool of Unset \<Rightarrow> Inl TypeError | Val members \<Rightarrow> Inr members)"

definition driver_pool_delete :: "'w env \<Rightarrow> pool_model \<Rightarrow> ('w, unit) drv" where
  "driver_pool_delete E pool =
     bnd (case pm_healthmonitor pool of
            Val (Some hm) \<Rightarrow> driver_health_monitor_delete hm
          | _ \<Rightarrow> ret ()) (\<lambda>_.
     bnd (lift (pool_members_of pool)) (\<lambda>members.
     bnd (for_each (driver_member_delete E) members) (\<lambda>_.
     add_request (REQ_TYPE_POOL_DELETE
       \<lparr>pl_id = pm_pool_id pool, pl_loadbalancer_id = pm_loadbalancer_id pool,
        pl_protocol = pm_protocol pool, pl_lb_algorithm = [], pl_listener_id = None,
        pl_admin_state_up = None, pl_session_persistence = None\<rparr>))))"

definition check_attr :: "('a \<Rightarrow> unit res) \<Rightarrow> 'a attr \<Rightarrow> unit res" where
  "check_attr f a = (case a of Unset \<Rightarrow> Inr () | Val x \<Rightarrow> f x)"

definition driver_pool_update :: "pool_model \<Rightarrow> pool_change \<Rightarrow> ('w, unit) drv" where
  "driver_pool_update old_pool new_pool =
     bnd (lift (check_attr check_for_supported_protocols (pc_protocol new_pool))) (\<lambda>_.
     bnd (lift (check_attr check_for_supported_algorithms (pc_lb_algorithm new_pool))) (\<lambda>_.
     bnd (lift (check_attr check_for_supported_session_persistence (pc_session_persistence new_pool))) (\<lambda>_.
     add_request (REQ_TYPE_POOL_UPDATE
       \<lparr>pl_id = pm_pool_id old_pool, pl_loadbalancer_id = pm_loadbalancer_id old_pool,
        pl_protocol = pm_protocol old_pool, pl_lb_algorithm = [], pl_listener_id = None,
        pl_admin_state_up = attr_opt (pc_admin_state_up new_pool),
        pl_session_persistence = attr_opt (pc_session_persistence new_pool)\<rparr>))))"

section \<open>Load balancers\<close>

text \<open>A member without subnet gets the one of the VIP.\<close>

definition with_vip_subnet :: "lb_model \<Rightarrow> driver_member \<Rightarrow> driver_member" where
  "with_vip_subnet loadbalancer member =
     (if truthy (mm_subnet_id member) then member
      else member\<lparr>mm_subnet_id := lbm_vip_subnet_id loadbalancer\<rparr>)"

definition driver_loadbalancer_create :: "'w env \<Rightarrow> lb_model \<Rightarrow> ('w, unit) drv" where
  "driver_loadbalancer_create E loadbalancer =
     bnd (add_request (REQ_TYPE_LB_CREATE (get_loadbalancer_request_info loadbalancer))) (\<lambda>_.
     bnd (for_each driver_listener_create (attr_or [] (lbm_listeners loadbalancer))) (\<lambda>_.
     for_each (\<lambda>pool.
       bnd (driver_pool_create E pool) (\<lambda>_.
       bnd (lift (pool_members_of pool)) (\<lambda>members.
       for_each (\<lambda>member. driver_member_create E (with_vip_subnet loadbalancer member)) members)))
       (attr_or [] (lbm_pools loadbalancer))))"

definition driver_loadbalancer_delete :: "lb_model \<Rightarrow> bool \<Rightarrow> ('w, unit) drv" where
  "driver_loadbalancer_delete loadbalancer cascade =
     add_request (REQ_TYPE_LB_DELETE (lbm_loadbalancer_id loadbalancer) cascade)"

definition driver_loadbalancer_failover :: "string \<Rightarrow> ('w, unit) drv" where
  "driver_loadbalancer_failover loadbalancer_id = throw UnsupportedOptionError"

definition driver_loadbalancer_update :: "lb_model \<Rightarrow> ('w, unit) drv" where
  "driver_loadbalancer_update new_loadbalancer =
     add_request (REQ_TYPE_LB_UPDATE (lbm_loadbalancer_id new_loadbalancer)
                    (attr_opt (lbm_admin_state_up new_loadbalancer)))"

section \<open>member_batch_update\<close>

text \<open>The loop over the requested members; the subnet of the pool is looked up at most once with success.\<close>

record batch =
  ba_requests :: "request list"
  ba_to_delete :: "string list"
  ba_pool_subnet :: "(string \<times> string) option"

definition batch_subnet ::
  "'w env \<Rightarrow> string \<Rightarrow> driver_member \<Rightarrow> (string \<times> string) option \<Rightarrow>
   ('w, string \<times> (string \<times> string) option) io"
where
  "batch_subnet E pool_id member pool_subnet =
     (if truthy (mm_subnet_id member) then ret (the (mm_subnet_id member), pool_subnet)
      else
        bnd (case pool_subnet of
               None \<Rightarrow> get_subnet_from_pool E pool_id
             | Some (sn, cidr) \<Rightarrow> if sn = [] then get_subnet_from_pool E pool_id else ret pool_subnet)
          (\<lambda>found.
        case found of
          None \<Rightarrow> throw UnsupportedOptionError
        | Some (sn, cidr) \<Rightarrow>
            bnd (if sn \<noteq> [] then lift (check_ip_in_subnet E (mm_address member) cidr) else ret False)
              (\<lambda>inside.
            if inside then ret (sn, found) else throw UnsupportedOptionError)))"

definition batch_request ::
  "driver_member \<Rightarrow> string \<Rightarrow> string list \<Rightarrow> string list \<Rightarrow> (request \<times> string list) res"
where
  "batch_request member subnet_id existing_members members_to_delete =
     (let member_info = get_member_info_model (member\<lparr>mm_subnet_id := Some subnet_id\<rparr>);
          request_info =
            \<lparr>md_id = mm_member_id member, md_address = Some (mm_address member),
             md_protocol_port = Some (mm_protocol_port member), md_pool_id = Some (dm_pool_id member),
             md_subnet_id = Some subnet_id,
             md_admin_state_up = Some (attr_or True (dm_admin_state_up member))\<rparr>
      in
      if member_info \<notin> set existing_members
      then Inr (REQ_TYPE_MEMBER_CREATE request_info, members_to_delete)
      else if member_info \<in> set members_to_delete
      then Inr (REQ_TYPE_MEMBER_UPDATE request_info, remove1 member_info members_to_delete)
      else Inl ValueError)"

definition batch_member ::
  "'w env \<Rightarrow> string \<Rightarrow> string list \<Rightarrow> driver_member \<Rightarrow> batch \<Rightarrow> ('w, batch) io" where
  "batch_member E pool_id existing_members member b =
     bnd (if check_monitor_options member then throw UnsupportedOptionError else ret ()) (\<lambda>_.
     bnd (if mm_address member \<noteq> [] then check_ip_version E member else ret ()) (\<lambda>_.
     bnd (batch_subnet E pool_id member (ba_pool_subnet b)) (\<lambda>(subnet_id, pool_subnet).
     bnd (lift (batch_request member subnet_id existing_members (ba_to_delete b))) (\<lambda>(request, to_delete).
     ret \<lparr>ba_requests = ba_requests b @ [request], ba_to_delete = to_delete,
          ba_pool_subnet = pool_subnet\<rparr>))))"

text \<open>A member that is left over: its id is the second field of its text, the rest is parsed.\<close>

definition batch_delete_requests :: "string \<Rightarrow> string \<Rightarrow> request list res" where
  "batch_delete_requests pool_id member =
     (let member_info = split_on CHR ''_'' member in
      rbind (extract_member_info member) (\<lambda>infos.
      rbind (item infos 0) (\<lambda>(member_ip, member_port, subnet_id, member_id).
      rbind (item member_info 1) (\<lambda>i.
      let subnet = (if length member_info = 4 then Some subnet_id else None) in
      Inr [REQ_TYPE_MEMBER_DELETE
             \<lparr>md_id = i, md_address = Some member_ip, md_protocol_port = Some (PortStr member_port),
              md_pool_id = Some pool_id, md_subnet_id = subnet, md_admin_state_up = None\<rparr>,
           REQ_TYPE_HANDLE_MEMBER_DVR
             \<lparr>dv_id = member_id, dv_address = member_ip, dv_pool_id = pool_id,
              dv_subnet_id = subnet, dv_action = REQ_INFO_MEMBER_DELETED\<rparr>]))))"

definition batch_requests ::
  "'w env \<Rightarrow> string \<Rightarrow> driver_member list \<Rightarrow> ('w, request list) io" where
  "batch_requests E pool_id members =
     bnd (find_ovn_lb_by_pool_id E pool_id) (\<lambda>(pool_key, row).
     bnd (the_row row) (\<lambda>u.
     bnd (nb_lb E u) (\<lambda>ovn_lb.
     bnd (lift (dict_item (lb_external_ids ovn_lb) pool_key)) (\<lambda>pool.
     let existing_members = (if pool \<noteq> [] then split_on CHR '','' pool else []) in
     bnd (fold_io (batch_member E pool_id existing_members) members
            \<lparr>ba_requests = [], ba_to_delete = existing_members, ba_pool_subnet = None\<rparr>) (\<lambda>b.
     bnd (lift (mapR (batch_delete_requests pool_id) (ba_to_delete b))) (\<lambda>deletes.
     ret (ba_requests b @ concat deletes)))))))"

definition driver_member_batch_update ::
  "'w env \<Rightarrow> string \<Rightarrow> driver_member list \<Rightarrow> ('w, unit) drv" where
  "driver_member_batch_update E pool_id members =
     bnd (outside (batch_requests E pool_id members)) (\<lambda>request_list.
     for_each add_request request_list)"

section \<open>create_vip_port\<close>

record provider_vip =
  pv_port_id :: string
  pv_network_id :: string
  pv_subnet_id :: string
  pv_ip_address :: string

text \<open>The port and the address that go into \<open>vip_dict\<close>, and the dicts of the additional VIPs.\<close>

definition provider_vip_of :: "port \<Rightarrow> provider_vip res" where
  "provider_vip_of p =
     rbind (item (p_fixed_ips p) 0) (\<lambda>ip.
     Inr \<lparr>pv_port_id = p_id p, pv_network_id = p_network_id p, pv_subnet_id = fi_subnet_id ip,
          pv_ip_address = fi_ip_address ip\<rparr>)"

definition driver_create_vip_port ::
  "'w env \<Rightarrow> string \<Rightarrow> string \<Rightarrow> vip_dict \<Rightarrow> vip_dict list \<Rightarrow>
   ('w, (string \<times> string) \<times> provider_vip list) io"
where
  "driver_create_vip_port E lb_id project_id vip_d additional_vip_dicts =
     catch
       (bnd (create_vip_port E project_id lb_id vip_d additional_vip_dicts) (\<lambda>(p, additional_ports).
        bnd (lift (item (p_fixed_ips p) 0)) (\<lambda>ip.
        bnd (lift (mapR provider_vip_of additional_ports)) (\<lambda>vips.
        ret ((p_id p, fi_ip_address ip), vips)))))
       (\<lambda>_. throw DriverError)"

end
