(* ===== verification/DriverSpec.thy ===== *)
theory DriverSpec
  imports Driver MemberSpec RefDb
begin

text \<open>
  What the provider driver promises about the queue: only acceptable requests get into it, whatever
  call is made and however it ends; a load balancer is queued before its listeners, a pool before its
  monitor and members; a batch update is queued as a whole or not at all, and turns the stored members
  of the pool into the requested ones.
\<close>

section \<open>What a call adds to the queue\<close>

text \<open>
  \<open>queues P m\<close>: \<open>m\<close> only appends requests to the queue, each with the property \<open>P\<close>, whether it returns or
  raises. The rules follow the structure of the code.
\<close>

definition queues :: "(request \<Rightarrow> bool) \<Rightarrow> ('w, 'a) drv \<Rightarrow> bool" where
  "queues P m \<longleftrightarrow> (\<forall>w q. \<exists>new. snd (snd (m (w, q))) = q @ new \<and> list_all P new)"

lemma queuesD:
  "queues P m \<Longrightarrow> m (w, q) = (r, (w', q')) \<Longrightarrow> \<exists>new. q' = q @ new \<and> list_all P new"
  unfolding queues_def by (metis snd_conv)

lemma queues_pure: "queues P (ret x)" "queues P (throw e)" "queues P (lift r)"
  by (simp_all add: queues_def)

lemma queues_outside: "queues P (outside m)"
  by (simp add: queues_def outside_def case_prod_unfold)

lemma queues_add_request: "P req \<Longrightarrow> queues P (add_request req)"
  by (simp add: queues_def add_request_def)

lemma bnd_add_request: "bnd (add_request req) f (w, q) = f () (w, q @ [req])"
  by (simp add: add_request_def bnd_def)

lemma queues_bnd:
  assumes m: "queues P m" and f: "\<And>w x w'. m w = (Inr x, w') \<Longrightarrow> queues P (f x)"
  shows "queues P (bnd m f)"
  unfolding queues_def
proof (intro allI)
  fix w q
  obtain r w1 q1 where run: "m (w, q) = (r, (w1, q1))" by (metis prod.exhaust)
  obtain new where new: "q1 = q @ new" "list_all P new" using queuesD [OF m run] by blast
  show "\<exists>new. snd (snd (bnd m f (w, q))) = q @ new \<and> list_all P new"
  proof (cases r)
    case (Inl e)
    with run new show ?thesis by (simp add: bnd_run)
  next
    case (Inr x)
    then have "queues P (f x)" using f [of "(w, q)" x] run by blast
    then obtain more where "snd (snd (f x (w1, q1))) = q1 @ more" "list_all P more"
      unfolding queues_def by blast
    with run Inr new show ?thesis by (simp add: bnd_run)
  qed
qed

lemma queues_bind:
  "queues P m \<Longrightarrow> (\<And>x. queues P (f x)) \<Longrightarrow> queues P (bnd m f)"
  by (rule queues_bnd)

lemma queues_check:
  "(\<And>x. r = Inr x \<Longrightarrow> queues P (f x)) \<Longrightarrow> queues P (bnd (lift r) f)"
  by (rule queues_bnd) (auto intro: queues_pure)

lemma queues_ask:
  "(\<And>x w w'. m w = (Inr x, w') \<Longrightarrow> queues P (f x)) \<Longrightarrow> queues P (bnd (outside m) f)"
proof (rule queues_bnd)
  show "queues P (outside m)" by (rule queues_outside)
qed (auto simp: outside_def split: prod.splits)

lemma queues_for_each:
  "(\<And>x. x \<in> set xs \<Longrightarrow> queues P (f x)) \<Longrightarrow> queues P (for_each f xs)"
  by (induction xs) (auto intro: queues_pure queues_bind)

lemma queues_if: "(b \<Longrightarrow> queues P m) \<Longrightarrow> (\<not> b \<Longrightarrow> queues P n) \<Longrightarrow> queues P (if b then m else n)"
  by simp

text \<open>In this order: the first rules remember what a check or a question returned.\<close>

lemmas queue_rules =
  queues_check queues_ask queues_add_request queues_pure queues_outside queues_for_each queues_if queues_bind

section \<open>Acceptable requests\<close>

text \<open>
  What OVN supports, and the optional keys the handler reads without a default: a missing one is a KeyError in
  the thread, after Octavia has been told the call succeeded. One such key may be missing: the
  \<open>admin_state_up\<close> of the update of a pool, which \<open>pool_update\<close> reads all the same.
\<close>

definition supported_session :: "session option option \<Rightarrow> bool" where
  "supported_session s =
     (case s of Some (Some x) \<Rightarrow> session_truthy (Some x) \<longrightarrow> sp_type x = Some ''SOURCE_IP'' | _ \<Rightarrow> True)"

fun acceptable :: "request \<Rightarrow> bool" where
  "acceptable (REQ_TYPE_LISTENER_CREATE l) \<longleftrightarrow>
     ld_protocol l \<in> {''TCP'', ''UDP'', ''SCTP''} \<and> \<not> isl (key_of (ld_admin_state_up l))"
| "acceptable (REQ_TYPE_POOL_CREATE p) \<longleftrightarrow>
     pl_protocol p \<in> {''TCP'', ''UDP'', ''SCTP''} \<and> pl_lb_algorithm p = ''SOURCE_IP_PORT'' \<and>
     \<not> isl (key_of (pl_admin_state_up p)) \<and> supported_session (pl_session_persistence p)"
| "acceptable (REQ_TYPE_POOL_UPDATE p) \<longleftrightarrow> supported_session (pl_session_persistence p)"
| "acceptable (REQ_TYPE_MEMBER_CREATE m) \<longleftrightarrow>
     \<not> isl (get_member_info m) \<and> \<not> isl (key_of (md_pool_id m)) \<and>
     \<not> isl (key_of (md_admin_state_up m)) \<and> truthy (md_subnet_id m)"
| "acceptable (REQ_TYPE_MEMBER_DELETE m) \<longleftrightarrow> \<not> isl (get_member_info m) \<and> \<not> isl (key_of (md_pool_id m))"
| "acceptable (REQ_TYPE_MEMBER_UPDATE m) \<longleftrightarrow> \<not> isl (key_of (md_pool_id m))"
| "acceptable _ \<longleftrightarrow> True"

lemma supported_protocol:
  "check_for_supported_protocols p = Inr x \<Longrightarrow> p \<in> {''TCP'', ''UDP'', ''SCTP''}"
  by (auto simp: check_for_supported_protocols_def OVN_NATIVE_LB_PROTOCOLS_def split: if_splits)

lemma supported_algorithm: "check_for_supported_algorithms a = Inr x \<Longrightarrow> a = ''SOURCE_IP_PORT''"
  by (auto simp: check_for_supported_algorithms_def OVN_NATIVE_LB_ALGORITHMS_def split: if_splits)

lemma supported_sessionI:
  "check_for_supported_session_persistence s = Inr x \<Longrightarrow> supported_session (Some s)"
  by (auto simp: check_for_supported_session_persistence_def supported_session_def native_session_def
      OVN_NATIVE_SESSION_PERSISTENCE_def split: if_splits option.splits)

lemma supported_session_None [simp]: "supported_session None"
  by (simp add: supported_session_def)

lemma get_member_info_total [simp]:
  "md_address m = Some a \<Longrightarrow> md_protocol_port m = Some p \<Longrightarrow> \<not> isl (get_member_info m)"
  by (simp add: get_member_info_def)

lemma member_subnet_truthy: "member_subnet_id E m w = (Inr sn, w') \<Longrightarrow> sn \<noteq> []"
  by (auto simp: member_subnet_id_def elim!: bnd_InrE truthyE split: if_splits option.splits prod.splits)

section \<open>Every call\<close>

datatype api_call =
    LoadbalancerCreate lb_model
  | LoadbalancerDelete lb_model bool
  | LoadbalancerFailover string
  | LoadbalancerUpdate lb_model
  | ListenerCreate listener_model
  | ListenerDelete listener_model
  | ListenerUpdate listener_model listener_change
  | PoolCreate pool_model
  | PoolDelete pool_model
  | PoolUpdate pool_model pool_change
  | MemberCreate driver_member
  | MemberDelete driver_member
  | MemberUpdate driver_member driver_member
  | MemberBatchUpdate string "driver_member list"
  | HealthMonitorCreate hm_model
  | HealthMonitorUpdate hm_model hm_model
  | HealthMonitorDelete hm_model

fun driver_call :: "'w env \<Rightarrow> api_call \<Rightarrow> ('w, unit) drv" where
  "driver_call E (LoadbalancerCreate lb) = driver_loadbalancer_create E lb"
| "driver_call E (LoadbalancerDelete lb cascade) = driver_loadbalancer_delete lb cascade"
| "driver_call E (LoadbalancerFailover i) = driver_loadbalancer_failover i"
| "driver_call E (LoadbalancerUpdate lb) = driver_loadbalancer_update lb"
| "driver_call E (ListenerCreate l) = driver_listener_create l"
| "driver_call E (ListenerDelete l) = driver_listener_delete l"
| "driver_call E (ListenerUpdate l c) = driver_listener_update l c"
| "driver_call E (PoolCreate p) = driver_pool_create E p"
| "driver_call E (PoolDelete p) = driver_pool_delete E p"
| "driver_call E (PoolUpdate p c) = driver_pool_update p c"
| "driver_call E (MemberCreate m) = driver_member_create E m"
| "driver_call E (MemberDelete m) = driver_member_delete E m"
| "driver_call E (MemberUpdate m c) = driver_member_update E m c"
| "driver_call E (MemberBatchUpdate i ms) = driver_member_batch_update E i ms"
| "driver_call E (HealthMonitorCreate h) = driver_health_monitor_create E h"
| "driver_call E (HealthMonitorUpdate h c) = driver_health_monitor_update E h c"
| "driver_call E (HealthMonitorDelete h) = driver_health_monitor_delete h"

text \<open>Several calls one after the other; a call that raises does not stop the next one.\<close>

definition driver_calls :: "'w env \<Rightarrow> api_call list \<Rightarrow> ('w, unit) drv" where
  "driver_calls E = for_each (\<lambda>c. catch (driver_call E c) (\<lambda>_. ret ()))"

lemma queues_listener_create: "queues acceptable (driver_listener_create l)"
  unfolding driver_listener_create_def
  by (rule queue_rules)+ (use supported_protocol in \<open>auto simp: listener_request_info_def\<close>)

lemma queues_hm_create: "queues acceptable (driver_health_monitor_create E h)"
  unfolding driver_health_monitor_create_def by (rule queue_rules | simp)+

lemma pool_info_acceptable:
  "get_pool_request_info p = Inr i \<Longrightarrow> acceptable (REQ_TYPE_POOL_CREATE i)"
  using supported_protocol supported_algorithm
  by (fastforce simp: get_pool_request_info_def intro: supported_sessionI split: attr.splits)

lemma queues_pool_create: "queues acceptable (driver_pool_create E p)"
  unfolding driver_pool_create_def
  by (rule queue_rules)+
    (auto intro: pool_info_acceptable queues_hm_create queues_pure simp del: acceptable.simps
       split: attr.splits option.splits)

lemma queues_member_create: "queues acceptable (driver_member_create E m)"
  unfolding driver_member_create_def
  by (rule queue_rules | force dest: member_subnet_truthy)+

lemma queues_member_delete: "queues acceptable (driver_member_delete E m)"
  unfolding driver_member_delete_def by (rule queue_rules | simp)+

lemma queues_member_update: "queues acceptable (driver_member_update E m c)"
  unfolding driver_member_update_def by (rule queue_rules | simp)+

lemma queues_pool_delete: "queues acceptable (driver_pool_delete E p)"
proof -
  have hm: "queues acceptable (case pm_healthmonitor p of Val (Some h) \<Rightarrow> driver_health_monitor_delete h | _ \<Rightarrow> ret ())"
    by (auto simp: driver_health_monitor_delete_def intro: queues_pure queues_add_request
        split: attr.splits option.splits)
  show ?thesis
    unfolding driver_pool_delete_def by (rule queue_rules hm queues_member_delete | simp)+
qed

lemma queues_pool_update: "queues acceptable (driver_pool_update p c)"
  unfolding driver_pool_update_def
  by (rule queue_rules)+
    (use supported_sessionI in \<open>fastforce simp: check_attr_def split: attr.splits\<close>)

lemma queues_loadbalancer_create: "queues acceptable (driver_loadbalancer_create E lb)"
  unfolding driver_loadbalancer_create_def
  by (rule queue_rules queues_listener_create queues_pool_create queues_member_create | simp)+

lemma batch_request_acceptable:
  "batch_request m sn ex del = Inr (req, del') \<Longrightarrow> sn \<noteq> [] \<Longrightarrow> acceptable req"
  by (auto simp: batch_request_def Let_def split: if_splits)

lemma batch_subnet_truthy: "batch_subnet E i m ps w = (Inr (sn, ps'), w') \<Longrightarrow> sn \<noteq> []"
  by (auto simp: batch_subnet_def elim!: bnd_InrE truthyE split: if_splits option.splits prod.splits)

lemma batch_member_step:
  assumes "batch_member E i ex m b w = (Inr b', w')"
  obtains sn req del where "batch_request m sn ex (ba_to_delete b) = Inr (req, del)" "sn \<noteq> []"
    "truthy (mm_subnet_id m) \<longrightarrow> sn = the (mm_subnet_id m)"
    "ba_requests b' = ba_requests b @ [req]" "ba_to_delete b' = del"
proof -
  from assms obtain sn ps w1 w2 req del where
    sn: "batch_subnet E i m (ba_pool_subnet b) w1 = (Inr (sn, ps), w2)"
    and req: "batch_request m sn ex (ba_to_delete b) = Inr (req, del)"
    and b': "b' = \<lparr>ba_requests = ba_requests b @ [req], ba_to_delete = del, ba_pool_subnet = ps\<rparr>"
    unfolding batch_member_def by (auto elim!: bnd_InrE split: prod.splits)
  have "truthy (mm_subnet_id m) \<longrightarrow> sn = the (mm_subnet_id m)"
    using sn by (auto simp: batch_subnet_def)
  with that [OF req batch_subnet_truthy [OF sn]] b' show ?thesis by simp
qed

text \<open>A property of all requests of a batch: of those the loop builds and of those of the members left over.\<close>

lemma batch_fold_all:
  assumes P: "\<And>m sn del req del'. batch_request m sn ex del = Inr (req, del') \<Longrightarrow> sn \<noteq> [] \<Longrightarrow> P req"
    and run: "fold_io (batch_member E i ex) ms b w = (Inr b', w')" and b: "list_all P (ba_requests b)"
  shows "list_all P (ba_requests b')"
  using run b
proof (rule fold_io_invariant)
  fix m b w b' w'
  assume m: "batch_member E i ex m b w = (Inr b', w')" and b: "list_all P (ba_requests b)"
  obtain sn req del where "batch_request m sn ex (ba_to_delete b) = Inr (req, del)" "sn \<noteq> []"
    "truthy (mm_subnet_id m) \<longrightarrow> sn = the (mm_subnet_id m)" "ba_requests b' = ba_requests b @ [req]"
    using m by (rule batch_member_step)
  with b show "list_all P (ba_requests b')" using P by auto
qed

lemma batch_requests_all:
  assumes run: "batch_requests E i ms w = (Inr reqs, w')"
    and P: "\<And>ex m sn del req del'. batch_request m sn ex del = Inr (req, del') \<Longrightarrow> sn \<noteq> [] \<Longrightarrow> P req"
    and D: "\<And>t dels. batch_delete_requests i t = Inr dels \<Longrightarrow> list_all P dels"
  shows "list_all P reqs"
proof -
  from run obtain ex b w1 w2 deletes where
    fold: "fold_io (batch_member E i ex) ms \<lparr>ba_requests = [], ba_to_delete = ex, ba_pool_subnet = None\<rparr> w1
       = (Inr b, w2)"
    and del: "mapR (batch_delete_requests i) (ba_to_delete b) = Inr deletes"
    and reqs: "reqs = ba_requests b @ concat deletes"
    unfolding batch_requests_def Let_def by (auto elim!: bnd_InrE split: prod.splits)
  have "list_all P (ba_requests b)" using batch_fold_all [OF P fold] by simp
  moreover have "list_all (list_all P) deletes"
    using mapR_set [OF del] D by (fastforce simp: list_all_iff)
  ultimately show ?thesis unfolding reqs by (auto simp: list_all_iff)
qed

lemma batch_delete_acceptable:
  "batch_delete_requests i t = Inr reqs \<Longrightarrow> list_all acceptable reqs"
  by (auto simp: batch_delete_requests_def Let_def split: prod.splits)

lemma batch_requests_acceptable:
  "batch_requests E i ms w = (Inr reqs, w') \<Longrightarrow> list_all acceptable reqs"
  by (rule batch_requests_all) (auto intro: batch_request_acceptable batch_delete_acceptable)

lemma queues_batch_update: "queues acceptable (driver_member_batch_update E i ms)"
  unfolding driver_member_batch_update_def
  by (rule queue_rules)+ (auto dest: batch_requests_acceptable simp: list_all_iff)

lemma queues_listener_update: "queues acceptable (driver_listener_update l c)"
  unfolding driver_listener_update_def by (rule queue_rules | simp)+

lemma queues_hm_update: "queues acceptable (driver_health_monitor_update E h c)"
  unfolding driver_health_monitor_update_def by (rule queue_rules | simp)+

lemma queues_call: "queues acceptable (driver_call E c)"
  by (cases c)
    (auto intro: queues_listener_create queues_hm_create queues_pool_create queues_pool_delete
      queues_pool_update queues_member_create queues_member_delete queues_member_update
      queues_loadbalancer_create queues_batch_update queues_add_request queues_pure
      queues_listener_update queues_hm_update
      simp: driver_loadbalancer_delete_def driver_loadbalancer_failover_def
      driver_loadbalancer_update_def driver_listener_delete_def driver_health_monitor_delete_def)

lemma queues_catch:
  assumes m: "queues P m" and h: "\<And>e. queues P (h e)"
  shows "queues P (catch m h)"
  unfolding queues_def
proof (intro allI)
  fix w q
  obtain r w1 q1 where run: "m (w, q) = (r, (w1, q1))" by (metis prod.exhaust)
  obtain new where new: "q1 = q @ new" "list_all P new" using queuesD [OF m run] by blast
  show "\<exists>new. snd (snd (catch m h (w, q))) = q @ new \<and> list_all P new"
  proof (cases r)
    case (Inl e)
    obtain more where "snd (snd (h e (w1, q1))) = q1 @ more" "list_all P more"
      using h unfolding queues_def by blast
    with run Inl new show ?thesis by (simp add: catch_run)
  qed (use run new in \<open>simp add: catch_run\<close>)
qed

text \<open>C25: Whatever calls Octavia makes and however each of them ends, the driver only appends to the queue,
  and what it appends is acceptable: the creation of a listener or a pool names a protocol OVN supports and has its
  \<open>admin_state_up\<close>, a pool also an algorithm OVN supports; the creation and the update of a pool have no session
  persistence but by source address; the creation of a member has its address, port, pool, \<open>admin_state_up\<close> and a
  subnet, its deletion the address, port and pool, its update the pool. (Nothing is said of the \<open>admin_state_up\<close> of
  the update of a pool, which is missing when Octavia leaves it unset.)\<close>

theorem driver_requests_acceptable:
  "\<exists>new. snd (snd (driver_calls E calls (w, q))) = q @ new \<and> list_all acceptable new"
proof -
  have "queues acceptable (driver_calls E calls)"
    unfolding driver_calls_def by (rule queues_for_each) (intro queues_catch queues_call queues_pure)
  then show ?thesis unfolding queues_def by blast
qed

section \<open>The order of a fully populated creation\<close>

text \<open>What a request creates.\<close>

fun subject :: "request \<Rightarrow> string \<times> string" where
  "subject (REQ_TYPE_LB_CREATE i) = (''loadbalancer'', li_id i)"
| "subject (REQ_TYPE_LISTENER_CREATE l) = (''listener'', ld_id l)"
| "subject (REQ_TYPE_POOL_CREATE p) = (''pool'', pl_id p)"
| "subject (REQ_TYPE_HM_CREATE h) = (''healthmonitor'', hi_id h)"
| "subject (REQ_TYPE_MEMBER_CREATE m) = (''member'', md_id m)"
| "subject (REQ_TYPE_HANDLE_MEMBER_DVR d) = (''dvr'', dv_id d)"
| "subject _ = ([], [])"

definition member_order :: "driver_member \<Rightarrow> (string \<times> string) list" where
  "member_order m = [(''member'', mm_member_id m), (''dvr'', mm_member_id m)]"

definition monitor_order :: "pool_model \<Rightarrow> (string \<times> string) list" where
  "monitor_order p =
     (case pm_healthmonitor p of Val (Some h) \<Rightarrow> [(''healthmonitor'', hmm_healthmonitor_id h)] | _ \<Rightarrow> [])"

definition pool_order :: "pool_model \<Rightarrow> (string \<times> string) list" where
  "pool_order p =
     ((''pool'', pm_pool_id p) # monitor_order p) @ concat (map member_order (attr_or [] (pm_members p)))"

definition creation_order :: "lb_model \<Rightarrow> (string \<times> string) list" where
  "creation_order lb =
     (''loadbalancer'', lbm_loadbalancer_id lb)
     # map (\<lambda>l. (''listener'', lm_listener_id l)) (attr_or [] (lbm_listeners lb))
     @ concat (map pool_order (attr_or [] (lbm_pools lb)))"

text \<open>\<open>emits xs m\<close>: \<open>m\<close> queues exactly the subjects \<open>xs\<close>, or a prefix of them when it raises.\<close>

definition emits :: "(string \<times> string) list \<Rightarrow> ('w, 'a) drv \<Rightarrow> bool" where
  "emits xs m \<longleftrightarrow>
     (\<forall>w q r w' q'. m (w, q) = (r, (w', q')) \<longrightarrow>
        (\<exists>new. q' = q @ new \<and> prefix (map subject new) xs \<and> (\<not> isl r \<longrightarrow> map subject new = xs)))"

lemma emits_pure: "emits [] (ret x)" "emits xs (throw e)" "emits [] (lift r)"
  by (simp_all add: emits_def)

lemma emits_add_request: "emits [subject r] (add_request r)"
  by (auto simp: emits_def add_request_def)

lemma emits_bind:
  assumes m: "emits xs m" and f: "\<And>x. emits ys (f x)"
  shows "emits (xs @ ys) (bnd m f)"
  unfolding emits_def
proof (intro allI impI)
  fix w q r w' q'
  assume run: "bnd m f (w, q) = (r, (w', q'))"
  obtain r1 w1 q1 where m1: "m (w, q) = (r1, (w1, q1))" by (metis prod.exhaust)
  with m obtain new where q1: "q1 = q @ new" and pre: "prefix (map subject new) xs"
    and full: "\<not> isl r1 \<Longrightarrow> map subject new = xs"
    unfolding emits_def by blast
  show "\<exists>new. q' = q @ new \<and> prefix (map subject new) (xs @ ys) \<and> (\<not> isl r \<longrightarrow> map subject new = xs @ ys)"
  proof (cases r1)
    case (Inl e)
    with run m1 q1 pre show ?thesis by (auto simp: bnd_run)
  next
    case (Inr x)
    with run m1 have "f x (w1, q1) = (r, (w', q'))" by (simp add: bnd_run)
    with f obtain more where "q' = q1 @ more" "prefix (map subject more) ys"
      "\<not> isl r \<longrightarrow> map subject more = ys"
      unfolding emits_def by blast
    with q1 full Inr show ?thesis by (intro exI [of _ "new @ more"]) auto
  qed
qed

lemma emits_check: "(\<And>x. r = Inr x \<Longrightarrow> emits ys (f x)) \<Longrightarrow> emits ys (bnd (lift r) f)"
  by (cases r) (auto intro: emits_pure)

lemma emits_ask: "(\<And>x. emits ys (f x)) \<Longrightarrow> emits ys (bnd (outside m) f)"
  using emits_bind [of "[]" "outside m" ys f]
  by (simp add: emits_def outside_def split: prod.splits)

lemma emits_for_each:
  "(\<And>x. x \<in> set xs \<Longrightarrow> emits (ys x) (f x)) \<Longrightarrow> emits (concat (map ys xs)) (for_each f xs)"
  by (induction xs) (auto intro: emits_pure emits_bind)

lemma emits_listener: "emits [(''listener'', lm_listener_id l)] (driver_listener_create l)"
  using emits_add_request [of "REQ_TYPE_LISTENER_CREATE (listener_request_info l)"]
  unfolding driver_listener_create_def
  by (intro emits_check) (simp add: listener_request_info_def)

lemma emits_member: "emits (member_order m) (driver_member_create E m)"
proof -
  have add: "emits (member_order m)
      (bnd (add_request (REQ_TYPE_MEMBER_CREATE a)) (\<lambda>_. add_request (REQ_TYPE_HANDLE_MEMBER_DVR d)))"
    if "md_id a = mm_member_id m" "dv_id d = mm_member_id m" for a d
    using emits_bind [OF emits_add_request emits_add_request, of "REQ_TYPE_MEMBER_CREATE a" "REQ_TYPE_HANDLE_MEMBER_DVR d"]
      that by (simp add: member_order_def)
  show ?thesis
    unfolding driver_member_create_def by (intro emits_check emits_ask add) simp_all
qed

lemma emits_monitor: "emits [(''healthmonitor'', hmm_healthmonitor_id h)] (driver_health_monitor_create E h)"
  using emits_add_request [of "REQ_TYPE_HM_CREATE (hm_request_info (hmm_pool_id h) h)"]
  unfolding driver_health_monitor_create_def
  by (intro emits_check) (simp add: hm_request_info_def)

lemma emits_pool: "emits ((''pool'', pm_pool_id p) # monitor_order p) (driver_pool_create E p)"
proof -
  have hm: "emits (monitor_order p)
      (case pm_healthmonitor p of Val (Some h) \<Rightarrow> driver_health_monitor_create E h | _ \<Rightarrow> ret ())"
    by (auto simp: monitor_order_def intro: emits_pure emits_monitor split: attr.splits option.splits)
  have "emits ([(''pool'', pm_pool_id p)] @ monitor_order p)
      (bnd (add_request (REQ_TYPE_POOL_CREATE i)) (\<lambda>_. case pm_healthmonitor p of
         Val (Some h) \<Rightarrow> driver_health_monitor_create E h | _ \<Rightarrow> ret ()))"
    if "get_pool_request_info p = Inr i" for i
    using emits_add_request [of "REQ_TYPE_POOL_CREATE i"] that
    by (intro emits_bind hm) (auto simp: get_pool_request_info_def)
  then show ?thesis
    unfolding driver_pool_create_def by (intro emits_check) simp
qed

lemma with_vip_subnet_id [simp]: "member_order (with_vip_subnet lb m) = member_order m"
  by (simp add: member_order_def with_vip_subnet_def)

lemma emits_creation: "emits (creation_order lb) (driver_loadbalancer_create E lb)"
proof -
  let ?pool = "\<lambda>p. bnd (driver_pool_create E p) (\<lambda>_. bnd (lift (pool_members_of p)) (\<lambda>members.
       for_each (\<lambda>m. driver_member_create E (with_vip_subnet lb m)) members))"
  have members: "emits (concat (map member_order (attr_or [] (pm_members p))))
      (bnd (lift (pool_members_of p)) (\<lambda>members.
       for_each (\<lambda>m. driver_member_create E (with_vip_subnet lb m)) members))" for p
  proof (rule emits_check)
    fix ms
    assume "pool_members_of p = Inr ms"
    then have "attr_or [] (pm_members p) = ms" by (auto simp: pool_members_of_def split: attr.splits)
    moreover have "emits (member_order m) (driver_member_create E (with_vip_subnet lb m))" for m
      using emits_member [of "with_vip_subnet lb m" E] by simp
    ultimately show "emits (concat (map member_order (attr_or [] (pm_members p))))
        (for_each (\<lambda>m. driver_member_create E (with_vip_subnet lb m)) ms)"
      by (simp add: emits_for_each)
  qed
  have pool: "emits (pool_order p) (?pool p)" for p
    unfolding pool_order_def by (rule emits_bind [OF emits_pool members])
  have listeners: "emits (map (\<lambda>l. (''listener'', lm_listener_id l)) ls) (for_each driver_listener_create ls)" for ls
    using emits_for_each [of ls "\<lambda>l. [(''listener'', lm_listener_id l)]" driver_listener_create, OF emits_listener]
    by simp
  have lb: "emits [(''loadbalancer'', lbm_loadbalancer_id lb)]
      (add_request (REQ_TYPE_LB_CREATE (get_loadbalancer_request_info lb)))"
    using emits_add_request [of "REQ_TYPE_LB_CREATE (get_loadbalancer_request_info lb)"]
    by (simp add: get_loadbalancer_request_info_def)
  show ?thesis
    using emits_bind [OF lb emits_bind [OF listeners emits_for_each [OF pool]]]
    unfolding driver_loadbalancer_create_def creation_order_def by simp
qed

text \<open>C26: The creation of a fully populated load balancer queues the load balancer, then its listeners,
  then every pool with its monitor and its members, each member followed by its floating IP update.
  A call that is rejected on the way has queued a prefix of that, and never an empty one: the load
  balancer is created although Octavia is told that the call failed.\<close>

theorem creation_queued_in_order:
  assumes "driver_loadbalancer_create E lb (w, q) = (r, (w', q'))"
  shows "\<exists>new. q' = q @ new \<and> prefix (map subject new) (creation_order lb) \<and>
           (\<not> isl r \<longrightarrow> map subject new = creation_order lb) \<and>
           (\<exists>rest. new = REQ_TYPE_LB_CREATE (get_loadbalancer_request_info lb) # rest)"
proof -
  from emits_creation [of lb E] assms obtain new where new: "q' = q @ new"
    "prefix (map subject new) (creation_order lb)" "\<not> isl r \<longrightarrow> map subject new = creation_order lb"
    unfolding emits_def by blast
  let ?first = "REQ_TYPE_LB_CREATE (get_loadbalancer_request_info lb)"
  let ?rest = "\<lambda>_. bnd (for_each driver_listener_create (attr_or [] (lbm_listeners lb))) (\<lambda>_.
     for_each (\<lambda>pool. bnd (driver_pool_create E pool) (\<lambda>_. bnd (lift (pool_members_of pool)) (\<lambda>members.
       for_each (\<lambda>member. driver_member_create E (with_vip_subnet lb member)) members)))
       (attr_or [] (lbm_pools lb)))"
  have queued: "queues acceptable (?rest ())"
    by (rule queue_rules queues_listener_create queues_pool_create queues_member_create | simp)+
  have run: "?rest () (w, q @ [?first]) = (r, (w', q'))"
    using assms unfolding driver_loadbalancer_create_def bnd_add_request .
  from queuesD [OF queued run] obtain rest where "q' = (q @ [?first]) @ rest" by blast
  with new show ?thesis by auto
qed

definition sample_listener_model :: "string \<Rightarrow> listener_model" where
  "sample_listener_model protocol =
     \<lparr>lm_listener_id = ''l1'', lm_loadbalancer_id = ''lb1'', lm_protocol = protocol, lm_protocol_port = 80,
      lm_default_pool_id = None, lm_admin_state_up = Unset, lm_allowed_cidrs = Unset\<rparr>"

definition sample_lb_model :: "string \<Rightarrow> lb_model" where
  "sample_lb_model protocol =
     \<lparr>lbm_loadbalancer_id = ''lb1'', lbm_vip_address = Some ''10.0.0.4'', lbm_vip_network_id = Some ''n1'',
      lbm_vip_subnet_id = Some ''s1'', lbm_vip_port_id = Some ''p1'', lbm_admin_state_up = Unset,
      lbm_additional_vips = Unset, lbm_listeners = Val [sample_listener_model protocol], lbm_pools = Unset\<rparr>"

theorem creation_queued_in_order_witness:
  "driver_loadbalancer_create ref_env (sample_lb_model ''HTTP'') (empty_db, [])
     = (Inl UnsupportedOptionError,
        (empty_db, [REQ_TYPE_LB_CREATE (get_loadbalancer_request_info (sample_lb_model ''HTTP''))])) \<and>
   (\<exists>new. [REQ_TYPE_LB_CREATE (get_loadbalancer_request_info (sample_lb_model ''HTTP''))] = [] @ new \<and>
      prefix (map subject new) (creation_order (sample_lb_model ''HTTP'')))"
proof (rule conjI)
  show run: "driver_loadbalancer_create ref_env (sample_lb_model ''HTTP'') (empty_db, [])
     = (Inl UnsupportedOptionError,
        (empty_db, [REQ_TYPE_LB_CREATE (get_loadbalancer_request_info (sample_lb_model ''HTTP''))]))"
    by code_simp
  from creation_queued_in_order [OF run]
  show "\<exists>new. [REQ_TYPE_LB_CREATE (get_loadbalancer_request_info (sample_lb_model ''HTTP''))] = [] @ new \<and>
      prefix (map subject new) (creation_order (sample_lb_model ''HTTP''))"
    by blast
qed

section \<open>Mixed IP versions\<close>

lemma versions_mixed_eq:
  "mapR (ip_version L) (filter (\<lambda>v. v \<noteq> []) vips) = Inr vs \<Longrightarrow>
   versions_mixed L x vips = Inr (\<exists>v \<in> set vs. v \<noteq> x)"
  by (induction vips arbitrary: vs) auto

text \<open>A member is refused for its IP version exactly when all addresses of the load balancer have
  one version and the member has another one.\<close>

theorem version_check_exact:
  assumes "dict_get ext LB_EXT_IDS_VIP_KEY = Some vip" and "vip \<noteq> []"
    and "additional = (case dict_get ext LB_EXT_IDS_ADDIT_VIP_KEY of None \<Rightarrow> [] | Some s \<Rightarrow> split_on CHR '','' s)"
    and "mapR (ip_version L) (filter (\<lambda>v. v \<noteq> []) (vip # additional)) = Inr vs"
    and "ip_version L address = Inr v"
  shows "version_differs L ext address = Inr ((\<exists>x. set vs = {x}) \<and> v \<notin> set vs)"
proof -
  from assms(2,4) obtain x xs where vs: "vs = x # xs" "ip_version L vip = Inr x" by auto
  have "versions_mixed L x (vip # additional) = Inr (\<exists>y \<in> set vs. y \<noteq> x)"
    by (rule versions_mixed_eq [OF assms(4)])
  moreover have "(\<exists>y \<in> set vs. y \<noteq> x) \<longleftrightarrow> \<not> (\<exists>y. set vs = {y})" using vs(1) by auto
  ultimately show ?thesis
    using assms(1,5) vs by (auto simp: version_differs_def assms(3) [symmetric] Let_def)
qed

theorem version_check_exact_witness:
  "version_differs ref_lib [(LB_EXT_IDS_VIP_KEY, ''10.0.0.4''), (LB_EXT_IDS_ADDIT_VIP_KEY, ''10.0.0.5,10.0.0.6'')]
     ''fd00::10'' = Inr ((\<exists>x. set [4, 4, 4::nat] = {x}) \<and> 6 \<notin> set [4, 4, 4::nat])"
  by (rule version_check_exact [where vip = "''10.0.0.4''" and additional = "[''10.0.0.5'', ''10.0.0.6'']"])
    code_simp+

end
