(* ===== verification/BatchSpec.thy ===== *)
theory BatchSpec
  imports DriverSpec
begin

text \<open>
  The batch update of a pool's members. Abstractly a pool is a list of distinct members; the value of
  its key represents it. The requests a batch update queues turn the represented members into the
  requested ones when the member handlers run them.
\<close>

section \<open>The members a value represents\<close>

definition holds :: "mem_info list \<Rightarrow> string \<Rightarrow> bool" where
  "holds infos v \<longleftrightarrow> v = join '','' (map print_member infos) \<and> list_all storable infos \<and> distinct infos"

lemma print_member_inj: "storable a \<Longrightarrow> storable b \<Longrightarrow> print_member a = print_member b \<longleftrightarrow> a = b"
  using members.enc_eq_view by blast

lemma holds_parts: "holds infos v \<Longrightarrow> parts v = map print_member infos"
proof (cases "infos = []")
  case False
  assume h: "holds infos v"
  obtain i where i: "i \<in> set infos" using False by (cases infos) auto
  have "join '','' (map print_member infos) \<noteq> []"
    using join_eq_Nil [of "'',''" "map print_member infos" "print_member i"] i by auto
  then have "v \<noteq> []" using h by (simp add: holds_def)
  moreover have "split_on CHR '','' (join '','' (map print_member infos)) = map print_member infos"
    by (rule comma.dec_enc)
      (use h False print_member_comma_free in \<open>auto simp: holds_def list_all_iff\<close>)
  ultimately show ?thesis using h by (simp add: holds_def parts_def)
qed (simp add: holds_def parts_def)

lemma mem_print_members:
  assumes "list_all storable infos" and "storable i"
  shows "print_member i \<in> print_member ` set infos \<longleftrightarrow> i \<in> set infos"
proof
  assume "print_member i \<in> print_member ` set infos"
  then obtain x where x: "x \<in> set infos" "print_member i = print_member x" by blast
  with assms have "i = x" using print_member_inj [of i x] by (simp add: list_all_iff)
  with x show "i \<in> set infos" by simp
qed simp

lemma remove1_print_member:
  "list_all storable infos \<Longrightarrow> storable i \<Longrightarrow>
   remove1 (print_member i) (map print_member infos) = map print_member (remove1 i infos)"
  by (induction infos) (auto simp: print_member_inj)

section \<open>What the member handlers make of a request\<close>

text \<open>
  The value after a request: what \<open>member_create\<close> and \<open>member_delete\<close> write (\<open>pool_value_commands\<close>), and its
  abstraction.
\<close>

fun value_after :: "request \<Rightarrow> string \<Rightarrow> string" where
  "value_after (REQ_TYPE_MEMBER_CREATE m) v =
     (case add_member_data m v of Inr (Some (_, v')) \<Rightarrow> v' | _ \<Rightarrow> v)"
| "value_after (REQ_TYPE_MEMBER_DELETE m) v =
     (case remove_member_data m v of Inr (Some rest) \<Rightarrow> join '','' rest | _ \<Rightarrow> v)"
| "value_after _ v = v"

fun members_after :: "request \<Rightarrow> mem_info list \<Rightarrow> mem_info list" where
  "members_after (REQ_TYPE_MEMBER_CREATE m) infos =
     (if member_fields m \<in> set infos then infos else infos @ [member_fields m])"
| "members_after (REQ_TYPE_MEMBER_DELETE m) infos = remove1 (member_fields m) infos"
| "members_after _ infos = infos"

fun storable_request :: "request \<Rightarrow> bool" where
  "storable_request (REQ_TYPE_MEMBER_CREATE m) \<longleftrightarrow> storable_member m"
| "storable_request (REQ_TYPE_MEMBER_DELETE m) \<longleftrightarrow> storable_member m"
| "storable_request _ \<longleftrightarrow> True"

lemma value_after_refines:
  assumes "holds infos v" and "storable_request req"
  shows "holds (members_after req infos) (value_after req v)"
proof (cases req)
  case (REQ_TYPE_MEMBER_CREATE m)
  with assms have m: "storable_member m" and s: "list_all storable infos" "storable (member_fields m)"
    by (auto simp: holds_def storable_member_def)
  note p = holds_parts [OF assms(1)] mem_print_members [OF s]
  show ?thesis
  proof (cases "member_fields m \<in> set infos")
    case True
    then show ?thesis using assms(1) by (simp add: REQ_TYPE_MEMBER_CREATE add_member_data_eq [OF m] p)
  next
    case False
    have "holds (infos @ [member_fields m]) (join '','' (map print_member (infos @ [member_fields m])))"
      using assms(1) s False by (simp add: holds_def)
    with False show ?thesis by (simp add: REQ_TYPE_MEMBER_CREATE add_member_data_eq [OF m] p)
  qed
next
  case (REQ_TYPE_MEMBER_DELETE m)
  with assms have m: "storable_member m" and s: "list_all storable infos" "storable (member_fields m)"
    by (auto simp: holds_def storable_member_def)
  note p = holds_parts [OF assms(1)] mem_print_members [OF s] remove1_print_member [OF s]
  have "list_all storable (remove1 (member_fields m) infos)"
    using s(1) by (auto simp: list_all_iff dest: notin_set_remove1)
  then have "holds (remove1 (member_fields m) infos) (join '','' (map print_member (remove1 (member_fields m) infos)))"
    using assms(1) by (simp add: holds_def)
  with assms(1) show ?thesis
    by (simp add: REQ_TYPE_MEMBER_DELETE remove_member_data_eq [OF m] p remove1_idem)
qed (use assms in \<open>simp_all\<close>)

lemma values_after_refine:
  "holds infos v \<Longrightarrow> list_all storable_request reqs \<Longrightarrow>
   holds (fold members_after reqs infos) (fold value_after reqs v)"
  by (induction reqs arbitrary: infos v) (auto intro: value_after_refines)

section \<open>The loop over the requested members\<close>

definition model_fields :: "driver_member \<Rightarrow> mem_info" where
  "model_fields m =
     (mm_address m, str_port (mm_protocol_port m), the (mm_subnet_id m), mm_member_id m)"

text \<open>A member that names its subnet, with fields that can be stored.\<close>

definition complete_member :: "driver_member \<Rightarrow> bool" where
  "complete_member m \<longleftrightarrow> truthy (mm_subnet_id m) \<and> storable (model_fields m)"

definition batch_ok :: "mem_info list \<Rightarrow> driver_member list \<Rightarrow> batch \<Rightarrow> bool" where
  "batch_ok infos ms b \<longleftrightarrow>
     list_all storable_request (ba_requests b) \<and>
     set (fold members_after (ba_requests b) infos) = set infos \<union> model_fields ` set ms \<and>
     (\<exists>dl. ba_to_delete b = map print_member dl \<and> list_all storable dl \<and> distinct dl \<and>
           set dl = set infos - model_fields ` set ms)"

lemma batch_request_fields:
  assumes "complete_member m" and "list_all storable infos" and "list_all storable dl"
    and req: "batch_request m (the (mm_subnet_id m)) (map print_member infos) (map print_member dl) = Inr (req, del)"
  shows "storable_request req \<and>
    (if model_fields m \<in> set infos
     then members_after req = (\<lambda>xs. xs) \<and> del = map print_member (remove1 (model_fields m) dl)
     else members_after req = (\<lambda>xs. if model_fields m \<in> set xs then xs else xs @ [model_fields m]) \<and>
          del = map print_member dl)"
proof -
  let ?md = "\<lparr>md_id = mm_member_id m, md_address = Some (mm_address m),
     md_protocol_port = Some (mm_protocol_port m), md_pool_id = Some (dm_pool_id m),
     md_subnet_id = Some (the (mm_subnet_id m)), md_admin_state_up = Some (attr_or True (dm_admin_state_up m))\<rparr>"
  have s: "storable (model_fields m)" using assms(1) by (simp add: complete_member_def)
  have shown: "get_member_info_model (m\<lparr>mm_subnet_id := Some (the (mm_subnet_id m))\<rparr>) = print_member (model_fields m)"
    by (simp add: get_member_info_model_def model_fields_def print_member_def)
  have fields: "member_fields ?md = model_fields m"
    by (simp add: member_fields_def model_fields_def)
  moreover from this s have "storable_member ?md" by (simp add: storable_member_def)
  moreover have "members_after (REQ_TYPE_MEMBER_UPDATE ?md) = (\<lambda>xs. xs)" by (simp add: fun_eq_iff)
  ultimately show ?thesis
    using req unfolding batch_request_def Let_def shown set_map
    by (auto simp: mem_print_members [OF assms(2) s] remove1_print_member [OF assms(3) s] fun_eq_iff
        split: if_splits)
qed

lemma batch_member_ok:
  assumes "batch_member E i (map print_member infos) m b w = (Inr b', w')"
    and ok: "batch_ok infos ms b" and m: "complete_member m" and infos: "list_all storable infos"
  shows "batch_ok infos (ms @ [m]) b'"
proof -
  from ok obtain dl where dl: "ba_to_delete b = map print_member dl" "list_all storable dl" "distinct dl"
    "set dl = set infos - model_fields ` set ms"
    and reqs: "list_all storable_request (ba_requests b)"
      "set (fold members_after (ba_requests b) infos) = set infos \<union> model_fields ` set ms"
    unfolding batch_ok_def by blast
  obtain sn req del where "batch_request m sn (map print_member infos) (ba_to_delete b) = Inr (req, del)"
    "sn \<noteq> []" "truthy (mm_subnet_id m) \<longrightarrow> sn = the (mm_subnet_id m)"
    and b': "ba_requests b' = ba_requests b @ [req]" "ba_to_delete b' = del"
    using assms(1) by (rule batch_member_step)
  with m dl(1) have "batch_request m (the (mm_subnet_id m)) (map print_member infos) (map print_member dl) = Inr (req, del)"
    by (simp add: complete_member_def)
  note step = batch_request_fields [OF m infos dl(2) this]
  show ?thesis
  proof (cases "model_fields m \<in> set infos")
    case True
    have "list_all storable (remove1 (model_fields m) dl)"
      using dl(2) by (auto simp: list_all_iff dest: notin_set_remove1)
    moreover have "set (remove1 (model_fields m) dl) = set infos - model_fields ` set (ms @ [m])"
      using dl(3,4) by auto
    ultimately show ?thesis
      using True step reqs b' dl(3) unfolding batch_ok_def by (auto intro!: exI [of _ "remove1 (model_fields m) dl"])
  next
    case False
    then show ?thesis
      using step reqs b' dl unfolding batch_ok_def by (auto intro!: exI [of _ dl])
  qed
qed

lemma batch_fold_ok:
  "fold_io (batch_member E i (map print_member infos)) ms b w = (Inr b', w') \<Longrightarrow> batch_ok infos before b \<Longrightarrow>
   list_all complete_member ms \<Longrightarrow> list_all storable infos \<Longrightarrow> batch_ok infos (before @ ms) b'"
proof (induction ms arbitrary: before b w)
  case (Cons m ms)
  from Cons.prems(1) obtain b1 w1 where m: "batch_member E i (map print_member infos) m b w = (Inr b1, w1)"
    and ms: "fold_io (batch_member E i (map print_member infos)) ms b1 w1 = (Inr b', w')"
    by (auto elim: bnd_InrE)
  from m Cons.prems(2-4) have "batch_ok infos (before @ [m]) b1" by (auto intro: batch_member_ok)
  from Cons.IH [OF ms this] Cons.prems(3,4) show ?case by simp
qed simp

section \<open>The members left over\<close>

lemma batch_delete_member:
  assumes "storable i"
  shows "\<exists>md d. batch_delete_requests pool_id (print_member i)
      = Inr [REQ_TYPE_MEMBER_DELETE md, REQ_TYPE_HANDLE_MEMBER_DVR d] \<and>
    storable_member md \<and> member_fields md = i"
proof -
  obtain ip p sn mid where i: "i = (ip, p, sn, mid)" by (metis prod.exhaust)
  with assms have sep: "no_sep ip" "no_sep p" "no_sep sn" "no_sep mid" by (simp_all add: storable_def)
  have one: "extract_member_info (print_member i) = Inr [i]"
    using extract_print_members [of "[i]"] assms by simp
  have split: "split_on CHR ''_'' (print_member i) = [''member'', mid, ip @ '':'' @ p, sn]"
    using split_member_entry [OF sep(4,1,2,3)] by (simp add: i print_member_def)
  show ?thesis
    unfolding batch_delete_requests_def Let_def one split
    using assms by (simp add: item_def i storable_member_def member_fields_def)
qed

lemma batch_deletes:
  assumes "list_all storable dl"
  shows "\<exists>dels. mapR (batch_delete_requests pool_id) (map print_member dl) = Inr dels \<and>
    list_all storable_request (concat dels) \<and>
    (\<forall>infos. fold members_after (concat dels) infos = fold remove1 dl infos)"
  using assms
proof (induction dl)
  case (Cons i dl)
  then obtain dels where dels: "mapR (batch_delete_requests pool_id) (map print_member dl) = Inr dels"
    "list_all storable_request (concat dels)"
    "\<forall>infos. fold members_after (concat dels) infos = fold remove1 dl infos"
    by auto
  from Cons.prems batch_delete_member [of i pool_id] obtain md d where
    "batch_delete_requests pool_id (print_member i) = Inr [REQ_TYPE_MEMBER_DELETE md, REQ_TYPE_HANDLE_MEMBER_DVR d]"
    "storable_member md" "member_fields md = i"
    by auto
  with dels show ?case by simp
qed simp

lemma set_fold_remove1: "distinct xs \<Longrightarrow> set (fold remove1 ys xs) = set xs - set ys"
  by (induction ys arbitrary: xs) auto

section \<open>The whole update\<close>

lemma for_each_add_request: "for_each add_request reqs (w, q) = (Inr (), (w, q @ reqs))"
  by (induction reqs arbitrary: q) (simp_all add: bnd_add_request)

lemma batch_update_run:
  "driver_member_batch_update E pool_id ms (w, q) =
     (case batch_requests E pool_id ms w of
        (Inl e, w') \<Rightarrow> (Inl e, (w', q)) | (Inr reqs, w') \<Rightarrow> (Inr (), (w', q @ reqs)))"
  by (simp add: driver_member_batch_update_def bnd_def outside_def for_each_add_request
      split: prod.splits sum.splits)

lemma batch_requests_ok:
  assumes find: "find_ovn_lb_by_pool_id E pool_id w = (Inr (pool_key, Some u), w1)"
    and row: "nb_lb E u w1 = (Inr row, w2)" and v: "dict_get (lb_external_ids row) pool_key = Some v"
    and holds: "holds infos v" and ms: "list_all complete_member ms"
    and run: "batch_requests E pool_id ms w = (Inr reqs, w')"
  shows "list_all storable_request reqs \<and> set (fold members_after reqs infos) = model_fields ` set ms"
proof -
  have ex: "(if v \<noteq> [] then split_on CHR '','' v else []) = map print_member infos"
    using holds_parts [OF holds] by (auto simp: parts_def)
  from holds have infos: "list_all storable infos" "distinct infos" by (simp_all add: holds_def)
  from run obtain b w3 w4 deletes where
    b: "fold_io (batch_member E pool_id (map print_member infos)) ms
          \<lparr>ba_requests = [], ba_to_delete = map print_member infos, ba_pool_subnet = None\<rparr> w3 = (Inr b, w4)"
    and del: "mapR (batch_delete_requests pool_id) (ba_to_delete b) = Inr deletes"
    and reqs: "reqs = ba_requests b @ concat deletes"
    unfolding batch_requests_def Let_def
    by (auto simp: find row the_row_def dict_item_def v ex elim!: bnd_InrE)
  have "batch_ok infos [] \<lparr>ba_requests = [], ba_to_delete = map print_member infos, ba_pool_subnet = None\<rparr>"
    using infos by (auto simp: batch_ok_def)
  from batch_fold_ok [OF b this ms infos(1)] obtain dl where dl: "ba_to_delete b = map print_member dl"
    "list_all storable dl" "set dl = set infos - model_fields ` set ms"
    and br: "list_all storable_request (ba_requests b)"
      "set (fold members_after (ba_requests b) infos) = set infos \<union> model_fields ` set ms"
    unfolding batch_ok_def by auto
  from batch_deletes [OF dl(2), of pool_id] del dl(1) have dels: "list_all storable_request (concat deletes)"
    "\<forall>infos. fold members_after (concat deletes) infos = fold remove1 dl infos"
    by auto
  have "distinct (fold members_after (ba_requests b) infos)"
    using values_after_refine [OF holds br(1)] by (simp add: holds_def)
  from set_fold_remove1 [OF this, of dl] have
    "set (fold members_after reqs infos) = set infos \<union> model_fields ` set ms - set dl"
    by (simp add: reqs dels(2) br(2))
  with dl(3) have "set (fold members_after reqs infos) = model_fields ` set ms" by auto
  with br(1) dels(1) show ?thesis by (simp add: reqs)
qed

text \<open>C27: A batch update is queued as a whole or not at all: when a member is rejected nothing is queued.
  Otherwise the queued requests, run by the member handlers, take the value of the pool from the
  stored members to exactly the requested ones, whatever was added, kept or left out.\<close>

theorem batch_update_reaches_request:
  assumes "find_ovn_lb_by_pool_id E pool_id w = (Inr (pool_key, Some u), w1)"
    and "nb_lb E u w1 = (Inr row, w2)" and "dict_get (lb_external_ids row) pool_key = Some v"
    and "holds infos v" and "list_all complete_member ms"
    and run: "driver_member_batch_update E pool_id ms (w, q) = (r, (w', q'))"
  shows "case r of
      Inl e \<Rightarrow> q' = q
    | Inr _ \<Rightarrow> (\<exists>new after. q' = q @ new \<and> holds after (fold value_after new v) \<and>
                  set after = model_fields ` set ms)"
proof (cases r)
  case (Inl e)
  with run show ?thesis by (auto simp: batch_update_run split: prod.splits sum.splits)
next
  case (Inr x)
  with run obtain reqs where reqs: "batch_requests E pool_id ms w = (Inr reqs, w')" and q': "q' = q @ reqs"
    by (auto simp: batch_update_run split: prod.splits sum.splits)
  note ok = batch_requests_ok [OF assms(1-5) reqs]
  with values_after_refine [OF assms(4), of reqs] q' Inr show ?thesis by auto
qed

definition batch_value :: string where
  "batch_value = ''member_m1_10.0.0.10:80_s1,member_m2_10.0.0.11:80_s1''"

definition batch_db :: db where
  "batch_db = empty_db\<lparr>db_lbs := [new_row\<lparr>lb_external_ids :=
     [(LB_EXT_IDS_VIP_KEY, ''10.0.0.4''), (''pool_p1'', batch_value)]\<rparr>]\<rparr>"

definition batch_sample_member :: "string \<Rightarrow> string \<Rightarrow> driver_member" where
  "batch_sample_member i ip =
     \<lparr>mm_member_id = i, mm_address = ip, mm_protocol_port = PortInt 80, mm_subnet_id = Some ''s1'',
      dm_pool_id = ''p1'', dm_admin_state_up = Unset, dm_monitor_address = Unset, dm_monitor_port = Unset\<rparr>"

definition batch_sample :: "driver_member list" where
  "batch_sample = [batch_sample_member ''m3'' ''10.0.0.12'', batch_sample_member ''m1'' ''10.0.0.10'']"

theorem batch_update_reaches_request_witness:
  "\<exists>new after. driver_member_batch_update ref_env ''p1'' batch_sample (batch_db, [])
        = (Inr (), (batch_db, new)) \<and>
     holds after (fold value_after new batch_value) \<and>
     set after = {(''10.0.0.12'', ''80'', ''s1'', ''m3''), (''10.0.0.10'', ''80'', ''s1'', ''m1'')}"
proof -
  let ?run = "driver_member_batch_update ref_env ''p1'' batch_sample (batch_db, [])"
  have r: "fst ?run = Inr ()" and w: "fst (snd ?run) = batch_db" by code_simp+
  then have run: "?run = (Inr (), (batch_db, snd (snd ?run)))" by (metis prod.collapse)
  have fields: "model_fields ` set batch_sample
      = {(''10.0.0.12'', ''80'', ''s1'', ''m3''), (''10.0.0.10'', ''80'', ''s1'', ''m1'')}"
    by code_simp
  have "\<exists>new after. snd (snd ?run) = [] @ new \<and> holds after (fold value_after new batch_value) \<and>
      set after = model_fields ` set batch_sample"
    using batch_update_reaches_request [OF _ _ _ _ _ run, of "''pool_p1''" "lb_uuid new_row" batch_db
        "hd (db_lbs batch_db)" batch_db batch_value
        "[(''10.0.0.10'', ''80'', ''s1'', ''m1''), (''10.0.0.11'', ''80'', ''s1'', ''m2'')]"]
    unfolding sum.case by this (code_simp+)
  then show ?thesis using run unfolding fields by auto
qed

section \<open>New members of a batch\<close>

definition centralizes :: "request \<Rightarrow> bool" where
  "centralizes req =
     (case req of REQ_TYPE_HANDLE_MEMBER_DVR d \<Rightarrow> dv_action d = REQ_INFO_MEMBER_ADDED | _ \<Rightarrow> False)"

text \<open>A member that is created alone gets a request that centralises the traffic of its floating IP; the
  same member created by a batch update never does: no batch queues such a request.\<close>

theorem batch_never_centralizes:
  assumes "driver_member_batch_update E pool_id ms (w, q) = (r, (w', q'))"
    and "driver_member_create E m (w, q) = (Inr (), (w1, q1))"
  shows "(\<exists>new. q' = q @ new \<and> \<not> list_ex centralizes new) \<and> (\<exists>new. q1 = q @ new \<and> list_ex centralizes new)"
proof
  show "\<exists>new. q' = q @ new \<and> \<not> list_ex centralizes new"
  proof (cases "batch_requests E pool_id ms w")
    case (Pair r0 w0)
    show ?thesis
    proof (cases r0)
      case (Inr reqs)
      have "list_all (\<lambda>req. \<not> centralizes req) reqs"
        using Pair [unfolded Inr]
        by (rule batch_requests_all)
          (auto simp: batch_request_def batch_delete_requests_def centralizes_def Let_def
             split: if_splits prod.splits)
      with assms(1) Pair Inr show ?thesis by (auto simp: batch_update_run list_all_iff list_ex_iff)
    qed (use assms(1) Pair in \<open>simp add: batch_update_run\<close>)
  qed
  show "\<exists>new. q1 = q @ new \<and> list_ex centralizes new"
    using assms(2) unfolding driver_member_create_def
    by (auto elim!: bnd_InrE simp: bnd_add_request add_request_def outside_def centralizes_def
        split: prod.splits)
qed

theorem batch_never_centralizes_witness:
  "\<exists>new. snd (snd (driver_member_batch_update ref_env ''p1'' batch_sample (batch_db, []))) = [] @ new \<and>
     \<not> list_ex centralizes new"
proof -
  let ?run = "driver_member_batch_update ref_env ''p1'' batch_sample (batch_db, [])"
  let ?one = "driver_member_create ref_env (batch_sample_member ''m3'' ''10.0.0.12'') (batch_db, [])"
  have "fst ?one = Inr ()" by code_simp
  then have one: "?one = (Inr (), (fst (snd ?one), snd (snd ?one)))" by (metis prod.collapse)
  have "?run = (fst ?run, (fst (snd ?run), snd (snd ?run)))" by simp
  from batch_never_centralizes [OF this one] show ?thesis by blast
qed

end
