(* ===== verification/Sync.thy ===== *)
theory Sync
  imports Driver
begin

text \<open>
  The synchronisation of the northbound database with Octavia (\<open>_ensure_loadbalancer\<close>, \<open>_fip_sync\<close> and
  \<open>do_sync\<close> of \<open>driver.py\<close>, run by \<open>octavia-ovn-db-sync-util\<close>). It calls the handlers directly, not through
  the queue: a load balancer without rows is created with all it holds, otherwise every row and
  every object in it is brought up to date.
\<close>

section \<open>The report of a creation\<close>

text \<open>
  The statuses of the created objects are appended as they are: the report of a creation has lists of
  whole status dicts next to the lists of entries that Octavia expects.
\<close>

datatype report_val = Entries "entry list" | Nested "status list"

type_synonym report = "report_val pydict"

definition append_status :: "report \<Rightarrow> string \<Rightarrow> status \<Rightarrow> report" where
  "append_status report k st =
     dict_set report k
       (Nested ((case dict_get report k of Some (Nested sts) \<Rightarrow> sts | _ \<Rightarrow> []) @ [st]))"

text \<open>
  \<open>_update_status_to_octavia\<close> on such a report: \<open>re.sub\<close> is applied to the values of the inner dicts, which
  are lists (TypeError); an empty inner dict has none.
\<close>

definition delete_disabled_from_report :: "report \<Rightarrow> status res" where
  "delete_disabled_from_report report =
     mapR (\<lambda>(k, v).
       case v of
         Entries es \<Rightarrow> rbind (mapR delete_disabled_from_entry es) (\<lambda>es. Inr (k, es))
       | Nested sts \<Rightarrow> if list_all (\<lambda>st. st = []) sts then Inr (k, map (\<lambda>_. []) sts) else Inl TypeError)
       report"

definition update_report_to_octavia :: "'w env \<Rightarrow> report \<Rightarrow> ('w, unit) io" where
  "update_report_to_octavia E report =
     retry_unit E retry_update_status_error (StopAfterAttempt 15)
       (bnd (lift (delete_disabled_from_report report)) (oc_update_status E))"

section \<open>_ensure_loadbalancer: no row found\<close>

definition create_listeners :: "'w env \<Rightarrow> listener_model list \<Rightarrow> report \<Rightarrow> ('w, report) io" where
  "create_listeners E listeners report =
     fold_io (\<lambda>listener report.
       bnd (lift (get_listener_request_info listener)) (\<lambda>info.
       bnd (listener_create E info) (\<lambda>status_listener.
       ret (append_status report LISTENERS status_listener))))
       listeners (dict_set report LISTENERS (Nested []))"

text \<open>The list of members is emptied for every member, so the last one is left.\<close>

definition create_members :: "'w env \<Rightarrow> lb_model \<Rightarrow> driver_member list \<Rightarrow> report \<Rightarrow> ('w, report) io" where
  "create_members E loadbalancer members report =
     fold_io (\<lambda>member report.
       bnd (get_member_request_info E (with_vip_subnet loadbalancer member) True) (\<lambda>info.
       bnd (member_create E info) (\<lambda>status_member.
       ret (append_status (dict_set report MEMBERS (Nested [])) MEMBERS status_member))))
       members report"

definition create_monitor :: "'w env \<Rightarrow> pool_model \<Rightarrow> report \<Rightarrow> ('w, report) io" where
  "create_monitor E pool report =
     (case pm_healthmonitor pool of
        Val (Some hm) \<Rightarrow>
          (let report = dict_set report HEALTHMONITORS (Nested []) in
           bnd (find_ovn_lb_from_hm_id E (hmm_healthmonitor_id hm) None) (\<lambda>(lbhcs, ovn_hm_lb).
           if lbhcs = [] \<and> ovn_hm_lb = None then
             bnd (lift (get_healthmonitor_request_info E hm)) (\<lambda>info.
             bnd (hm_create E info) (\<lambda>status_hm.
             ret (append_status report HEALTHMONITORS status_hm)))
           else ret report))
      | _ \<Rightarrow> ret report)"

definition create_pools :: "'w env \<Rightarrow> lb_model \<Rightarrow> pool_model list \<Rightarrow> report \<Rightarrow> ('w, report) io" where
  "create_pools E loadbalancer pools report =
     fold_io (\<lambda>pool report.
       bnd (lift (get_pool_request_info pool)) (\<lambda>info.
       bnd (pool_create E info) (\<lambda>status_pool.
       bnd (lift (pool_members_of pool)) (\<lambda>members.
       bnd (create_members E loadbalancer members (append_status report POOLS status_pool)) (\<lambda>report.
       create_monitor E pool report)))))
       pools (dict_set report POOLS (Nested []))"

definition create_missing_loadbalancer :: "'w env \<Rightarrow> lb_model \<Rightarrow> ('w, unit) io" where
  "create_missing_loadbalancer E loadbalancer =
     bnd (lb_create E (get_loadbalancer_request_info loadbalancer) None) (\<lambda>status.
     let report = map (\<lambda>(k, es). (k, Entries es)) status in
     bnd (case lbm_listeners loadbalancer of
            Unset \<Rightarrow> ret report | Val listeners \<Rightarrow> create_listeners E listeners report) (\<lambda>report.
     bnd (case lbm_pools loadbalancer of
            Unset \<Rightarrow> ret report | Val pools \<Rightarrow> create_pools E loadbalancer pools report) (\<lambda>report.
     update_report_to_octavia E report)))"

section \<open>_ensure_loadbalancer: rows found\<close>

text \<open>
  A stored member Octavia does not have: the dict for \<open>member_delete\<close> has an id and a subnet only.
\<close>

definition delete_extra_member :: "'w env \<Rightarrow> string \<Rightarrow> mem_info \<Rightarrow> ('w, unit) io" where
  "delete_extra_member E pool_id ovn_mb_info =
     (case ovn_mb_info of (ip, port, subnet, i) \<Rightarrow>
        bnd (member_delete E
               \<lparr>md_id = i, md_address = None, md_protocol_port = None, md_pool_id = None,
                md_subnet_id = Some subnet, md_admin_state_up = None\<rparr>) (\<lambda>_.
        handle_member_dvr E
          \<lparr>dv_id = i, dv_address = ip, dv_pool_id = pool_id, dv_subnet_id = Some subnet,
           dv_action = REQ_INFO_MEMBER_DELETED\<rparr>))"

definition delete_extra_members :: "'w env \<Rightarrow> string \<Rightarrow> string \<Rightarrow> string list \<Rightarrow> string \<Rightarrow> ('w, unit) io" where
  "delete_extra_members E u ovn_pool_key member_ids pool_id =
     bnd (nb_lb E u) (\<lambda>ovn_lb.
     bnd (lift (get_members_in_ovn_lb ovn_lb ovn_pool_key)) (\<lambda>infos.
     for_each (\<lambda>info. case info of (ip, port, subnet, i) \<Rightarrow>
       if i \<notin> set member_ids then delete_extra_member E pool_id info else ret ()) infos))"

definition sync_members ::
  "'w env \<Rightarrow> lb_model \<Rightarrow> string \<Rightarrow> string \<Rightarrow> string \<Rightarrow> driver_member list \<Rightarrow> ('w, unit) io" where
  "sync_members E loadbalancer u ovn_pool_key pool_id members =
     bnd (for_each (\<lambda>member.
       bnd (get_member_request_info E (with_vip_subnet loadbalancer member) True) (\<lambda>info.
       member_sync E info u ovn_pool_key)) members) (\<lambda>_.
     delete_extra_members E u ovn_pool_key (map mm_member_id members) pool_id)"

definition sync_pool :: "'w env \<Rightarrow> lb_model \<Rightarrow> string \<Rightarrow> pool_model \<Rightarrow> ('w, unit) io" where
  "sync_pool E loadbalancer u pool =
     bnd (lift (get_pool_request_info pool)) (\<lambda>pool_info.
     bnd (pool_sync E pool_info u) (\<lambda>_.
     bnd (lift (key_of (pl_admin_state_up pool_info))) (\<lambda>up.
     let ovn_pool_key = get_pool_key (pl_id pool_info) up in
     bnd (case pm_members pool of
            Unset \<Rightarrow> ret ()
          | Val members \<Rightarrow> sync_members E loadbalancer u ovn_pool_key (pl_id pool_info) members) (\<lambda>_.
     case pm_healthmonitor pool of
       Val (Some hm) \<Rightarrow>
         bnd (lift (get_healthmonitor_request_info E hm)) (\<lambda>info. hm_sync E info ovn_pool_key)
     | _ \<Rightarrow> ret ()))))"

definition sync_row :: "'w env \<Rightarrow> lb_model \<Rightarrow> string \<Rightarrow> ('w, unit) io" where
  "sync_row E loadbalancer u =
     bnd (lb_sync E (get_loadbalancer_request_info loadbalancer) u) (\<lambda>_.
     bnd (for_each (\<lambda>listener.
       bnd (lift (get_listener_request_info listener)) (\<lambda>info. listener_sync E info u))
       (attr_or [] (lbm_listeners loadbalancer))) (\<lambda>_.
     bnd (for_each (sync_pool E loadbalancer u) (attr_or [] (lbm_pools loadbalancer))) (\<lambda>_.
     bnd (hm_purge E (lbm_loadbalancer_id loadbalancer)) (\<lambda>_.
     bnd (get_current_operating_statuses E u) (update_status_to_octavia E)))))"

definition ensure_loadbalancer :: "'w env \<Rightarrow> lb_model \<Rightarrow> ('w, unit) io" where
  "ensure_loadbalancer E loadbalancer =
     bnd (attempt (find_ovn_lbs_with_retry E (lbm_loadbalancer_id loadbalancer))) (\<lambda>r.
     case r of
       Inl e \<Rightarrow> if e = RowNotFound then create_missing_loadbalancer E loadbalancer else throw e
     | Inr ovn_lbs \<Rightarrow> for_each (sync_row E loadbalancer) ovn_lbs)"

section \<open>_fip_sync\<close>

text \<open>A sync handles each floating IP at once: the handler queues nothing, its exception ends the sync.\<close>

definition fip_sync :: "'w env \<Rightarrow> lb_model \<Rightarrow> ('w, unit) io" where
  "fip_sync E loadbalancer =
     (if \<not> truthy (lbm_vip_port_id loadbalancer) \<or> \<not> truthy (lbm_vip_network_id loadbalancer) then ret ()
      else
        bnd (get_fip_from_vip E (lbm_vip_port_id loadbalancer)) (\<lambda>fips.
        bnd (get_lsp E (the (lbm_vip_port_id loadbalancer)) (the (lbm_vip_network_id loadbalancer))) (\<lambda>vip_lsp.
        let lsp_fip = (case vip_lsp of None \<Rightarrow> None
                       | Some l \<Rightarrow> dict_get (lsp_external_ids l) OVN_PORT_FIP_EXT_ID_KEY) in
        case (fips, vip_lsp) of
          (Some (neutron_fip # _), Some l) \<Rightarrow>
            if lsp_fip \<noteq> Some neutron_fip then ret ()
            else bnd (vip_port_update_handler E l neutron_fip REQ_INFO_ACTION_SYNC) (\<lambda>(reqs, err).
                 case err of None \<Rightarrow> ret () | Some e \<Rightarrow> throw e)
        | _ \<Rightarrow> ret ())))"

section \<open>do_sync\<close>

text \<open>
  The Octavia API as a parameter: its client, the ids of the load balancers the filters select, and a
  load balancer with the objects in it as \<open>from_dict\<close> of octavia-lib builds them.
\<close>

record 'w octavia_api =
  oa_client :: "('w, unit) io"
  oa_loadbalancers :: "('w, string list) io"
  oa_get_loadbalancer :: "string \<Rightarrow> ('w, lb_model) io"

definition get_octavia_client :: "'w octavia_api \<Rightarrow> ('w, unit) io" where
  "get_octavia_client A = catch (oa_client A) (\<lambda>_. throw DriverError)"

text \<open>Empty lists become Unset.\<close>

definition empty_unset :: "'a list attr \<Rightarrow> 'a list attr" where
  "empty_unset a = (if attr_or [] a = [] then Unset else a)"

definition provider_pool :: "pool_model \<Rightarrow> pool_model" where
  "provider_pool pool = pool\<lparr>pm_members := empty_unset (pm_members pool)\<rparr>"

definition provider_loadbalancer :: "lb_model \<Rightarrow> lb_model" where
  "provider_loadbalancer lb =
     lb\<lparr>lbm_listeners := empty_unset (lbm_listeners lb),
        lbm_pools := empty_unset (Val (map provider_pool (attr_or [] (lbm_pools lb))))\<rparr>"

definition do_sync :: "'w env \<Rightarrow> 'w octavia_api \<Rightarrow> ('w, unit) io" where
  "do_sync E A =
     bnd (get_octavia_client A) (\<lambda>_.
     bnd (oa_loadbalancers A) (\<lambda>lbs.
     for_each (\<lambda>i.
       bnd (oa_get_loadbalancer A i) (\<lambda>lb.
       bnd (ensure_loadbalancer E (provider_loadbalancer lb)) (\<lambda>_.
       fip_sync E (provider_loadbalancer lb)))) lbs))"

end
