(* ===== verification/SyncSpec.thy ===== *)
theory SyncSpec
  imports Sync BatchSpec
begin

text \<open>
  The synchronisation: what it does to the value of a pool (\<open>Repair\<close> lifts this to the handlers), and where it
  cannot succeed.
\<close>

section \<open>The members of a synchronised pool\<close>

text \<open>\<open>pool_sync\<close> empties the value of the pool; \<open>member_sync\<close> then adds one member after the other.\<close>

definition sync_value :: "string \<Rightarrow> string pydict \<Rightarrow> member_dict \<Rightarrow> string \<Rightarrow> string" where
  "sync_value pool_key ext m v =
     (case update_pool_data m pool_key (dict_set ext pool_key v) of Inr (Some v') \<Rightarrow> v' | _ \<Rightarrow> v)"

definition add_new :: "'a list \<Rightarrow> 'a list \<Rightarrow> 'a list" where
  "add_new xs acc = fold (\<lambda>x acc. if x \<in> set acc then acc else acc @ [x]) xs acc"

lemma set_add_new: "set (add_new xs acc) = set acc \<union> set xs"
  unfolding add_new_def by (induction xs arbitrary: acc) auto

lemma sync_value_refines:
  assumes "storable_member m" and "holds infos v"
  shows "holds (if member_fields m \<in> set infos then infos else infos @ [member_fields m])
           (sync_value pool_key ext m v)"
proof -
  have "sync_value pool_key ext m v = value_after (REQ_TYPE_MEMBER_CREATE m) v"
    by (simp add: sync_value_def update_pool_data_eq [OF assms(1)] add_member_data_eq [OF assms(1)]
        dict_get_default_def)
  then show ?thesis
    using value_after_refines [OF assms(2), of "REQ_TYPE_MEMBER_CREATE m"] assms(1) by simp
qed

lemma prepare_empties_pool:
  assumes "prepare_external_ids pool row = Inr ext" and "pl_admin_state_up pool = Some up"
  shows "dict_get ext (get_pool_key (pl_id pool) up) = Some []"
  using assms
  by (auto simp: prepare_external_ids_def update_listener_association_def Let_def
      split: if_splits option.splits)

section \<open>Extra members\<close>

lemma member_delete_without_pool:
  "md_pool_id m = None \<Longrightarrow> member_delete E m w = (Inl UnboundLocalError, w)"
  by (simp add: member_delete_def find_pool_of_member_def attempt_def bnd_def bound_def)

text \<open>C34: The deletion of a stored member that Octavia does not have never succeeds: the info it builds has
  no \<open>pool_id\<close>, so \<open>member_delete\<close> ends in an UnboundLocalError, which ends the whole synchronisation.\<close>

theorem extra_member_aborts_sync:
  assumes "nb_lb E u w = (Inr lb, w1)" and "get_members_in_ovn_lb lb pool_key = Inr infos"
    and "\<exists>info \<in> set infos. snd (snd (snd info)) \<notin> set member_ids"
  shows "delete_extra_members E u pool_key member_ids pool_id w = (Inl UnboundLocalError, w1)"
proof -
  have "for_each (\<lambda>info. case info of (ip, port, subnet, i) \<Rightarrow>
      if i \<notin> set member_ids then delete_extra_member E pool_id info else ret ()) infos w1
    = (Inl UnboundLocalError, w1)"
    using assms(3)
    by (induction infos)
      (auto simp: delete_extra_member_def bnd_def member_delete_without_pool split: prod.splits)
  with assms(1,2) show ?thesis by (simp add: delete_extra_members_def bnd_def)
qed

theorem extra_member_aborts_sync_witness:
  "delete_extra_members ref_env (lb_uuid new_row) ''pool_p1'' [''m1''] ''p1'' batch_db
     = (Inl UnboundLocalError, batch_db)"
  by (rule extra_member_aborts_sync [of _ _ _ "hd (db_lbs batch_db)" _ _
        "[(''10.0.0.10'', ''80'', ''s1'', ''m1''), (''10.0.0.11'', ''80'', ''s1'', ''m2'')]"])
    code_simp+

section \<open>Reports of a creation\<close>

text \<open>tenacity: an exception the condition does not name is raised again at once.\<close>

definition raises_other :: "'w env \<Rightarrow> bool" where
  "raises_other E \<longleftrightarrow>
     (\<forall>p s m w e w'. m w = (Inl e, w') \<and> \<not> p e \<longrightarrow> retry_unit E p s m w = (Inl e, w'))"

text \<open>A whole status dict under the key.\<close>

definition nested_at :: "string \<Rightarrow> report \<Rightarrow> bool" where
  "nested_at k report \<longleftrightarrow> (\<exists>sts st. dict_get report k = Some (Nested sts) \<and> st \<in> set sts \<and> st \<noteq> [])"

lemma nested_at_append: "st \<noteq> [] \<Longrightarrow> nested_at k (append_status report k st)"
  unfolding nested_at_def append_status_def by auto

lemma nested_at_other [simp]: "k' \<noteq> k \<Longrightarrow> nested_at k (dict_set report k' v) \<longleftrightarrow> nested_at k report"
  by (simp add: nested_at_def)

lemma nested_at_kept: "nested_at k report \<Longrightarrow> nested_at k (append_status report k' st)"
  unfolding nested_at_def append_status_def by auto

lemma mapR_Inl:
  assumes "x \<in> set xs" and "f x = Inl e" and only: "\<And>y e'. f y = Inl e' \<Longrightarrow> e' = e"
  shows "mapR f xs = Inl e"
  using assms(1)
proof (induction xs)
  case (Cons y xs)
  show ?case
  proof (cases "f y")
    case (Inl e')
    then have "e' = e" by (rule only)
    with Inl show ?thesis by simp
  next
    case (Inr z)
    with Cons assms(2) show ?thesis by auto
  qed
qed simp

lemma entry_error: "delete_disabled_from_entry i = Inl e \<Longrightarrow> e = TypeError"
  unfolding delete_disabled_from_entry_def
  by (induction i) (auto simp: rbind_def split: sum.splits option.splits prod.splits)

lemma entries_error: "mapR delete_disabled_from_entry es = Inl e \<Longrightarrow> e = TypeError"
  by (induction es) (auto simp: rbind_def dest: entry_error split: sum.splits)

lemma nested_report: "nested_at k report \<Longrightarrow> delete_disabled_from_report report = Inl TypeError"
proof -
  assume "nested_at k report"
  then obtain sts st where "dict_get report k = Some (Nested sts)" "st \<in> set sts" "st \<noteq> []"
    unfolding nested_at_def by blast
  then have "(k, Nested sts) \<in> set report" "\<not> list_all (\<lambda>st. st = []) sts"
    by (auto dest: map_of_SomeD simp: list_all_iff)
  then show ?thesis
    unfolding delete_disabled_from_report_def
    by (intro mapR_Inl [of "(k, Nested sts)"])
      (auto simp: rbind_def dest: entries_error split: report_val.splits sum.splits if_splits)
qed

lemma nested_sends_nothing:
  assumes "raises_other E" and "nested_at k report"
  shows "update_report_to_octavia E report w = (Inl TypeError, w)"
proof -
  have "bnd (lift (delete_disabled_from_report report)) (oc_update_status E) w = (Inl TypeError, w)"
    by (simp add: nested_report [OF assms(2)])
  with assms(1) show ?thesis
    unfolding update_report_to_octavia_def raises_other_def retry_update_status_error_def by simp
qed

lemma listener_create_status: "listener_create E l w = (Inr st, w') \<Longrightarrow> st \<noteq> []"
  by (auto simp: listener_create_def listener_error_status_def Let_def elim!: bnd_InrE split: sum.splits)

lemma create_listeners_nested:
  assumes "create_listeners E (l # ls) report w = (Inr report', w')"
  shows "nested_at LISTENERS report'"
proof -
  let ?f = "\<lambda>listener report. bnd (lift (get_listener_request_info listener)) (\<lambda>info.
     bnd (listener_create E info) (\<lambda>st. ret (append_status report LISTENERS st)))"
  from assms obtain r1 w1 where first: "?f l (dict_set report LISTENERS (Nested [])) w = (Inr r1, w1)"
    and rest: "fold_io ?f ls r1 w1 = (Inr report', w')"
    unfolding create_listeners_def fold_io.simps by (rule bnd_InrE)
  from first have "nested_at LISTENERS r1"
    by (auto elim!: bnd_InrE intro!: nested_at_append listener_create_status)
  with rest show ?thesis
    by (rule fold_io_invariant) (auto elim!: bnd_InrE intro: nested_at_kept)
qed

lemma create_members_keeps:
  assumes "create_members E lb ms report w = (Inr report', w')" and "nested_at k report" and "k \<noteq> MEMBERS"
  shows "nested_at k report'"
  using assms(1,2) unfolding create_members_def
  by (rule fold_io_invariant) (use assms(3) in \<open>auto elim!: bnd_InrE intro!: nested_at_kept\<close>)

lemma create_monitor_keeps:
  assumes "create_monitor E p report w = (Inr report', w')" and "nested_at k report" and "k \<noteq> HEALTHMONITORS"
  shows "nested_at k report'"
  using assms unfolding create_monitor_def Let_def
  by (auto elim!: bnd_InrE intro!: nested_at_kept split: attr.splits option.splits if_splits prod.splits)

lemma create_pools_keeps:
  assumes "create_pools E lb ps report w = (Inr report', w')" and "nested_at LISTENERS report"
  shows "nested_at LISTENERS report'"
  using assms(1) unfolding create_pools_def
proof (rule fold_io_invariant)
  show "nested_at LISTENERS (dict_set report POOLS (Nested []))" using assms(2) by simp
next
  fix p r w r' w'
  assume "bnd (lift (get_pool_request_info p)) (\<lambda>info.
       bnd (pool_create E info) (\<lambda>st. bnd (lift (pool_members_of p)) (\<lambda>ms.
       bnd (create_members E lb ms (append_status r POOLS st)) (\<lambda>r. create_monitor E p r)))) w = (Inr r', w')"
    and r: "nested_at LISTENERS r"
  then obtain ms st r1 w1 w2 where
    1: "create_members E lb ms (append_status r POOLS st) w1 = (Inr r1, w2)"
    and 2: "create_monitor E p r1 w2 = (Inr r', w')"
    by (elim bnd_InrE)
  have "nested_at LISTENERS (append_status r POOLS st)" using r by (rule nested_at_kept)
  with 1 have "nested_at LISTENERS r1" by (rule create_members_keeps) simp
  with 2 show "nested_at LISTENERS r'" by (rule create_monitor_keeps) simp
qed

text \<open>The creation without its last step: what is created, and the report that is built.\<close>

definition creation_report :: "'w env \<Rightarrow> lb_model \<Rightarrow> ('w, report) io" where
  "creation_report E lb =
     bnd (lb_create E (get_loadbalancer_request_info lb) None) (\<lambda>status.
     let report = map (\<lambda>(k, es). (k, Entries es)) status in
     bnd (case lbm_listeners lb of
            Unset \<Rightarrow> ret report | Val listeners \<Rightarrow> create_listeners E listeners report) (\<lambda>report.
     case lbm_pools lb of Unset \<Rightarrow> ret report | Val pools \<Rightarrow> create_pools E lb pools report))"

lemma create_missing_split:
  "create_missing_loadbalancer E lb = bnd (creation_report E lb) (update_report_to_octavia E)"
  by (simp add: create_missing_loadbalancer_def creation_report_def bnd_assoc Let_def)

lemma creation_nested:
  assumes "lbm_listeners lb = Val (l # ls)" and "creation_report E lb w = (Inr report, w')"
  shows "nested_at LISTENERS report"
proof -
  from assms(2) obtain report0 report1 w1 w2 where
    1: "create_listeners E (l # ls) report0 w1 = (Inr report1, w2)"
    and 2: "(case lbm_pools lb of Unset \<Rightarrow> ret report1 | Val ps \<Rightarrow> create_pools E lb ps report1) w2 = (Inr report, w')"
    unfolding creation_report_def Let_def assms(1) attr.case by (elim bnd_InrE)
  from 1 have "nested_at LISTENERS report1" by (rule create_listeners_nested)
  with 2 show ?thesis by (auto split: attr.splits dest: create_pools_keeps)
qed

text \<open>C35: When the synchronisation creates a load balancer that has a listener, its report to Octavia never
  works: the statuses of the listeners are nested in the report and \<open>re.sub\<close> raises a TypeError on them.
  The whole creation is the creation of the rows followed by that TypeError: the step that should report
  sends nothing and changes nothing, and the call ends in an exception (of the creation or this one).\<close>

theorem created_loadbalancer_never_reported:
  assumes "raises_other E" and "lbm_listeners lb = Val (l # ls)"
  shows "create_missing_loadbalancer E lb = bnd (creation_report E lb) (\<lambda>_. throw TypeError)"
proof
  fix w
  obtain x w' where x: "creation_report E lb w = (x, w')" by fastforce
  show "create_missing_loadbalancer E lb w = bnd (creation_report E lb) (\<lambda>_. throw TypeError) w"
  proof (cases x)
    case (Inr report)
    with x have "nested_at LISTENERS report" by (intro creation_nested [OF assms(2)]) simp
    from nested_sends_nothing [OF assms(1) this] x Inr show ?thesis
      by (simp add: create_missing_split bnd_def)
  qed (simp add: create_missing_split bnd_def x)
qed

theorem created_loadbalancer_never_reported_witness:
  "create_missing_loadbalancer ref_env (sample_lb_model ''TCP'') empty_db
     = bnd (creation_report ref_env (sample_lb_model ''TCP'')) (\<lambda>_. throw TypeError) empty_db"
  by (subst created_loadbalancer_never_reported [of _ _ "sample_listener_model ''TCP''" "[]"])
    (simp_all add: raises_other_def ref_env_def sample_lb_model_def)

end
