(* ===== verification/Maintenance.thy ===== *)
theory Maintenance
  imports HmPorts
begin

text \<open>
  The periodic tasks of \<open>maintenance.py\<close> (class \<open>DBInconsistenciesPeriodics\<close>): the device owner of the health
  monitor ports, and the format of \<open>ip_port_mappings\<close> for IPv6 members. A task that raises
  \<open>NeverAgain\<close> is not run again by the scheduler (futurist); one that returns is.
\<close>

abbreviation NeverAgain :: exn where "NeverAgain \<equiv> OtherException ''NeverAgain''"

section \<open>change_device_owner_lb_hm_ports\<close>

text \<open>
  The loop; \<open>check\<close> is \<open>check_neutron_support_new_device_owner\<close>. True: it ended with \<open>break\<close>, after the first
  port that did not become a local port was set back.
\<close>

primrec change_hm_ports :: "'w env \<Rightarrow> bool \<Rightarrow> port list \<Rightarrow> ('w, bool) io" where
  "change_hm_ports E check [] = ret False"
| "change_hm_ports E check (port # ports) =
     (if startswith (p_name port) ''ovn-lb-hm'' then
        bnd (nt_update_port E (p_id port) OVN_LB_HM_PORT_DISTRIBUTED (p_name port)) (\<lambda>_.
        if check then
          bnd (nb_lsps_named E (p_id port)) (\<lambda>port_ovn.
          if port_ovn \<noteq> [] \<and> lsp_type (hd port_ovn) \<noteq> ''localport''
          then bnd (nt_update_port E (p_id port) DEVICE_OWNER_DISTRIBUTED []) (\<lambda>_. ret True)
          else change_hm_ports E False ports)
        else change_hm_ports E check ports)
      else change_hm_ports E check ports)"

definition change_device_owner_lb_hm_ports :: "'w env \<Rightarrow> ('w, unit) io" where
  "change_device_owner_lb_hm_ports E =
     bnd (get_neutron_client E) (\<lambda>_.
     bnd (nt_ports_owned_by E DEVICE_OWNER_DISTRIBUTED) (\<lambda>ovn_lb_hm_ports.
     bnd (change_hm_ports E True ovn_lb_hm_ports) (\<lambda>broke.
     if broke then ret () else throw NeverAgain)))"

section \<open>format_ip_port_mappings_ipv6\<close>

text \<open>
  The new mappings of a row: the loop ends at the first key that is an IPv4 address or none at all
  (an address in brackets). A value without colon cannot be unpacked (ValueError).
\<close>

fun format_mappings :: "'a lib_scheme \<Rightarrow> string pydict \<Rightarrow> string pydict \<Rightarrow> string pydict res" where
  "format_mappings L [] mappings = Inr mappings"
| "format_mappings L ((k, v) # items) mappings =
     (case ip_version L k of
        Inl e \<Rightarrow> if e = AddrFormatError then Inr mappings else Inl e
      | Inr version \<Rightarrow>
          if version = 4 then Inr mappings
          else
            (case split1 CHR '':'' v of
               [port_uuid, src_ip] \<Rightarrow>
                 format_mappings L items
                   (dict_set mappings (bracketed k) (port_uuid @ '':'' @ bracketed src_ip))
             | _ \<Rightarrow> Inl ValueError))"

definition format_mappings_commands :: "'a lib_scheme \<Rightarrow> lb_row \<Rightarrow> cmd list res" where
  "format_mappings_commands L lb =
     rbind (format_mappings L (lb_ip_port_mappings lb) []) (\<lambda>mappings.
     Inr (if mappings \<noteq> []
          then [db_clear Load_Balancer (lb_uuid lb) ''ip_port_mappings'',
                db_set Load_Balancer (lb_uuid lb) ''ip_port_mappings'' (StrMap mappings)]
          else []))"

definition format_ip_port_mappings_ipv6 :: "'w env \<Rightarrow> ('w, unit) io" where
  "format_ip_port_mappings_ipv6 E =
     bnd (nb_lbs_with_mappings E) (\<lambda>ovn_lbs.
     bnd (for_each (\<lambda>u.
       bnd (nb_lb E u) (\<lambda>lb.
       bnd (lift (format_mappings_commands E lb)) (for_each (nb_exec E)))) ovn_lbs) (\<lambda>_.
     throw NeverAgain))"

end
