(* ===== verification/MaintenanceSpec.thy ===== *)
theory MaintenanceSpec
  imports Maintenance NbRows RefDb
begin

text \<open>
  What the maintenance tasks achieve: IPv6 mappings end up as the current code writes them and stay so,
  rows with both formats lose the formatted ones, and the port task stops unless the first port is seen to have
  another type than the new owner should give it.
\<close>

section \<open>The format of ip_port_mappings\<close>

text \<open>A backend with its port and the source address of its checks, as the column held it before and holds it now.\<close>

type_synonym backend = "string \<times> string \<times> string"   \<comment> \<open>address, logical port, source address\<close>

definition raw_mapping :: "backend \<Rightarrow> string \<times> string" where
  "raw_mapping b = (case b of (ip, port, src) \<Rightarrow> (ip, port @ '':'' @ src))"

definition new_mapping :: "backend \<Rightarrow> string \<times> string" where
  "new_mapping b = (case b of (ip, port, src) \<Rightarrow> (bracketed ip, port @ '':'' @ bracketed src))"

definition ipv6_backend :: "'a lib_scheme \<Rightarrow> backend \<Rightarrow> bool" where
  "ipv6_backend L b = (case b of (ip, port, src) \<Rightarrow> ip_version L ip = Inr 6 \<and> CHR '':'' \<notin> set port)"

text \<open>netaddr takes no address in brackets.\<close>

definition brackets_malformed :: "'a lib_scheme \<Rightarrow> bool" where
  "brackets_malformed L \<longleftrightarrow> (\<forall>a. ip_version L (bracketed a) = Inl AddrFormatError)"

lemma new_mapping_is_current:
  "ipv6_backend L (ip, port, src) \<Longrightarrow>
   lb_add_ip_port_mapping L u ip port src
     = Inr (set_ip_port_mapping u (fst (new_mapping (ip, port, src))) (snd (new_mapping (ip, port, src))))"
  by (simp add: ipv6_backend_def lb_add_ip_port_mapping_def new_mapping_def)

lemma format_raw:
  "list_all (ipv6_backend L) bs \<Longrightarrow>
   format_mappings L (map raw_mapping bs @ items) acc = format_mappings L items (dict_merge acc (map new_mapping bs))"
  by (induction bs arbitrary: acc)
    (auto simp: ipv6_backend_def raw_mapping_def new_mapping_def split1_sep)

lemma bracketed_inj [simp]: "bracketed a = bracketed b \<longleftrightarrow> a = b"
  by (simp add: bracketed_def)

lemma format_stops:
  "ip_version L k = Inr 4 \<or> ip_version L k = Inl AddrFormatError \<Longrightarrow> format_mappings L ((k, v) # items) acc = Inr acc"
  by auto

text \<open>The column after the commands of the task.\<close>

definition mappings_after :: "'a lib_scheme \<Rightarrow> lb_row \<Rightarrow> string pydict res" where
  "mappings_after L lb =
     rbind (format_mappings_commands L lb) (\<lambda>cmds.
     Inr (cols_after (lb_uuid lb) ''ip_port_mappings'' cmds (lb_ip_port_mappings lb)))"

lemma mappings_after_eq:
  "format_mappings L (lb_ip_port_mappings lb) [] = Inr m \<Longrightarrow>
   mappings_after L lb = Inr (if m = [] then lb_ip_port_mappings lb else dict_merge [] m)"
  by (simp add: mappings_after_def format_mappings_commands_def)

lemma dict_set_new: "k \<notin> set (map fst d) \<Longrightarrow> dict_set d k v = d @ [(k, v)]"
  by (induction d) auto

lemma dict_merge_distinct: "distinct (map fst d @ map fst e) \<Longrightarrow> dict_merge d e = d @ e"
proof (induction e arbitrary: d)
  case (Cons p e)
  then show ?case by (cases p) (simp add: dict_set_new)
qed simp

lemma new_mappings_merge: "distinct (map fst bs) \<Longrightarrow> dict_merge [] (map new_mapping bs) = map new_mapping bs"
proof -
  assume "distinct (map fst bs)"
  moreover have "map fst (map new_mapping bs) = map bracketed (map fst bs)"
    by (simp add: new_mapping_def case_prod_unfold)
  ultimately have "distinct (map fst (map new_mapping bs))"
    by (simp only:) (simp add: distinct_map inj_on_def)
  then show ?thesis by (simp add: dict_merge_distinct)
qed

lemma format_new:
  "brackets_malformed L \<Longrightarrow> format_mappings L (new_mapping b # items) acc = Inr acc"
  by (cases b) (simp add: new_mapping_def brackets_malformed_def)

text \<open>The loop stops at an IPv4 address and at one that is in brackets already.\<close>

definition stops_at :: "'a lib_scheme \<Rightarrow> string \<Rightarrow> bool" where
  "stops_at L k \<longleftrightarrow> ip_version L k = Inr 4 \<or> ip_version L k = Inl AddrFormatError"

text \<open>C32: What the task does to the mappings of a row: the unformatted IPv6 mappings at the front (with different
  addresses) are written exactly as the current code writes new ones, and what follows the first formatted or IPv4
  mapping is lost with it; a row that begins with a formatted or an IPv4 mapping, or has none, stays as it
  is, so a second run changes nothing. (The library parses the unformatted addresses and rejects bracketed ones.)\<close>

theorem mappings_formatted:
  assumes "brackets_malformed L" and "list_all (ipv6_backend L) bs" and "distinct (map fst bs)"
    and "lb_ip_port_mappings lb = map raw_mapping bs @ rest" and "rest = [] \<or> stops_at L (fst (hd rest))"
  shows "mappings_after L lb = Inr (if bs = [] then rest else map new_mapping bs) \<and>
         mappings_after L (lb\<lparr>lb_ip_port_mappings := map new_mapping bs\<rparr>) = Inr (map new_mapping bs) \<and>
         list_all (\<lambda>(ip, port, src). lb_add_ip_port_mapping L u ip port src
           = (case new_mapping (ip, port, src) of (k, v) \<Rightarrow> Inr (set_ip_port_mapping u k v))) bs"
proof (intro conjI)
  have "format_mappings L rest acc = Inr acc" for acc
    using assms(5) format_stops [of L "fst (hd rest)" "snd (hd rest)" "tl rest" acc]
    by (cases rest) (auto simp: stops_at_def)
  then have "format_mappings L (lb_ip_port_mappings lb) [] = Inr (map new_mapping bs)"
    using format_raw [OF assms(2), of rest "[]"] assms(3,4) by (simp add: new_mappings_merge)
  from mappings_after_eq [OF this]
  show "mappings_after L lb = Inr (if bs = [] then rest else map new_mapping bs)"
    using assms(3,4) by (auto simp: new_mappings_merge)
  have "format_mappings L (map new_mapping bs) [] = Inr []"
    using assms(1) by (cases bs) (simp_all add: format_new)
  then show "mappings_after L (lb\<lparr>lb_ip_port_mappings := map new_mapping bs\<rparr>) = Inr (map new_mapping bs)"
    by (simp add: mappings_after_eq)
  show "list_all (\<lambda>(ip, port, src). lb_add_ip_port_mapping L u ip port src
      = (case new_mapping (ip, port, src) of (k, v) \<Rightarrow> Inr (set_ip_port_mapping u k v))) bs"
    using assms(2) new_mapping_is_current by (fastforce simp: list_all_iff split: prod.splits)
qed

definition mapped_row :: "string pydict \<Rightarrow> lb_row" where
  "mapped_row mappings =
     \<lparr>lb_uuid = ''u1'', lb_name = ''lb1'', lb_protocol = [''tcp''], lb_external_ids = [], lb_vips = [],
      lb_options = [], lb_selection_fields = [], lb_health_check = [], lb_ip_port_mappings = mappings\<rparr>"

lemma ref_brackets_malformed: "brackets_malformed ref_lib"
  by (simp add: brackets_malformed_def ref_lib_def ref_ip_version_def bracketed_def)

theorem mappings_formatted_witness:
  "mappings_after ref_lib (mapped_row [(''fd00::10'', ''lsp1:fd00::2''), (''fd00::11'', ''lsp2:fd00::2''),
     (''[fd00::12]'', ''lsp3:[fd00::2]'')])
   = Inr [(''[fd00::10]'', ''lsp1:[fd00::2]''), (''[fd00::11]'', ''lsp2:[fd00::2]'')]"
proof -
  let ?bs = "[(''fd00::10'', ''lsp1'', ''fd00::2''), (''fd00::11'', ''lsp2'', ''fd00::2'')]"
  let ?rest = "[(''[fd00::12]'', ''lsp3:[fd00::2]'')]"
  have new: "(if ?bs = [] then ?rest else map new_mapping ?bs) = [(''[fd00::10]'', ''lsp1:[fd00::2]''), (''[fd00::11]'', ''lsp2:[fd00::2]'')]"
    by code_simp
  have stop: "?rest = [] \<or> stops_at ref_lib (fst (hd ?rest))" by code_simp
  show ?thesis
    by (rule mappings_formatted [OF ref_brackets_malformed _ _ _ stop, of ?bs, THEN conjunct1, unfolded new]) code_simp+
qed

text \<open>A row that holds mappings in both formats loses some of them: the loop stops at the first
  formatted one and the column is replaced by what was collected before it. When a formatted one comes
  first, the others stay unformatted.\<close>

theorem mixed_mappings_lost:
  assumes "brackets_malformed L" and "list_all (ipv6_backend L) (b # bs)" and "distinct (map fst (b # bs))"
    and "lb_ip_port_mappings lb = map raw_mapping (b # bs) @ new_mapping c # rest"
    and "fst c \<notin> set (map fst (b # bs))"
  shows "(\<exists>m. mappings_after L lb = Inr m \<and> dict_get m (bracketed (fst c)) = None) \<and>
         mappings_after L (lb\<lparr>lb_ip_port_mappings := new_mapping c # map raw_mapping (b # bs)\<rparr>)
           = Inr (new_mapping c # map raw_mapping (b # bs))"
proof
  have m: "format_mappings L (lb_ip_port_mappings lb) [] = Inr (map new_mapping (b # bs))"
    unfolding assms(4) format_raw [OF assms(2)] new_mappings_merge [OF assms(3)]
    by (rule format_new [OF assms(1)])
  have keys: "map fst (map new_mapping (b # bs)) = map bracketed (map fst (b # bs))"
    by (simp add: new_mapping_def case_prod_unfold)
  have "bracketed (fst c) \<notin> bracketed ` set (map fst (b # bs))"
    by (simp only: image_iff bracketed_inj) (use assms(5) in blast)
  then have "dict_get (map new_mapping (b # bs)) (bracketed (fst c)) = None"
    unfolding map_of_eq_None_iff set_map [symmetric] keys .
  moreover have "mappings_after L lb = Inr (map new_mapping (b # bs))"
    using mappings_after_eq [OF m] new_mappings_merge [OF assms(3)] by simp
  ultimately show "\<exists>m. mappings_after L lb = Inr m \<and> dict_get m (bracketed (fst c)) = None" by blast
  show "mappings_after L (lb\<lparr>lb_ip_port_mappings := new_mapping c # map raw_mapping (b # bs)\<rparr>)
      = Inr (new_mapping c # map raw_mapping (b # bs))"
    using format_new [OF assms(1), of c "map raw_mapping (b # bs)" "[]"] by (simp add: mappings_after_eq)
qed

theorem mixed_mappings_lost_witness:
  "\<exists>m. mappings_after ref_lib (mapped_row [(''2001::10'', ''lsp1:2001::2''), (''[2001::11]'', ''lsp2:[2001::2]'')])
     = Inr m \<and> dict_get m (bracketed ''2001::11'') = None"
  using mixed_mappings_lost [OF ref_brackets_malformed, of "(''2001::10'', ''lsp1'', ''2001::2'')" "[]"
      "mapped_row [(''2001::10'', ''lsp1:2001::2''), (''[2001::11]'', ''lsp2:[2001::2]'')]"
      "(''2001::11'', ''lsp2'', ''2001::2'')" "[]", THEN conjunct1, unfolded fst_conv]
  by this code_simp+

section \<open>The owner of the health monitor ports\<close>

definition is_hm_port :: "port \<Rightarrow> bool" where
  "is_hm_port p \<longleftrightarrow> startswith (p_name p) ''ovn-lb-hm''"

text \<open>
  Neutron executes every update, as \<open>upd\<close> says, and the northbound database shows the switch ports
  \<open>lsps\<close> of a port throughout.
\<close>

definition neutron_updates ::
  "'w env \<Rightarrow> (string \<Rightarrow> string \<Rightarrow> string \<Rightarrow> 'w \<Rightarrow> 'w) \<Rightarrow> (string \<Rightarrow> lsp_row list) \<Rightarrow> bool" where
  "neutron_updates E upd lsps \<longleftrightarrow>
     (\<forall>i own d w. nt_update_port E i own d w = (Inr (), upd i own d w)) \<and>
     (\<forall>i w. nb_lsps_named E i w = (Inr (lsps i), w))"

definition adopt :: "(string \<Rightarrow> string \<Rightarrow> string \<Rightarrow> 'w \<Rightarrow> 'w) \<Rightarrow> port \<Rightarrow> 'w \<Rightarrow> 'w" where
  "adopt upd p = upd (p_id p) OVN_LB_HM_PORT_DISTRIBUTED (p_name p)"

definition give_back :: "(string \<Rightarrow> string \<Rightarrow> string \<Rightarrow> 'w \<Rightarrow> 'w) \<Rightarrow> port \<Rightarrow> 'w \<Rightarrow> 'w" where
  "give_back upd p = upd (p_id p) DEVICE_OWNER_DISTRIBUTED []"

definition stays_distributed :: "(string \<Rightarrow> lsp_row list) \<Rightarrow> port \<Rightarrow> bool" where
  "stays_distributed lsps p \<longleftrightarrow> (case lsps (p_id p) of [] \<Rightarrow> False | l # _ \<Rightarrow> lsp_type l \<noteq> ''localport'')"

lemma change_unchecked:
  "neutron_updates E upd lsps \<Longrightarrow>
   change_hm_ports E False ports w = (Inr False, fold (adopt upd) (filter is_hm_port ports) w)"
  by (induction ports arbitrary: w) (simp_all add: neutron_updates_def is_hm_port_def adopt_def bnd_def)

lemma change_checked:
  "neutron_updates E upd lsps \<Longrightarrow>
   change_hm_ports E True ports w =
     (case filter is_hm_port ports of
        [] \<Rightarrow> (Inr False, w)
      | p # ps \<Rightarrow> if stays_distributed lsps p then (Inr True, give_back upd p (adopt upd p w))
                  else (Inr False, fold (adopt upd) ps (adopt upd p w)))"
proof (induction ports arbitrary: w)
  case (Cons p ports)
  show ?case
  proof (cases "is_hm_port p")
    case True
    with Cons.prems change_unchecked [OF Cons.prems, of ports] show ?thesis
      by (cases "lsps (p_id p)")
        (auto simp: neutron_updates_def is_hm_port_def [symmetric] adopt_def give_back_def stays_distributed_def bnd_def)
  next
    case False
    with Cons show ?thesis by (simp add: is_hm_port_def)
  qed
qed simp

text \<open>C33: While Neutron executes the updates and the northbound database shows the same switch ports throughout,
  the port task ends for good (\<open>NeverAgain\<close>) exactly when no health monitor port is left, or the switch port of the
  first one is a local port, or the database has no switch port for it; then every one of them has the new owner.
  Otherwise it returns, to be run again, and the only port it touched has its old owner back.\<close>

theorem port_task_stops:
  assumes "neutron_updates E upd lsps" and "get_neutron_client E w = (Inr (), w)"
    and "nt_ports_owned_by E DEVICE_OWNER_DISTRIBUTED w = (Inr ports, w)"
  shows "change_device_owner_lb_hm_ports E w =
    (case filter is_hm_port ports of
       [] \<Rightarrow> (Inl NeverAgain, w)
     | p # ps \<Rightarrow>
         if stays_distributed lsps p then (Inr (), give_back upd p (adopt upd p w))
         else (Inl NeverAgain, fold (adopt upd) (p # ps) w))"
  using assms(2,3) change_checked [OF assms(1), of ports w]
  by (simp add: change_device_owner_lb_hm_ports_def bnd_def split: list.splits)

definition logging_env :: "string \<Rightarrow> db env" where
  "logging_env t = ref_env
     \<lparr>nt_ports_owned_by := \<lambda>d. ask db_ports,
      nt_update_port := \<lambda>i own d w. (Inr (), w\<lparr>db_writes := db_writes w @ [db_set ''port'' i own (StrVal d)]\<rparr>),
      nb_lsps_named := \<lambda>n. ask (\<lambda>w. [\<lparr>lsp_name = n, lsp_type = t, lsp_addresses = [], lsp_options = [],
        lsp_external_ids = []\<rparr>])\<rparr>"

theorem port_task_stops_witness:
  "fst (change_device_owner_lb_hm_ports (logging_env ''localport'')
     (empty_db\<lparr>db_ports := [ref_port ''ovn-lb-hm-s1'', ref_port ''x'', ref_port ''ovn-lb-hm-s2'']\<rparr>)) = Inl NeverAgain"
proof -
  let ?w = "empty_db\<lparr>db_ports := [ref_port ''ovn-lb-hm-s1'', ref_port ''x'', ref_port ''ovn-lb-hm-s2'']\<rparr>"
  let ?upd = "\<lambda>i own d w. w\<lparr>db_writes := db_writes w @ [db_set ''port'' i own (StrVal d)]\<rparr>"
  let ?lsps = "\<lambda>n. [\<lparr>lsp_name = n, lsp_type = ''localport'', lsp_addresses = [], lsp_options = [],
        lsp_external_ids = []\<rparr>]"
  have n: "neutron_updates (logging_env ''localport'') ?upd ?lsps"
    by (simp add: neutron_updates_def logging_env_def ask_def)
  have f: "is_hm_port (ref_port ''ovn-lb-hm-s1'')" "\<not> is_hm_port (ref_port ''x'')"
    "is_hm_port (ref_port ''ovn-lb-hm-s2'')"
    by code_simp+
  have "change_device_owner_lb_hm_ports (logging_env ''localport'') ?w =
      (Inl NeverAgain, fold (adopt ?upd) [ref_port ''ovn-lb-hm-s1'', ref_port ''ovn-lb-hm-s2''] ?w)"
    by (subst port_task_stops [OF n, of _ "db_ports ?w"])
      (simp_all add: f logging_env_def ask_def get_neutron_client_def catch_def ref_env_def stays_distributed_def)
  then show ?thesis by simp
qed

end
