(* ===== verification/PortSpec.thy ===== *)
theory PortSpec
  imports LbSync RefDb HmPorts
begin

text \<open>
  Ports the provider creates and deletes in Neutron: nothing is left behind when the ports of the VIPs
  cannot be created, and a health monitor port that is in use is never deleted.
\<close>

section \<open>Ports of the VIPs\<close>

text \<open>
  \<open>ids w\<close> are the ports of Neutron. Creating a port adds it, a failed call adds nothing; a port found by
  name exists; deleting removes it or finds it gone. tenacity returns what the call returns.
\<close>

definition neutron_ports :: "'w env \<Rightarrow> ('w \<Rightarrow> string set) \<Rightarrow> bool" where
  "neutron_ports E ids \<longleftrightarrow>
     nt_client E = ret () \<and>
     (\<forall>r w. case nt_create_port E r w of
              (Inr p, w') \<Rightarrow> ids w' = insert (p_id p) (ids w) | (Inl e, w') \<Rightarrow> ids w' = ids w) \<and>
     (\<forall>net n w. case retry_port E is_http_exn (StopAfterDelay 10) (nt_find_port E net n) w of
              (Inr (Some p), w') \<Rightarrow> ids w' = ids w \<and> p_id p \<in> ids w | (_, w') \<Rightarrow> ids w' = ids w) \<and>
     (\<forall>i w. case nt_delete_port E i w of
              (Inr _, w') \<Rightarrow> ids w' = ids w - {i}
            | (Inl e, w') \<Rightarrow> e = ResourceNotFound \<and> ids w' = ids w - {i}) \<and>
     (\<forall>p s m w x w'. m w = (Inr x, w') \<longrightarrow> retry_unit E p s m w = (Inr x, w'))"

lemma create_neutron_port_ids:
  assumes "neutron_ports E ids" and "create_neutron_port E r w = (res, w')"
  shows "case res of Inr p \<Rightarrow> ids w' = insert (p_id p) (ids w) | Inl e \<Rightarrow> ids w' = ids w"
proof (cases "nt_create_port E r w")
  case (Pair res0 w0)
  from assms(1) Pair have create: "case res0 of Inr p \<Rightarrow> ids w0 = insert (p_id p) (ids w) | Inl e \<Rightarrow> ids w0 = ids w"
    unfolding neutron_ports_def by (metis (no_types, lifting) old.prod.case sum.case_eq_if)
  obtain found w1 where find: "neutron_find_port E (pr_network_id r) (pr_name r) w0 = (found, w1)"
    by fastforce
  then have "case found of Inr (Some p) \<Rightarrow> ids w1 = ids w0 \<and> p_id p \<in> ids w0 | _ \<Rightarrow> ids w1 = ids w0"
    using assms(1) unfolding neutron_ports_def neutron_find_port_def
    by (auto split: sum.splits option.splits prod.splits) blast+
  with create assms(2) Pair find show ?thesis
    by (auto simp: create_neutron_port_def catch_def bnd_def split: sum.splits if_splits option.splits)
qed

lemma delete_port_ids:
  assumes "neutron_ports E ids"
  shows "\<exists>w'. delete_port E i w = (Inr (), w') \<and> ids w' = ids w - {i}"
proof -
  have client: "get_neutron_client E w = (Inr (), w)"
    using assms by (simp add: neutron_ports_def get_neutron_client_def)
  have "case nt_delete_port E i w of (Inr _, w') \<Rightarrow> ids w' = ids w - {i}
      | (Inl e, w') \<Rightarrow> e = ResourceNotFound \<and> ids w' = ids w - {i}"
    using assms by (simp add: neutron_ports_def)
  then obtain w' where ids: "ids w' = ids w - {i}" and run:
    "bnd (get_neutron_client E) (\<lambda>_. catch (nt_delete_port E i)
       (\<lambda>e. if e = ResourceNotFound then ret () else throw e)) w = (Inr (), w')"
    by (auto simp: bnd_def client catch_def split: prod.splits sum.splits)
  have "delete_port E i w = (Inr (), w')"
    using assms run unfolding neutron_ports_def delete_port_def by blast
  with ids show ?thesis by blast
qed

lemma delete_ports_ids:
  assumes "neutron_ports E ids"
  shows "\<exists>w'. for_each (delete_port E) is w = (Inr (), w') \<and> ids w' = ids w - set is"
proof (induction "is" arbitrary: w)
  case (Cons i "is")
  obtain w1 where "delete_port E i w = (Inr (), w1)" "ids w1 = ids w - {i}"
    using delete_port_ids [OF assms] by blast
  with Cons [of w1] show ?case by (auto simp: bnd_def)
qed simp

lemma create_additional_ids:
  assumes "neutron_ports E ids"
  shows "\<exists>ps err w'. create_additional_ports E proj lb_id n vs w = (Inr (ps, err), w') \<and>
    ids w' = ids w \<union> set (map p_id ps) \<and> (err = None \<longrightarrow> length ps = length vs)"
proof (induction vs arbitrary: n w)
  case (Cons v vs)
  obtain res w1 where c: "create_neutron_port E (vip_port_request (additional_vip_name n lb_id) proj v) w = (res, w1)"
    by fastforce
  note ids = create_neutron_port_ids [OF assms c]
  show ?case
  proof (cases res)
    case (Inl e)
    with c ids show ?thesis by (simp add: bnd_def attempt_def)
  next
    case (Inr p)
    obtain ps err w2 where rest: "create_additional_ports E proj lb_id (Suc n) vs w1 = (Inr (ps, err), w2)"
      "ids w2 = ids w1 \<union> set (map p_id ps)" "err = None \<longrightarrow> length ps = length vs"
      using Cons by blast
    with c ids Inr show ?thesis by (simp add: bnd_def attempt_def)
  qed
qed simp

text \<open>C29: When the port of the VIP or of an additional VIP cannot be created and Neutron's answer is an HTTP
  error, every port created so far is deleted again: Neutron has no port it did not have before. On
  success there is one port for each additional VIP, and nothing else is new. (Neutron is any store of ports in which a
  deletion fails only because the port is gone.)\<close>

theorem vip_ports_cleaned_up:
  assumes "neutron_ports E ids" and "create_vip_port E proj lb_id v vs w = (r, w')"
  shows "case r of
      Inl e \<Rightarrow> is_http_exn e \<longrightarrow> ids w' \<subseteq> ids w
    | Inr (p, ps) \<Rightarrow> ids w' = ids w \<union> insert (p_id p) (set (map p_id ps)) \<and> length ps = length vs"
proof -
  have client: "get_neutron_client E w = (Inr (), w)"
    using assms(1) by (simp add: neutron_ports_def get_neutron_client_def)
  obtain res w1 where c: "create_neutron_port E (vip_port_request (LB_VIP_PORT_PREFIX @ lb_id) proj v) w = (res, w1)"
    by fastforce
  note ids = create_neutron_port_ids [OF assms(1) c]
  show ?thesis
  proof (cases res)
    case (Inl e)
    with assms(2) c ids client show ?thesis by (auto simp: create_vip_port_def bnd_def)
  next
    case (Inr p)
    obtain ps err w2 where a: "create_additional_ports E proj lb_id 1 vs w1 = (Inr (ps, err), w2)"
      "ids w2 = ids w1 \<union> set (map p_id ps)" "err = None \<longrightarrow> length ps = length vs"
      using create_additional_ids [OF assms(1)] by blast
    obtain w3 where d: "for_each (delete_port E) (map p_id (p # ps)) w2 = (Inr (), w3)"
      "ids w3 = ids w2 - set (map p_id (p # ps))"
      using delete_ports_ids [OF assms(1)] by blast
    show ?thesis
    proof (cases err)
      case None
      with assms(2) c ids client Inr a show ?thesis by (auto simp: create_vip_port_def bnd_def)
    next
      case (Some e)
      with assms(2) c client Inr a d(1) have "r = Inl e" "is_http_exn e \<Longrightarrow> w' = w3"
        by (auto simp: create_vip_port_def bnd_def split: if_splits)
      with d(2) a(2) ids Inr show ?thesis by auto
    qed
  qed
qed

definition full_env :: "db env" where
  "full_env = ref_env
     \<lparr>nt_create_port := \<lambda>r w. if length (db_ports w) \<ge> 2 then (Inl HttpException, w)
        else (Inr (ref_port (pr_name r)), w\<lparr>db_ports := db_ports w @ [ref_port (pr_name r)]\<rparr>)\<rparr>"

lemma full_env_ports: "neutron_ports full_env (\<lambda>w. set (map p_id (db_ports w)))"
  by (auto simp: neutron_ports_def full_env_def ref_env_def ask_def ref_port_def list_ex_iff find_Some_iff
      split: prod.splits option.splits)

theorem vip_ports_cleaned_up_witness:
  "set (map p_id (db_ports (snd (create_vip_port full_env ''proj'' ''lb1''
      \<lparr>vd_network_id = Some ''n1'', vd_subnet_id = Some ''s1'', vd_ip_address = None\<rparr>
      (replicate 2 \<lparr>vd_network_id = Some ''n1'', vd_subnet_id = Some ''s2'', vd_ip_address = None\<rparr>) empty_db))))
   \<subseteq> set (map p_id (db_ports empty_db))"
proof -
  let ?run = "create_vip_port full_env ''proj'' ''lb1''
      \<lparr>vd_network_id = Some ''n1'', vd_subnet_id = Some ''s1'', vd_ip_address = None\<rparr>
      (replicate 2 \<lparr>vd_network_id = Some ''n1'', vd_subnet_id = Some ''s2'', vd_ip_address = None\<rparr>) empty_db"
  have "fst ?run = Inl HttpException" by code_simp
  then have "?run = (Inl HttpException, snd ?run)" by (metis prod.collapse)
  from vip_ports_cleaned_up [OF full_env_ports this] show ?thesis by (simp add: is_http_exn_def)
qed

section \<open>Health monitor ports\<close>

text \<open>The rows with a health check, as they are throughout the cleaning, and how Neutron deletes a port.\<close>

definition monitored_rows ::
  "'w env \<Rightarrow> string list \<Rightarrow> (string \<Rightarrow> lb_row) \<Rightarrow> (string \<Rightarrow> 'w \<Rightarrow> 'w) \<Rightarrow> bool" where
  "monitored_rows E us row del \<longleftrightarrow>
     (\<forall>w. nb_lbs_with_health_check E w = (Inr us, w)) \<and>
     (\<forall>u w. u \<in> set us \<longrightarrow> nb_lb E u w = (Inr (row u), w)) \<and>
     (\<forall>i w. delete_port E i w = (Inr (), del i w))"

definition ip_in_use :: "string list \<Rightarrow> (string \<Rightarrow> lb_row) \<Rightarrow> string \<Rightarrow> bool" where
  "ip_in_use us row ip \<longleftrightarrow> (\<exists>u \<in> set us. \<exists>(k, v) \<in> set (lb_ip_port_mappings (row u)). contains ip v)"

text \<open>The address of a port on the subnet; the code takes the last one.\<close>

definition hm_address :: "string \<Rightarrow> port \<Rightarrow> string option" where
  "hm_address subnet_id p = last_ip_on_subnet subnet_id (p_fixed_ips p) None"

lemma last_ip_found:
  "hm_address s p = Some ip \<Longrightarrow> last_ip_on_subnet s (p_fixed_ips p) found = Some ip"
proof -
  have "fold f ips found = (case fold f ips None of None \<Rightarrow> found | Some x \<Rightarrow> Some x)"
    if "f = (\<lambda>x acc. if fi_subnet_id x = s then Some (fi_ip_address x) else acc)" for f ips
    unfolding that by (induction ips rule: rev_induct) auto
  from this [OF refl, of "p_fixed_ips p"] show "last_ip_on_subnet s (p_fixed_ips p) found = Some ip"
    if "hm_address s p = Some ip"
    using that by (simp add: hm_address_def last_ip_on_subnet_def)
qed

lemma search_hm_ip_exact:
  assumes "\<forall>u w. u \<in> set us \<longrightarrow> nb_lb E u w = (Inr (row u), w)"
  shows "search_hm_ip E ip us w = (Inr (ip_in_use us row ip), w)"
  using assms
  by (induction us) (auto simp: bnd_def ip_in_use_def list_ex_iff split: prod.splits)

lemma clean_hm_ports_exact:
  assumes "monitored_rows E us row del"
    and "list_all (\<lambda>p. truthy (hm_address s p)) ports"
  shows "clean_hm_ports E s found ports w =
    (Inr (), fold del (map p_id (takeWhile (\<lambda>p. \<not> ip_in_use us row (the (hm_address s p))) ports)) w)"
  using assms(2)
proof (induction ports arbitrary: found w)
  case (Cons p ports)
  then obtain ip where ip: "hm_address s p = Some ip" "ip \<noteq> []" by (auto elim: truthyE)
  from assms(1) have rows: "\<forall>u w. u \<in> set us \<longrightarrow> nb_lb E u w = (Inr (row u), w)"
    and hc: "\<And>w. nb_lbs_with_health_check E w = (Inr us, w)"
    and del: "\<And>i w. delete_port E i w = (Inr (), del i w)"
    by (simp_all add: monitored_rows_def)
  show ?case
    using Cons ip by (simp add: Let_def last_ip_found [OF ip(1)] bnd_def hc search_hm_ip_exact [OF rows] del)
qed simp

text \<open>C30: When every listed port has an address on the subnet, the rows can be read and do not change meanwhile, and
  no deletion fails, the cleaning of the health monitor ports of a subnet deletes the listed ports up to the first one
  whose address occurs in a mapping of a load balancer with health checks, and no other: a port in use is not deleted,
  and the ports after it stay although nothing may use them.\<close>

theorem used_hm_port_kept:
  assumes "monitored_rows E us row del" and "list_all (\<lambda>p. truthy (hm_address s p)) ports"
  shows "\<exists>gone. clean_hm_ports E s None ports w = (Inr (), fold del (map p_id gone) w) \<and>
    prefix gone ports \<and> list_all (\<lambda>p. \<not> ip_in_use us row (the (hm_address s p))) gone \<and>
    (gone = ports \<or> ip_in_use us row (the (hm_address s (ports ! length gone))))"
proof -
  let ?free = "\<lambda>p. \<not> ip_in_use us row (the (hm_address s p))"
  have "list_all ?free (takeWhile ?free ports)" by (auto simp: list_all_iff dest: set_takeWhileD)
  moreover have "takeWhile ?free ports = ports \<or> \<not> ?free (ports ! length (takeWhile ?free ports))"
  proof (cases "length (takeWhile ?free ports) < length ports")
    case True
    then show ?thesis using nth_length_takeWhile [OF True] by simp
  next
    case False
    then have "takeWhile ?free ports = ports" using takeWhile_eq_take [of ?free ports] by simp
    then show ?thesis by (rule disjI1)
  qed
  moreover have "prefix (takeWhile ?free ports) ports" by (metis prefixI takeWhile_dropWhile_id)
  ultimately show ?thesis using clean_hm_ports_exact [OF assms] by blast
qed

definition hm_port_at :: "string \<Rightarrow> string \<Rightarrow> port" where
  "hm_port_at i ip = \<lparr>p_id = i, p_name = ''ovn-lb-hm-s1'', p_network_id = ''n1'',
     p_fixed_ips = [\<lparr>fi_subnet_id = ''s1'', fi_ip_address = ip\<rparr>]\<rparr>"

definition checked_row :: lb_row where
  "checked_row = \<lparr>lb_uuid = ''u1'', lb_name = ''lb1'', lb_protocol = [''tcp''], lb_external_ids = [], lb_vips = [],
     lb_options = [], lb_selection_fields = [], lb_health_check = [''h1''],
     lb_ip_port_mappings = [(''10.0.0.10'', ''lsp1:10.0.0.2'')]\<rparr>"

definition cleaning_env :: "db env" where
  "cleaning_env = ref_env
     \<lparr>nb_lbs_with_health_check := ret [''u1''], nb_lb := \<lambda>u. ret checked_row,
      nt_delete_port := \<lambda>i w. (Inr (), w\<lparr>db_writes := db_writes w @ [db_destroy ''port'' i]\<rparr>)\<rparr>"

theorem used_hm_port_kept_witness:
  "\<exists>gone. clean_hm_ports cleaning_env ''s1'' None [hm_port_at ''a'' ''10.0.0.3'', hm_port_at ''b'' ''10.0.0.2''] empty_db
     = (Inr (), fold (\<lambda>i w. w\<lparr>db_writes := db_writes w @ [db_destroy ''port'' i]\<rparr>) (map p_id gone) empty_db) \<and>
     list_all (\<lambda>p. \<not> ip_in_use [''u1''] (\<lambda>u. checked_row) (the (hm_address ''s1'' p))) gone"
proof -
  have rows: "monitored_rows cleaning_env [''u1''] (\<lambda>u. checked_row)
      (\<lambda>i w. w\<lparr>db_writes := db_writes w @ [db_destroy ''port'' i]\<rparr>)"
    by (simp add: monitored_rows_def cleaning_env_def ref_env_def delete_port_def get_neutron_client_def
        bnd_def catch_def)
  have ports: "list_all (\<lambda>p. truthy (hm_address ''s1'' p)) [hm_port_at ''a'' ''10.0.0.3'', hm_port_at ''b'' ''10.0.0.2'']"
    by code_simp
  from used_hm_port_kept [OF rows ports, of empty_db] show ?thesis by blast
qed

end
