(* ===== verification/Handlers.thy ===== *)
theory Handlers
  imports Requests Traffic RefDb
begin

text \<open>
  From the transactions of \<open>RowSteps\<close> to the handlers that commit them. A northbound store holds the rows
  of the load balancers (\<open>nb_store\<close>: reads see them, a transaction is atomic and changes each row as
  ovsdbapp documents). The preservation rules of the effect layer (\<open>keeps\<close>, collection \<open>io_inv\<close>) follow
  the structure of the handlers down to reads and transactions; a handler that rebuilds the \<open>vips\<close>
  takes every row through steps of \<open>row_step\<close>, whether it returns or raises.
\<close>

named_theorems nb_reads "code that leaves the load balancer rows alone"

section \<open>The northbound store\<close>

type_synonym lb_rows = "string \<Rightarrow> lb_row option"

text \<open>A piece of code that leaves the load balancer rows alone.\<close>

definition reads :: "('w \<Rightarrow> lb_rows) \<Rightarrow> ('w, 'a) io \<Rightarrow> bool" where
  "reads rows m \<longleftrightarrow> (\<forall>R. keeps (\<lambda>w. rows w = R) m)"

text \<open>The rows before and after a transaction: it creates no row, and it deletes what \<open>lb_del\<close> names.\<close>

definition rows_after :: "cmd list \<Rightarrow> lb_rows \<Rightarrow> lb_rows \<Rightarrow> bool" where
  "rows_after cmds R R' \<longleftrightarrow>
     (\<forall>u r'. R' u = Some r' \<longrightarrow> \<not> deletes_row u cmds \<and>
        (\<exists>r. R u = Some r \<and> (distinct (dict_keys (lb_external_ids r)) \<longrightarrow> applied cmds r r')))"

definition commits :: "('w \<Rightarrow> lb_rows) \<Rightarrow> cmd list \<Rightarrow> ('w, unit) io \<Rightarrow> bool" where
  "commits rows cmds m \<longleftrightarrow>
     (\<forall>w. case m w of (Inr _, w') \<Rightarrow> rows_after cmds (rows w) (rows w') | (Inl _, w') \<Rightarrow> rows w' = rows w)"

text \<open>A row \<open>db_create\<close> makes: the given \<open>external_ids\<close> and nothing in the other columns.\<close>

definition created_with :: "lb_kwargs \<Rightarrow> lb_row \<Rightarrow> bool" where
  "created_with k r \<longleftrightarrow>
     lb_vips r = [] \<and> distinct (dict_keys (lb_external_ids r)) \<and>
     set (dict_keys (lb_external_ids r)) \<subseteq> set (dict_keys (kw_external_ids k))"

definition creates :: "('w \<Rightarrow> lb_rows) \<Rightarrow> lb_kwargs \<Rightarrow> ('w, unit) io \<Rightarrow> bool" where
  "creates rows k m \<longleftrightarrow>
     (\<forall>w. case m w of
        (Inr _, w') \<Rightarrow> (\<forall>u r. rows w' u = Some r \<longrightarrow> rows w u = Some r \<or> created_with k r)
      | (Inl _, w') \<Rightarrow> rows w' = rows w)"

text \<open>What the other calls the handlers make do to the rows: nothing.\<close>

definition outside_reads :: "'w env \<Rightarrow> ('w \<Rightarrow> lb_rows) \<Rightarrow> bool" where
  "outside_reads E rows \<longleftrightarrow>
     (\<forall>u. reads rows (nb_lb E u)) \<and> (\<forall>n. reads rows (nb_lbs_by_name E n)) \<and>
     (\<forall>n. reads rows (nb_ls_get E n)) \<and> (\<forall>u. reads rows (nb_lr E u)) \<and> reads rows (nb_lr_rows E) \<and>
     (\<forall>u. reads rows (nb_ls E u)) \<and>
     (\<forall>u. reads rows (nb_hc E u)) \<and> reads rows (nt_client E) \<and>
     (\<forall>i. reads rows (nt_get_port E i)) \<and> (\<forall>i. reads rows (nt_get_subnet E i)) \<and>
     (\<forall>i. reads rows (nt_get_network E i)) \<and> (\<forall>i. reads rows (nt_ports_of_network E i)) \<and>
     (\<forall>i. reads rows (nt_delete_port E i)) \<and> (\<forall>i. reads rows (oc_get_loadbalancer E i)) \<and>
     (\<forall>s. reads rows (oc_update_status E s)) \<and>
     reads rows (nb_lb_rows E) \<and> reads rows (nb_hc_rows E) \<and> (\<forall>n. reads rows (nb_lookup_ls E n)) \<and>
     (\<forall>p. reads rows (nb_nats_of_port E p)) \<and> reads rows (nb_lbs_with_health_check E) \<and>
     (\<forall>n. reads rows (nt_ports_named E n)) \<and> (\<forall>i n. reads rows (nt_find_port E i n)) \<and>
     (\<forall>r. reads rows (nt_create_hm_port E r)) \<and> (\<forall>i. reads rows (nt_get_ip E i)) \<and>
     (\<forall>i d. reads rows (nt_update_ip E i d)) \<and>
     (\<forall>i. reads rows (oc_get_pool E i)) \<and> (\<forall>i. reads rows (oc_get_listener E i)) \<and>
     reads rows (nb_ls_rows E) \<and> (\<forall>n. reads rows (nb_lookup_lr E n))"

text \<open>A retried call is the call, any number of times: what each call keeps, all of them keep.\<close>

definition retry_repeats :: "'w env \<Rightarrow> bool" where
  "retry_repeats E \<longleftrightarrow>
     (\<forall>P p s m. keeps P m \<longrightarrow> keeps P (retry_unit E p s m)) \<and>
     (\<forall>P p s m. keeps P m \<longrightarrow> keeps P (retry_ports E p s m)) \<and>
     (\<forall>P p s m. keeps P m \<longrightarrow> keeps P (retry_port E p s m))"

text \<open>A command that is run unchecked may fail silently.\<close>

definition may_commit :: "('w \<Rightarrow> lb_rows) \<Rightarrow> cmd list \<Rightarrow> ('w, unit) io \<Rightarrow> bool" where
  "may_commit rows cmds m \<longleftrightarrow>
     (\<forall>w. rows (snd (m w)) = rows w \<or> rows_after cmds (rows w) (rows (snd (m w))))"

text \<open>A document of member statuses that is written is read back.\<close>

definition documents_ok :: "'a lib_scheme \<Rightarrow> bool" where
  "documents_ok L \<longleftrightarrow> (\<forall>d. \<exists>d'. loads_strs L (dumps_strs L d) = Inr d' \<and> map_of d' = map_of d)"

text \<open>The store: what reads, commands and transactions do to the rows.\<close>

definition nb_store :: "'w env \<Rightarrow> ('w \<Rightarrow> lb_rows) \<Rightarrow> bool" where
  "nb_store E rows \<longleftrightarrow>
     outside_reads E rows \<and> retry_repeats E \<and> documents_ok E \<and>
     (\<forall>c. may_commit rows [c] (nb_exec_nocheck E c)) \<and>
     (\<forall>w u r w'. nb_lb E u w = (Inr r, w') \<longrightarrow> rows w u = Some r) \<and>
     (\<forall>w u r. rows w u = Some r \<longrightarrow> lb_uuid r = u) \<and>
     (\<forall>cmds. commits rows cmds (nb_txn E cmds)) \<and>
     (\<forall>c. commits rows [c] (nb_exec E c)) \<and>
     (\<forall>k. creates rows k (nb_create_lb E k))"

lemma nb_storeD:
  assumes "nb_store E rows"
  shows "nb_lb E u w = (Inr r, w') \<Longrightarrow> rows w u = Some r" and "rows w u = Some r \<Longrightarrow> lb_uuid r = u"
    and "commits rows cmds (nb_txn E cmds)" and "commits rows [c] (nb_exec E c)"
    and "creates rows k (nb_create_lb E k)" and "outside_reads E rows" and "retry_repeats E"
    and "documents_ok E" and "may_commit rows [c] (nb_exec_nocheck E c)"
  using assms by (auto simp: nb_store_def)

section \<open>Code that only reads\<close>

lemma reads_row: "reads rows m \<Longrightarrow> m w = (x, w') \<Longrightarrow> rows w' = rows w"
  using keepsD [of "\<lambda>v. rows v = rows w" m w x w'] by (simp add: reads_def)

lemma reads_compose [nb_reads]:
  "reads rows (ret x)" "reads rows (throw e)" "reads rows (lift r)"
  "reads rows n \<Longrightarrow> (\<And>x. reads rows (f x)) \<Longrightarrow> reads rows (bnd n f)"
  "reads rows m \<Longrightarrow> (\<And>e. reads rows (h e)) \<Longrightarrow> reads rows (catch m h)"
  "reads rows m \<Longrightarrow> reads rows (attempt m)"
  "(b \<Longrightarrow> reads rows m) \<Longrightarrow> (\<not> b \<Longrightarrow> reads rows m') \<Longrightarrow> reads rows (if b then m else m')"
  by (auto simp: reads_def intro!: io_inv)

lemma reads_Pair [nb_reads]: "reads rows (Pair r)"
  by (simp add: reads_def keeps_def)

lemma reads_case [nb_reads]:
  "(x = None \<Longrightarrow> reads rows m) \<Longrightarrow> (\<And>y. x = Some y \<Longrightarrow> reads rows (f y)) \<Longrightarrow>
     reads rows (case x of None \<Rightarrow> m | Some y \<Rightarrow> f y)"
  "(\<And>e. r = Inl e \<Longrightarrow> reads rows (h e)) \<Longrightarrow> (\<And>y. r = Inr y \<Longrightarrow> reads rows (g y)) \<Longrightarrow>
     reads rows (case r of Inl e \<Rightarrow> h e | Inr y \<Rightarrow> g y)"
  "(\<And>a b. p = (a, b) \<Longrightarrow> reads rows (k a b)) \<Longrightarrow> reads rows (case p of (a, b) \<Rightarrow> k a b)"
  "(xs = [] \<Longrightarrow> reads rows m) \<Longrightarrow> (\<And>z zs. xs = z # zs \<Longrightarrow> reads rows (c z zs)) \<Longrightarrow>
     reads rows (case xs of [] \<Rightarrow> m | z # zs \<Rightarrow> c z zs)"
  by (auto split: option.split sum.split prod.split list.split)

lemma reads_loops [nb_reads]:
  "(\<And>x. x \<in> set xs \<Longrightarrow> reads rows (f x)) \<Longrightarrow> reads rows (for_each f xs)"
  "(\<And>x s. reads rows (g x s)) \<Longrightarrow> reads rows (fold_io g xs s)"
  "(\<And>x. reads rows (h x)) \<Longrightarrow> reads rows (map_io h xs)"
  unfolding reads_def by (auto intro: io_inv)

lemma outside_readsD:
  assumes "outside_reads E rows"
  shows "reads rows (nb_lb E u)" "reads rows (nb_lbs_by_name E n)" "reads rows (nb_ls_get E n)"
    "reads rows (nb_lr E u)" "reads rows (nb_lr_rows E)" "reads rows (nb_hc E u)" "reads rows (nt_client E)"
    "reads rows (nt_get_port E i)" "reads rows (nt_get_subnet E k)" "reads rows (nt_get_network E i)"
    "reads rows (nt_ports_of_network E i)" "reads rows (nt_delete_port E i)"
    "reads rows (oc_get_loadbalancer E i)" "reads rows (oc_update_status E s)" "reads rows (nb_ls E u)"
    "reads rows (nb_lb_rows E)" "reads rows (nb_hc_rows E)" "reads rows (nb_lookup_ls E n)"
    "reads rows (nb_nats_of_port E p)" "reads rows (nb_lbs_with_health_check E)" "reads rows (nt_ports_named E n)"
    "reads rows (nt_find_port E ni n)" "reads rows (nt_create_hm_port E hp)" "reads rows (nt_get_ip E i)"
    "reads rows (nt_update_ip E i ds)" "reads rows (oc_get_pool E i)" "reads rows (oc_get_listener E i)"
    "reads rows (nb_ls_rows E)" "reads rows (nb_lookup_lr E n)"
  using assms by (simp_all add: outside_reads_def)

lemma reads_retry:
  assumes "retry_repeats E"
  shows "reads rows m \<Longrightarrow> reads rows (retry_unit E p s m)"
    and "reads rows n \<Longrightarrow> reads rows (retry_ports E p s n)"
    and "reads rows o1 \<Longrightarrow> reads rows (retry_port E p s o1)"
  using assms unfolding retry_repeats_def reads_def by blast+

lemmas store_reads = outside_readsD [OF nb_storeD(6)] reads_retry [OF nb_storeD(7)]

lemma find_reads [nb_reads]:
  assumes S: "nb_store E rows"
  shows "reads rows (find_ovn_lbs E i)" and "reads rows (find_lb_of_protocol E p us)"
    and "reads rows (find_ovn_lb_with_protocol E i p)"
proof -
  show l: "reads rows (find_lb_of_protocol E p us)" for us
    by (induction us) (auto intro!: nb_reads store_reads [OF S])
  show "reads rows (find_ovn_lbs E i)" "reads rows (find_ovn_lb_with_protocol E i p)"
    unfolding find_ovn_lbs_def find_ovn_lb_with_protocol_def
    by (auto intro!: nb_reads l store_reads [OF S])
qed

lemma port_reads [nb_reads]:
  assumes S: "nb_store E rows"
  shows "reads rows (get_neutron_client E)" and "reads rows (get_neutron_client_or_none E)"
    and "reads rows (delete_port E p)"
    and "reads rows (subnet_of_address E req a ips)" and "reads rows (get_port_from_info E pi ni ai req)"
proof -
  show c: "reads rows (get_neutron_client E)"
    unfolding get_neutron_client_def by (auto intro!: nb_reads store_reads [OF S])
  then show "reads rows (get_neutron_client_or_none E)" "reads rows (delete_port E p)"
    unfolding get_neutron_client_or_none_def delete_port_def
    by (auto intro!: nb_reads store_reads [OF S])
  show s: "reads rows (subnet_of_address E req a ips)" for a ips
    by (induction ips) (auto intro!: nb_reads store_reads [OF S])
  show "reads rows (get_port_from_info E pi ni ai req)"
    unfolding get_port_from_info_def neutron_list_ports_def
    by (auto intro!: nb_reads s store_reads [OF S])
qed

lemma lb_create_reads [nb_reads]:
  assumes S: "nb_store E rows"
  shows "reads rows (collect_additional_ports E vs ports)" and "reads rows (lb_create_ports E i)"
    and "reads rows (lb_create_cleanup E p ps)"
proof -
  show c: "reads rows (collect_additional_ports E vs ports)" for vs ports
    by (induction vs arbitrary: ports) (auto intro!: nb_reads port_reads [OF S])
  show "reads rows (lb_create_ports E i)" "reads rows (lb_create_cleanup E p ps)"
    unfolding lb_create_ports_def lb_create_cleanup_def
    by (auto intro!: nb_reads c port_reads [OF S])
qed

lemma association_reads [nb_reads]:
  assumes S: "nb_store E rows"
  shows "reads rows (ls_association_commands E u n sw a b c d)"
    and "reads rows (get_lb_to_ls_association_commands E u ni si a b c d)"
    and "reads rows (get_lb_to_lr_association_commands E u lr del sync)"
    and "reads rows (find_lr_of_ls E ls g)"
proof -
  show l: "reads rows (ls_association_commands E u n sw a b c d)" for n sw a b c d
    unfolding ls_association_commands_def Let_def by (auto intro!: nb_reads store_reads [OF S])
  show "reads rows (get_lb_to_ls_association_commands E u ni si a b c d)"
    unfolding get_lb_to_ls_association_commands_def Let_def
    by (auto intro!: nb_reads l port_reads [OF S] store_reads [OF S])
  show "reads rows (get_lb_to_lr_association_commands E u lr del sync)"
    unfolding get_lb_to_lr_association_commands_def add_lb_to_lr_association_def skip_synced_ls_def Let_def
    by (auto intro!: nb_reads store_reads [OF S])
  show "reads rows (find_lr_of_ls E ls g)"
    unfolding find_lr_of_ls_def Let_def by (auto intro!: nb_reads store_reads [OF S])
qed

section \<open>What a piece of code returns\<close>

definition gives :: "('w, 'a) io \<Rightarrow> ('a \<Rightarrow> bool) \<Rightarrow> bool" where
  "gives m Q \<longleftrightarrow> (\<forall>w x w'. m w = (Inr x, w') \<longrightarrow> Q x)"

lemma gives_intros:
  "Q v \<Longrightarrow> gives (ret v) Q" "gives (throw e) Q" "(\<And>x. r = Inr x \<Longrightarrow> Q x) \<Longrightarrow> gives (lift r) Q"
  "(\<And>x. gives (f x) Q) \<Longrightarrow> gives (bnd n f) Q"
  "(b \<Longrightarrow> gives m Q) \<Longrightarrow> (\<not> b \<Longrightarrow> gives m' Q) \<Longrightarrow> gives (if b then m else m') Q"
  "(x = None \<Longrightarrow> gives m Q) \<Longrightarrow> (\<And>y. x = Some y \<Longrightarrow> gives (g y) Q) \<Longrightarrow>
     gives (case x of None \<Rightarrow> m | Some y \<Rightarrow> g y) Q"
  "(\<And>e. s = Inl e \<Longrightarrow> gives (h e) Q) \<Longrightarrow> (\<And>y. s = Inr y \<Longrightarrow> gives (k y) Q) \<Longrightarrow>
     gives (case s of Inl e \<Rightarrow> h e | Inr y \<Rightarrow> k y) Q"
  "(\<And>a b. p = (a, b) \<Longrightarrow> gives (l a b) Q) \<Longrightarrow> gives (case p of (a, b) \<Rightarrow> l a b) Q"
  by (auto simp: gives_def elim!: bnd_InrE split: option.split sum.split prod.split)

lemma gives_bnd2:
  assumes "gives n Q'" and "\<And>x. Q' x \<Longrightarrow> gives (f x) Q"
  shows "gives (bnd n f) Q"
  unfolding gives_def
proof (intro allI impI)
  fix w y w'' assume "bnd n f w = (Inr y, w'')"
  then obtain x w' where "n w = (Inr x, w')" "f x w' = (Inr y, w'')" by (rule bnd_InrE)
  with assms show "Q y" unfolding gives_def by blast
qed

lemma gives_fold_io:
  assumes "Q s" and "\<And>x s. Q s \<Longrightarrow> gives (f x s) Q"
  shows "gives (fold_io f xs s) Q"
  unfolding gives_def
proof (intro allI impI)
  fix w s' w' assume "fold_io f xs s w = (Inr s', w')"
  from this assms(1) show "Q s'"
    by (rule fold_io_invariant) (use assms(2) in \<open>unfold gives_def, blast\<close>)
qed

lemma keeps_bnd_gives:
  "keeps P m \<Longrightarrow> gives m Q \<Longrightarrow> (\<And>x. Q x \<Longrightarrow> keeps P (f x)) \<Longrightarrow> keeps P (bnd m f)"
  by (fastforce simp: keeps_def gives_def bnd_def split: prod.splits sum.splits)

lemma bnd_lift_case: "bnd (lift r) f = (case r of Inl e \<Rightarrow> throw e | Inr x \<Rightarrow> f x)"
  by (cases r) simp_all

lemma ls_commands_assoc: "gives (get_lb_to_ls_association_commands E u ni si a b c d) (list_all assoc_cmd)"
proof -
  have l: "gives (ls_association_commands E u n sw a b c d) (list_all assoc_cmd)" for n sw a b c d
    unfolding ls_association_commands_def Let_def bnd_lift_case
  proof (intro gives_intros)
    fix lb :: lb_row and refs skip cmds
    assume "update_ls_refs u (lb_external_ids lb) refs n sw a c skip = Inl cmds"
    then show "list_all assoc_cmd cmds"
      using update_ls_refs_assoc [of u "lb_external_ids lb" refs n sw a c skip] by simp
  next
    fix lb :: lb_row and refs skip p cmds refs' wr
    assume "update_ls_refs u (lb_external_ids lb) refs n sw a c skip = Inr p" and "p = (cmds, refs')"
      and "write_ls_refs E u (lb_external_ids lb) refs' b d = Inr wr"
    then show "list_all assoc_cmd (cmds @ wr)"
      using update_ls_refs_assoc [of u "lb_external_ids lb" refs n sw a c skip]
      by (auto dest: write_ls_refs_assoc)
  qed
  show ?thesis
    unfolding get_lb_to_ls_association_commands_def Let_def by (auto intro!: gives_intros l)
qed

lemma lr_commands_assoc: "gives (get_lb_to_lr_association_commands E u lr del sync) (list_all assoc_cmd)"
proof -
  have "gives (add_lb_to_lr_association E lb r rf sync) (list_all assoc_cmd)" for lb r rf
    unfolding add_lb_to_lr_association_def Let_def
    by (rule gives_intros gives_bnd2 [where Q' = "list_all assoc_cmd", OF gives_fold_io])+
      (simp_all add: add_lr_ref_assoc gives_intros)
  then show ?thesis
    unfolding get_lb_to_lr_association_commands_def Let_def
    by (auto intro!: gives_intros dest: del_lb_to_lr_assoc)
qed

section \<open>A property of every row\<close>

definition all_rows :: "(lb_row \<Rightarrow> bool) \<Rightarrow> ('w \<Rightarrow> lb_rows) \<Rightarrow> 'w \<Rightarrow> bool" where
  "all_rows J rows w \<longleftrightarrow> (\<forall>u r. rows w u = Some r \<longrightarrow> J r)"

text \<open>A property that survives the association with switches and routers.\<close>

definition assoc_stable :: "(lb_row \<Rightarrow> bool) \<Rightarrow> bool" where
  "assoc_stable J \<longleftrightarrow>
     (\<forall>r. J r \<longrightarrow> distinct (dict_keys (lb_external_ids r))) \<and>
     (\<forall>cmds r r'. list_all assoc_cmd cmds \<longrightarrow> J r \<longrightarrow> applied cmds r r' \<longrightarrow> J r')"

lemma keeps_reads: "reads rows m \<Longrightarrow> keeps (all_rows J rows) m"
  unfolding keeps_def all_rows_def by (metis reads_row surjective_pairing)

lemma commits_keeps:
  assumes "commits rows cmds m" and "\<And>r. J r \<Longrightarrow> distinct (dict_keys (lb_external_ids r))"
    and "\<And>r r'. J r \<Longrightarrow> applied cmds r r' \<Longrightarrow> J r'"
  shows "keeps (all_rows J rows) m"
proof (rule keepsI)
  fix w assume w: "all_rows J rows w"
  obtain x w' where m: "m w = (x, w')" by fastforce
  have c: "case x of Inr _ \<Rightarrow> rows_after cmds (rows w) (rows w') | Inl _ \<Rightarrow> rows w' = rows w"
    using spec [OF assms(1) [unfolded commits_def], of w] by (simp add: m)
  show "all_rows J rows (snd (m w))"
  proof (cases x)
    case (Inr y)
    with c w m assms(2,3) show ?thesis
      by (fastforce simp: all_rows_def rows_after_def)
  qed (use c w m in \<open>simp add: all_rows_def\<close>)
qed

lemma assoc_commits:
  assumes "assoc_stable J" and "commits rows cmds m" and "list_all assoc_cmd cmds"
  shows "keeps (all_rows J rows) m"
  by (rule commits_keeps [OF assms(2)]) (use assms(1,3) in \<open>auto simp: assoc_stable_def\<close>)

text \<open>Commands that touch none of the columns a row is judged by: health checks, mappings, other tables.\<close>

definition neutral :: "cmd \<Rightarrow> bool" where
  "neutral c \<longleftrightarrow>
     (\<forall>u name d. name \<in> {EXT_IDS, ''vips'', ''options''} \<longrightarrow> map_col u name c d = d) \<and>
     (\<forall>u ps. protocol_col u c ps = ps)"

lemma neutral_cmds [simp]:
  "neutral (db_create_hc v o1 e)" "neutral (db_add_created_hc u)" "neutral (set_ip_port_mapping u k m)"
  "neutral (del_ip_port_mapping u k)" "neutral (db_destroy t u)"
  "neutral (db_remove t u ''health_check'' k)" "neutral (db_clear t u ''ip_port_mappings'')"
  "neutral (db_set Load_Balancer_Health_Check u col w)" "neutral (db_clear ''NAT'' u col)"
  "neutral (db_clear t u ''health_check'')" "neutral (lb_del u)"
  "neutral (ls_lb_del ls u i)" "neutral (lr_lb_del lr u i)"
  by (simp_all add: neutral_def) (cases w; simp)

lemma neutral_cols:
  assumes "list_all neutral cmds"
  shows "name \<in> {EXT_IDS, ''vips'', ''options''} \<Longrightarrow> cols_after u name cmds d = d"
    and "fold (protocol_col u) cmds ps = ps"
  using assms by (induction cmds arbitrary: d ps) (auto simp: neutral_def)

lemma applied_neutral:
  "list_all neutral n \<Longrightarrow> applied (cs @ n @ cs') r r' \<longleftrightarrow> applied (cs @ cs') r r'"
  by (simp add: applied_def neutral_cols)

definition neutral_stable :: "(lb_row \<Rightarrow> bool) \<Rightarrow> bool" where
  "neutral_stable J \<longleftrightarrow>
     (\<forall>r. J r \<longrightarrow> distinct (dict_keys (lb_external_ids r))) \<and> (\<forall>r r'. J r \<longrightarrow> applied [] r r' \<longrightarrow> J r')"

lemma assoc_neutral_stable: "assoc_stable J \<Longrightarrow> neutral_stable J"
  unfolding assoc_stable_def neutral_stable_def by (metis list.pred_inject(1))

lemma neutral_keeps:
  assumes J: "neutral_stable J" and c: "commits rows cmds m" and n: "list_all neutral cmds"
  shows "keeps (all_rows J rows) m"
proof (rule commits_keeps [OF c])
  fix r r' assume "J r" "applied cmds r r'"
  with applied_neutral [OF n, of "[]" "[]"] J show "J r'" by (simp add: neutral_stable_def)
qed (use J in \<open>simp add: neutral_stable_def\<close>)

lemma unchecked_neutral_keeps:
  assumes J: "neutral_stable J" and c: "may_commit rows cmds m" and n: "list_all neutral cmds"
  shows "keeps (all_rows J rows) m"
proof -
  have "commits rows cmds (\<lambda>w. (if rows (snd (m w)) = rows w then Inl RowNotFound else Inr (), snd (m w)))"
    using c by (auto simp: commits_def may_commit_def)
  from neutral_keeps [OF J this n] show ?thesis by (simp add: keeps_def)
qed

section \<open>Creating and associating rows\<close>

lemma association_keeps:
  assumes S: "nb_store E rows" and J: "assoc_stable J"
  shows "keeps (all_rows J rows) (update_lb_to_ls_association E u ni si a b c d)"
    and "keeps (all_rows J rows) (update_lb_to_lr_association E u lr del sync)"
    and "keeps (all_rows J rows) (update_lb_to_lr_association_by_step E u lr del sync)"
    and "keeps (all_rows J rows) (associate_lr_or_by_step E u lr del)"
proof -
  have x: "keeps (all_rows J rows) (execute_commands E cmds)" if "list_all assoc_cmd cmds" for cmds
    unfolding execute_commands_def
    by (intro keeps_if keeps_ret assoc_commits [OF J nb_storeD(3) [OF S] that])
  have r: "keeps P (retry_unit E p s m)" if "keeps P m" for P p s m
    using nb_storeD(7) [OF S] that by (simp add: retry_repeats_def)
  show "keeps (all_rows J rows) (update_lb_to_ls_association E u ni si a b c d)"
    unfolding update_lb_to_ls_association_def
    by (rule r keeps_bnd_gives keeps_reads association_reads [OF S] ls_commands_assoc x | assumption)+
  show l: "keeps (all_rows J rows) (update_lb_to_lr_association E u lr del sync)" for sync
    unfolding update_lb_to_lr_association_def
    by (rule r keeps_bnd_gives keeps_reads association_reads [OF S] lr_commands_assoc x | assumption)+
  have "keeps (all_rows J rows) (for_each (\<lambda>c. catch (nb_exec E c) (\<lambda>e. if f e c then ret () else throw e)) cmds)"
    if "list_all assoc_cmd cmds" for cmds f
    by (intro io_inv assoc_commits [OF J nb_storeD(4) [OF S]]) (use that in \<open>auto simp: list_all_iff\<close>)
  then show b: "keeps (all_rows J rows) (update_lb_to_lr_association_by_step E u lr del sync)" for sync
    unfolding update_lb_to_lr_association_by_step_def
    by (rule keeps_bnd_gives [OF keeps_reads [OF association_reads(3) [OF S]] lr_commands_assoc])
  show "keeps (all_rows J rows) (associate_lr_or_by_step E u lr del)"
    unfolding associate_lr_or_by_step_def by (intro io_inv l b)
qed

text \<open>A row as \<open>lb_create\<close> makes it.\<close>

definition lb_create_keys :: "string list" where
  "lb_create_keys =
     [LB_EXT_IDS_VIP_KEY, LB_EXT_IDS_VIP_PORT_ID_KEY, ''enabled'', LB_EXT_IDS_ADDIT_VIP_KEY,
      LB_EXT_IDS_ADDIT_VIP_PORT_ID_KEY, LB_EXT_IDS_VIP_FIP_KEY, LB_EXT_IDS_ADDIT_VIP_FIP_KEY,
      LB_EXT_IDS_LR_REF_KEY]"

definition blank_row :: "lb_row \<Rightarrow> bool" where
  "blank_row r \<longleftrightarrow>
     lb_vips r = [] \<and> distinct (dict_keys (lb_external_ids r)) \<and>
     set (dict_keys (lb_external_ids r)) \<subseteq> set lb_create_keys"

lemma keys_within:
  "set (dict_keys d) \<subseteq> A \<Longrightarrow> k \<in> A \<Longrightarrow> set (dict_keys (dict_set d k v)) \<subseteq> A"
  "set (dict_keys d') \<subseteq> A \<Longrightarrow> k \<in> A \<Longrightarrow> set (dict_keys (opt_set d' k x)) \<subseteq> A"
  "set (dict_keys d) \<subseteq> A \<Longrightarrow> set (dict_keys e) \<subseteq> A \<Longrightarrow> set (dict_keys (if b then d else e)) \<subseteq> A"
  by (auto simp: opt_set_def dom_map_of_conv_image_fst [symmetric] update_conv')

lemma rbind_Inr_all: "rbind r (\<lambda>x. Inr (f x)) = Inr y \<Longrightarrow> (\<And>x. Q (f x)) \<Longrightarrow> Q y"
  by (cases r) auto

lemma lb_create_blank:
  assumes "lb_create_kwargs E i p port = Inr k" and "created_with k r"
  shows "blank_row r"
proof -
  from assms(1) have "lb_create_external_ids i port = Inr (kw_external_ids k)"
    by (auto simp: lb_create_kwargs_def)
  then have "set (dict_keys (kw_external_ids k)) \<subseteq> set lb_create_keys"
    unfolding lb_create_external_ids_def Let_def
    by (rule rbind_Inr_all) (intro keys_within, simp_all add: lb_create_keys_def)
  with assms(2) show ?thesis unfolding created_with_def blank_row_def by blast
qed

lemma blank_created: "blank_row r \<Longrightarrow> created_row r"
proof -
  have "list_all (\<lambda>k. \<not> contains LB_EXT_IDS_LISTENER_PREFIX k) lb_create_keys"
    by (simp add: lb_create_keys_def contains_simps)
  then show "blank_row r \<Longrightarrow> created_row r"
    unfolding blank_row_def created_row_def list_all_iff by blast
qed

lemma creates_keeps:
  assumes "creates rows k m" and "\<And>r. created_with k r \<Longrightarrow> J r"
  shows "keeps (all_rows J rows) m"
proof (rule keepsI)
  fix w assume w: "all_rows J rows w"
  obtain x w' where m: "m w = (x, w')" by fastforce
  have "case x of Inr _ \<Rightarrow> (\<forall>u r. rows w' u = Some r \<longrightarrow> rows w u = Some r \<or> created_with k r)
      | Inl _ \<Rightarrow> rows w' = rows w"
    using spec [OF assms(1) [unfolded creates_def], of w] by (simp add: m)
  with w m show "all_rows J rows (snd (m w))"
    by (cases x) (fastforce simp: all_rows_def intro: assms(2))+
qed

lemma lb_create_keeps:
  assumes S: "nb_store E rows" and J: "assoc_stable J" and new: "\<And>r. blank_row r \<Longrightarrow> J r"
  shows "keeps (all_rows J rows) (lb_create E i p)"
proof -
  note leaf = find_reads [OF S] lb_create_reads [OF S] association_reads [OF S] store_reads [OF S]
  have "keeps (all_rows J rows) (apply_ls_refs E u n rf sync)" for u n rf sync
    unfolding apply_ls_refs_def by (intro io_inv association_keeps [OF S J])
  then have a: "keeps (all_rows J rows) (lb_create_associate E i u port sn)" for u port sn
    unfolding lb_create_associate_def
    by (auto intro!: io_inv association_keeps [OF S J] leaf [THEN keeps_reads])
  have c: "keeps (all_rows J rows) (nb_create_lb E k)" if "lb_create_kwargs E i q port = Inr k" for q port k
    by (rule creates_keeps [OF nb_storeD(5) [OF S]]) (rule new [OF lb_create_blank [OF that]])
  show ?thesis
    unfolding lb_create_def Let_def bnd_lift_case
    by (auto intro!: io_inv a leaf [THEN keeps_reads] intro: c)
qed

lemma get_or_create_keeps:
  assumes S: "nb_store E rows" and J: "assoc_stable J" and new: "\<And>r. blank_row r \<Longrightarrow> J r"
  shows "keeps (all_rows J rows) (get_or_create_ovn_lb E i p up alg)"
proof -
  note leaf = find_reads [OF S] store_reads [OF S]
  have "keeps (all_rows J rows) (nb_exec E (db_set Load_Balancer u ''protocol'' (StrVal q)))" for u q
    by (rule assoc_commits [OF J nb_storeD(4) [OF S]]) simp
  then show ?thesis
    unfolding get_or_create_ovn_lb_def get_additional_vips_from_loadbalancer_id_def Let_def
    by (auto intro!: io_inv lb_create_keeps [OF S J new] leaf [THEN keeps_reads] reads_loops(3) [THEN keeps_reads]
        store_reads(1) [OF S])
qed

section \<open>One transaction on one row\<close>

text \<open>The commands change no other load balancer row than \<open>u\<close>.\<close>

definition targets :: "string \<Rightarrow> cmd list \<Rightarrow> bool" where
  "targets u cmds \<longleftrightarrow> list_all (\<lambda>c. \<forall>v. on_row v c \<longrightarrow> v = u) cmds"

lemma targets_simps [simp]:
  "targets u []" "targets u (c # cmds) \<longleftrightarrow> (\<forall>v. on_row v c \<longrightarrow> v = u) \<and> targets u cmds"
  "targets u (cs @ cmds) \<longleftrightarrow> targets u cs \<and> targets u cmds"
  by (simp_all add: targets_def)

lemma off_row:
  "\<not> on_row v c \<Longrightarrow> map_col v name c d = d" "\<not> on_row v c \<Longrightarrow> protocol_col v c ps = ps"
  by (cases "(v, name, c, d)" rule: map_col.cases; auto)
    (cases "(v, c, ps)" rule: protocol_col.cases; auto)

lemma other_row:
  assumes "targets u cmds" and "lb_uuid r \<noteq> u" and "applied cmds r r'"
  shows "applied [] r r'"
proof -
  let ?v = "lb_uuid r"
  have "cols_after ?v name cmds d = d \<and> fold (protocol_col ?v) cmds ps = ps" for name d ps
    using assms(1)
  proof (induction cmds)
    case (Cons c cmds)
    with assms(2) have "\<not> on_row ?v c" by auto
    with Cons show ?case by (simp add: off_row)
  qed simp
  with assms(3) show ?thesis by (simp add: applied_def)
qed

text \<open>
  \<open>row_code J K rows u r m\<close>: once \<open>m\<close> has read the row \<open>u\<close> as \<open>r\<close> and all rows satisfy \<open>J\<close>, it leaves all
  rows satisfying \<open>K\<close>, whether it returns or raises.
\<close>

definition row_code ::
  "(lb_row \<Rightarrow> bool) \<Rightarrow> (lb_row \<Rightarrow> bool) \<Rightarrow> ('w \<Rightarrow> lb_rows) \<Rightarrow> string \<Rightarrow> lb_row \<Rightarrow> ('w, 'a) io \<Rightarrow> bool" where
  "row_code J K rows u r m \<longleftrightarrow>
     (\<forall>w. all_rows J rows w \<longrightarrow> rows w u = Some r \<longrightarrow> all_rows K rows (snd (m w)))"

definition weakens :: "(lb_row \<Rightarrow> bool) \<Rightarrow> (lb_row \<Rightarrow> bool) \<Rightarrow> bool" where
  "weakens J K \<longleftrightarrow> assoc_stable J \<and> assoc_stable K \<and> (\<forall>r. J r \<longrightarrow> K r)"

lemma weakensD:
  assumes "weakens J K"
  shows "assoc_stable K" "J r \<Longrightarrow> K r" "all_rows J rows w \<Longrightarrow> all_rows K rows w"
    "J r \<Longrightarrow> distinct (dict_keys (lb_external_ids r))" "J r \<Longrightarrow> applied [] r r' \<Longrightarrow> K r'"
  using assms by (auto simp: weakens_def all_rows_def assoc_stable_def) (metis list.pred_inject(1))

lemma row_code_reads: "weakens J K \<Longrightarrow> reads rows m \<Longrightarrow> row_code J K rows u r m"
  unfolding row_code_def by (metis keepsD keeps_reads surjective_pairing weakensD(3))

lemma row_code_ret: "weakens J K \<Longrightarrow> row_code J K rows u r (ret x)" "weakens J K \<Longrightarrow> row_code J K rows u r (throw e)"
  by (simp_all add: row_code_reads nb_reads)

lemma row_code_lift:
  "weakens J K \<Longrightarrow> (\<And>x. c = Inr x \<Longrightarrow> row_code J K rows u r (f x)) \<Longrightarrow> row_code J K rows u r (bnd (lift c) f)"
  by (cases c) (simp_all add: row_code_ret)

lemma row_code_bnd:
  assumes "row_code J K rows u r m" and "\<And>x. keeps (all_rows K rows) (f x)"
  shows "row_code J K rows u r (bnd m f)"
  unfolding row_code_def
proof (intro allI impI)
  fix w assume "all_rows J rows w" "rows w u = Some r"
  with assms(1) have m: "all_rows K rows (snd (m w))" by (simp add: row_code_def)
  obtain x w' where x: "m w = (x, w')" by fastforce
  with m have "all_rows K rows w'" by simp
  with assms(2) x show "all_rows K rows (snd (bnd m f w))"
    by (cases x) (simp_all add: bnd_def keeps_def)
qed

lemma row_code_bnd_read:
  assumes W: "weakens J K" and m: "reads rows m" "gives m Q"
    and f: "\<And>x. Q x \<Longrightarrow> row_code J K rows u r (f x)"
  shows "row_code J K rows u r (bnd m f)"
  unfolding row_code_def
proof (intro allI impI)
  fix w assume w: "all_rows J rows w" "rows w u = Some r"
  obtain x w' where x: "m w = (x, w')" by fastforce
  have same: "rows w' = rows w" by (rule reads_row [OF m(1) x])
  show "all_rows K rows (snd (bnd m f w))"
  proof (cases x)
    case (Inl e)
    with x same weakensD(3) [OF W w(1)] show ?thesis by (simp add: bnd_def all_rows_def)
  next
    case (Inr y)
    with m(2) x have "Q y" by (auto simp: gives_def)
    from w same have "all_rows J rows w'" "rows w' u = Some r" by (simp_all add: all_rows_def)
    with f [OF \<open>Q y\<close>] x Inr show ?thesis by (simp add: row_code_def bnd_def)
  qed
qed

lemma row_code_catch:
  assumes "row_code J K rows u r m" and "\<And>e. keeps (all_rows K rows) (h e)"
  shows "row_code J K rows u r (catch m h)"
  unfolding row_code_def
proof (intro allI impI)
  fix w assume w: "all_rows J rows w" "rows w u = Some r"
  obtain x w' where x: "m w = (x, w')" by fastforce
  with assms(1) w have "all_rows K rows w'" by (auto simp: row_code_def)
  with assms(2) x show "all_rows K rows (snd (catch m h w))"
    by (cases x) (simp_all add: catch_def keeps_def)
qed

lemma row_code_attempt: "row_code J K rows u r m \<Longrightarrow> row_code J K rows u r (attempt m)"
  by (simp add: row_code_def attempt_def split: prod.splits) (metis snd_conv)

lemma row_code_cases:
  "(b \<Longrightarrow> row_code J K rows u r m) \<Longrightarrow> (\<not> b \<Longrightarrow> row_code J K rows u r m') \<Longrightarrow>
     row_code J K rows u r (if b then m else m')"
  "(x = None \<Longrightarrow> row_code J K rows u r m) \<Longrightarrow> (\<And>y. x = Some y \<Longrightarrow> row_code J K rows u r (f y)) \<Longrightarrow>
     row_code J K rows u r (case x of None \<Rightarrow> m | Some y \<Rightarrow> f y)"
  "(\<And>e. c = Inl e \<Longrightarrow> row_code J K rows u r (h e)) \<Longrightarrow> (\<And>z. c = Inr z \<Longrightarrow> row_code J K rows u r (g z)) \<Longrightarrow>
     row_code J K rows u r (case c of Inl e \<Rightarrow> h e | Inr z \<Rightarrow> g z)"
  "(\<And>a b. p = (a, b) \<Longrightarrow> row_code J K rows u r (k a b)) \<Longrightarrow>
     row_code J K rows u r (case p of (a, b) \<Rightarrow> k a b)"
  by (auto split: option.split sum.split prod.split)

text \<open>The two places where the rows come in: reading one, and a transaction on the row that was read.\<close>

lemma read_row:
  assumes S: "nb_store E rows"
    and "\<And>r. lb_uuid r = u \<Longrightarrow> J r \<Longrightarrow> row_code J K rows u r (f r)"
    and W: "weakens J K" and w: "all_rows J rows w"
  shows "all_rows K rows (snd (bnd (nb_lb E u) f w))"
proof -
  obtain x w' where x: "nb_lb E u w = (x, w')" by fastforce
  have same: "rows w' = rows w" by (rule reads_row [OF store_reads(1) [OF S] x])
  show ?thesis
  proof (cases x)
    case (Inl e)
    with x same weakensD(3) [OF W w] show ?thesis by (simp add: bnd_def all_rows_def)
  next
    case (Inr r)
    with x nb_storeD(1) [OF S] have r: "rows w u = Some r" by blast
    with w have "J r" by (simp add: all_rows_def)
    with assms(2) [of r] nb_storeD(2) [OF S r] have f: "row_code J K rows u r (f r)" by blast
    from w same r have "all_rows J rows w'" "rows w' u = Some r" by (simp_all add: all_rows_def)
    with f x Inr show ?thesis by (simp add: row_code_def bnd_def)
  qed
qed

lemma keeps_read_row:
  "nb_store E rows \<Longrightarrow> assoc_stable K \<Longrightarrow> (\<And>r. lb_uuid r = u \<Longrightarrow> K r \<Longrightarrow> row_code K K rows u r (f r)) \<Longrightarrow>
   keeps (all_rows K rows) (bnd (nb_lb E u) f)"
  unfolding keeps_def by (blast intro: read_row [where J = K] weakens_def [THEN iffD2])

lemma row_commits:
  assumes S: "nb_store E rows" and W: "weakens J K" and t: "targets u cmds" and m: "commits rows cmds m"
    and step: "\<And>r'. \<not> deletes_row u cmds \<Longrightarrow> applied cmds r r' \<Longrightarrow> K r'"
  shows "row_code J K rows u r m"
  unfolding row_code_def
proof (intro allI impI)
  fix w assume w: "all_rows J rows w" "rows w u = Some r"
  obtain x w' where x: "m w = (x, w')" by fastforce
  have c: "case x of Inr _ \<Rightarrow> rows_after cmds (rows w) (rows w') | Inl _ \<Rightarrow> rows w' = rows w"
    using spec [OF m [unfolded commits_def], of w] by (simp add: x)
  have "K r2" if after: "rows_after cmds (rows w) (rows w')" and r2: "rows w' v = Some r2" for v r2
  proof -
    from after r2 obtain r1 where r1: "rows w v = Some r1" "\<not> deletes_row v cmds"
      "distinct (dict_keys (lb_external_ids r1)) \<Longrightarrow> applied cmds r1 r2"
      by (auto simp: rows_after_def)
    from w(1) r1(1) have j: "J r1" by (auto simp: all_rows_def)
    with r1(3) weakensD(4) [OF W] have a: "applied cmds r1 r2" by blast
    show "K r2"
    proof (cases "v = u")
      case True
      with r1 w(2) a step show ?thesis by simp
    next
      case False
      with nb_storeD(2) [OF S r1(1)] other_row [OF t _ a] weakensD(5) [OF W j] show ?thesis by blast
    qed
  qed
  with c x weakensD(3) [OF W w(1)] show "all_rows K rows (snd (m w))"
    by (cases x) (auto simp: all_rows_def)
qed

lemma row_transaction:
  assumes S: "nb_store E rows" and W: "weakens J K" and t: "targets u cmds"
    and step: "\<And>r'. \<not> deletes_row u cmds \<Longrightarrow> applied cmds r r' \<Longrightarrow> K r'"
  shows "row_code J K rows u r (execute_commands E cmds)"
  unfolding execute_commands_def
  using row_commits [OF S W t nb_storeD(3) [OF S] step] by (simp add: row_code_ret [OF W])

lemma row_unchecked:
  assumes S: "nb_store E rows" and W: "weakens J K" and t: "targets u cmds" and m: "may_commit rows cmds m"
    and step: "\<And>r'. \<not> deletes_row u cmds \<Longrightarrow> applied cmds r r' \<Longrightarrow> K r'"
  shows "row_code J K rows u r m"
proof -
  have "commits rows cmds (\<lambda>w. (if rows (snd (m w)) = rows w then Inl RowNotFound else Inr (), snd (m w)))"
    using m by (auto simp: commits_def may_commit_def)
  from row_commits [OF S W t this step] show ?thesis by (simp add: row_code_def)
qed

section \<open>A row that was read before neutral commands\<close>

text \<open>
  A handler may go on with a row it read before its health check commands: the columns a row is judged
  by are still the ones it read.
\<close>

definition near :: "(lb_row \<Rightarrow> bool) \<Rightarrow> string \<Rightarrow> lb_row \<Rightarrow> lb_row \<Rightarrow> bool" where
  "near J u r r1 \<longleftrightarrow> J r1 \<and> (lb_uuid r1 = u \<longrightarrow> applied [] r r1)"

lemma dict_merge_cong:
  fixes d d' :: "string pydict"
  assumes "map_of d = map_of d'"
  shows "map_of (dict_merge d m) = map_of (dict_merge d' m)"
  using assms
proof (induction m arbitrary: d d')
  case (Cons kv m)
  have "map_of (dict_set d (fst kv) (snd kv)) = map_of (dict_set d' (fst kv) (snd kv))"
    by (simp only: update_conv' Cons.prems)
  from Cons.IH [OF this] show ?case by (simp add: dict_merge_def case_prod_beta)
qed (simp add: dict_merge_def)

lemma map_col_cong:
  assumes "map_of d = map_of d'"
  shows "map_of (map_col u name c d) = map_of (map_col u name c d')"
proof (cases "\<exists>t u' col m. c = db_set t u' col (StrMap m)")
  case True
  then show ?thesis using assms dict_merge_cong [OF assms] by auto
next
  case False
  have del: "map_of (AList.delete k d) = map_of (AList.delete k d')" for k
    by (simp only: delete_conv' assms)
  from False show ?thesis
    by (cases "(u, name, c, d)" rule: map_col.cases) (simp_all add: assms del)
qed

lemma cols_after_cong: "map_of d = map_of d' \<Longrightarrow> map_of (cols_after u name cmds d) = map_of (cols_after u name cmds d')"
proof (induction cmds arbitrary: d d')
  case (Cons c cmds)
  from Cons.IH [OF map_col_cong [OF Cons.prems]] show ?case by simp
qed simp

lemma applied_trans: "applied [] r r1 \<Longrightarrow> applied cmds r1 r2 \<Longrightarrow> applied cmds r r2"
  using cols_after_cong [of "lb_external_ids r1" "lb_external_ids r" "lb_uuid r" EXT_IDS cmds]
    cols_after_cong [of "lb_vips r1" "lb_vips r" "lb_uuid r" "''vips''" cmds]
    cols_after_cong [of "lb_options r1" "lb_options r" "lb_uuid r" "''options''" cmds]
  by (simp add: applied_def dict_eq_iff)

lemma near_stable: "neutral_stable J \<Longrightarrow> neutral_stable (near J u r)"
  unfolding neutral_stable_def near_def by (auto intro: applied_trans simp: appliedD(4))

lemma near_transaction:
  assumes S: "nb_store E rows" and W: "weakens J K" and t: "targets u cmds" and w: "all_rows (near J u r) rows w"
    and step: "\<And>r'. \<not> deletes_row u cmds \<Longrightarrow> applied cmds r r' \<Longrightarrow> K r'"
  shows "all_rows K rows (snd (execute_commands E cmds w))"
proof -
  obtain x w' where x: "nb_txn E cmds w = (x, w')" by fastforce
  have c: "case x of Inr _ \<Rightarrow> rows_after cmds (rows w) (rows w') | Inl _ \<Rightarrow> rows w' = rows w"
    using spec [OF nb_storeD(3) [OF S, of cmds, unfolded commits_def], of w] by (simp add: x)
  have j: "near J u r r1" if "rows w v = Some r1" for v r1
    using w that by (auto simp: all_rows_def)
  have "K r2" if after: "rows_after cmds (rows w) (rows w')" and r2: "rows w' v = Some r2" for v r2
  proof -
    from after r2 obtain r1 where r1: "rows w v = Some r1" "\<not> deletes_row v cmds"
      "distinct (dict_keys (lb_external_ids r1)) \<Longrightarrow> applied cmds r1 r2"
      by (auto simp: rows_after_def)
    note n = j [OF r1(1), unfolded near_def]
    with r1(3) weakensD(4) [OF W] have a: "applied cmds r1 r2" by blast
    show "K r2"
    proof (cases "v = u")
      case True
      with n nb_storeD(2) [OF S r1(1)] applied_trans [OF _ a] step r1(2) show ?thesis by blast
    next
      case False
      with nb_storeD(2) [OF S r1(1)] other_row [OF t _ a] weakensD(5) [OF W] n show ?thesis by blast
    qed
  qed
  moreover have "all_rows K rows w" using j weakensD(2) [OF W] by (auto simp: all_rows_def near_def)
  ultimately show ?thesis
    using c x by (cases x) (auto simp: execute_commands_def all_rows_def)
qed

lemma row_code_near:
  assumes S: "nb_store E rows" and W: "weakens J K" and m: "keeps (all_rows (near J u r) rows) m" "gives m Q"
    and f: "\<And>x w. Q x \<Longrightarrow> all_rows (near J u r) rows w \<Longrightarrow> all_rows K rows (snd (f x w))"
  shows "row_code J K rows u r (bnd m f)"
  unfolding row_code_def
proof (intro allI impI)
  fix w assume w: "all_rows J rows w" "rows w u = Some r"
  then have "J r" by (auto simp: all_rows_def)
  with weakensD(4) [OF W] have "applied [] r r" by (simp add: applied_def dict_eq_iff)
  with w nb_storeD(2) [OF S] have n: "all_rows (near J u r) rows w"
    by (auto simp: all_rows_def near_def)
  obtain x w' where x: "m w = (x, w')" by fastforce
  with m n have n': "all_rows (near J u r) rows w'" by (metis keepsD)
  then have "all_rows K rows w'" using weakensD(2) [OF W] by (auto simp: all_rows_def near_def)
  moreover have "x = Inr y \<Longrightarrow> Q y" for y using m(2) x by (auto simp: gives_def)
  ultimately show "all_rows K rows (snd (bnd m f w))" using f [OF _ n'] x by (cases x) (simp_all add: bnd_def)
qed

end
