(* ===== verification/HandlerKeeps.thy ===== *)
theory HandlerKeeps
  imports Handlers
begin

text \<open>
  The handlers of listeners and pools keep every row of the northbound store reachable, hence its \<open>vips\<close>
  consistent, whether they return or raise.
\<close>

section \<open>Reachable rows\<close>

lemma reachable_stable: "assoc_stable (reachable_row L)"
  unfolding assoc_stable_def
  using reachable_row_inv row_invD(1) by (blast intro: reachable_row.step associated)

lemma weakens_refl: "assoc_stable K \<Longrightarrow> weakens K K"
  by (simp add: weakens_def)

lemma targets_refresh: "refresh_lb_vips L r ext s = Inr cs \<Longrightarrow> targets (lb_uuid r) cs"
  by (auto simp: refresh_lb_vips_def split: if_splits)

text \<open>Commands on other tables leave the rows reachable.\<close>

lemma health_check_keeps:
  assumes "nb_store E rows"
  shows "keeps (all_rows (reachable_row E) rows)
           (execute_commands E [db_set Load_Balancer_Health_Check h col v])"
proof -
  have "applied [db_set Load_Balancer_Health_Check h col v] r r' \<Longrightarrow> applied [] r r'" for r r'
    by (cases v) (simp_all add: applied_def)
  moreover have "reachable_row E r \<Longrightarrow> applied [] r r' \<Longrightarrow> reachable_row E r'" for r r'
    using reachable_stable [of E] by (metis assoc_stable_def list.pred_inject(1))
  ultimately show ?thesis
    unfolding execute_commands_def
    by (auto intro!: commits_keeps [OF nb_storeD(3) [OF assms]] dest: reachable_row_inv row_invD(1))
qed

section \<open>Listeners\<close>

lemma update_lbhc_keeps:
  assumes "nb_store E rows"
  shows "keeps (all_rows (reachable_row E) rows) (update_lbhc_vip_port E hc p)"
  unfolding update_lbhc_vip_port_def by (intro io_inv health_check_keeps [OF assms])

lemma listener_health_checks_keep:
  assumes S: "nb_store E rows"
  shows "keeps (all_rows (reachable_row E) rows) (listener_create_health_checks E u l k)"
  unfolding listener_create_health_checks_def
  by (intro io_inv update_lbhc_keeps [OF S] keeps_reads store_reads [OF S])

lemma targets_listener_create:
  "listener_create_commands L r l k q = Inr cmds \<Longrightarrow> targets (lb_uuid r) cmds"
  by (auto simp: listener_create_commands_def Let_def dest: targets_refresh)

lemma targets_listener_update:
  "listener_update_commands L r l k = Inr cmds \<Longrightarrow> targets (lb_uuid r) cmds"
  by (auto simp: listener_update_commands_def dest: targets_refresh split: option.splits)

lemma reachable_blank: "blank_row r \<Longrightarrow> reachable_row L r"
  by (rule created [OF blank_created])

lemma listener_create_keeps:
  assumes S: "nb_store E rows"
  shows "keeps (all_rows (reachable_row E) rows) (listener_create E l)"
proof -
  let ?q = "if truthy (default_pool l) then get_pool_key (the (default_pool l)) True else []"
  note K = reachable_stable [of E]
  note W = weakens_refl [OF K]
  have t: "row_code (reachable_row E) (reachable_row E) rows u r
      (bnd (lift (listener_create_commands E r l (get_listener_key (ld_id l) up) ?q)) (execute_commands E))"
    if r: "lb_uuid r = u" "reachable_row E r" for u r up
  proof (rule row_code_lift [OF W])
    fix cmds assume c: "listener_create_commands E r l (get_listener_key (ld_id l) up) ?q = Inr cmds"
    show "row_code (reachable_row E) (reachable_row E) rows u r (execute_commands E cmds)"
      by (rule row_transaction [OF S W])
        (use targets_listener_create [OF c] r listener_created [OF c] in \<open>auto intro: reachable_row.step\<close>)
  qed
  show ?thesis
    unfolding listener_create_def Let_def
    by (assumption | rule keeps_read_row [OF S K] get_or_create_keeps [OF S K] reachable_blank t io_inv row_code_bnd
        row_code_attempt listener_health_checks_keep [OF S])+
qed

lemma listener_update_keeps:
  assumes S: "nb_store E rows"
  shows "keeps (all_rows (reachable_row E) rows) (listener_update E l)"
proof -
  note K = reachable_stable [of E]
  note W = weakens_refl [OF K]
  have "row_code (reachable_row E) (reachable_row E) rows u r
      (bnd (lift (listener_update_commands E r l k)) (\<lambda>cmds. bnd (execute_commands E cmds) (\<lambda>_. ret x)))"
    if r: "lb_uuid r = u" "reachable_row E r" and k: "present_listener_key l (lb_external_ids r) = Some k"
    for u r k and x :: status
  proof (intro row_code_lift [OF W] row_code_bnd io_inv)
    fix cmds assume c: "listener_update_commands E r l k = Inr cmds"
    show "row_code (reachable_row E) (reachable_row E) rows u r (execute_commands E cmds)"
      by (rule row_transaction [OF S W])
        (use targets_listener_update [OF c] r listener_updated [OF k c] in \<open>auto intro: reachable_row.step\<close>)
  qed
  then show ?thesis
    unfolding listener_update_def
    by (intro io_inv keeps_reads [OF find_reads(3) [OF S]] keeps_read_row [OF S K] row_code_cases
        row_code_catch row_code_ret [OF W])
qed

lemma clean_shape:
  "gives (clean_lb_if_empty E u i ext) (\<lambda>(cmds, deletes).
     if deletes then cmds = [lb_del u] else cmds \<in> {[], [db_set Load_Balancer u ''protocol'' (StrList [])]})"
  unfolding clean_lb_if_empty_def by (auto intro!: gives_intros split: if_splits)

lemma clean_reads:
  assumes "nb_store E rows"
  shows "reads rows (clean_lb_if_empty E u i ext)"
  unfolding clean_lb_if_empty_def by (auto intro!: nb_reads find_reads [OF assms])

lemma targets_clean:
  "(if deletes then cmds = [lb_del u] else cmds \<in> {[], [db_set Load_Balancer u ''protocol'' (StrList [])]}) \<Longrightarrow>
   targets u cmds"
  by (auto split: if_splits)

lemma targets_listener_delete:
  "listener_delete_commands L r k clean del = Inr cmds \<Longrightarrow> targets (lb_uuid r) clean \<Longrightarrow> targets (lb_uuid r) cmds"
  by (auto simp: listener_delete_commands_def Let_def dest: targets_refresh split: if_splits)

lemma listener_delete_keeps:
  assumes S: "nb_store E rows"
  shows "keeps (all_rows (reachable_row E) rows) (listener_delete E l)"
proof -
  note K = reachable_stable [of E]
  note W = weakens_refl [OF K]
  let ?k = "get_listener_key (ld_id l) True"
  have t: "row_code (reachable_row E) (reachable_row E) rows u r
      (bnd (clean_lb_if_empty E u i ext) (\<lambda>(cmds, deletes).
       bnd (lift (listener_delete_commands E r ?k cmds deletes)) (\<lambda>commands.
       bnd (execute_commands E commands) (\<lambda>_. ret x))))"
    if r: "lb_uuid r = u" "reachable_row E r" for u r i ext and x :: status
  proof (rule row_code_bnd_read [OF W clean_reads [OF S] clean_shape], clarify,
      intro row_code_lift [OF W] row_code_bnd io_inv)
    fix cmds deletes commands
    assume sh: "if deletes then cmds = [lb_del u] else cmds \<in> {[], [db_set Load_Balancer u ''protocol'' (StrList [])]}"
      and c: "listener_delete_commands E r ?k cmds deletes = Inr commands"
    show "row_code (reachable_row E) (reachable_row E) rows u r (execute_commands E commands)"
    proof (rule row_transaction [OF S W])
      show "targets u commands" using targets_listener_delete [OF c] targets_clean [OF sh] r by simp
      fix r' assume nd: "\<not> deletes_row u commands" and a: "applied commands r r'"
      have "\<not> deletes"
        using sh c nd by (auto simp: listener_delete_commands_def deletes_row_def Let_def)
      with sh c r a listener_deleted [of E r "ld_id l" cmds commands r'] show "reachable_row E r'"
        by (auto intro: reachable_row.step)
    qed
  qed
  show ?thesis
    unfolding listener_delete_def Let_def
    by (assumption | rule keeps_read_row [OF S K] row_code_cases row_code_catch t row_code_ret [OF W] io_inv
        keeps_reads [OF find_reads(3) [OF S]])+
qed

lemma listener_sync_keeps:
  assumes S: "nb_store E rows"
  shows "keeps (all_rows (reachable_row E) rows) (listener_sync E l u)"
proof -
  note K = reachable_stable [of E]
  note W = weakens_refl [OF K]
  have t: "row_code (reachable_row E) (reachable_row E) rows (lb_uuid r) r
      (execute_commands E ((update_listener_key_if_needed k info r @ update_protocol_if_needed l r) @ refresh))"
    if r: "reachable_row E r" and b: "build_listener_info l (lb_external_ids r) = (k, info, ext)"
      and f: "refresh_lb_vips E r ext True = Inr refresh" for r k info ext refresh
    by (rule row_transaction [OF S W])
      (use targets_refresh [OF f] r listener_synced [OF b f] in
        \<open>auto simp: update_listener_key_if_needed_def update_protocol_if_needed_def Let_def
          intro: reachable_row.step\<close>)
  show ?thesis
    unfolding listener_sync_def Let_def
    by (assumption | hypsubst | rule keeps_read_row [OF S K] row_code_cases row_code_catch t row_code_ret [OF W] io_inv)+
qed

section \<open>Pools\<close>

lemma targets_pool_update: "pool_update_commands L r p = Inr cmds \<Longrightarrow> targets (lb_uuid r) cmds"
  by (auto simp: pool_update_commands_def set_options_def dest: targets_refresh split: option.splits)

lemma pool_update_keeps:
  assumes S: "nb_store E rows"
  shows "keeps (all_rows (reachable_row E) rows) (pool_update E p)"
proof -
  note K = reachable_stable [of E]
  note W = weakens_refl [OF K]
  have t: "row_code (reachable_row E) (reachable_row E) rows u r (execute_commands E cmds)"
    if r: "lb_uuid r = u" "reachable_row E r" and c: "pool_update_commands E r p = Inr cmds" for u r cmds
    by (rule row_transaction [OF S W])
      (use targets_pool_update [OF c] r pool_updated [OF c] in \<open>auto intro: reachable_row.step\<close>)
  show ?thesis
    unfolding pool_update_def Let_def
    by (assumption | rule keeps_read_row [OF S K] row_code_lift [OF W] row_code_catch t row_code_bnd
        row_code_ret [OF W] io_inv keeps_reads [OF find_reads(3) [OF S]])+
qed

text \<open>
  What the requests assume of every row: a pool is created once, and a listener it is created for has
  none; no pool id is part of another one; the row does not store a member that is created or deleted as
  offline; a floating IP that is taken away is no
  additional one, or the only one, and no queued request asks for the synchronisation of a floating IP
  (\<open>vip_port_update_handler\<close> makes that at once). A health monitor, an event of one and the deletion of all
  members write the status of whatever members they find, so none may be offline.
\<close>

definition pool_id_ok :: "string option \<Rightarrow> bool" where
  "pool_id_ok pool_id \<longleftrightarrow>
     (case pool_id of None \<Rightarrow> True | Some i \<Rightarrow> (\<forall>up. \<not> contains LB_EXT_IDS_LISTENER_PREFIX (get_pool_key i up)))"

definition not_offline :: "'a lib_scheme \<Rightarrow> string \<Rightarrow> lb_row \<Rightarrow> bool" where
  "not_offline L i r \<longleftrightarrow> is_member_offline L r i \<noteq> Inr True"

definition no_member_offline :: "'a lib_scheme \<Rightarrow> lb_row \<Rightarrow> bool" where
  "no_member_offline L r \<longleftrightarrow> (\<forall>i. not_offline L i r)"

fun request_guard :: "'a lib_scheme \<Rightarrow> request \<Rightarrow> lb_row \<Rightarrow> bool" where
  "request_guard L (REQ_TYPE_POOL_CREATE p) r =
     (case pl_admin_state_up p of None \<Rightarrow> True | Some up \<Rightarrow> fresh_pool p up (lb_external_ids r))"
| "request_guard L (REQ_TYPE_POOL_DELETE p) r =
     (exact_pool_refs (get_pool_key (pl_id p) True) (lb_external_ids r) \<and>
      \<not> contains LB_EXT_IDS_LISTENER_PREFIX (get_pool_key (pl_id p) True))"
| "request_guard L (REQ_TYPE_MEMBER_CREATE m) r =
     not_offline L (md_id m) r"
| "request_guard L (REQ_TYPE_MEMBER_DELETE m) r = not_offline L (md_id m) r"
| "request_guard L (REQ_TYPE_HANDLE_VIP_FIP i) r =
     (vf_action i \<noteq> REQ_INFO_ACTION_SYNC \<and>
      (vf_action i = REQ_INFO_ACTION_DISASSOCIATE \<longrightarrow> only_addi_fip (lb_external_ids r) (vf_vip_fip i)))"
| "request_guard L (REQ_TYPE_LB_DELETE i cascade) r = (cascade \<longrightarrow> no_member_offline L r)"
| "request_guard L (REQ_TYPE_HM_CREATE i) r = no_member_offline L r"
| "request_guard L (REQ_TYPE_HM_DELETE i) r = no_member_offline L r"
| "request_guard L (REQ_TYPE_HM_UPDATE_EVENT i) r = no_member_offline L r"
| "request_guard L request r = True"

definition guarded :: "'a lib_scheme \<Rightarrow> request \<Rightarrow> lb_row \<Rightarrow> bool" where
  "guarded L request r \<longleftrightarrow> reachable_row L r \<and> request_guard L request r"

lemma not_offline_same:
  "dict_get (lb_external_ids r') OVN_MEMBER_STATUS_KEY = dict_get (lb_external_ids r) OVN_MEMBER_STATUS_KEY \<Longrightarrow>
   not_offline L i r' \<longleftrightarrow> not_offline L i r"
  using same_offlineI [of r' r L] by (simp add: not_offline_def same_offline_def)

lemma guard_same:
  assumes same: "\<And>k. k \<notin> bookkeeping_keys \<Longrightarrow>
      dict_get (lb_external_ids r') k = dict_get (lb_external_ids r) k"
    and "request_guard L request r"
  shows "request_guard L request r'"
proof -
  let ?ext = "lb_external_ids r" and ?ext' = "lb_external_ids r'"
  have pool: "dict_get ?ext' (get_pool_key i up) = dict_get ?ext (get_pool_key i up)" for i up
    by (rule same) (auto simp: get_pool_key_def Let_def)
  have listener: "dict_get ?ext' k = dict_get ?ext k" if "startswith k LB_EXT_IDS_LISTENER_PREFIX" for k
    by (rule same) (use that in \<open>auto simp: startswith_def\<close>)
  have "startswith (get_listener_key i up) LB_EXT_IDS_LISTENER_PREFIX" for i up
    by (simp add: get_listener_key_def Let_def startswith_def)
  moreover have "exact_pool_refs k ?ext' \<longleftrightarrow> exact_pool_refs k ?ext" for k
    unfolding exact_pool_refs_def by (metis listener)
  moreover have "not_offline L i r' \<longleftrightarrow> not_offline L i r" for i
    by (rule not_offline_same) (rule same, simp)
  moreover have "only_addi_fip ?ext' fip \<longleftrightarrow> only_addi_fip ?ext fip" for fip
    using same [of LB_EXT_IDS_ADDIT_VIP_FIP_KEY] by (simp add: only_addi_fip_def)
  ultimately show ?thesis
    using assms(2) pool listener
    by (cases request) (auto simp: fresh_pool_def dict_has_def no_member_offline_def split: option.splits)
qed

lemma guarded_stable: "assoc_stable (guarded L request)"
proof -
  have "request_guard L request r'"
    if "list_all assoc_cmd cmds" "request_guard L request r" "applied cmds r r'" for cmds r r'
    by (rule guard_same [OF _ that(2)]) (use assoc_keys [OF that(1)] appliedD(1) [OF that(3)] in simp)
  then show ?thesis
    using reachable_stable [of L] unfolding assoc_stable_def guarded_def by blast
qed

lemma guarded_weakens: "weakens (guarded L request) (reachable_row L)"
  by (simp add: weakens_def guarded_stable reachable_stable) (simp add: guarded_def)

lemma guarded_blank:
  assumes "blank_row r"
  shows "guarded L (REQ_TYPE_POOL_CREATE p) r"
proof -
  have no: "dict_get (lb_external_ids r) k = None" if "k \<notin> set lb_create_keys" for k
    using assms(1) that by (auto simp: blank_row_def map_of_eq_None_iff)
  have "dict_get (lb_external_ids r) (get_pool_key i up) = None"
    "dict_get (lb_external_ids r) (get_listener_key i up) = None" for i up
    by (rule no; simp add: lb_create_keys_def get_pool_key_def get_listener_key_def Let_def)+
  with assms reachable_blank show ?thesis
    by (auto simp: guarded_def fresh_pool_def dict_has_def split: option.splits)
qed

lemma seq_rows:
  assumes W: "weakens J K" and "keeps (all_rows J rows) m" and w: "all_rows J rows w"
    and f: "\<And>x v. all_rows J rows v \<Longrightarrow> all_rows K rows (snd (f x v))"
  shows "all_rows K rows (snd (bnd m f w))"
proof -
  obtain x w' where x: "m w = (x, w')" by fastforce
  from keepsD [OF assms(2) x w] have "all_rows J rows w'" .
  with f weakensD(3) [OF W] x show ?thesis by (cases x) (auto simp: bnd_def)
qed

lemma pool_create_rows:
  assumes S: "nb_store E rows" and w: "all_rows (guarded E (REQ_TYPE_POOL_CREATE p)) rows w"
  shows "all_rows (reachable_row E) rows (snd (pool_create E p w))"
proof (cases "pl_admin_state_up p")
  case None
  with w show ?thesis by (auto simp: pool_create_def all_rows_def guarded_def)
next
  case (Some up)
  let ?J = "guarded E (REQ_TYPE_POOL_CREATE p)"
  note W = guarded_weakens [of E "REQ_TYPE_POOL_CREATE p"]
  have t: "row_code ?J (reachable_row E) rows u r (execute_commands E (pool_create_commands r p up))"
    if "lb_uuid r = u" "?J r" for u r
    by (rule row_transaction [OF S W])
      (use that Some pool_created [of p up r] in
        \<open>auto simp: guarded_def pool_create_commands_def set_options_def Let_def intro: reachable_row.step\<close>)
  show ?thesis
    unfolding pool_create_def Let_def Some key_of_simps bnd_lift
  proof (rule seq_rows [OF W get_or_create_keeps [OF S guarded_stable guarded_blank] w])
    fix u v assume v: "all_rows ?J rows v"
    show "all_rows (reachable_row E) rows (snd (bnd (nb_lb E u) (\<lambda>ovn_lb.
        catch (bnd (execute_commands E (pool_create_commands ovn_lb p up)) (\<lambda>_. ret (pool_create_status p
               (entry3 (pl_id p) ACTIVE (if truthy (pl_listener_id p) then ONLINE else OFFLINE)))))
       (\<lambda>_. ret (pool_create_status p (entry2 (pl_id p) ERROR)))) v))"
      by (rule read_row [OF S _ W v], rule row_code_catch, rule row_code_bnd)
        (assumption | rule t io_inv)+
  qed simp_all
qed

lemma targets_pool_delete:
  "pool_delete_commands L r p = Inr (cmds, ext) \<Longrightarrow> targets (lb_uuid r) cmds"
  by (auto simp: pool_delete_commands_def Let_def targets_def list_all_iff dest!: targets_refresh split: if_splits)

lemma pool_delete_rows:
  assumes S: "nb_store E rows" and w: "all_rows (guarded E (REQ_TYPE_POOL_DELETE p)) rows w"
  shows "all_rows (reachable_row E) rows (snd (pool_delete E p w))"
proof -
  let ?J = "guarded E (REQ_TYPE_POOL_DELETE p)"
  note W = guarded_weakens [of E "REQ_TYPE_POOL_DELETE p"]
  have t: "row_code ?J (reachable_row E) rows u r
      (bnd (clean_lb_if_empty E u i ext) (\<lambda>(clean, y). bnd (execute_commands E (cmds @ clean)) (\<lambda>_. ret x)))"
    if r: "lb_uuid r = u" "?J r" and c: "pool_delete_commands E r p = Inr (cmds, ext)"
    for u r cmds ext i and x :: status
  proof (rule row_code_bnd_read [OF W clean_reads [OF S] clean_shape], clarify, intro row_code_bnd io_inv)
    fix clean deletes
    assume sh: "if deletes then clean = [lb_del u] else clean \<in> {[], [db_set Load_Balancer u ''protocol'' (StrList [])]}"
    show "row_code ?J (reachable_row E) rows u r (execute_commands E (cmds @ clean))"
    proof (rule row_transaction [OF S W])
      show "targets u (cmds @ clean)" using targets_pool_delete [OF c] targets_clean [OF sh] r by simp
      fix r' assume nd: "\<not> deletes_row u (cmds @ clean)" and a: "applied (cmds @ clean) r r'"
      have "\<not> deletes" using sh nd by (auto simp: deletes_row_def)
      with sh r a pool_deleted [OF _ _ c, of clean r'] show "reachable_row E r'"
        by (auto simp: guarded_def intro: reachable_row.step)
    qed
  qed
  show ?thesis
    unfolding pool_delete_def Let_def
  proof (rule seq_rows [OF W _ w])
    show "keeps (all_rows ?J rows) (attempt (find_ovn_lb_with_protocol E (pl_loadbalancer_id p) (pl_protocol p)))"
      by (intro io_inv keeps_reads find_reads [OF S])
  next
    fix x v assume v: "all_rows ?J rows v"
    show "all_rows (reachable_row E) rows (snd ((case x of
        Inl e \<Rightarrow> if e = RowNotFound then ret (pool_status_entries p (entry2 (pl_id p) DELETED)) else throw e
      | Inr u \<Rightarrow>
          bnd (nb_lb E u) (\<lambda>ovn_lb.
          catch
            (bnd (lift (pool_delete_commands E ovn_lb p)) (\<lambda>(commands, external_ids).
             bnd (clean_lb_if_empty E u (pl_loadbalancer_id p) external_ids) (\<lambda>(clean, _).
             bnd (execute_commands E (commands @ clean)) (\<lambda>_.
             ret (pool_status_entries p (entry2 (pl_id p) DELETED) @
                  listener_entries_of (get_pool_listeners ovn_lb (get_pool_key (pl_id p) True)))))))
            (\<lambda>_. ret (pool_status_entries p (entry2 (pl_id p) ERROR) @
                  listener_entries_of (get_pool_listeners ovn_lb (get_pool_key (pl_id p) True)))))) v))"
    proof (cases x)
      case (Inr u)
      show ?thesis
        unfolding Inr sum.case
        by (rule read_row [OF S _ W v], rule row_code_catch, rule row_code_lift [OF W])
          (assumption | rule refl | hypsubst | rule row_code_cases(4) t io_inv)+
    qed (use weakensD(3) [OF W v] in auto)
  qed
qed

end
