(* ===== verification/MemberKeeps.thy ===== *)
theory MemberKeeps
  imports HandlerKeeps
begin

text \<open>
  The handlers of members, floating IPs and health monitor options keep every row of the northbound store
  reachable. A member handler writes the value of a pool and, in a transaction of its own, the status of
  the member; the \<open>vips\<close> stay right in between because the status takes no member offline.
\<close>

section \<open>Code that only reads\<close>

lemma pool_find_reads:
  assumes S: "nb_store E rows"
  shows "reads rows (search_pool_key E k us)" and "reads rows (find_ovn_lb_with_pool_key E k)"
    and "reads rows (find_ovn_lb_by_pool_id E i)" and "reads rows (find_pool_of_member E m)"
proof -
  show s: "reads rows (search_pool_key E k us)" for k us
    by (induction us) (auto intro!: nb_reads store_reads [OF S])
  show f: "reads rows (find_ovn_lb_with_pool_key E k)" for k
    unfolding find_ovn_lb_with_pool_key_def by (auto intro!: nb_reads s store_reads [OF S])
  show p: "reads rows (find_ovn_lb_by_pool_id E i)" for i
    unfolding find_ovn_lb_by_pool_id_def Let_def by (auto intro!: nb_reads f)
  show "reads rows (find_pool_of_member E m)"
    unfolding find_pool_of_member_def by (auto intro!: nb_reads p)
qed

lemma plain_reads:
  "reads rows (the_row u)" "reads rows (bound r)"
  unfolding the_row_def bound_def by (auto intro!: nb_reads)

lemma hm_port_reads:
  assumes S: "nb_store E rows"
  shows "reads rows (search_hm_ip E i us)" and "reads rows (clean_hm_ports E sn ipo ps)"
    and "reads rows (clean_up_hm_port E sn)" and "reads rows (create_hm_port E nw sn pr)"
    and "reads rows (ensure_hm_ovn_port E nw sn pr)" and "reads rows (get_member_lsp E ip sn)"
    and "reads rows (clean_member_hm_port E m u)"
proof -
  note leaf = port_reads [OF S] store_reads [OF S]
  show s: "reads rows (search_hm_ip E i us)" for i us
    by (induction us) (auto intro!: nb_reads leaf)
  show c: "reads rows (clean_hm_ports E sn ipo ps)" for sn ipo ps
    by (induction ps arbitrary: ipo) (auto simp: Let_def intro!: nb_reads s leaf)
  show u: "reads rows (clean_up_hm_port E sn)" for sn
    unfolding clean_up_hm_port_def by (auto intro!: nb_reads c leaf)
  show h: "reads rows (create_hm_port E nw sn pr)" for nw sn pr
    unfolding create_hm_port_def by (auto intro!: nb_reads u leaf)
  show "reads rows (ensure_hm_ovn_port E nw sn pr)"
    unfolding ensure_hm_ovn_port_def neutron_find_port_def by (auto intro!: nb_reads h leaf)
  show "reads rows (get_member_lsp E ip sn)"
    unfolding get_member_lsp_def by (auto intro!: nb_reads leaf)
  show "reads rows (clean_member_hm_port E m u)"
    unfolding clean_member_hm_port_def by (auto intro!: nb_reads u leaf)
qed

lemma status_reads:
  assumes S: "nb_store E rows"
  shows "reads rows (get_current_operating_statuses E u)" and "reads rows (get_related_lr E sn)"
  unfolding get_current_operating_statuses_def get_pool_statuses_def get_listener_statuses_def get_related_lr_def
  by (auto intro!: nb_reads store_reads [OF S] port_reads [OF S] association_reads [OF S])

lemma monitor_reads:
  assumes S: "nb_store E rows"
  shows "reads rows (search_hm_id E i us)" and "reads rows (find_ovn_lb_from_hm_id E i v)"
proof -
  show s: "reads rows (search_hm_id E i us)" for us
    by (induction us) (auto intro!: nb_reads store_reads [OF S])
  show "reads rows (find_ovn_lb_from_hm_id E i v)"
    unfolding find_ovn_lb_from_hm_id_def lookup_lbhcs_by_hm_id_def Let_def
    by (auto intro!: nb_reads s store_reads [OF S])
qed

section \<open>The status of a member\<close>

lemma offline_in_doc:
  assumes "member_status_doc L (lb_external_ids r) = Inr d"
  shows "is_member_offline L r i = Inr (dict_get d i = Some OFFLINE)"
proof (cases "loads_opt (loads_strs L) (dict_get (lb_external_ids r) OVN_MEMBER_STATUS_KEY)")
  case (Inl e)
  with assms show ?thesis
    by (auto simp: member_status_doc_def is_member_offline_def find_member_status_def split: if_splits)
next
  case (Inr d')
  with assms show ?thesis
    by (cases "dict_get d i") (auto simp: member_status_doc_def is_member_offline_def find_member_status_def dict_item_def)
qed

lemma written_doc:
  assumes "documents_ok L" and "dict_get (lb_external_ids r') OVN_MEMBER_STATUS_KEY
      = (if d = [] then None else Some (dumps_strs L d))"
  shows "\<exists>d'. member_status_doc L (lb_external_ids r') = Inr d' \<and> map_of d' = map_of d"
proof -
  obtain d' where "loads_strs L (dumps_strs L d) = Inr d'" "map_of d' = map_of d"
    using assms(1) unfolding documents_ok_def by blast
  with assms(2) show ?thesis by (auto simp: member_status_doc_def loads_opt_def)
qed

lemma status_step_same:
  assumes D: "documents_ok L" and d: "member_status_doc L (lb_external_ids r) = Inr d"
    and a: "applied [member_status_command L (lb_uuid r) (change_member_status d i c)] r r'"
    and c: "c = Some OFFLINE \<longleftrightarrow> dict_get d i = Some OFFLINE"
  shows "same_offline L r r'"
proof -
  let ?d = "change_member_status d i c"
  have "dict_get (lb_external_ids r') OVN_MEMBER_STATUS_KEY = (if ?d = [] then None else Some (dumps_strs L ?d))"
    using appliedD(1) [OF a] by (auto simp: member_status_command_def)
  from written_doc [OF D this] obtain d' where d': "member_status_doc L (lb_external_ids r') = Inr d'"
    "map_of d' = map_of ?d" by blast
  have "dict_get ?d m = Some OFFLINE \<longleftrightarrow> dict_get d m = Some OFFLINE" for m
    using c by (auto simp: change_member_status_def delete_conv' split: option.splits)
  then have "is_member_offline L r' m = is_member_offline L r m" for m
    by (simp add: offline_in_doc [OF d] offline_in_doc [OF d'(1)] d'(2))
  then show ?thesis by (simp add: same_offline_def)
qed

lemma status_step:
  assumes "documents_ok L" and d: "member_status_doc L (lb_external_ids r) = Inr d"
    and "applied [member_status_command L (lb_uuid r) (change_member_status d i c)] r r'"
    and "c \<noteq> Some OFFLINE" and "not_offline L i r"
  shows "same_offline L r r'"
  using assms(4,5) by (intro status_step_same [OF assms(1-3)]) (simp add: not_offline_def offline_in_doc [OF d])

text \<open>The rows, while none of the members \<open>M\<close> is stored as offline in any.\<close>

definition member_inv :: "'a lib_scheme \<Rightarrow> string set \<Rightarrow> lb_row \<Rightarrow> bool" where
  "member_inv L M r \<longleftrightarrow> reachable_row L r \<and> (\<forall>i\<in>M. not_offline L i r)"

lemma member_stable: "assoc_stable (member_inv L M)"
proof -
  have "not_offline L i r'" if "list_all assoc_cmd cmds" "not_offline L i r" "applied cmds r r'" for i cmds r r'
    using that(2) by (subst not_offline_same) (use assoc_keys [OF that(1)] appliedD(1) [OF that(3)] in simp_all)
  with reachable_stable [of L] show ?thesis unfolding assoc_stable_def member_inv_def
    by (intro conjI allI impI ballI) (simp, metis, metis)
qed

lemma status_keeps:
  assumes S: "nb_store E rows" and c: "c \<noteq> Some OFFLINE" and i: "i \<in> M"
  shows "keeps (all_rows (member_inv E M) rows) (update_external_ids_member_status E u i c)"
proof -
  note K = member_stable [of E M]
  note W = weakens_refl [OF K]
  have t: "row_code (member_inv E M) (member_inv E M) rows u r
      (nb_exec_nocheck E (member_status_command E u (change_member_status d i c)))"
    if r: "lb_uuid r = u" "member_inv E M r" and d: "member_status_doc E (lb_external_ids r) = Inr d" for u r d
  proof (rule row_unchecked [OF S W _ nb_storeD(9) [OF S]])
    show "targets u [member_status_command E u (change_member_status d i c)]"
      by (simp add: member_status_command_def)
    fix r' assume a: "applied [member_status_command E u (change_member_status d i c)] r r'"
    from r(2) i have off: "reachable_row E r" "\<forall>j\<in>M. not_offline E j r" "not_offline E i r"
      by (auto simp: member_inv_def)
    note st = status_step [OF nb_storeD(8) [OF S] d a [folded r(1)] c off(3)]
    from st off(2) have "\<forall>j\<in>M. not_offline E j r'"
      by (simp add: same_offline_def not_offline_def)
    with reachable_row.step [OF off(1) status_written [OF a [folded r(1)] st]] show "member_inv E M r'"
      by (simp add: member_inv_def)
  qed
  show ?thesis
    unfolding update_external_ids_member_status_def
    by (assumption | rule keeps_read_row [OF S K] row_code_lift [OF W] row_code_catch t io_inv)+
qed

section \<open>The value of a pool\<close>

lemma targets_pool_value:
  "pool_value_commands L r k v rf s = Inr cmds \<Longrightarrow> targets (lb_uuid r) cmds"
  by (auto simp: pool_value_commands_def dest: targets_refresh split: if_splits)

lemma pool_value_status:
  assumes "pool_value_commands L r k v rf s = Inr cmds" and "applied cmds r r'" and "k \<noteq> OVN_MEMBER_STATUS_KEY"
  shows "not_offline L i r' \<longleftrightarrow> not_offline L i r"
proof (rule not_offline_same)
  have "cols_after (lb_uuid r) EXT_IDS cmds (lb_external_ids r) = dict_set (lb_external_ids r) k v"
    using assms(1) by (auto simp: pool_value_commands_def refresh_lb_vips_def split: if_splits)
  then show "dict_get (lb_external_ids r') OVN_MEMBER_STATUS_KEY = dict_get (lb_external_ids r) OVN_MEMBER_STATUS_KEY"
    using appliedD(1) [OF assms(2)] assms(3) by simp
qed

lemma member_value_step:
  assumes "member_inv E M r" and "startswith k LB_EXT_IDS_POOL_PREFIX" "\<not> contains LB_EXT_IDS_LISTENER_PREFIX k"
    and c: "pool_value_commands E r k v True s = Inr cmds" and a: "applied cmds r r'"
  shows "member_inv E M r'"
proof -
  have "k \<noteq> OVN_MEMBER_STATUS_KEY" using assms(2) by (auto simp: startswith_def)
  with assms(1) pool_value_changed [OF assms(2,3) c a] pool_value_status [OF c a] show ?thesis
    by (auto simp: member_inv_def intro: reachable_row.step)
qed

lemma pool_value_keeps:
  assumes S: "nb_store E rows" and r: "lb_uuid r = u" "member_inv E M r"
    and k: "startswith k LB_EXT_IDS_POOL_PREFIX" "\<not> contains LB_EXT_IDS_LISTENER_PREFIX k"
    and c: "pool_value_commands E r k v True s = Inr cmds"
  shows "row_code (member_inv E M) (member_inv E M) rows u r (execute_commands E cmds)"
proof (rule row_transaction [OF S weakens_refl [OF member_stable]])
  show "targets u cmds" using targets_pool_value [OF c] r(1) by simp
qed (rule member_value_step [OF r(2) k c])

text \<open>The key under which a pool is found.\<close>

lemma pool_key_found:
  assumes "pool_id_ok (md_pool_id m)"
  shows "gives (find_pool_of_member E m)
    (\<lambda>(k, row). startswith k LB_EXT_IDS_POOL_PREFIX \<and> \<not> contains LB_EXT_IDS_LISTENER_PREFIX k)"
proof -
  have "startswith (get_pool_key i up) LB_EXT_IDS_POOL_PREFIX" for i up
    by (simp add: get_pool_key_def startswith_def Let_def)
  then show ?thesis
    using assms unfolding find_pool_of_member_def find_ovn_lb_by_pool_id_def Let_def
    by (cases "md_pool_id m") (auto simp: pool_id_ok_def intro!: gives_intros)
qed

section \<open>Members\<close>

lemma update_hm_member_keeps:
  assumes S: "nb_store E rows" and J: "neutral_stable J"
  shows "keeps (all_rows J rows) (update_hm_member E u k ip del)"
proof -
  have x: "keeps (all_rows J rows) (update_ip_port_mappings E u ip pn src del)" for ip pn src
  proof -
    have "keeps (all_rows J rows) (bnd (lift c) (nb_exec_nocheck E))"
      if "\<And>cmd. c = Inr cmd \<Longrightarrow> neutral cmd" for c
      by (cases c) (auto intro!: io_inv unchecked_neutral_keeps [OF J nb_storeD(9) [OF S]] dest: that)
    note n = this
    show ?thesis
      unfolding update_ip_port_mappings_def
      by (rule n) (auto simp: lb_del_ip_port_mapping_def lb_add_ip_port_mapping_def split: if_splits)
  qed
  note leaf = hm_port_reads [OF S] store_reads [OF S]
  show ?thesis
    unfolding update_hm_member_def map_hm_member_def
    by (auto intro!: io_inv x leaf [THEN keeps_reads])
qed

lemma add_member_keeps:
  assumes S: "nb_store E rows" and up: "md_admin_state_up m = Some True"
    and k: "startswith k LB_EXT_IDS_POOL_PREFIX" "\<not> contains LB_EXT_IDS_LISTENER_PREFIX k"
  shows "keeps (all_rows (member_inv E M) rows) (add_member E m row k)"
proof -
  note K = member_stable [of E M]
  note W = weakens_refl [OF K]
  have x: "keeps (all_rows (member_inv E M) rows)
     (bnd (lift (key_of (md_subnet_id m))) (\<lambda>subnet_id.
      bnd (update_lb_to_ls_association E u None (Some subnet_id) True True False False) (\<lambda>_.
      bnd (get_related_lr E subnet_id) (\<lambda>ovn_lr.
      bnd (case ovn_lr of None \<Rightarrow> ret () | Some lr \<Rightarrow> associate_lr_or_by_step E u lr False) (\<lambda>_.
      ret info)))))" for u and info :: "string option"
    by (intro io_inv association_keeps [OF S K] status_reads [OF S, THEN keeps_reads])
  show ?thesis
    unfolding add_member_def up
    by (assumption | rule x pool_value_keeps [OF S _ _ k] keeps_read_row [OF S K] row_code_lift [OF W] row_code_cases
        row_code_bnd row_code_ret [OF W] plain_reads [THEN keeps_reads] refl io_inv | simp only: simp_thms)+
qed

lemma gives_attempt: "gives m Q \<Longrightarrow> gives (attempt m) (\<lambda>x. \<forall>y. x = Inr y \<longrightarrow> Q y)"
  by (auto simp: gives_def attempt_def split: prod.splits)

lemma keeps_found:
  assumes S: "nb_store E rows" and ok: "pool_id_ok (md_pool_id m)"
    and f: "\<And>found. (\<And>k row. found = Inr (k, row) \<Longrightarrow>
        startswith k LB_EXT_IDS_POOL_PREFIX \<and> \<not> contains LB_EXT_IDS_LISTENER_PREFIX k) \<Longrightarrow>
      keeps (all_rows J rows) (f found)"
  shows "keeps (all_rows J rows) (bnd (attempt (find_pool_of_member E m)) f)"
proof (rule keeps_bnd_gives [OF _ gives_attempt [OF pool_key_found [OF ok]]])
  show "keeps (all_rows J rows) (attempt (find_pool_of_member E m))"
    by (intro io_inv pool_find_reads [OF S, THEN keeps_reads])
qed (auto intro: f)

lemma monitored_status_gives: "gives (monitored_member_status E u k x) (\<lambda>st. st \<noteq> OFFLINE)"
  unfolding monitored_member_status_def by (auto intro!: gives_intros split: if_splits)

lemma new_member_status_gives: "gives (new_member_status E found added True) (\<lambda>st. st \<noteq> OFFLINE)"
  unfolding new_member_status_def by (auto intro!: gives_intros monitored_status_gives)

lemma new_member_status_keeps:
  assumes S: "nb_store E rows" and J: "assoc_stable J"
  shows "keeps (all_rows J rows) (new_member_status E found added up)"
  unfolding new_member_status_def monitored_member_status_def
  by (auto intro!: io_inv update_hm_member_keeps [OF S assoc_neutral_stable [OF J]] plain_reads [THEN keeps_reads] store_reads(1) [OF S, THEN keeps_reads])

lemma member_create_keeps:
  assumes S: "nb_store E rows" and up: "md_admin_state_up m = Some True" and ok: "pool_id_ok (md_pool_id m)"
    and i: "md_id m \<in> M"
  shows "keeps (all_rows (member_inv E M) rows) (member_create E m)"
  unfolding member_create_def
proof (rule keeps_found [OF S ok])
  fix found :: "(string \<times> string option) res"
  assume key: "\<And>k row. found = Inr (k, row) \<Longrightarrow>
    startswith k LB_EXT_IDS_POOL_PREFIX \<and> \<not> contains LB_EXT_IDS_LISTENER_PREFIX k"
  let ?J = "all_rows (member_inv E M) rows"
  have a: "keeps ?J (bnd (lift found) (\<lambda>(k, row). add_member E m row k))"
  proof (cases found)
    case (Inr x)
    then show ?thesis using key [of "fst x" "snd x"] add_member_keeps [OF S up] by (cases x) simp
  qed (simp add: keeps_def)
  have s: "keeps ?J (bnd (new_member_status E found added True) (\<lambda>st.
      bnd (bound found) (\<lambda>(k, row). bnd (the_row row) (\<lambda>u.
      bnd (update_external_ids_member_status E u (md_id m) (Some st)) (\<lambda>_. get_current_operating_statuses E u)))))"
    for added
    by (rule keeps_bnd_gives [OF new_member_status_keeps [OF S member_stable] new_member_status_gives])
      (intro io_inv status_keeps [OF S _ i] plain_reads [THEN keeps_reads] status_reads [OF S, THEN keeps_reads], simp_all)
  show "keeps ?J (bnd (attempt (bnd (lift found) (\<lambda>(k, row). add_member E m row k))) (\<lambda>added.
     bnd (lift (key_of (md_admin_state_up m))) (\<lambda>up.
     bnd (new_member_status E found added up) (\<lambda>operating_status.
     bnd (bound found) (\<lambda>(pool_key, row).
     bnd (the_row row) (\<lambda>u.
     bnd (update_external_ids_member_status E u (md_id m) (Some operating_status)) (\<lambda>_.
     get_current_operating_statuses E u)))))))"
    unfolding up key_of_simps bnd_lift by (rule keeps_bnd keeps_attempt a s)+
qed

text \<open>
  \<open>_remove_member\<close> goes on with the row it read before the health check commands; they touch none of the
  columns the new value and the \<open>vips\<close> are made of.
\<close>

lemma remove_member_keeps:
  assumes S: "nb_store E rows" and k: "startswith k LB_EXT_IDS_POOL_PREFIX" "\<not> contains LB_EXT_IDS_LISTENER_PREFIX k"
  shows "keeps (all_rows (member_inv E M) rows) (remove_member E m row k)"
proof -
  note K = member_stable [of E M]
  note W = weakens_refl [OF K]
  let ?J = "member_inv E M"
  have rest: "all_rows ?J rows (snd (
      (bnd (lift (pool_value_commands E r k v True False)) (\<lambda>commands.
       bnd (execute_commands E commands) (\<lambda>_.
       bnd (update_lb_to_ls_association E u None sn False True False False) (\<lambda>_. ret st)))) w))"
    if r: "lb_uuid r = u" "?J r" and w: "all_rows (near ?J u r) rows w" for u r v sn w and st :: "string option"
  proof (cases "pool_value_commands E r k v True False")
    case (Inl e)
    then show ?thesis using w by (auto simp: all_rows_def near_def)
  next
    case (Inr cmds)
    have "all_rows ?J rows (snd (execute_commands E cmds w))"
      by (rule near_transaction [OF S W _ w])
        (use targets_pool_value [OF Inr] r(1) member_value_step [OF r(2) k Inr] in simp_all)
    moreover have "keeps (all_rows ?J rows) (bnd (update_lb_to_ls_association E u None sn False True False False) (\<lambda>_. ret st))"
      by (intro io_inv association_keeps [OF S K])
    ultimately show ?thesis
      unfolding Inr bnd_lift by (auto simp: bnd_def keeps_def split: prod.split sum.split)
  qed
  have checks: "row_code ?J ?J rows u r (bnd (if b then bnd (update_hm_member E u k ip True) (\<lambda>_. ret ()) else ret ()) (\<lambda>_.
      bnd (lift (pool_value_commands E r k v True False)) (\<lambda>commands.
      bnd (execute_commands E commands) (\<lambda>_.
      bnd (update_lb_to_ls_association E u None sn False True False False) (\<lambda>_. ret st)))))"
    if r: "lb_uuid r = u" "?J r" for u r b ip v sn and st :: "string option"
    by (rule row_code_near [OF S W _ _ rest [OF r], where Q = "\<lambda>_. True"])
      (intro io_inv update_hm_member_keeps [OF S near_stable [OF assoc_neutral_stable [OF K]]], simp_all add: gives_def)
  show ?thesis
    unfolding remove_member_def
    by (assumption | rule checks keeps_read_row [OF S K] row_code_lift [OF W] row_code_cases row_code_ret [OF W]
        plain_reads [THEN keeps_reads] io_inv)+
qed

lemma member_delete_keeps:
  assumes S: "nb_store E rows" and ok: "pool_id_ok (md_pool_id m)" and i: "md_id m \<in> M"
  shows "keeps (all_rows (member_inv E M) rows) (member_delete E m)"
  unfolding member_delete_def
proof (rule keeps_found [OF S ok])
  fix found :: "(string \<times> string option) res"
  assume key: "\<And>k row. found = Inr (k, row) \<Longrightarrow>
    startswith k LB_EXT_IDS_POOL_PREFIX \<and> \<not> contains LB_EXT_IDS_LISTENER_PREFIX k"
  let ?J = "all_rows (member_inv E M) rows"
  have r: "keeps ?J (bnd (lift found) (\<lambda>(k, row).
      bnd (remove_member E m row k) (\<lambda>_. bnd (the_row row) (clean_member_hm_port E m))))"
  proof (cases found)
    case (Inr x)
    obtain k row where "x = (k, row)" by fastforce
    with Inr key [of k row] show ?thesis
      by (simp only: bnd_lift prod.case)
        (intro io_inv remove_member_keeps [OF S] plain_reads [THEN keeps_reads] hm_port_reads [OF S, THEN keeps_reads], simp_all)
  qed (simp add: keeps_def)
  show "keeps ?J (bnd (attempt (bnd (lift found) (\<lambda>(pool_key, row).
        bnd (remove_member E m row pool_key) (\<lambda>_.
        bnd (the_row row) (clean_member_hm_port E m))))) (\<lambda>deleted.
     bnd (bound found) (\<lambda>(pool_key, row).
     bnd (the_row row) (\<lambda>u.
     bnd (update_external_ids_member_status E u (md_id m) None) (\<lambda>_.
     bnd (get_current_operating_statuses E u) (\<lambda>status.
     ret (dict_set status MEMBERS
            [entry2 (md_id m) (case deleted of Inl _ \<Rightarrow> ERROR | Inr _ \<Rightarrow> DELETED)])))))))"
    by (rule io_inv r status_keeps [OF S _ i] plain_reads [THEN keeps_reads] status_reads [OF S, THEN keeps_reads] option.distinct)+
qed

end
