(* ===== verification/FipKeeps.thy ===== *)
theory FipKeeps
  imports MemberKeeps
begin

text \<open>
  The handlers of floating IPs and of health monitor options keep every row of the northbound store
  reachable: the health checks and NAT rows they write are no columns the \<open>vips\<close> are made of, and the key
  of a floating IP is the only one of a row they change.
\<close>

section \<open>Health monitor options\<close>

lemma hm_update_keeps:
  assumes S: "nb_store E rows" and J: "neutral_stable J"
  shows "keeps (all_rows J rows) (hm_update E i)"
proof -
  have "keeps (all_rows J rows) (execute_commands E (map (\<lambda>h. db_set Load_Balancer_Health_Check (hc_uuid h) c v) hs))"
    for hs c v
    unfolding execute_commands_def
    by (intro io_inv neutral_keeps [OF J nb_storeD(3) [OF S]]) (simp add: list_all_iff)
  then show ?thesis
    unfolding hm_update_def hm_update_row_def Let_def
    by (auto intro!: io_inv monitor_reads [OF S, THEN keeps_reads] pool_find_reads [OF S, THEN keeps_reads]
        store_reads [OF S, THEN keeps_reads])
qed

section \<open>Floating IPs of members\<close>

lemma handle_member_dvr_keeps:
  assumes S: "nb_store E rows" and J: "neutral_stable J"
  shows "keeps (all_rows J rows) (handle_member_dvr E i)"
proof -
  have nat: "keeps (all_rows J rows) (centralize_fip E f)" for f
    unfolding centralize_fip_def by (intro io_inv neutral_keeps [OF J nb_storeD(4) [OF S]]) simp_all
  have fip: "reads rows (member_fip E a ls)" "reads rows (decentralize_fip E f)" for a ls f
    unfolding member_fip_def decentralize_fip_def by (auto intro!: nb_reads store_reads [OF S])
  show ?thesis
    unfolding handle_member_dvr_def
    by (auto intro!: io_inv nat fip [THEN keeps_reads] pool_find_reads [OF S, THEN keeps_reads]
        plain_reads [THEN keeps_reads] store_reads [OF S, THEN keeps_reads] port_reads [OF S, THEN keeps_reads])
qed

section \<open>Floating IPs of VIPs\<close>

text \<open>What the commands of a floating IP come to, with the \<open>vips\<close> that are rebuilt.\<close>

definition fip_outcome :: "'a lib_scheme \<Rightarrow> lb_row \<Rightarrow> cmd list \<times> string pydict \<Rightarrow> bool" where
  "fip_outcome L r x \<longleftrightarrow>
     (\<forall>refresh r'. refresh_lb_vips L r (snd x) False = Inr refresh \<longrightarrow>
        targets (lb_uuid r) (fst x @ refresh) \<and>
        (applied (fst x @ refresh) r r' \<longrightarrow> row_step L r r'))"

lemma create_fip_hcs_keeps:
  assumes S: "nb_store E rows" and J: "neutral_stable J"
  shows "keeps (all_rows J rows) (create_fip_hcs E u i hcs)"
  unfolding create_fip_hcs_def fip_health_check_def
  by (intro io_inv neutral_keeps [OF J nb_storeD(3) [OF S]] store_reads [OF S, THEN keeps_reads]) simp

lemma fip_hc_reads:
  assumes S: "nb_store E rows"
  shows "reads rows (any_hc_of_fip E fip hcs)" and "reads rows (remove_fip_hc E u fip hcs)"
  by (induction hcs) (auto intro!: nb_reads store_reads [OF S])

lemma remove_fip_hc_gives:
  "gives (remove_fip_hc E u fip hcs) (\<lambda>hc. list_all neutral hc \<and> targets u hc)"
proof (induction hcs)
  case (Cons h hcs)
  show ?case
    unfolding remove_fip_hc.simps
    by (rule gives_intros(4), rule gives_intros(5), rule gives_intros(1), simp, rule Cons.IH)
qed (simp add: gives_def)

lemma targets_remove_addi: "remove_addi_fip u ext fip = Inr (addi, ext') \<Longrightarrow> targets u addi"
  by (auto simp: remove_addi_fip_def Let_def split: option.splits if_splits)

lemma targets_remove_vip: "remove_vip_fip u ext fip = (cmds, ext') \<Longrightarrow> targets u cmds"
  by (auto simp: remove_vip_fip_def split: if_splits)

lemma associate_vip_fip_keeps:
  assumes S: "nb_store E rows" and J: "neutral_stable J"
  shows "keeps (all_rows J rows) (associate_vip_fip E r i)"
  unfolding associate_vip_fip_def Let_def
  by (auto intro!: io_inv create_fip_hcs_keeps [OF S J] fip_hc_reads [OF S, THEN keeps_reads])

lemma associate_vip_fip_gives:
  assumes "vf_action i \<noteq> REQ_INFO_ACTION_SYNC"
  shows "gives (associate_vip_fip E r i) (fip_outcome E r)"
proof -
  have "fip_outcome E r ([db_set Load_Balancer (lb_uuid r) EXT_IDS (StrMap [(k, v)])], dict_set (lb_external_ids r) k v)"
    if "vip_fip_info (lb_external_ids r) i = Inr (k, v)" for k v
    using fip_associated [OF that] targets_refresh by (auto simp: fip_outcome_def)
  with assms show ?thesis
    unfolding associate_vip_fip_def Let_def
    by (cases "vip_fip_info (lb_external_ids r) i") (auto intro!: gives_intros)
qed

lemma disassociate_vip_fip_reads: "nb_store E rows \<Longrightarrow> reads rows (disassociate_vip_fip E r i)"
  unfolding disassociate_vip_fip_def Let_def by (auto intro!: nb_reads fip_hc_reads)

lemma disassociate_vip_fip_gives:
  assumes "only_addi_fip (lb_external_ids r) (vf_vip_fip i)"
  shows "gives (disassociate_vip_fip E r i) (fip_outcome E r)"
proof -
  have "fip_outcome E r (addi @ cmds @ hc, ext)"
    if a: "remove_addi_fip (lb_uuid r) (lb_external_ids r) (vf_vip_fip i) = Inr (addi, ext1)"
      and c: "remove_vip_fip (lb_uuid r) ext1 (vf_vip_fip i) = (cmds, ext)"
      and hc: "list_all neutral hc" "targets (lb_uuid r) hc" for addi ext1 cmds ext hc
    using fip_disassociated [OF assms a c] applied_neutral [OF hc(1), of "addi @ cmds"] targets_refresh
      targets_remove_addi [OF a] targets_remove_vip [OF c] hc(2)
    by (auto simp: fip_outcome_def)
  note out = this
  have "gives (bnd (remove_fip_hc E (lb_uuid r) (vf_vip_fip i) hcs) (\<lambda>hc. ret (addi @ cmds @ hc, ext))) (fip_outcome E r)"
    if "remove_addi_fip (lb_uuid r) (lb_external_ids r) (vf_vip_fip i) = Inr (addi, ext1)"
      and "remove_vip_fip (lb_uuid r) ext1 (vf_vip_fip i) = (cmds, ext)" for addi ext1 cmds ext hcs
    by (rule gives_bnd2 [OF remove_fip_hc_gives gives_intros(1)]) (use out [OF that] in blast)
  then show ?thesis
    unfolding disassociate_vip_fip_def Let_def bnd_lift_case
    by (auto intro!: gives_intros(2) split: prod.split sum.split)
qed

lemma handle_vip_fip_rows:
  assumes S: "nb_store E rows" and w: "all_rows (guarded E (REQ_TYPE_HANDLE_VIP_FIP i)) rows w"
  shows "all_rows (reachable_row E) rows (snd (handle_vip_fip E i w))"
proof -
  let ?J = "guarded E (REQ_TYPE_HANDLE_VIP_FIP i)" and ?u = "vf_ovn_lb i"
  note W = guarded_weakens [of E "REQ_TYPE_HANDLE_VIP_FIP i"]
  note N = near_stable [OF assoc_neutral_stable [OF guarded_stable [of E "REQ_TYPE_HANDLE_VIP_FIP i"]]]
  let ?m = "\<lambda>r. if vf_action i = REQ_INFO_ACTION_ASSOCIATE \<or> vf_action i = REQ_INFO_ACTION_SYNC
     then associate_vip_fip E r i else disassociate_vip_fip E r i"
  have "row_code ?J (reachable_row E) rows ?u r
      (bnd (?m r) (\<lambda>(commands, external_ids).
       bnd (lift (refresh_lb_vips E r external_ids (vf_action i = REQ_INFO_ACTION_SYNC))) (\<lambda>refresh.
       execute_commands E (commands @ refresh))))"
    if r: "lb_uuid r = ?u" "?J r" for r
  proof (rule row_code_near [OF S W])
    show "keeps (all_rows (near ?J ?u r) rows) (?m r)"
      by (intro io_inv associate_vip_fip_keeps [OF S N] disassociate_vip_fip_reads [OF S, THEN keeps_reads])
    from r(2) have g: "vf_action i \<noteq> REQ_INFO_ACTION_SYNC"
      "vf_action i = REQ_INFO_ACTION_DISASSOCIATE \<Longrightarrow> only_addi_fip (lb_external_ids r) (vf_vip_fip i)"
      by (simp_all add: guarded_def)
    then show "gives (?m r) (fip_outcome E r)"
      using associate_vip_fip_gives [of i E r] disassociate_vip_fip_gives [of r i E] by (cases "vf_action i") simp_all
    fix x w assume x: "fip_outcome E r x" and w: "all_rows (near ?J ?u r) rows w"
    then have k: "all_rows (reachable_row E) rows w"
      using weakensD(2) [OF W] by (auto simp: all_rows_def near_def)
    show "all_rows (reachable_row E) rows (snd ((case x of (commands, external_ids) \<Rightarrow>
       bnd (lift (refresh_lb_vips E r external_ids (vf_action i = REQ_INFO_ACTION_SYNC))) (\<lambda>refresh.
       execute_commands E (commands @ refresh))) w))"
    proof (cases "refresh_lb_vips E r (snd x) False")
      case (Inl e)
      with g k show ?thesis by (simp add: case_prod_beta)
    next
      case (Inr refresh)
      have "all_rows (reachable_row E) rows (snd (execute_commands E (fst x @ refresh) w))"
        by (rule near_transaction [OF S W _ w])
          (use x Inr r in \<open>auto simp: fip_outcome_def guarded_def intro: reachable_row.step\<close>)
      with Inr g show ?thesis by (simp add: case_prod_beta)
    qed
  qed
  then show ?thesis
    unfolding handle_vip_fip_def by (intro read_row [OF S _ W w])
qed

end
