(* ===== verification/MonitorKeeps.thy ===== *)
theory MonitorKeeps
  imports FipKeeps LbDelete
begin

text \<open>
  The handlers of health monitors, of their events and of the deletion of a load balancer keep every row of
  the northbound store reachable. They write the status of all members they find, which changes the \<open>vips\<close>
  only of members that are offline.
\<close>

abbreviation active_rows :: "'a lib_scheme \<Rightarrow> lb_row \<Rightarrow> bool" where
  "active_rows L \<equiv> member_inv L UNIV"

section \<open>The statuses of all members\<close>

lemma member_statuses_keep:
  assumes S: "nb_store E rows" and "op \<noteq> OFFLINE"
  shows "keeps (all_rows (active_rows E) rows) (update_member_statuses E u i prov op)"
  unfolding update_member_statuses_def
  using assms(2) by (auto intro!: io_inv status_keeps [OF S] store_reads(1) [OF S, THEN keeps_reads])

lemma update_hm_member_gives: "gives (update_hm_member E u k ip del) (\<lambda>st. st \<noteq> Some OFFLINE)"
  unfolding update_hm_member_def map_hm_member_def by (auto intro!: gives_intros)

section \<open>Health monitors\<close>

lemma clean_mappings_keep:
  assumes S: "nb_store E rows" and J: "neutral_stable J"
  shows "keeps (all_rows J rows) (clean_ip_port_mappings E u k)"
proof -
  have del: "keeps (all_rows J rows) (bnd (lift (lb_del_ip_port_mapping E u a)) (nb_exec_nocheck E))" for a
    by (cases "lb_del_ip_port_mapping E u a")
      (auto simp: lb_del_ip_port_mapping_def split: if_splits
        intro!: io_inv unchecked_neutral_keeps [OF J nb_storeD(9) [OF S]])
  have clear: "keeps (all_rows J rows) (nb_exec_nocheck E (db_clear Load_Balancer u ''ip_port_mappings''))"
    by (rule unchecked_neutral_keeps [OF J nb_storeD(9) [OF S]]) simp
  show ?thesis
    unfolding clean_ip_port_mappings_def Let_def
    by (rule del clear io_inv store_reads(1) [OF S, THEN keeps_reads])+
qed

lemma add_lbhc_assoc: "add_lbhc_commands L r k i = Inr cmds \<Longrightarrow> list_all assoc_cmd cmds"
proof -
  have v: "list_all assoc_cmd cs" if "add_vip_lbhc L r k i p v = Inr cs" for p v cs
    using that by (auto simp: add_vip_lbhc_def set_hms_key_def)
  have f: "list_all assoc_cmd cs" if "add_fip_lbhc L r k i p l v = Inr cs" for p l v cs
    using that by (auto simp: add_fip_lbhc_def)
  have m: "mapR g xs = Inr css \<Longrightarrow> (\<And>x cs. g x = Inr cs \<Longrightarrow> list_all assoc_cmd cs) \<Longrightarrow> list_all assoc_cmd (concat css)"
    for g xs and css :: "cmd list list"
    by (induction xs arbitrary: css) auto
  show "add_lbhc_commands L r k i = Inr cmds \<Longrightarrow> list_all assoc_cmd cmds"
    by (auto simp: add_lbhc_commands_def Let_def dest: m [OF _ v] m [OF _ f])
qed

lemma add_lbhc_keeps:
  assumes S: "nb_store E rows" and J: "assoc_stable J"
  shows "keeps (all_rows J rows) (add_lbhc E u k i)"
proof -
  have x: "keeps (all_rows J rows) (bnd (lift (add_lbhc_commands E r k i)) (\<lambda>cmds. bnd (nb_txn E cmds) (\<lambda>_. ret x)))"
    for r and x :: entry
    by (cases "add_lbhc_commands E r k i")
      (auto intro!: io_inv assoc_commits [OF J nb_storeD(3) [OF S]] dest: add_lbhc_assoc)
  show ?thesis
    unfolding add_lbhc_def by (rule x io_inv store_reads(1) [OF S, THEN keeps_reads])+
qed

lemma hm_create_members_keep:
  assumes S: "nb_store E rows"
  shows "keeps (all_rows (active_rows E) rows) (hm_create_members E u k ms)"
proof -
  note N = assoc_neutral_stable [OF member_stable [of E UNIV]]
  show ?thesis
  proof (induction ms)
    case (Cons m ms)
    obtain ip p sn i where m: "m = (ip, p, sn, i)" by (cases m)
    show ?case
      unfolding hm_create_members.simps m prod.case
      by (rule keeps_bnd_gives [OF update_hm_member_keeps [OF S N] update_hm_member_gives])
        (intro io_inv clean_mappings_keep [OF S N] status_keeps [OF S] Cons.IH, simp_all)
  qed (simp add: keeps_def)
qed

lemma hm_create_keeps:
  assumes S: "nb_store E rows"
  shows "keeps (all_rows (active_rows E) rows) (hm_create E i)"
  unfolding hm_create_def hm_create_on_row_def Let_def
  by (rule io_inv hm_create_members_keep [OF S] add_lbhc_keeps [OF S member_stable] member_statuses_keep [OF S]
      status_reads [OF S, THEN keeps_reads] store_reads(1) [OF S, THEN keeps_reads]
      pool_find_reads [OF S, THEN keeps_reads] | simp)+

lemma hm_delete_assoc: "list_all assoc_cmd (hm_delete_commands L u hcs hms)"
  by (auto simp: hm_delete_commands_def set_hms_key_def list_all_iff)

lemma hm_delete_keeps:
  assumes S: "nb_store E rows"
  shows "keeps (all_rows (active_rows E) rows) (hm_delete E i)"
proof -
  note K = member_stable [of E UNIV]
  have x: "keeps (all_rows (active_rows E) rows) (execute_commands E (hm_delete_commands E u hcs hms))" for u hcs hms
    unfolding execute_commands_def
    by (intro io_inv assoc_commits [OF K nb_storeD(3) [OF S]] hm_delete_assoc)
  show ?thesis
    unfolding hm_delete_def hm_delete_row_def Let_def
    by (rule io_inv x clean_mappings_keep [OF S assoc_neutral_stable [OF K]] member_statuses_keep [OF S]
        hm_port_reads [OF S, THEN keeps_reads] monitor_reads [OF S, THEN keeps_reads]
        store_reads(1) [OF S, THEN keeps_reads] | simp)+
qed

lemma hm_update_event_keeps:
  assumes S: "nb_store E rows"
  shows "keeps (all_rows (active_rows E) rows) (hm_update_event E i)"
proof -
  have "event_member_status st \<noteq> OFFLINE" for st
    by (simp add: event_member_status_def)
  then have "keeps (all_rows (active_rows E) rows) (hm_event_statuses E i us)" for us
    by (induction us)
      (auto intro!: io_inv status_keeps [OF S] status_reads [OF S, THEN keeps_reads] store_reads(1) [OF S, THEN keeps_reads])
  then show ?thesis
    unfolding hm_update_event_def by (intro io_inv)
qed

section \<open>Deletion\<close>

lemma pool_id_without_listener: "CHR ''_'' \<notin> set i \<Longrightarrow> pool_id_ok (Some i)"
proof -
  assume i: "CHR ''_'' \<notin> set i"
  have "\<not> contains LB_EXT_IDS_LISTENER_PREFIX (i @ s)" if "CHR ''_'' \<notin> set s" for s
    by (rule contains_not_first_char [of "CHR ''_''"]) (use i that in simp_all)
  from this [of "[]"] this [of "'':D''"] show ?thesis
    by (simp add: pool_id_ok_def get_pool_key_def Let_def contains_simps)
qed

lemma stored_member_keeps:
  assumes S: "nb_store E rows" and i: "CHR ''_'' \<notin> set i"
  shows "keeps (all_rows (active_rows E) rows) (delete_stored_member E i m)"
  unfolding delete_stored_member_def Let_def
  by (intro io_inv member_delete_keeps [OF S] handle_member_dvr_keeps [OF S assoc_neutral_stable [OF member_stable]])
    (simp_all add: pool_id_without_listener i)

lemma pool_members_keep:
  assumes S: "nb_store E rows" and i: "CHR ''_'' \<notin> set i"
  shows "keeps (all_rows (active_rows E) rows) (delete_pool_members E i ms acc)"
  by (induction ms arbitrary: acc) (auto intro!: io_inv stored_member_keeps [OF S i] split: sum.split)

lemma id_of_key_no_sep: "id_of_key k = Inr i \<Longrightarrow> CHR ''_'' \<notin> set i"
  by (auto simp: id_of_key_def item_def split: if_splits dest: nth_mem split_on_elems)

lemma cascade_keeps:
  assumes S: "nb_store E rows"
  shows "keeps (all_rows (active_rows E) rows) (cascade_delete E items acc)"
proof (induction items arbitrary: acc)
  case (Cons kv items)
  obtain k v where kv: "kv = (k, v)" by fastforce
  show ?case
    unfolding kv cascade_delete.simps
    by (cases "id_of_key k") (auto intro!: io_inv Cons.IH pool_members_keep [OF S id_of_key_no_sep])
qed (simp add: keeps_def)

lemma deletion_reads:
  assumes S: "nb_store E rows"
  shows "reads rows (lb_delete_missing E i)" and "reads rows (delete_vip_ports E p a)"
    and "reads rows (lb_delete_commands E u)"
  unfolding lb_delete_missing_def delete_lost_vip_port_def delete_lost_additional_ports_def delete_vip_ports_def
    get_vip_port_from_loadbalancer_id_def get_additional_vips_from_loadbalancer_id_def
    lb_delete_commands_def unref_switches_def unref_router_def find_lb_in_switches_def find_lb_in_routers_def Let_def
  by (auto intro!: nb_reads port_reads [OF S] store_reads [OF S])

text \<open>Nothing the deletion commits touches another row's columns: its own row is gone.\<close>

lemma gives_map_io: "(\<And>x. gives (f x) Q) \<Longrightarrow> gives (map_io f xs) (list_all Q)"
proof (induction xs)
  case (Cons x xs)
  show ?case
    unfolding map_io.simps
    by (rule gives_bnd2 [OF Cons.prems], rule gives_bnd2 [OF Cons.IH [OF Cons.prems]], rule gives_intros(1), simp)
qed (simp add: gives_def)

lemma unref_neutral:
  "gives (unref_switches E u refs) (list_all neutral)" "gives (unref_router E u rf) (list_all neutral)"
proof -
  have catch: "gives (catch m h) Q" if "gives m Q" "\<And>e. gives (h e) Q"
    for m and h :: "exn \<Rightarrow> ('a, cmd list) io" and Q
    using that by (fastforce simp: gives_def catch_def split: prod.splits sum.splits)
  have ls: "gives (catch (bnd (nb_ls_get E n) (\<lambda>sw. ret [ls_lb_del (sw_uuid sw) u False]))
      (\<lambda>e. if e = RowNotFound then ret [] else throw e)) (list_all neutral)" for n
    by (rule catch gives_intros(1,2,4,5) | simp)+
  have c: "list_all (list_all neutral) css \<Longrightarrow> list_all neutral (concat css)" for css
    by (induction css) simp_all
  show "gives (unref_switches E u refs) (list_all neutral)"
    unfolding unref_switches_def
    by (rule gives_intros(5), rule gives_intros(2), rule gives_intros(4), rule gives_bnd2 [OF gives_map_io [OF ls]],
        rule gives_intros(1), erule c)
  show "gives (unref_router E u rf) (list_all neutral)"
    unfolding unref_router_def by (rule catch gives_intros(1,2,4,5) | simp)+
qed

lemma lb_delete_commands_neutral: "gives (lb_delete_commands E u) (list_all neutral)"
  unfolding lb_delete_commands_def Let_def
  by (rule gives_intros(4), rule gives_bnd2 [OF unref_neutral(1)], rule gives_intros(4),
      rule gives_bnd2 [OF unref_neutral(2)], rule gives_intros(4), rule gives_intros(1)) (auto simp: list_all_iff)

lemma run_lb_delete_keeps:
  assumes S: "nb_store E rows" and J: "neutral_stable J" and n: "list_all neutral cmds"
  shows "keeps (all_rows J rows) (run_lb_delete E cmds)"
  unfolding run_lb_delete_def execute_commands_def
  by (intro io_inv neutral_keeps [OF J nb_storeD(3) [OF S] n] neutral_keeps [OF J nb_storeD(4) [OF S]])
    (use n in \<open>simp add: list_all_iff\<close>)

lemma lb_delete_keeps:
  assumes S: "nb_store E rows" and J: "neutral_stable J" and c: "cascade \<Longrightarrow> J = active_rows E"
  shows "keeps (all_rows J rows) (lb_delete E i cascade)"
proof -
  note leaf = store_reads(1) [OF S, THEN keeps_reads] hm_port_reads [OF S, THEN keeps_reads]
    find_reads [OF S, THEN keeps_reads] deletion_reads [OF S, THEN keeps_reads]
  have casc: "keeps (all_rows J rows) (if cascade then cascade_delete E ext acc else ret (acc, None))" for ext acc
    using c cascade_keeps [OF S] by (cases cascade) (simp_all add: keeps_def)
  have run: "keeps (all_rows J rows) (bnd (lb_delete_commands E u) (\<lambda>commands. bnd (run_lb_delete E commands) (\<lambda>_.
      if b then for_each (clean_up_hm_port E) xs else ret ())))" for u b xs
    by (rule keeps_bnd_gives [OF _ lb_delete_commands_neutral])
      (intro leaf, intro io_inv leaf run_lb_delete_keeps [OF S J])
  have row: "keeps (all_rows J rows) (lb_delete_row E cascade u acc)" for u acc
    unfolding lb_delete_row_def by (rule casc run io_inv leaf)+
  have rows: "keeps (all_rows J rows) (lb_delete_rows E cascade us acc)" for us acc
    by (induction us arbitrary: acc) (auto intro!: io_inv row)
  show ?thesis
    unfolding lb_delete_def by (rule rows io_inv leaf)+
qed

end
