(* ===== verification/UpdateKeeps.thy ===== *)
theory UpdateKeeps
  imports MonitorKeeps
begin

text \<open>
  \<open>member_update\<close> stores the new status of a member before it reads the row again and rebuilds its \<open>vips\<close>. In
  between, and for good when it fails and reports ERROR, the row has fallen behind; what it leaves when it
  reports success is reachable again. The triple \<open>outcome\<close> tells the two results apart.
\<close>

section \<open>Results and exceptions\<close>

text \<open>From \<open>P\<close>, a result \<open>x\<close> comes with \<open>Q x\<close> and an exception with \<open>X\<close>.\<close>

definition outcome ::
  "('w \<Rightarrow> bool) \<Rightarrow> ('w, 'a) io \<Rightarrow> ('a \<Rightarrow> 'w \<Rightarrow> bool) \<Rightarrow> ('w \<Rightarrow> bool) \<Rightarrow> bool" where
  "outcome P m Q X \<longleftrightarrow> (\<forall>w. P w \<longrightarrow> (case m w of (Inl e, w') \<Rightarrow> X w' | (Inr x, w') \<Rightarrow> Q x w'))"

named_theorems outcome_rules "one rule per construct, with a postcondition for results and one for exceptions"

lemma outcome_ret [outcome_rules]:
  "(\<And>w. P w \<Longrightarrow> Q x w) \<Longrightarrow> outcome P (ret x) Q X" "(\<And>w. P w \<Longrightarrow> X w) \<Longrightarrow> outcome P (throw e) Q X"
  by (simp_all add: outcome_def)

lemma outcome_bnd [outcome_rules]:
  "outcome P m Q X \<Longrightarrow> (\<And>x. outcome (Q x) (f x) R X) \<Longrightarrow> outcome P (bnd m f) R X"
  unfolding outcome_def bnd_def by (fastforce split: prod.splits sum.splits)

lemma outcome_lift [outcome_rules]:
  "(\<And>e w. P w \<Longrightarrow> X w) \<Longrightarrow> (\<And>x. r = Inr x \<Longrightarrow> outcome P (f x) R X) \<Longrightarrow> outcome P (bnd (lift r) f) R X"
  by (cases r) (simp_all add: outcome_def)

lemma outcome_attempt [outcome_rules]:
  "outcome P m (\<lambda>x. Q (Inr x)) (\<lambda>w. \<forall>e. Q (Inl e) w) \<Longrightarrow> outcome P (attempt m) Q X"
  unfolding outcome_def attempt_def by (fastforce split: prod.splits sum.splits)

lemma outcome_catch [outcome_rules]:
  "outcome P m Q Y \<Longrightarrow> (\<And>e. outcome Y (h e) Q X) \<Longrightarrow> outcome P (catch m h) Q X"
  unfolding outcome_def catch_def by (fastforce split: prod.splits sum.splits)

lemma outcome_cases [outcome_rules]:
  "(b \<Longrightarrow> outcome P m Q X) \<Longrightarrow> (\<not> b \<Longrightarrow> outcome P n Q X) \<Longrightarrow> outcome P (if b then m else n) Q X"
  "(\<And>a c. p = (a, c) \<Longrightarrow> outcome P (k a c) Q X) \<Longrightarrow> outcome P (case p of (a, c) \<Rightarrow> k a c) Q X"
  by (simp_all split: prod.split)

lemma outcome_for_each:
  "(\<And>x. outcome P (f x) (\<lambda>_. P) X) \<Longrightarrow> outcome P (for_each f xs) (\<lambda>_. P) X"
  by (induction xs) (auto intro!: outcome_rules intro: outcome_bnd [where Q = "\<lambda>_. P"])

lemma outcome_weaken:
  "outcome P m Q X \<Longrightarrow> (\<And>w. P' w \<Longrightarrow> P w) \<Longrightarrow> (\<And>x w. Q x w \<Longrightarrow> Q' x w) \<Longrightarrow> (\<And>w. X w \<Longrightarrow> X' w) \<Longrightarrow> outcome P' m Q' X'"
  unfolding outcome_def by (fastforce split: prod.splits sum.splits)

lemma outcome_keeps: "keeps P m \<Longrightarrow> outcome P m (\<lambda>_. P) P"
  unfolding outcome_def keeps_def by (fastforce split: prod.splits sum.splits)

text \<open>Code that only reads leaves what is said of the rows; a row that is read is a row of the store.\<close>

lemma outcome_reads:
  "reads rows m \<Longrightarrow> outcome (\<lambda>w. P (rows w)) m (\<lambda>_ w. P (rows w)) (\<lambda>w. P (rows w))"
  unfolding outcome_def by (auto split: prod.splits sum.splits dest: reads_row)

lemma outcome_read_row:
  assumes S: "nb_store E rows"
    and f: "\<And>r. lb_uuid r = u \<Longrightarrow> outcome (\<lambda>w. P (rows w) \<and> rows w u = Some r) (f r) Q X"
    and x: "\<And>w. P (rows w) \<Longrightarrow> X w"
  shows "outcome (\<lambda>w. P (rows w)) (bnd (nb_lb E u) f) Q X"
  unfolding outcome_def
proof (intro allI impI)
  fix w assume P: "P (rows w)"
  obtain y w' where y: "nb_lb E u w = (y, w')" by fastforce
  have same: "rows w' = rows w" by (rule reads_row [OF store_reads(1) [OF S] y])
  show "case bnd (nb_lb E u) f w of (Inl e, w'') \<Rightarrow> X w'' | (Inr z, w'') \<Rightarrow> Q z w''"
  proof (cases y)
    case (Inl e)
    with y same P x show ?thesis by (simp add: bnd_def)
  next
    case (Inr r)
    with y nb_storeD(1) [OF S] have r: "rows w u = Some r" by blast
    with f [OF nb_storeD(2) [OF S r]] P same y Inr show ?thesis by (simp add: outcome_def bnd_def)
  qed
qed

section \<open>A row that has fallen behind\<close>

text \<open>All rows are reachable, but commands of \<open>C\<close> have been applied to the row \<open>u\<close>.\<close>

definition behind :: "'a lib_scheme \<Rightarrow> string \<Rightarrow> (lb_row \<Rightarrow> cmd list \<Rightarrow> bool) \<Rightarrow> lb_rows \<Rightarrow> bool" where
  "behind L u C R \<longleftrightarrow>
     (\<forall>v r1. R v = Some r1 \<longrightarrow>
        (if v = u then \<exists>r cmds. lb_uuid r = u \<and> reachable_row L r \<and> C r cmds \<and> applied cmds r r1
         else reachable_row L r1))"

abbreviation all_reachable :: "'a lib_scheme \<Rightarrow> lb_rows \<Rightarrow> bool" where
  "all_reachable L R \<equiv> \<forall>v r. R v = Some r \<longrightarrow> reachable_row L r"

lemma reachable_distinct: "reachable_row L r \<Longrightarrow> distinct (dict_keys (lb_external_ids r))"
  by (rule row_invD(1) [OF reachable_row_inv])

lemma reachable_unchanged: "reachable_row L r \<Longrightarrow> applied [] r r' \<Longrightarrow> reachable_row L r'"
  by (rule reachable_row.step, assumption, rule associated [of "[]"]) simp_all

lemma applied_refl: "distinct (dict_keys (lb_external_ids r)) \<Longrightarrow> applied [] r r"
  by (simp add: applied_def dict_eq_iff)

lemma rows_after_behind:
  assumes S: "nb_store E rows" and R: "all_reachable E (rows w)"
    and t: "targets u cmds" and a: "rows_after cmds (rows w) R'"
    and C: "\<And>r. rows w u = Some r \<Longrightarrow> C r cmds"
  shows "behind E u C R'"
  unfolding behind_def
proof (intro allI impI)
  fix v r1 assume "R' v = Some r1"
  with a obtain r where r: "rows w v = Some r" "distinct (dict_keys (lb_external_ids r)) \<longrightarrow> applied cmds r r1"
    unfolding rows_after_def by blast
  with R reachable_distinct have reach: "reachable_row E r" and ap: "applied cmds r r1" by blast+
  note u = nb_storeD(2) [OF S r(1)]
  show "if v = u then \<exists>r cmds. lb_uuid r = u \<and> reachable_row E r \<and> C r cmds \<and> applied cmds r r1 else reachable_row E r1"
    using reach ap u C r(1) reachable_unchanged [OF reach other_row [OF t _ ap]] by auto
qed

lemma commits_behind:
  assumes S: "nb_store E rows" and m: "commits rows cmds m" and t: "targets u cmds" and C: "C r cmds"
  shows "outcome (\<lambda>w. all_reachable E (rows w) \<and> rows w u = Some r) m (\<lambda>_ w. behind E u C (rows w)) (\<lambda>_. True)"
  unfolding outcome_def
proof (intro allI impI, elim conjE)
  fix w assume R: "all_reachable E (rows w)" and r: "rows w u = Some r"
  obtain y w' where y: "m w = (y, w')" by fastforce
  have c: "case y of Inr _ \<Rightarrow> rows_after cmds (rows w) (rows w') | Inl _ \<Rightarrow> rows w' = rows w"
    using spec [OF m [unfolded commits_def], of w] by (simp add: y)
  then show "case m w of (Inl e, w') \<Rightarrow> True | (Inr x, w') \<Rightarrow> behind E u C (rows w')"
    using rows_after_behind [OF S R t, of "rows w'" C] r C by (cases y) (simp_all add: y)
qed

lemma unchanged_behind:
  assumes S: "nb_store E rows" and R: "all_reachable E (rows w)" and C: "\<And>r. rows w u = Some r \<Longrightarrow> C r []"
  shows "behind E u C (rows w)"
  unfolding behind_def
proof (intro allI impI)
  fix v r1 assume r1: "rows w v = Some r1"
  with R have "reachable_row E r1" by blast
  then have "applied [] r1 r1" by (intro applied_refl reachable_distinct)
  with nb_storeD(2) [OF S r1] C r1 \<open>reachable_row E r1\<close>
  show "if v = u then \<exists>r cmds. lb_uuid r = u \<and> reachable_row E r \<and> C r cmds \<and> applied cmds r r1 else reachable_row E r1"
    by (auto intro!: exI [of _ r1] exI [of _ "[]"])
qed

text \<open>A transaction on the row \<open>u\<close>, made from the row as it is, catches up.\<close>

lemma catch_up:
  assumes S: "nb_store E rows" and t: "targets u cmds'"
    and step: "\<And>r cmds r'. reachable_row E r \<Longrightarrow> C r cmds \<Longrightarrow> applied cmds r r1 \<Longrightarrow> applied cmds' r1 r' \<Longrightarrow> reachable_row E r'"
  shows "outcome (\<lambda>w. behind E u C (rows w) \<and> rows w u = Some r1) (execute_commands E cmds')
    (\<lambda>_ w. all_reachable E (rows w)) (\<lambda>_. True)"
proof -
  have "all_reachable E R'"
    if B: "behind E u C (rows w)" and r1: "rows w u = Some r1" and a: "rows_after cmds' (rows w) R'" for w R'
  proof (intro allI impI)
    fix v r' assume "R' v = Some r'"
    with a obtain r2 where r2: "rows w v = Some r2" "distinct (dict_keys (lb_external_ids r2)) \<longrightarrow> applied cmds' r2 r'"
      unfolding rows_after_def by blast
    show "reachable_row E r'"
    proof (cases "v = u")
      case True
      from B r1 obtain r cmds where "reachable_row E r" "C r cmds" "applied cmds r r1"
        unfolding behind_def by force
      with step appliedD(3) True r1 r2 show ?thesis by auto
    next
      case False
      with B r2(1) have reach: "reachable_row E r2" by (auto simp: behind_def)
      with r2(2) reachable_distinct have ap: "applied cmds' r2 r'" by blast
      from False nb_storeD(2) [OF S r2(1)] reachable_unchanged [OF reach other_row [OF t _ ap]] show ?thesis by simp
    qed
  qed
  note after = this
  have same: "all_reachable E (rows w)" if "behind E u C (rows w)" "rows w u = Some r1" "cmds' = []" for w
    using after [OF that(1,2), of "rows w"] that(3) by (auto simp: rows_after_def deletes_row_def intro: applied_refl)
  show ?thesis
    unfolding outcome_def execute_commands_def
  proof (intro allI impI, elim conjE)
    fix w assume w: "behind E u C (rows w)" "rows w u = Some r1"
    show "case (if cmds' \<noteq> [] then nb_txn E cmds' else ret ()) w of (Inl e, w') \<Rightarrow> True
      | (Inr x, w') \<Rightarrow> all_reachable E (rows w')"
      using spec [OF nb_storeD(3) [OF S, of cmds', unfolded commits_def], of w] after [OF w] same [OF w]
      by (auto split: prod.splits sum.splits)
  qed
qed

text \<open>What the thread sends to Octavia after an update that succeeded: no ERROR.\<close>

definition reports_success :: "status \<Rightarrow> bool" where
  "reports_success s \<longleftrightarrow>
     list_all (\<lambda>(_, entries). list_all (\<lambda>e. dict_get e PROVISIONING_STATUS \<noteq> Some (Some ERROR)) entries) s"

section \<open>member_update\<close>

text \<open>What was applied to the row: the status \<open>st\<close> of a member that had the status \<open>old\<close>, or nothing.\<close>

definition restated :: "'a lib_scheme \<Rightarrow> string \<Rightarrow> string \<Rightarrow> string \<Rightarrow> string \<Rightarrow> lb_row \<Rightarrow> cmd list \<Rightarrow> bool" where
  "restated L u i old st r cmds \<longleftrightarrow>
     find_member_status L r i = Inr old \<and>
     (cmds = [] \<or> (\<exists>d. member_status_doc L (lb_external_ids r) = Inr d \<and>
        cmds = [member_status_command L u (change_member_status d i (Some st))]))"

text \<open>The member had the status \<open>old\<close> in the row \<open>u\<close>.\<close>

abbreviation had_status :: "'a lib_scheme \<Rightarrow> string \<Rightarrow> string \<Rightarrow> string \<Rightarrow> lb_rows \<Rightarrow> bool" where
  "had_status L u i old R \<equiv> all_reachable L R \<and> (\<forall>r. R u = Some r \<longrightarrow> find_member_status L r i = Inr old)"

lemma status_outcome:
  assumes S: "nb_store E rows"
  shows "outcome (\<lambda>w. had_status E u i old (rows w)) (update_external_ids_member_status E u i (Some st))
    (\<lambda>_ w. behind E u (restated E u i old st) (rows w)) (\<lambda>_. True)"
  unfolding update_external_ids_member_status_def
proof (rule outcome_read_row [OF S, where P = "had_status E u i old"], rule outcome_lift, simp)
  fix r :: lb_row and d assume r: "lb_uuid r = u" and d: "member_status_doc E (lb_external_ids r) = Inr d"
  let ?c = "member_status_command E u (change_member_status d i (Some st))"
  let ?B = "\<lambda>w. behind E u (restated E u i old st) (rows w)"
  have "?B w'" if w: "had_status E u i old (rows w)" "rows w u = Some r" and "nb_exec_nocheck E ?c w = (y, w')" for w y w'
  proof -
    have c: "rows w' = rows w \<or> rows_after [?c] (rows w) (rows w')"
      using spec [OF nb_storeD(9) [OF S, of ?c, unfolded may_commit_def], of w] that(3) by simp
    have t: "targets u [?c]" by (simp add: member_status_command_def)
    from c w d show ?thesis
      using rows_after_behind [OF S _ t, of w "rows w'" "restated E u i old st"]
        unchanged_behind [OF S, of w u "restated E u i old st"] by (auto simp: restated_def)
  qed
  then have "outcome (\<lambda>w. had_status E u i old (rows w) \<and> rows w u = Some r) (nb_exec_nocheck E ?c) (\<lambda>_. ?B) ?B"
    by (auto simp: outcome_def split: prod.splits sum.splits)
  then show "outcome (\<lambda>w. had_status E u i old (rows w) \<and> rows w u = Some r)
      (catch (nb_exec_nocheck E ?c) (\<lambda>_. ret ())) (\<lambda>_. ?B) (\<lambda>_. True)"
    by (rule outcome_catch) (rule outcome_ret)
qed simp

lemma restated_offline:
  assumes "restated L u i old st r cmds" and "member_status_doc L (lb_external_ids r) = Inr d"
  shows "dict_get d i = Some OFFLINE \<longleftrightarrow> old = OFFLINE"
  using offline_in_doc [OF assms(2), of i] assms(1) by (auto simp: restated_def is_member_offline_def)

lemma restated_settled:
  assumes S: "nb_store E rows" and B: "behind E u (restated E u i old st) R" and same: "old = OFFLINE \<longleftrightarrow> st = OFFLINE"
  shows "all_reachable E R"
proof (intro allI impI)
  fix v r1 assume r1: "R v = Some r1"
  show "reachable_row E r1"
  proof (cases "v = u")
    case True
    with B r1 obtain r cmds where r: "lb_uuid r = u" "reachable_row E r" "restated E u i old st r cmds" "applied cmds r r1"
      unfolding behind_def by metis
    show ?thesis
    proof (cases "cmds = []")
      case True
      with r show ?thesis by (auto intro: reachable_unchanged)
    next
      case False
      with r(3) obtain d where d: "member_status_doc E (lb_external_ids r) = Inr d"
        and c: "cmds = [member_status_command E u (change_member_status d i (Some st))]" by (auto simp: restated_def)
      note a = r(4) [unfolded c, folded r(1)]
      have "same_offline E r r1"
        by (rule status_step_same [OF nb_storeD(8) [OF S] d a]) (simp add: restated_offline [OF r(3) d] same)
      from reachable_row.step [OF r(2) status_written [OF a this]] show ?thesis .
    qed
  qed (use B r1 in \<open>auto simp: behind_def\<close>)
qed

lemma restated_catches_up:
  assumes S: "nb_store E rows" and r1: "lb_uuid r1 = u" and f: "refresh_lb_vips E r1 (lb_external_ids r1) False = Inr refresh"
  shows "outcome (\<lambda>w. behind E u (restated E u i old st) (rows w) \<and> rows w u = Some r1) (execute_commands E refresh)
    (\<lambda>_ w. all_reachable E (rows w)) (\<lambda>_. True)"
proof (rule catch_up [OF S])
  show "targets u refresh" using targets_refresh [OF f] r1 by simp
  fix r cmds r' assume r: "reachable_row E r" and c: "restated E u i old st r cmds" and a: "applied cmds r r1" "applied refresh r1 r'"
  have "lb_uuid r = u" using appliedD(4) [OF a(1)] r1 by simp
  with c obtain d where "cmds \<in> {[], [member_status_command E (lb_uuid r) d]}" by (auto simp: restated_def)
  from reachable_row.step [OF r member_updated [OF this a(1) f a(2)]] show "reachable_row E r'" .
qed

lemma apply_member_update_outcome:
  assumes S: "nb_store E rows"
  shows "outcome (\<lambda>w. had_status E u i old (rows w)) (apply_member_update E u i old st)
    (\<lambda>_ w. all_reachable E (rows w)) (\<lambda>_. True)"
  unfolding apply_member_update_def
proof (rule outcome_bnd [OF status_outcome [OF S]], rule outcome_cases(1))
  show "outcome (\<lambda>w. behind E u (restated E u i old st) (rows w))
     (bnd (nb_lb E u) (\<lambda>ovn_lb. bnd (lift (refresh_lb_vips E ovn_lb (lb_external_ids ovn_lb) False)) (execute_commands E)))
     (\<lambda>_ w. all_reachable E (rows w)) (\<lambda>_. True)"
  proof (rule outcome_read_row [OF S, where P = "behind E u (restated E u i old st)"], rule outcome_lift)
    fix r1 refresh assume "lb_uuid r1 = u" "refresh_lb_vips E r1 (lb_external_ids r1) False = Inr refresh"
    then show "outcome (\<lambda>w. behind E u (restated E u i old st) (rows w) \<and> rows w u = Some r1) (execute_commands E refresh)
        (\<lambda>_ w. all_reachable E (rows w)) (\<lambda>_. True)" by (rule restated_catches_up [OF S])
  qed simp_all
  show "outcome (\<lambda>w. behind E u (restated E u i old st) (rows w)) (ret ()) (\<lambda>_ w. all_reachable E (rows w)) (\<lambda>_. True)"
    if "\<not> (old \<noteq> OFFLINE \<and> st = OFFLINE \<or> old = OFFLINE \<and> st \<noteq> OFFLINE)"
  proof (rule outcome_ret)
    fix w assume "behind E u (restated E u i old st) (rows w)"
    from restated_settled [OF S this] that show "all_reachable E (rows w)" by blast
  qed
qed

lemma member_update_status_outcome:
  assumes S: "nb_store E rows"
  shows "outcome (\<lambda>w. all_reachable E (rows w)) (member_update_status E m row)
    (\<lambda>x w. \<exists>u. row = Some u \<and> had_status E u (md_id m) (fst x) (rows w)) (\<lambda>_. True)"
proof (cases row)
  case (Some u)
  show ?thesis
    unfolding member_update_status_def the_row_def Some option.case bnd_ret
    by (rule outcome_read_row [OF S, where P = "all_reachable E"], rule outcome_lift) (auto intro!: outcome_ret)
qed (simp add: member_update_status_def the_row_def outcome_def)

text \<open>The member of the report: ERROR when the second block failed.\<close>

lemma member_entry_success:
  assumes "reports_success (dict_set s MEMBERS [entry3 i (case updated of Inl _ \<Rightarrow> ERROR | Inr _ \<Rightarrow> ACTIVE) st])"
  shows "\<exists>x. updated = Inr x"
proof -
  let ?e = "entry3 i (case updated of Inl _ \<Rightarrow> ERROR | Inr _ \<Rightarrow> ACTIVE) st"
  have "(MEMBERS, [?e]) \<in> set (dict_set s MEMBERS [?e])"
    by (rule map_of_SomeD) simp
  with assms have "dict_get ?e PROVISIONING_STATUS \<noteq> Some (Some ERROR)"
    by (fastforce simp: reports_success_def list_all_iff)
  then show ?thesis by (cases updated) (simp_all add: entry3_def)
qed

text \<open>The three blocks of the handler: the new status, its effect, the report.\<close>

abbreviation status_known ::
  "'w env \<Rightarrow> ('w \<Rightarrow> lb_rows) \<Rightarrow> string \<Rightarrow> (string \<times> string option) res \<Rightarrow> (string \<times> string) res \<Rightarrow> 'w \<Rightarrow> bool" where
  "status_known E rows i found computed w \<equiv>
     \<forall>k row x. found = Inr (k, row) \<longrightarrow> computed = Inr x \<longrightarrow> (\<exists>u. row = Some u \<and> had_status E u i (fst x) (rows w))"

lemma computed_outcome:
  assumes S: "nb_store E rows"
  shows "outcome (\<lambda>w. all_reachable E (rows w))
    (attempt (bnd (lift found) (\<lambda>(k, row). member_update_status E m row)))
    (status_known E rows (md_id m) found) (\<lambda>_. True)"
proof (cases found)
  case (Inr y)
  obtain k row where y: "y = (k, row)" by fastforce
  show ?thesis
    unfolding Inr y bnd_lift prod.case
    by (rule outcome_attempt, rule outcome_weaken [OF member_update_status_outcome [OF S]]) auto
qed (simp add: outcome_def attempt_def)

lemma updated_outcome:
  assumes S: "nb_store E rows"
  shows "outcome (status_known E rows (md_id m) found computed)
     (attempt (bnd (lift found) (\<lambda>(k, row). bnd (lift computed) (\<lambda>(old, st). bnd (the_row row) (\<lambda>u.
        if md_admin_state_up m = None then ret () else apply_member_update E u (md_id m) old st)))))
     (\<lambda>updated w. updated = Inr () \<longrightarrow> all_reachable E (rows w)) (\<lambda>_. True)"
proof (rule outcome_attempt)
  show "outcome (status_known E rows (md_id m) found computed)
     (bnd (lift found) (\<lambda>(k, row). bnd (lift computed) (\<lambda>(old, st). bnd (the_row row) (\<lambda>u.
        if md_admin_state_up m = None then ret () else apply_member_update E u (md_id m) old st))))
     (\<lambda>x w. Inr x = Inr () \<longrightarrow> all_reachable E (rows w)) (\<lambda>w. \<forall>e. Inl e = Inr () \<longrightarrow> all_reachable E (rows w))"
  proof (rule outcome_lift, simp, rule outcome_cases(2), rule outcome_lift, simp, rule outcome_cases(2))
    fix y k row z old st
    assume f: "found = Inr y" "y = (k, row)" and c: "computed = Inr z" "z = (old, st)"
    show "outcome (status_known E rows (md_id m) found computed)
       (bnd (the_row row) (\<lambda>u. if md_admin_state_up m = None then ret () else apply_member_update E u (md_id m) old st))
       (\<lambda>x w. Inr x = Inr () \<longrightarrow> all_reachable E (rows w)) (\<lambda>w. \<forall>e. Inl e = Inr () \<longrightarrow> all_reachable E (rows w))"
    proof (cases row)
      case (Some u)
      have "outcome (\<lambda>w. had_status E u (md_id m) old (rows w))
         (if md_admin_state_up m = None then ret () else apply_member_update E u (md_id m) old st)
         (\<lambda>_ w. all_reachable E (rows w)) (\<lambda>_. True)"
        by (rule outcome_cases(1) [OF outcome_ret(1) apply_member_update_outcome [OF S]]) blast
      then show ?thesis
        unfolding the_row_def Some option.case bnd_ret
        by (rule outcome_weaken) (simp_all add: f c Some)
    qed (simp add: the_row_def outcome_def)
  qed
qed

lemma report_outcome:
  assumes S: "nb_store E rows"
  shows "outcome (\<lambda>w. updated = Inr () \<longrightarrow> all_reachable E (rows w))
     (bnd (bound found) (\<lambda>(k, row). bnd (the_row row) (\<lambda>u. bnd (get_current_operating_statuses E u) (\<lambda>s.
      ret (dict_set s MEMBERS [entry3 i (case updated of Inl _ \<Rightarrow> ERROR | Inr _ \<Rightarrow> ACTIVE) st])))))
     (\<lambda>s w. reports_success s \<longrightarrow> all_reachable E (rows w)) (\<lambda>_. True)"
proof -
  let ?P = "\<lambda>R. updated = Inr () \<longrightarrow> all_reachable E R"
  have rd: "outcome (\<lambda>w. ?P (rows w)) n (\<lambda>_ w. ?P (rows w)) (\<lambda>_. True)" if "reads rows n" for n
    by (rule outcome_weaken [OF outcome_reads [OF that, where P = ?P]]) simp_all
  have r: "outcome (\<lambda>w. ?P (rows w)) (ret (dict_set s MEMBERS [entry3 i (case updated of Inl _ \<Rightarrow> ERROR | Inr _ \<Rightarrow> ACTIVE) st]))
     (\<lambda>s w. reports_success s \<longrightarrow> all_reachable E (rows w)) (\<lambda>_. True)" for s
    by (rule outcome_ret) (auto dest!: member_entry_success)
  show ?thesis
    by (rule outcome_bnd [OF rd [OF plain_reads(2)]], rule outcome_cases(2),
        rule outcome_bnd [OF rd [OF plain_reads(1)]], rule outcome_bnd [OF rd [OF status_reads(1) [OF S]]], rule r)
qed

lemma member_update_outcome:
  assumes S: "nb_store E rows"
  shows "outcome (\<lambda>w. all_reachable E (rows w)) (member_update E m)
    (\<lambda>s w. reports_success s \<longrightarrow> all_reachable E (rows w)) (\<lambda>_. True)"
proof -
  have "reads rows (attempt (find_pool_of_member E m))"
    by (intro nb_reads pool_find_reads [OF S])
  then have find: "outcome (\<lambda>w. all_reachable E (rows w)) (attempt (find_pool_of_member E m))
      (\<lambda>_ w. all_reachable E (rows w)) (\<lambda>_. True)"
    by (rule outcome_weaken [OF outcome_reads [where P = "all_reachable E"]]) simp_all
  show ?thesis
    unfolding member_update_def
    by (rule outcome_bnd [OF find], rule outcome_bnd [OF computed_outcome [OF S]],
        rule outcome_bnd [OF updated_outcome [OF S]], rule report_outcome [OF S])
qed

end
