(* ===== verification/HandlerSpec.thy ===== *)
theory HandlerSpec
  imports UpdateKeeps Requests
begin

text \<open>
  Requests and the thread: what the handlers keep of the rows of the northbound store, the thread keeps
  over any queue.
\<close>

section \<open>Requests\<close>

lemma lrp_keeps:
  assumes S: "nb_store E rows" and J: "assoc_stable J"
  shows "keeps (all_rows J rows) (lb_create_lrp_assoc E i)" and "keeps (all_rows J rows) (lb_delete_lrp_assoc E i)"
proof -
  have "keeps (all_rows J rows) (ls_association_or_skip E n u a)" for n u a
    unfolding ls_association_or_skip_def by (intro io_inv association_keeps [OF S J])
  then show "keeps (all_rows J rows) (lb_create_lrp_assoc E i)" "keeps (all_rows J rows) (lb_delete_lrp_assoc E i)"
    unfolding lb_create_lrp_assoc_def lb_delete_lrp_assoc_def find_lb_in_ls_def Let_def
    by (auto intro!: io_inv association_keeps [OF S J] store_reads [OF S, THEN keeps_reads])
qed

lemma report_reads:
  assumes "nb_store E rows"
  shows "reads rows (update_status_to_octavia E s)"
  unfolding update_status_to_octavia_def by (intro nb_reads store_reads [OF assms])

text \<open>
  What the requests are made of: a member is created enabled, no pool id is part of another key, and the update
  of a load balancer does not change its administrative state (\<open>lb_update\<close> would not rebuild the \<open>vips\<close>, see
  \<open>Repair\<close>).
\<close>

fun step_request :: "request \<Rightarrow> bool" where
  "step_request (REQ_TYPE_MEMBER_CREATE m) = (md_admin_state_up m = Some True \<and> pool_id_ok (md_pool_id m))"
| "step_request (REQ_TYPE_MEMBER_DELETE m) = pool_id_ok (md_pool_id m)"
| "step_request (REQ_TYPE_LB_UPDATE i up) = (up = None)"
| "step_request request = True"

text \<open>
  \<open>member_update\<close> stores the new status first and rebuilds the \<open>vips\<close> in a transaction of its own, which may
  fail: it must report success.
\<close>

definition returns_success :: "('w, status) io \<Rightarrow> 'w \<Rightarrow> bool" where
  "returns_success m w = (case fst (m w) of Inl _ \<Rightarrow> False | Inr s \<Rightarrow> reports_success s)"

fun update_settles :: "'w env \<Rightarrow> request \<Rightarrow> 'w \<Rightarrow> bool" where
  "update_settles E (REQ_TYPE_MEMBER_UPDATE m) w = returns_success (member_update E m) w"
| "update_settles E request w = True"

lemma returns_success_rows:
  assumes "outcome (\<lambda>w. all_reachable E (rows w)) m (\<lambda>s w. reports_success s \<longrightarrow> all_reachable E (rows w)) (\<lambda>_. True)"
    and "returns_success m w" and "all_rows (reachable_row E) rows w"
  shows "all_rows (reachable_row E) rows (snd (m w))"
proof -
  obtain y w' where y: "m w = (y, w')" by fastforce
  from assms(3) have "all_reachable E (rows w)" by (simp add: all_rows_def)
  with assms(1) y have "case y of Inl e \<Rightarrow> True | Inr s \<Rightarrow> reports_success s \<longrightarrow> all_reachable E (rows w')"
    unfolding outcome_def by fastforce
  with assms(2) y show ?thesis
    unfolding returns_success_def all_rows_def by (cases y) simp_all
qed

lemma member_rows:
  assumes K: "keeps (all_rows (member_inv E M) rows) m" and w: "all_rows (guarded E request) rows w"
    and g: "\<And>r. request_guard E request r \<Longrightarrow> \<forall>i\<in>M. not_offline E i r"
  shows "all_rows (reachable_row E) rows (snd (m w))"
proof -
  from w g have "all_rows (member_inv E M) rows w"
    by (auto simp: all_rows_def guarded_def member_inv_def)
  with keepsD [OF K surjective_pairing] have "all_rows (member_inv E M) rows (snd (m w))" .
  then show ?thesis by (simp add: all_rows_def member_inv_def)
qed

text \<open>The requests that write statuses.\<close>

lemma status_request_rows:
  assumes S: "nb_store E rows"
  shows "all_rows (guarded E (REQ_TYPE_MEMBER_CREATE m)) rows w \<Longrightarrow> md_admin_state_up m = Some True \<Longrightarrow>
      pool_id_ok (md_pool_id m) \<Longrightarrow> all_rows (reachable_row E) rows (snd (member_create E m w))"
    and "all_rows (guarded E (REQ_TYPE_MEMBER_DELETE m)) rows w \<Longrightarrow> pool_id_ok (md_pool_id m) \<Longrightarrow>
      all_rows (reachable_row E) rows (snd (member_delete E m w))"
    and "all_rows (guarded E (REQ_TYPE_LB_DELETE lb cascade)) rows w \<Longrightarrow>
      all_rows (reachable_row E) rows (snd (lb_delete E lb cascade w))"
    and "all_rows (guarded E (REQ_TYPE_HM_CREATE h)) rows w \<Longrightarrow>
      all_rows (reachable_row E) rows (snd (hm_create E h w))"
    and "all_rows (guarded E (REQ_TYPE_HM_DELETE h)) rows w \<Longrightarrow>
      all_rows (reachable_row E) rows (snd (hm_delete E h w))"
    and "all_rows (guarded E (REQ_TYPE_HM_UPDATE_EVENT ev)) rows w \<Longrightarrow>
      all_rows (reachable_row E) rows (snd (hm_update_event E ev w))"
proof -
  show "all_rows (reachable_row E) rows (snd (member_create E m w))"
    if w: "all_rows (guarded E (REQ_TYPE_MEMBER_CREATE m)) rows w" and "md_admin_state_up m = Some True"
      "pool_id_ok (md_pool_id m)"
    by (rule member_rows [OF member_create_keeps [OF S that(2,3), of "{md_id m}"] w]) simp_all
  show "all_rows (reachable_row E) rows (snd (member_delete E m w))"
    if w: "all_rows (guarded E (REQ_TYPE_MEMBER_DELETE m)) rows w" and "pool_id_ok (md_pool_id m)"
    by (rule member_rows [OF member_delete_keeps [OF S that(2), of "{md_id m}"] w]) simp_all
  have st: "neutral_stable (active_rows E)" "neutral_stable (reachable_row E)"
    by (rule assoc_neutral_stable member_stable reachable_stable)+
  show "all_rows (reachable_row E) rows (snd (lb_delete E lb cascade w))"
    if "all_rows (guarded E (REQ_TYPE_LB_DELETE lb cascade)) rows w"
  proof (cases cascade)
    case True
    then show ?thesis
      by (intro member_rows [OF lb_delete_keeps [OF S st(1)] that]) (simp_all add: no_member_offline_def)
  next
    case False
    then have "keeps (all_rows (reachable_row E) rows) (lb_delete E lb cascade)"
      by (intro lb_delete_keeps [OF S st(2)]) simp
    from keepsD [OF this surjective_pairing weakensD(3) [OF guarded_weakens that]] show ?thesis .
  qed
  show "all_rows (reachable_row E) rows (snd (hm_create E h w))" if "all_rows (guarded E (REQ_TYPE_HM_CREATE h)) rows w"
    by (rule member_rows [OF hm_create_keeps [OF S] that]) (simp add: no_member_offline_def)
  show "all_rows (reachable_row E) rows (snd (hm_delete E h w))" if "all_rows (guarded E (REQ_TYPE_HM_DELETE h)) rows w"
    by (rule member_rows [OF hm_delete_keeps [OF S] that]) (simp add: no_member_offline_def)
  show "all_rows (reachable_row E) rows (snd (hm_update_event E ev w))" if "all_rows (guarded E (REQ_TYPE_HM_UPDATE_EVENT ev)) rows w"
    by (rule member_rows [OF hm_update_event_keeps [OF S] that]) (simp add: no_member_offline_def)
qed

lemma request_func_rows:
  assumes S: "nb_store E rows" and "step_request request" and "update_settles E request w"
    and w: "all_rows (guarded E request) rows w"
  shows "all_rows (reachable_row E) rows (snd (lb_request_func E request w))"
proof -
  from weakensD(3) [OF guarded_weakens w] have r: "all_rows (reachable_row E) rows w" .
  have st: "snd (with_status m w) = snd (m w)" for m and w
    by (simp add: with_status_def bnd_def split: prod.split sum.split)
  have un: "snd (without_status m w) = snd (m w)" for m and w
    by (simp add: without_status_def bnd_def split: prod.split sum.split)
  note J = reachable_stable [of E]
  have k: "keeps (all_rows (reachable_row E) rows) m \<Longrightarrow> all_rows (reachable_row E) rows (snd (m w))"
    for m :: "('a, 'c) io"
    using r by (metis keepsD surjective_pairing)
  show ?thesis
  proof (cases request)
    case REQ_TYPE_LB_CREATE
    show ?thesis unfolding REQ_TYPE_LB_CREATE lb_request_func.simps st
      by (rule k) (rule lb_create_keeps [OF S J reachable_blank])
  qed (use assms(2,3) w in \<open>simp_all add: st un k listener_create_keeps [OF S] listener_delete_keeps [OF S]
      listener_update_keeps [OF S] pool_update_keeps [OF S] lrp_keeps [OF S J]
      hm_update_keeps [OF S assoc_neutral_stable [OF J]] handle_member_dvr_keeps [OF S assoc_neutral_stable [OF J]]
      pool_create_rows [OF S] pool_delete_rows [OF S] handle_vip_fip_rows [OF S] status_request_rows [OF S] r
      lb_update_def ret_def returns_success_rows [OF member_update_outcome [OF S]]\<close>)
qed

lemma handle_request_rows:
  assumes S: "nb_store E rows" and "step_request request" and "update_settles E request w"
    and w: "all_rows (guarded E request) rows w"
  shows "all_rows (reachable_row E) rows (snd (handle_request E request w))"
proof -
  obtain x w' where x: "lb_request_func E request w = (x, w')" by fastforce
  with request_func_rows [OF assms] have "all_rows (reachable_row E) rows w'" by simp
  moreover have "keeps (all_rows (reachable_row E) rows)
      (if s \<noteq> None \<and> s \<noteq> Some [] then update_status_to_octavia E (the s) else ret ())" for s
    by (intro io_inv keeps_reads report_reads [OF S])
  ultimately show ?thesis
    by (cases x) (simp_all only: handle_request_def bnd_def x prod.case sum.case snd_conv keeps_def)
qed

section \<open>The thread\<close>

text \<open>The guards hold whenever the thread takes a request.\<close>

fun queue_ok :: "'w env \<Rightarrow> ('w \<Rightarrow> lb_rows) \<Rightarrow> request option list \<Rightarrow> 'w thread \<Rightarrow> bool" where
  "queue_ok E rows [] t = True"
| "queue_ok E rows (None # reqs) t = queue_ok E rows reqs t"
| "queue_ok E rows (Some request # reqs) t =
     (request = REQ_TYPE_EXIT \<or>
      step_request request \<and> update_settles E request (th_world t) \<and> all_rows (request_guard E request) rows (th_world t) \<and>
      queue_ok E rows reqs (run_request E request t))"

lemma run_request_world: "th_world (run_request E request t) = snd (handle_request E request (th_world t))"
  by (simp add: run_request_def split: prod.splits sum.splits)

lemma thread_rows:
  "nb_store E rows \<Longrightarrow> queue_ok E rows reqs t \<Longrightarrow> all_rows (reachable_row E) rows (th_world t) \<Longrightarrow>
   all_rows (reachable_row E) rows (th_world (fst (request_handler E reqs t)))"
proof (induction E reqs t rule: request_handler.induct)
  case (3 E request reqs t)
  show ?case
  proof (cases "request = REQ_TYPE_EXIT")
    case False
    with 3 have "all_rows (guarded E request) rows (th_world t)"
      by (auto simp: all_rows_def guarded_def)
    with 3 False have "all_rows (reachable_row E) rows (th_world (run_request E request t))"
      by (auto simp: run_request_world intro!: handle_request_rows)
    with 3 False show ?thesis by simp
  qed (use 3 in simp)
qed simp_all

text \<open>C5: The thread works through a queue of requests of every kind, each of which may return, report an error
  or raise; when every row of the northbound database was reachable at first (\<open>reachable_row\<close>), the
  \<open>vips\<close> column of every row is consistent with its \<open>external_ids\<close> at the end. The queue
  must be such that, whenever a request is taken: for every row, a pool to be created is not there yet and its
  listener has no pool, the key of a pool to be deleted is part only of the listener values that point to it and holds
  no listener prefix, a member to be created or deleted is not stored as offline, no member at all is for the
  cascading deletion of a load balancer, the creation or deletion of a health monitor and a service monitor event, and
  a floating IP to be disassociated is no additional one or the only one; members are created enabled, their pool's
  key holds no listener prefix; a load balancer is updated without a change of its administrative state, the floating
  IP request has not the action of the synchronisation, and \<open>member_update\<close> reports success. The database
  is any store whose transactions are atomic and do to a row what ovsdbapp documents (\<open>nb_store\<close>), with
  this thread as its only writer.\<close>

theorem thread_keeps_vips:
  assumes "nb_store E rows" and "queue_ok E rows reqs t" and "all_rows (reachable_row E) rows (th_world t)"
  shows "all_rows (vips_ok E) rows (th_world (fst (request_handler E reqs t)))"
  using thread_rows [OF assms] reachable_row_inv row_invD(3) unfolding all_rows_def by blast

section \<open>A store\<close>

definition ref_rows :: "db \<Rightarrow> lb_rows" where
  "ref_rows w u = find (\<lambda>r. lb_uuid r = u) (db_lbs w)"

lemma ref_reads: "outside_reads ref_env ref_rows"
  unfolding outside_reads_def
  by (auto simp: ref_env_def reads_def keeps_def ask_def get_row_def ref_rows_def split: option.split)

lemma find_run_db:
  assumes "ref_rows (run_db cmds w) u = Some r'"
  shows "\<not> deletes_row u cmds \<and> (\<exists>r. ref_rows w u = Some r \<and> r' = run_row cmds r)"
proof -
  have "find (\<lambda>r. lb_uuid r = u) (map (run_row cmds) (filter (\<lambda>r. \<not> deletes_row (lb_uuid r) cmds) xs)) = Some r' \<Longrightarrow>
    \<not> deletes_row u cmds \<and> (\<exists>r. find (\<lambda>r. lb_uuid r = u) xs = Some r \<and> r' = run_row cmds r)" for xs
    by (induction xs) (auto simp: run_row_def split: if_splits)
  with assms show ?thesis by (simp add: ref_rows_def run_db_def)
qed

lemma ref_commits: "commits ref_rows cmds (ref_txn cmds)"
  by (auto simp: commits_def ref_txn_def rows_after_def split: if_splits dest: find_run_db intro: applied_run_row)

lemma ref_created: "created_with k (ref_new_row k)"
proof -
  let ?kvs = "map (\<lambda>(i, v). (i, str_opt v)) (kw_external_ids k)"
  have "set (dict_keys (dict_merge [] ?kvs)) = fst ` set ?kvs"
    using dict_merge_dom [of "[]" ?kvs] by (simp add: dom_map_of_conv_image_fst)
  also have "\<dots> = set (dict_keys (kw_external_ids k))"
    by force
  finally show ?thesis
    by (simp only: created_with_def ref_new_row_def lb_row.simps distinct_dict_merge distinct.simps list.map) simp
qed

lemma ref_creates: "creates ref_rows k (ref_create_lb k)"
proof -
  have "find p (xs @ [x]) = Some r \<Longrightarrow> find p xs = Some r \<or> r = x" for p xs x and r :: lb_row
    by (induction xs) (auto split: if_splits)
  with ref_created [of k] show ?thesis
    by (simp add: creates_def ref_create_lb_def ref_rows_def) blast
qed

lemma ref_nb_store: "nb_store ref_env ref_rows"
  unfolding nb_store_def
proof (intro conjI allI impI ref_reads)
  show "retry_repeats ref_env"
    by (simp add: retry_repeats_def ref_env_def)
  show "documents_ok ref_env"
    by (simp add: documents_ok_def)
  show "may_commit ref_rows [c] (nb_exec_nocheck ref_env c)" for c
    by (auto simp: may_commit_def rows_after_def ref_env_def dest: find_run_db intro: applied_run_row)
  show "ref_rows w u = Some r" if "nb_lb ref_env u w = (Inr r, w')" for w u r w'
    using that by (simp add: get_row_def ref_rows_def split: option.splits)
  show "lb_uuid r = u" if "ref_rows w u = Some r" for w u r
    using that by (auto simp: ref_rows_def find_Some_iff)
  show "commits ref_rows cmds (nb_txn ref_env cmds)" "commits ref_rows [c] (nb_exec ref_env c)"
    for cmds c
    by (simp_all add: ref_commits)
  show "creates ref_rows k (nb_create_lb ref_env k)" for k
    using ref_creates by (simp add: ref_env_def)
qed

text \<open>
  A database with one new load balancer, which gets a listener, a pool for it and a member.
\<close>

definition new_db :: db where
  "new_db =
     empty_db\<lparr>db_lbs := [new_row],
       db_subnets := [(''s1'', \<lparr>sn_network_id = ''n1'', sn_gateway_ip = None, sn_cidr = ''10.0.0.0/24''\<rparr>)]\<rparr>"

definition new_thread :: "db thread" where
  "new_thread = \<lparr>th_world = new_db, th_done = [], th_failed = []\<rparr>"

definition new_member :: member_dict where
  "new_member =
     \<lparr>md_id = ''m1'', md_address = Some ''10.0.0.10'', md_protocol_port = Some (PortInt 8080),
      md_pool_id = Some ''p1'', md_subnet_id = Some ''s1'', md_admin_state_up = Some True\<rparr>"

definition sample_queue :: "request option list" where
  "sample_queue =
     [Some (REQ_TYPE_LB_UPDATE ''lb1'' None), Some (REQ_TYPE_LISTENER_CREATE sample_listener), None, Some (REQ_TYPE_POOL_CREATE sample_pool),
      Some (REQ_TYPE_MEMBER_CREATE new_member), Some REQ_TYPE_EXIT]"

definition after_update :: "db thread" where
  "after_update = run_request ref_env (REQ_TYPE_LB_UPDATE ''lb1'' None) new_thread"

definition after_listener :: "db thread" where
  "after_listener = run_request ref_env (REQ_TYPE_LISTENER_CREATE sample_listener) after_update"

definition after_pool :: "db thread" where
  "after_pool = run_request ref_env (REQ_TYPE_POOL_CREATE sample_pool) after_listener"

lemma listener_in_db: "map lb_external_ids (db_lbs (th_world after_listener)) = [lb_external_ids row1]"
  by code_simp

lemma member_not_offline:
  "list_all (\<lambda>r. is_member_offline ref_env r ''m1'' \<noteq> Inr True) (db_lbs (th_world after_pool))"
  by code_simp

lemma row1_fresh: "lb_external_ids r = lb_external_ids row1 \<Longrightarrow> request_guard ref_env (REQ_TYPE_POOL_CREATE sample_pool) r"
proof -
  assume "lb_external_ids r = lb_external_ids row1"
  moreover have "make_listener_key_value (PortInt 80) [] = ''80:''" by code_simp
  ultimately show ?thesis
    by (auto simp: fresh_pool_def row1_ext sample_pool_def dict_has_def get_pool_key_simps
        get_listener_key_simps truthy_def intro: sym)
qed

lemma ref_rows_mem: "ref_rows w u = Some r \<Longrightarrow> r \<in> set (db_lbs w)"
  by (auto simp: ref_rows_def find_Some_iff)

lemma sample_queue_ok: "queue_ok ref_env ref_rows sample_queue new_thread"
proof -
  have "request_guard ref_env (REQ_TYPE_POOL_CREATE sample_pool) r" if "r \<in> set (db_lbs (th_world after_listener))" for r
    by (rule row1_fresh) (use that listener_in_db in \<open>auto simp: map_eq_Cons_conv\<close>)
  then have pool: "all_rows (request_guard ref_env (REQ_TYPE_POOL_CREATE sample_pool)) ref_rows (th_world after_listener)"
    by (auto simp: all_rows_def simp del: request_guard.simps dest: ref_rows_mem)
  have "not_offline ref_env ''m1'' r" if "r \<in> set (db_lbs (th_world after_pool))" for r
    using that member_not_offline by (simp add: not_offline_def list_all_iff)
  then have member: "all_rows (request_guard ref_env (REQ_TYPE_MEMBER_CREATE new_member)) ref_rows (th_world after_pool)"
    unfolding all_rows_def request_guard.simps new_member_def member_dict.simps by (blast dest: ref_rows_mem)
  have listener: "all_rows (request_guard ref_env (REQ_TYPE_LISTENER_CREATE sample_listener)) ref_rows (th_world after_update)"
    by (simp add: all_rows_def)
  have updates: "all_rows (request_guard ref_env (REQ_TYPE_LB_UPDATE ''lb1'' None)) ref_rows w"
    "update_settles ref_env (REQ_TYPE_LB_UPDATE ''lb1'' None) w"
    "update_settles ref_env (REQ_TYPE_LISTENER_CREATE sample_listener) w"
    "update_settles ref_env (REQ_TYPE_POOL_CREATE sample_pool) w"
    "update_settles ref_env (REQ_TYPE_MEMBER_CREATE new_member) w" for w
    by (simp_all add: all_rows_def)
  have "pool_id_ok (Some ''p1'')" by (rule pool_id_without_listener) simp
  then have steps: "step_request (REQ_TYPE_MEMBER_CREATE new_member)"
    "step_request (REQ_TYPE_POOL_CREATE sample_pool)" "step_request (REQ_TYPE_LISTENER_CREATE sample_listener)"
    "step_request (REQ_TYPE_LB_UPDATE ''lb1'' None)"
    by (simp_all add: new_member_def)
  show ?thesis
    unfolding sample_queue_def queue_ok.simps after_update_def [symmetric]
      after_listener_def [symmetric] after_pool_def [symmetric]
    by (simp only: steps listener pool member updates simp_thms)
qed

theorem thread_keeps_vips_witness:
  "queue_ok ref_env ref_rows sample_queue new_thread \<and>
   all_rows (vips_ok ref_env) ref_rows (th_world (fst (request_handler ref_env sample_queue new_thread))) \<and>
   map lb_external_ids (db_lbs (th_world after_listener)) = [lb_external_ids row1]"
proof (intro conjI sample_queue_ok listener_in_db)
  have "all_rows (reachable_row ref_env) ref_rows (th_world new_thread)"
    by (auto simp: all_rows_def ref_rows_def new_thread_def new_db_def intro: created created_new_row)
  then show "all_rows (vips_ok ref_env) ref_rows (th_world (fst (request_handler ref_env sample_queue new_thread)))"
    by (rule thread_keeps_vips [OF ref_nb_store sample_queue_ok])
qed

end
