(* ===== verification/Clients.thy ===== *)
theory Clients
  imports Constants
begin

text \<open>
  The API clients (\<open>common/clients.py\<close>): the session of a configuration section with the fallback to
  \<open>[service_auth]\<close>, the singletons that hold the clients, and the arguments of the two connections.
  keystoneauth is a parameter: \<open>load\<close> registers the options of a section and builds the auth plugin from
  them (\<open>load_auth_from_conf_options\<close>). The clients as the handlers use them are the fields \<open>nt_...\<close> and
  \<open>oc_...\<close> of the outside.
\<close>

abbreviation SERVICE_AUTH :: string where "SERVICE_AUTH \<equiv> ''service_auth''"

abbreviation MissingRequiredOptions :: exn where
  "MissingRequiredOptions \<equiv> OtherException ''MissingRequiredOptions''"

section \<open>Configuration\<close>

text \<open>Where oslo.config found the value of an option; None is no location at all.\<close>

datatype opt_location = opt_default | set_default | set_override | user_file

record conf_opt =
  co_value :: "string option"
  co_location :: "opt_location option"

text \<open>The registered options, by section.\<close>

type_synonym conf = "conf_opt pydict pydict"

definition section_of :: "conf \<Rightarrow> string \<Rightarrow> conf_opt pydict" where
  "section_of conf name = dict_get_default conf name []"

text \<open>An option that is not configured takes the value of the option of that name in \<open>[service_auth]\<close>, if there is one.\<close>

definition not_configured :: "conf_opt \<Rightarrow> bool" where
  "not_configured opt \<longleftrightarrow>
     co_location opt = None \<or> co_location opt = Some opt_default \<or> co_location opt = Some set_default"

definition inherit_option :: "conf_opt pydict \<Rightarrow> string \<Rightarrow> conf_opt \<Rightarrow> conf_opt" where
  "inherit_option service_auth name opt =
     (if not_configured opt then
        (case dict_get service_auth name of
           None \<Rightarrow> opt
         | Some s \<Rightarrow> if co_value s \<noteq> co_value opt
                    then \<lparr>co_value = co_value s, co_location = Some set_override\<rparr> else opt)
      else opt)"

definition inherit_service_auth :: "string \<Rightarrow> conf \<Rightarrow> conf" where
  "inherit_service_auth name conf =
     dict_set conf name
       (map (\<lambda>(opt, v). (opt, inherit_option (section_of conf SERVICE_AUTH) opt v)) (section_of conf name))"

section \<open>KeystoneSession\<close>

definition load_auth :: "(string \<Rightarrow> (conf, 'a) io) \<Rightarrow> string \<Rightarrow> (conf, 'a) io" where
  "load_auth load name =
     catch (load name)
       (\<lambda>e. if e = MissingRequiredOptions then
              if name = SERVICE_AUTH then throw e
              else bnd (load SERVICE_AUTH) (\<lambda>_.
                   bnd (\<lambda>conf. (Inr (), inherit_service_auth name conf)) (\<lambda>_. load name))
            else throw e)"

text \<open>The property \<open>auth\<close> (and \<open>session\<close> likewise) keeps what it built.\<close>

definition cached :: "('w, 'a) io \<Rightarrow> ('w \<times> 'a option, 'a) io" where
  "cached build = (\<lambda>(w, kept).
     case kept of
       Some x \<Rightarrow> (Inr x, (w, kept))
     | None \<Rightarrow> (case build w of (Inr x, w') \<Rightarrow> (Inr x, (w', Some x)) | (Inl e, w') \<Rightarrow> (Inl e, (w', None))))"

definition session_auth :: "(string \<Rightarrow> (conf, 'a) io) \<Rightarrow> string \<Rightarrow> (conf \<times> 'a option, 'a) io" where
  "session_auth load name = cached (load_auth load name)"

section \<open>The clients\<close>

text \<open>\<open>Singleton\<close>: one instance per class; a constructor that raises leaves none.\<close>

definition singleton_call :: "string \<Rightarrow> ('w, 'i) io \<Rightarrow> ('w \<times> 'i pydict, 'i) io" where
  "singleton_call cls build = (\<lambda>(w, instances).
     case dict_get instances cls of
       Some i \<Rightarrow> (Inr i, (w, instances))
     | None \<Rightarrow>
         (case build w of
            (Inr i, w') \<Rightarrow> (Inr i, (w', dict_set instances cls i))
          | (Inl e, w') \<Rightarrow> (Inl e, (w', instances))))"

text \<open>The keyword arguments of the connections.\<close>

definition neutron_kwargs :: "string option \<Rightarrow> string pydict" where
  "neutron_kwargs endpoint_override =
     (if truthy endpoint_override then [(''network_endpoint_override'', the endpoint_override)] else [])"

definition octavia_kwargs :: "string \<Rightarrow> string list option \<Rightarrow> string pydict" where
  "octavia_kwargs region_name valid_interfaces =
     (let interface = (case valid_interfaces of Some (i # _) \<Rightarrow> Some i | _ \<Rightarrow> None) in
      (''region_name'', region_name) # (if truthy interface then [(''interface'', the interface)] else []))"

section \<open>Properties\<close>

lemma inherited_get:
  "dict_get (section_of (inherit_service_auth name conf) name) opt
     = map_option (inherit_option (section_of conf SERVICE_AUTH) opt) (dict_get (section_of conf name) opt)"
proof -
  have "dict_get (map (\<lambda>(opt, v). (opt, f opt v)) d) opt = map_option (f opt) (dict_get d opt)"
    for f :: "string \<Rightarrow> conf_opt \<Rightarrow> conf_opt" and d
    by (induction d) auto
  then show ?thesis by (simp add: inherit_service_auth_def section_of_def dict_get_default_def)
qed

lemma inherit_configured_kept:
  "dict_get (section_of conf name) opt = Some v \<Longrightarrow> \<not> not_configured v \<Longrightarrow>
   dict_get (section_of (inherit_service_auth name conf) name) opt = Some v"
  by (simp add: inherited_get inherit_option_def)

lemma inherit_missing_value:
  "dict_get (section_of conf name) opt = Some v \<Longrightarrow> not_configured v \<Longrightarrow>
   dict_get (section_of conf SERVICE_AUTH) opt = Some s \<Longrightarrow>
   \<exists>v'. dict_get (section_of (inherit_service_auth name conf) name) opt = Some v' \<and> co_value v' = co_value s"
  by (simp add: inherited_get inherit_option_def)

lemma inherit_other_section:
  "name' \<noteq> name \<Longrightarrow> section_of (inherit_service_auth name conf) name' = section_of conf name'"
  by (simp add: inherit_service_auth_def section_of_def dict_get_default_def)

lemma cached_builds_once:
  "cached build (w, None) = (Inr x, (w', kept)) \<Longrightarrow> cached build (w', kept) = (Inr x, (w', kept))"
  by (auto simp: cached_def split: prod.splits sum.splits)

lemma singleton_same_instance:
  "singleton_call cls build (w, insts) = (Inr i, (w', insts')) \<Longrightarrow>
   singleton_call cls build' (w'', insts') = (Inr i, (w'', insts'))"
  by (auto simp: singleton_call_def split: prod.splits sum.splits option.splits)

end
