(* ===== verification/Objects.thy ===== *)
theory Objects
  imports BatchSpec FipSpec
begin

text \<open>
  The abstract specification of a row: Octavia's listeners and pools as two maps from ids. \<open>represents\<close>
  relates it to the \<open>external_ids\<close> of a row; \<open>spec_step\<close> says what each operation of Octavia does to it,
  \<open>op_commands\<close> what the handler writes.
\<close>

section \<open>Octavia's objects\<close>

record listener_obj =
  lo_enabled :: bool
  lo_port :: string
  lo_pool :: "string option"

record pool_obj =
  po_enabled :: bool
  po_members :: "mem_info list"

record objects =
  ob_listeners :: "string \<Rightarrow> listener_obj option"
  ob_pools :: "string \<Rightarrow> pool_obj option"

text \<open>Octavia's ids are uuids.\<close>

definition listener_text :: "listener_obj \<Rightarrow> string" where
  "listener_text l = lo_port l @ '':'' @ (case lo_pool l of None \<Rightarrow> [] | Some p \<Rightarrow> get_pool_key p True)"

definition pool_text :: "pool_obj \<Rightarrow> string" where
  "pool_text p = join '','' (map print_member (po_members p))"

definition listener_at :: "objects \<Rightarrow> string \<Rightarrow> bool \<Rightarrow> string option" where
  "listener_at ob i up =
     (case ob_listeners ob i of None \<Rightarrow> None | Some l \<Rightarrow> if lo_enabled l = up then Some (listener_text l) else None)"

definition pool_at :: "objects \<Rightarrow> string \<Rightarrow> bool \<Rightarrow> string option" where
  "pool_at ob i up =
     (case ob_pools ob i of None \<Rightarrow> None | Some p \<Rightarrow> if po_enabled p = up then Some (pool_text p) else None)"

definition listener_wf :: "listener_obj \<Rightarrow> bool" where
  "listener_wf l \<longleftrightarrow> isdigit (lo_port l) \<and> (case lo_pool l of None \<Rightarrow> True | Some p \<Rightarrow> is_uuid p)"

definition pool_wf :: "pool_obj \<Rightarrow> bool" where
  "pool_wf p \<longleftrightarrow> list_all storable (po_members p) \<and> distinct (po_members p)"

definition objects_wf :: "objects \<Rightarrow> bool" where
  "objects_wf ob \<longleftrightarrow>
     (\<forall>i l. ob_listeners ob i = Some l \<longrightarrow> is_uuid i \<and> listener_wf l) \<and>
     (\<forall>i p. ob_pools ob i = Some p \<longrightarrow> is_uuid i \<and> pool_wf p)"

definition represents :: "string pydict \<Rightarrow> objects \<Rightarrow> bool" where
  "represents ext ob \<longleftrightarrow> objects_wf ob \<and>
     (\<forall>i up. is_uuid i \<longrightarrow> dict_get ext (get_listener_key i up) = listener_at ob i up) \<and>
     (\<forall>i up. is_uuid i \<longrightarrow> dict_get ext (get_pool_key i up) = pool_at ob i up) \<and>
     (\<forall>k. dict_has ext k \<longrightarrow> contains LB_EXT_IDS_LISTENER_PREFIX k \<longrightarrow> (\<exists>i up. is_uuid i \<and> k = get_listener_key i up))"

lemma representsD:
  assumes "represents ext ob"
  shows "objects_wf ob" "is_uuid i \<Longrightarrow> dict_get ext (get_listener_key i up) = listener_at ob i up"
    "is_uuid i \<Longrightarrow> dict_get ext (get_pool_key i up) = pool_at ob i up"
    "dict_has ext k \<Longrightarrow> contains LB_EXT_IDS_LISTENER_PREFIX k \<Longrightarrow> \<exists>i up. is_uuid i \<and> k = get_listener_key i up"
  using assms by (auto simp: represents_def)

lemma represents_cong: "map_of ext = map_of ext' \<Longrightarrow> represents ext ob \<longleftrightarrow> represents ext' ob"
  by (simp add: represents_def dict_has_def)

lemma objects_wfD:
  assumes "objects_wf ob"
  shows "ob_listeners ob i = Some l \<Longrightarrow> is_uuid i" "ob_listeners ob i = Some l \<Longrightarrow> listener_wf l"
    "ob_pools ob i = Some p \<Longrightarrow> is_uuid i" "ob_pools ob i = Some p \<Longrightarrow> pool_wf p"
  using assms by (auto simp: objects_wf_def)

section \<open>Uuids as parts of keys\<close>

lemma uuid_chars: "is_uuid i \<Longrightarrow> c \<in> set i \<Longrightarrow> is_hex c \<or> c = CHR ''-''"
proof -
  assume i: "is_uuid i" and "c \<in> set i"
  then obtain n where n: "n < 36" "c = i ! n"
    by (auto simp: is_uuid_def pattern_at in_set_conv_nth)
  have "list_all (\<lambda>f. f = is_hex \<or> f = (\<lambda>c. c = CHR ''-'')) uuid_pattern"
    by (simp add: uuid_pattern_def Let_def list_all_iff)
  with n have "uuid_pattern ! n = is_hex \<or> uuid_pattern ! n = (\<lambda>c. c = CHR ''-'')"
    by (simp add: list_all_length pattern_at)
  moreover from i n have "(uuid_pattern ! n) (i ! n)"
    by (simp add: is_uuid_def match_at_nth pattern_at)
  ultimately show ?thesis using n by auto
qed

lemma uuid_free [simp]:
  assumes "is_uuid i"
  shows "CHR '':'' \<notin> set i" "CHR ''_'' \<notin> set i" "CHR ''s'' \<notin> set i" "CHR '','' \<notin> set i" "length i = 36"
proof -
  have "\<not> is_hex CHR '':''" "\<not> is_hex CHR ''_''" "\<not> is_hex CHR ''s''" "\<not> is_hex CHR '',''"
    by code_simp+
  then show "CHR '':'' \<notin> set i" "CHR ''_'' \<notin> set i" "CHR ''s'' \<notin> set i" "CHR '','' \<notin> set i"
    using uuid_chars [OF assms] by blast+
  show "length i = 36" using assms by (simp add: is_uuid_def pattern_at)
qed

lemma key_inj [simp]:
  assumes "is_uuid i" and "is_uuid j"
  shows "get_listener_key i up = get_listener_key j up' \<longleftrightarrow> i = j \<and> up = up'"
    and "get_pool_key i up = get_pool_key j up' \<longleftrightarrow> i = j \<and> up = up'"
proof -
  have "length i = length j" using assms by simp
  then show "get_listener_key i up = get_listener_key j up' \<longleftrightarrow> i = j \<and> up = up'"
    "get_pool_key i up = get_pool_key j up' \<longleftrightarrow> i = j \<and> up = up'"
    by (cases up; cases up'; auto simp: get_listener_key_simps get_pool_key_simps)+
qed

lemma no_listener_in_pool_key [simp]:
  "is_uuid i \<Longrightarrow> \<not> contains LB_EXT_IDS_LISTENER_PREFIX (get_pool_key i up)"
  by (rule contains_not_first_char [of "CHR ''s''"]) (auto simp: get_pool_key_def Let_def)

lemma digits_free: "isdigit s \<Longrightarrow> CHR '':'' \<notin> set s" "isdigit s \<Longrightarrow> CHR ''_'' \<notin> set s"
proof -
  have "\<not> is_digit CHR '':''" "\<not> is_digit CHR ''_''" by code_simp+
  then show "isdigit s \<Longrightarrow> CHR '':'' \<notin> set s" "isdigit s \<Longrightarrow> CHR ''_'' \<notin> set s"
    by (auto simp: isdigit_def list_all_iff)
qed

text \<open>Among uuids the search for a substring is exact.\<close>

lemma pool_key_in_text:
  assumes "listener_wf l" and "is_uuid i"
  shows "contains (get_pool_key i True) (listener_text l) \<longleftrightarrow> lo_pool l = Some i"
proof
  assume c: "contains (get_pool_key i True) (listener_text l)"
  let ?q = "case lo_pool l of None \<Rightarrow> [] | Some p \<Rightarrow> get_pool_key p True"
  have "CHR '':'' \<notin> set (get_pool_key i True)" using assms(2) by (simp add: get_pool_key_simps)
  with c have "contains (get_pool_key i True) (lo_port l) \<or> contains (get_pool_key i True) ?q"
    by (simp add: listener_text_def contains_sep)
  moreover have "\<not> contains (get_pool_key i True) (lo_port l)"
    by (rule contains_not_first_char [of "CHR ''_''"])
      (use assms(1) digits_free in \<open>auto simp: listener_wf_def get_pool_key_simps\<close>)
  ultimately have q: "contains (get_pool_key i True) ?q" by blast
  then obtain p where p: "lo_pool l = Some p"
    by (cases "lo_pool l") (auto simp: contains_simps get_pool_key_simps)
  with assms(1) have "is_uuid p" by (simp add: listener_wf_def)
  with assms(2) have "length (get_pool_key p True) = length (get_pool_key i True)"
    by (simp add: get_pool_key_simps)
  moreover from q p obtain x y where "get_pool_key p True = x @ get_pool_key i True @ y"
    by (auto simp: contains_def sublist_def)
  ultimately have "get_pool_key p True = get_pool_key i True" by simp
  with p assms(2) \<open>is_uuid p\<close> show "lo_pool l = Some i" by simp
next
  assume "lo_pool l = Some i"
  then show "contains (get_pool_key i True) (listener_text l)"
    using contains_append [of "get_pool_key i True" "lo_port l @ '':''" "[]"] by (simp add: listener_text_def)
qed

lemma extract_listener_text:
  assumes "listener_wf l"
  shows "extract_listener_key_value (listener_text l)
    = (Some (lo_port l), Some (case lo_pool l of None \<Rightarrow> [] | Some p \<Rightarrow> get_pool_key p True))"
  using extract_make_listener [of "PortStr (lo_port l)" "case lo_pool l of None \<Rightarrow> [] | Some p \<Rightarrow> get_pool_key p True"]
    assms digits_free
  by (auto simp: listener_text_def listener_wf_def make_listener_key_value_def get_pool_key_simps split: option.splits)

section \<open>Changes of a representation\<close>

definition set_listener :: "string \<Rightarrow> listener_obj option \<Rightarrow> objects \<Rightarrow> objects" where
  "set_listener i l ob = ob\<lparr>ob_listeners := (ob_listeners ob)(i := l)\<rparr>"

definition set_pool :: "string \<Rightarrow> pool_obj option \<Rightarrow> objects \<Rightarrow> objects" where
  "set_pool i p ob = ob\<lparr>ob_pools := (ob_pools ob)(i := p)\<rparr>"

lemma at_set:
  "listener_at (set_listener i l ob) j up =
     (if j = i then case l of None \<Rightarrow> None | Some x \<Rightarrow> if lo_enabled x = up then Some (listener_text x) else None
      else listener_at ob j up)"
  "pool_at (set_listener i l ob) j up = pool_at ob j up"
  "listener_at (set_pool i p ob) j up = listener_at ob j up"
  "pool_at (set_pool i p ob) j up =
     (if j = i then case p of None \<Rightarrow> None | Some x \<Rightarrow> if po_enabled x = up then Some (pool_text x) else None
      else pool_at ob j up)"
  by (simp_all add: listener_at_def pool_at_def set_listener_def set_pool_def)

lemma wf_set:
  "objects_wf ob \<Longrightarrow> is_uuid i \<Longrightarrow> (\<And>x. l = Some x \<Longrightarrow> listener_wf x) \<Longrightarrow> objects_wf (set_listener i l ob)"
  "objects_wf ob \<Longrightarrow> is_uuid i \<Longrightarrow> (\<And>x. p = Some x \<Longrightarrow> pool_wf x) \<Longrightarrow> objects_wf (set_pool i p ob)"
  by (auto simp: objects_wf_def set_listener_def set_pool_def)

text \<open>The two keys of one listener or pool change, everything else stays.\<close>

lemma represents_set_listener:
  assumes R: "represents ext ob" and i: "is_uuid i" and l: "\<And>x. l = Some x \<Longrightarrow> listener_wf x"
    and get: "\<And>up. dict_get ext' (get_listener_key i up) = listener_at (set_listener i l ob) i up"
    and same: "\<And>k. (\<And>up. k \<noteq> get_listener_key i up) \<Longrightarrow> dict_get ext' k = dict_get ext k"
  shows "represents ext' (set_listener i l ob)"
  unfolding represents_def
proof (intro conjI allI impI)
  show "objects_wf (set_listener i l ob)" by (rule wf_set(1) [OF representsD(1) [OF R] i l])
  fix j up assume j: "is_uuid j"
  show "dict_get ext' (get_listener_key j up) = listener_at (set_listener i l ob) j up"
    using get same [of "get_listener_key j up"] representsD(2) [OF R j] i j by (cases "j = i") (auto simp: at_set)
  show "dict_get ext' (get_pool_key j up) = pool_at (set_listener i l ob) j up"
    using same [of "get_pool_key j up"] representsD(3) [OF R j] by (simp add: at_set)
next
  fix k assume k: "dict_has ext' k" "contains LB_EXT_IDS_LISTENER_PREFIX k"
  show "\<exists>j up. is_uuid j \<and> k = get_listener_key j up"
  proof (cases "\<exists>up. k = get_listener_key i up")
    case False
    with k same [of k] have "dict_has ext k" by (simp add: dict_has_def)
    then show ?thesis by (rule representsD(4) [OF R _ k(2)])
  qed (use i in blast)
qed

lemma represents_set_pool:
  assumes R: "represents ext ob" and i: "is_uuid i" and p: "\<And>x. p = Some x \<Longrightarrow> pool_wf x"
    and get: "\<And>up. dict_get ext' (get_pool_key i up) = pool_at (set_pool i p ob) i up"
    and same: "\<And>k. (\<And>up. k \<noteq> get_pool_key i up) \<Longrightarrow> dict_get ext' k = dict_get ext k"
  shows "represents ext' (set_pool i p ob)"
  unfolding represents_def
proof (intro conjI allI impI)
  show "objects_wf (set_pool i p ob)" by (rule wf_set(2) [OF representsD(1) [OF R] i p])
  fix j up assume j: "is_uuid j"
  show "dict_get ext' (get_pool_key j up) = pool_at (set_pool i p ob) j up"
    using get same [of "get_pool_key j up"] representsD(3) [OF R j] i j by (cases "j = i") (auto simp: at_set)
  show "dict_get ext' (get_listener_key j up) = listener_at (set_pool i p ob) j up"
    using same [of "get_listener_key j up"] representsD(2) [OF R j] by (simp add: at_set)
next
  fix k assume k: "dict_has ext' k" "contains LB_EXT_IDS_LISTENER_PREFIX k"
  then have "\<And>up. k \<noteq> get_pool_key i up" using i no_listener_in_pool_key by blast
  with k same [of k] have "dict_has ext k" by (simp add: dict_has_def)
  then show "\<exists>j up. is_uuid j \<and> k = get_listener_key j up" by (rule representsD(4) [OF R _ k(2)])
qed

lemma set_same: "ob_listeners ob i = l \<Longrightarrow> set_listener i l ob = ob" "ob_pools ob i = p \<Longrightarrow> set_pool i p ob = ob"
  by (auto simp: set_listener_def set_pool_def)

section \<open>Operations\<close>

text \<open>What Octavia asks for, with the dict its request carries; the string is the id of the pool.\<close>

datatype octavia_op =
    Create_listener listener_dict bool
  | Update_listener listener_dict
  | Delete_listener string
  | Create_pool pool_dict bool
  | Update_pool pool_dict
  | Delete_pool pool_dict
  | Add_member string member_dict
  | Remove_member string member_dict

text \<open>The key under which a row has a pool (\<open>_find_ovn_lb_by_pool_id\<close>).\<close>

definition key_of_pool :: "string pydict \<Rightarrow> string \<Rightarrow> string" where
  "key_of_pool ext i = (if dict_has ext (get_pool_key i True) then get_pool_key i True else get_pool_key i False)"

text \<open>The commands of the handlers, as they build them.\<close>

fun op_commands :: "'a lib_scheme \<Rightarrow> lb_row \<Rightarrow> octavia_op \<Rightarrow> cmd list res" where
  "op_commands L r (Create_listener l up) =
     listener_create_commands L r l (get_listener_key (ld_id l) up)
       (if truthy (default_pool l) then get_pool_key (the (default_pool l)) True else [])"
| "op_commands L r (Update_listener l) =
     (if ld_admin_state_up l = None \<and> ld_default_pool_id l = None then Inr []
      else (case present_listener_key l (lb_external_ids r) of
              None \<Rightarrow> Inr [] | Some k \<Rightarrow> listener_update_commands L r l k))"
| "op_commands L r (Delete_listener i) =
     (if dict_has (lb_external_ids r) (get_listener_key i True)
      then listener_delete_commands L r (get_listener_key i True) [] False else Inr [])"
| "op_commands L r (Create_pool p up) = Inr (pool_create_commands r p up)"
| "op_commands L r (Update_pool p) = pool_update_commands L r p"
| "op_commands L r (Delete_pool p) = rbind (pool_delete_commands L r p) (\<lambda>(cmds, ext). Inr cmds)"
| "op_commands L r (Add_member i m) =
     (let k = key_of_pool (lb_external_ids r) i in
      rbind (dict_item (lb_external_ids r) k) (\<lambda>existing.
      rbind (add_member_data m existing) (\<lambda>data.
      case data of None \<Rightarrow> Inr []
      | Some (info, value) \<Rightarrow> pool_value_commands L r k value (md_admin_state_up m = Some True) False)))"
| "op_commands L r (Remove_member i m) =
     (let k = key_of_pool (lb_external_ids r) i in
      rbind (dict_item (lb_external_ids r) k) (\<lambda>existing.
      rbind (remove_member_data m existing) (\<lambda>data.
      case data of None \<Rightarrow> Inr []
      | Some members \<Rightarrow> pool_value_commands L r k (join '','' members) True False)))"

definition attach_pool :: "string option \<Rightarrow> string \<Rightarrow> objects \<Rightarrow> objects" where
  "attach_pool li i ob =
     (if truthy li then
        (case ob_listeners ob (the li) of
           Some l \<Rightarrow> if lo_enabled l then set_listener (the li) (Some (l\<lparr>lo_pool := Some i\<rparr>)) ob else ob
         | None \<Rightarrow> ob)
      else ob)"

definition detach_pool :: "string \<Rightarrow> objects \<Rightarrow> objects" where
  "detach_pool i ob =
     ob\<lparr>ob_listeners := (\<lambda>j. map_option (\<lambda>l. if lo_pool l = Some i then l\<lparr>lo_pool := None\<rparr> else l) (ob_listeners ob j))\<rparr>"

definition change_members :: "string \<Rightarrow> (mem_info list \<Rightarrow> mem_info list) \<Rightarrow> objects \<Rightarrow> objects" where
  "change_members i f ob = set_pool i (map_option (\<lambda>p. p\<lparr>po_members := f (po_members p)\<rparr>) (ob_pools ob i)) ob"

text \<open>
  What each operation means. A disabled listener survives its deletion: the code looks for the key
  of an enabled one only.
\<close>

fun spec_step :: "octavia_op \<Rightarrow> objects \<Rightarrow> objects" where
  "spec_step (Create_listener l up) ob =
     set_listener (ld_id l) (Some \<lparr>lo_enabled = up, lo_port = str_port (ld_protocol_port l),
        lo_pool = (if truthy (default_pool l) then default_pool l else None)\<rparr>) ob"
| "spec_step (Update_listener l) ob =
     set_listener (ld_id l) (map_option (\<lambda>x.
       \<lparr>lo_enabled = (case ld_admin_state_up l of None \<Rightarrow> lo_enabled x | Some up \<Rightarrow> up),
        lo_port = (case ld_default_pool_id l of None \<Rightarrow> lo_port x | Some p \<Rightarrow> str_port (ld_protocol_port l)),
        lo_pool = (case ld_default_pool_id l of None \<Rightarrow> lo_pool x | Some p \<Rightarrow> p)\<rparr>) (ob_listeners ob (ld_id l))) ob"
| "spec_step (Delete_listener i) ob =
     (case ob_listeners ob i of
        Some l \<Rightarrow> if lo_enabled l then set_listener i None ob else ob
      | None \<Rightarrow> ob)"
| "spec_step (Create_pool p up) ob =
     attach_pool (pl_listener_id p) (pl_id p) (set_pool (pl_id p) (Some \<lparr>po_enabled = up, po_members = []\<rparr>) ob)"
| "spec_step (Update_pool p) ob =
     (case pl_admin_state_up p of None \<Rightarrow> ob
      | Some up \<Rightarrow> set_pool (pl_id p) (map_option (\<lambda>x. x\<lparr>po_enabled := up\<rparr>) (ob_pools ob (pl_id p))) ob)"
| "spec_step (Delete_pool p) ob = set_pool (pl_id p) None (detach_pool (pl_id p) ob)"
| "spec_step (Add_member i m) ob =
     change_members i (\<lambda>ms. if member_fields m \<in> set ms then ms else ms @ [member_fields m]) ob"
| "spec_step (Remove_member i m) ob = change_members i (remove1 (member_fields m)) ob"

text \<open>What Octavia ensures of the requests it sends.\<close>

fun op_ok :: "octavia_op \<Rightarrow> objects \<Rightarrow> bool" where
  "op_ok (Create_listener l up) ob =
     (is_uuid (ld_id l) \<and> ob_listeners ob (ld_id l) = None \<and> isdigit (str_port (ld_protocol_port l)) \<and>
      (truthy (default_pool l) \<longrightarrow> is_uuid (the (default_pool l))))"
| "op_ok (Update_listener l) ob =
     (is_uuid (ld_id l) \<and>
      (case ld_default_pool_id l of None \<Rightarrow> True
       | Some p \<Rightarrow> isdigit (str_port (ld_protocol_port l)) \<and> p \<noteq> None \<and> is_uuid (the p)))"
| "op_ok (Delete_listener i) ob = is_uuid i"
| "op_ok (Create_pool p up) ob =
     (is_uuid (pl_id p) \<and> ob_pools ob (pl_id p) = None \<and>
      (truthy (pl_listener_id p) \<longrightarrow> up \<and> is_uuid (the (pl_listener_id p)) \<and>
         (case ob_listeners ob (the (pl_listener_id p)) of None \<Rightarrow> True | Some l \<Rightarrow> lo_pool l = None)))"
| "op_ok (Update_pool p) ob = is_uuid (pl_id p)"
| "op_ok (Delete_pool p) ob = is_uuid (pl_id p)"
| "op_ok (Add_member i m) ob = (is_uuid i \<and> storable_member m \<and> md_admin_state_up m = Some True)"
| "op_ok (Remove_member i m) ob = (is_uuid i \<and> storable_member m)"

section \<open>The handlers implement the operations\<close>

lemma refresh_ext: "refresh_lb_vips L r ext s = Inr cs \<Longrightarrow> cols_after u EXT_IDS cs d = d"
  by (auto simp: refresh_lb_vips_def split: if_splits)

lemma listener_at_simps:
  "ob_listeners ob i = None \<Longrightarrow> listener_at ob i up = None"
  "ob_listeners ob i = Some l \<Longrightarrow> listener_at ob i up = (if lo_enabled l = up then Some (listener_text l) else None)"
  "ob_pools ob i = None \<Longrightarrow> pool_at ob i up = None"
  "ob_pools ob i = Some p \<Longrightarrow> pool_at ob i up = (if po_enabled p = up then Some (pool_text p) else None)"
  by (simp_all add: listener_at_def pool_at_def)

lemma create_listener_refines:
  assumes R: "represents (lb_external_ids r) ob" and ok: "op_ok (Create_listener l up) ob"
    and c: "op_commands L r (Create_listener l up) = Inr cmds"
  shows "represents (cols_after (lb_uuid r) EXT_IDS cmds (lb_external_ids r)) (spec_step (Create_listener l up) ob)"
proof -
  let ?q = "if truthy (default_pool l) then get_pool_key (the (default_pool l)) True else []"
  let ?l = "\<lparr>lo_enabled = up, lo_port = str_port (ld_protocol_port l),
    lo_pool = (if truthy (default_pool l) then default_pool l else None)\<rparr>"
  have i: "is_uuid (ld_id l)" and new: "ob_listeners ob (ld_id l) = None" using ok by simp_all
  have t: "listener_text ?l = make_listener_key_value (ld_protocol_port l) ?q"
    by (auto simp: listener_text_def make_listener_key_value_def elim: truthyE)
  have e: "cols_after (lb_uuid r) EXT_IDS cmds (lb_external_ids r)
      = dict_set (lb_external_ids r) (get_listener_key (ld_id l) up) (listener_text ?l)"
    using c unfolding t by (auto simp: listener_create_commands_def Let_def refresh_ext)
  show ?thesis
    unfolding e spec_step.simps
    by (rule represents_set_listener [OF R i])
      (use ok i new representsD(2) [OF R i] in
        \<open>auto simp: listener_wf_def at_set listener_at_simps elim: truthyE split: option.splits\<close>)
qed

lemma delete_listener_refines:
  assumes R: "represents (lb_external_ids r) ob" and ok: "op_ok (Delete_listener i) ob"
    and c: "op_commands L r (Delete_listener i) = Inr cmds"
  shows "represents (cols_after (lb_uuid r) EXT_IDS cmds (lb_external_ids r)) (spec_step (Delete_listener i) ob)"
proof -
  have i: "is_uuid i" using ok by simp
  have has: "dict_has (lb_external_ids r) (get_listener_key i True) \<longleftrightarrow> listener_at ob i True \<noteq> None"
    by (simp add: dict_has_def representsD(2) [OF R i])
  show ?thesis
  proof (cases "\<exists>l. ob_listeners ob i = Some l \<and> lo_enabled l")
    case True
    then obtain l where l: "ob_listeners ob i = Some l" "lo_enabled l" by blast
    then have e: "cols_after (lb_uuid r) EXT_IDS cmds (lb_external_ids r) = dict_del (lb_external_ids r) (get_listener_key i True)"
      using c has by (auto simp: listener_delete_commands_def Let_def refresh_ext listener_at_simps)
    show ?thesis
      unfolding e spec_step.simps l(1) option.case
      using l(2) by (simp, intro represents_set_listener [OF R i])
        (use l i representsD(2) [OF R i] in \<open>auto simp: at_set listener_at_simps\<close>)
  next
    case False
    then have "listener_at ob i True = None" by (auto simp: listener_at_def split: option.splits)
    with has c have "cmds = []" by simp
    with False R show ?thesis by (auto split: option.splits)
  qed
qed

lemma update_pool_refines:
  assumes R: "represents (lb_external_ids r) ob" and ok: "op_ok (Update_pool p) ob"
    and c: "op_commands L r (Update_pool p) = Inr cmds"
  shows "represents (cols_after (lb_uuid r) EXT_IDS cmds (lb_external_ids r)) (spec_step (Update_pool p) ob)"
proof (cases "pl_admin_state_up p")
  case None
  with c have "cols_after (lb_uuid r) EXT_IDS cmds (lb_external_ids r) = lb_external_ids r"
    by (auto simp: pool_update_commands_def set_options_def split: option.splits)
  with R None show ?thesis by simp
next
  case (Some up)
  let ?i = "pl_id p" and ?ext = "lb_external_ids r"
  have i: "is_uuid ?i" using ok by simp
  note get = representsD(3) [OF R i]
  show ?thesis
  proof (cases "dict_get ?ext (get_pool_key ?i (\<not> up))")
    case None
    then have e: "cols_after (lb_uuid r) EXT_IDS cmds ?ext = ?ext"
      using c Some by (auto simp: pool_update_commands_def move_pool_key_def set_options_def split: option.splits)
    have "map_option (\<lambda>x. x\<lparr>po_enabled := up\<rparr>) (ob_pools ob ?i) = ob_pools ob ?i"
      using None get [of "\<not> up"] by (cases "ob_pools ob ?i") (auto simp: listener_at_simps split: if_splits)
    with e Some R show ?thesis by (simp add: set_same)
  next
    case (Some v)
    then obtain x where x: "ob_pools ob ?i = Some x" "po_enabled x = (\<not> up)" "v = pool_text x"
      using get [of "\<not> up"] by (cases "ob_pools ob ?i") (auto simp: listener_at_simps split: if_splits)
    have e: "map_of (cols_after (lb_uuid r) EXT_IDS cmds ?ext)
        = map_of (dict_del (dict_set ?ext (get_pool_key ?i up) v) (get_pool_key ?i (\<not> up)))"
      using c Some \<open>pl_admin_state_up p = Some up\<close> i
      by (auto simp: pool_update_commands_def move_pool_key_def set_options_def refresh_ext fun_eq_iff Let_def split: option.splits)
    have "represents (dict_del (dict_set ?ext (get_pool_key ?i up) v) (get_pool_key ?i (\<not> up)))
        (set_pool ?i (Some (x\<lparr>po_enabled := up\<rparr>)) ob)"
      by (rule represents_set_pool [OF R i])
        (use x i objects_wfD(4) [OF representsD(1) [OF R] x(1)] in \<open>auto simp: pool_wf_def pool_text_def at_set\<close>)
    with \<open>pl_admin_state_up p = Some up\<close> x(1) show ?thesis
      by (simp add: represents_cong [OF e])
  qed
qed

lemma pool_of_row:
  assumes R: "represents ext ob" and i: "is_uuid i"
  shows "dict_get ext (key_of_pool ext i) = map_option pool_text (ob_pools ob i)"
    and "ob_pools ob i = Some x \<Longrightarrow> key_of_pool ext i = get_pool_key i (po_enabled x)"
  by (cases "ob_pools ob i"; auto simp: key_of_pool_def dict_has_def representsD(3) [OF R i] listener_at_simps split: if_splits)+

lemma pool_value_refines:
  assumes R: "represents (lb_external_ids r) ob" and i: "is_uuid i"
    and x: "ob_pools ob i = Some x" and ms: "list_all storable ms" "distinct ms"
    and c: "pool_value_commands L r (key_of_pool (lb_external_ids r) i) (join '','' (map print_member ms)) True False = Inr cmds"
  shows "represents (cols_after (lb_uuid r) EXT_IDS cmds (lb_external_ids r)) (set_pool i (Some (x\<lparr>po_members := ms\<rparr>)) ob)"
proof -
  have e: "cols_after (lb_uuid r) EXT_IDS cmds (lb_external_ids r)
      = dict_set (lb_external_ids r) (get_pool_key i (po_enabled x)) (join '','' (map print_member ms))"
    using c by (auto simp: pool_value_commands_def pool_of_row(2) [OF R i x] refresh_ext)
  show ?thesis
    unfolding e
    by (rule represents_set_pool [OF R i])
      (use x i ms representsD(3) [OF R i] in \<open>auto simp: pool_wf_def pool_text_def at_set listener_at_simps\<close>)
qed

lemma present_key:
  assumes R: "represents ext ob" and i: "is_uuid (ld_id l)"
  shows "present_listener_key l ext = map_option (\<lambda>x. get_listener_key (ld_id l) (lo_enabled x)) (ob_listeners ob (ld_id l))"
    and "ob_listeners ob (ld_id l) = Some x \<Longrightarrow> dict_get ext (get_listener_key (ld_id l) (lo_enabled x)) = Some (listener_text x)"
  by (cases "ob_listeners ob (ld_id l)";
      auto simp: present_listener_key_def Let_def dict_has_def representsD(2) [OF R i] listener_at_simps split: if_splits)+

lemma update_listener_refines:
  assumes R: "represents (lb_external_ids r) ob" and ok: "op_ok (Update_listener l) ob"
    and c: "op_commands L r (Update_listener l) = Inr cmds"
  shows "represents (cols_after (lb_uuid r) EXT_IDS cmds (lb_external_ids r)) (spec_step (Update_listener l) ob)"
proof (cases "(ld_admin_state_up l = None \<and> ld_default_pool_id l = None) \<or> ob_listeners ob (ld_id l) = None")
  case True
  have i: "is_uuid (ld_id l)" using ok by simp
  from True c have "cmds = []" by (auto simp: present_key(1) [OF R i] split: if_splits)
  moreover from True have "spec_step (Update_listener l) ob = ob"
    by (cases "ob_listeners ob (ld_id l)") (auto simp: set_same)
  ultimately show ?thesis using R by simp
next
  case False
  let ?i = "ld_id l" and ?ext = "lb_external_ids r"
  have i: "is_uuid ?i" using ok by simp
  from False obtain x where x: "ob_listeners ob ?i = Some x" by auto
  let ?old = "get_listener_key ?i (lo_enabled x)"
  define y where "y = \<lparr>lo_enabled = (case ld_admin_state_up l of None \<Rightarrow> lo_enabled x | Some up \<Rightarrow> up),
        lo_port = (case ld_default_pool_id l of None \<Rightarrow> lo_port x | Some p \<Rightarrow> str_port (ld_protocol_port l)),
        lo_pool = (case ld_default_pool_id l of None \<Rightarrow> lo_pool x | Some p \<Rightarrow> p)\<rparr>"
  have wf: "listener_wf y"
    using ok objects_wfD(2) [OF representsD(1) [OF R] x]
    by (auto simp: y_def listener_wf_def split: option.splits)
  have t: "listener_text y = (case ld_default_pool_id l of None \<Rightarrow> listener_text x
      | Some p \<Rightarrow> make_listener_key_value (ld_protocol_port l) (get_pool_key (str_opt p) True))"
    using ok by (auto simp: y_def listener_text_def make_listener_key_value_def str_opt_def split: option.splits)
  have v: "dict_item ?ext ?old = Inr (listener_text x)"
    by (simp add: dict_item_def present_key(2) [OF R i x])
  have e: "map_of (cols_after (lb_uuid r) EXT_IDS cmds ?ext)
      = map_of (if lo_enabled y = lo_enabled x then dict_set ?ext ?old (listener_text y)
         else dict_del (dict_set ?ext (get_listener_key ?i (lo_enabled y)) (listener_text y)) ?old)"
    using c False i v unfolding t
    by (auto simp: y_def present_key(1) [OF R i] x listener_update_commands_def listener_update_keys_def Let_def
        refresh_ext fun_eq_iff present_key(2) [OF R i x] split: option.splits if_splits)
  have "represents (if lo_enabled y = lo_enabled x then dict_set ?ext ?old (listener_text y)
         else dict_del (dict_set ?ext (get_listener_key ?i (lo_enabled y)) (listener_text y)) ?old) (set_listener ?i (Some y) ob)"
    by (rule represents_set_listener [OF R i])
      (use i x wf representsD(2) [OF R i] in \<open>auto simp: at_set listener_at_simps\<close>)
  moreover have "spec_step (Update_listener l) ob = set_listener ?i (Some y) ob" by (simp add: x y_def)
  ultimately show ?thesis by (simp only: represents_cong [OF e])
qed

lemma fresh_pool_of:
  assumes R: "represents ext ob" and ok: "op_ok (Create_pool p up) ob"
  shows "fresh_pool p up ext"
proof -
  have "\<exists>q. listener_text l = make_listener_key_value q []" if "lo_pool l = None" for l
    using that by (intro exI [of _ "PortStr (lo_port l)"]) (simp add: listener_text_def make_listener_key_value_def)
  with ok show ?thesis
    by (auto simp: fresh_pool_def dict_has_def representsD(2,3) [OF R] listener_at_def pool_at_def split: option.splits)
qed

lemma create_pool_refines:
  assumes R: "represents (lb_external_ids r) ob" and ok: "op_ok (Create_pool p up) ob"
    and d: "distinct (dict_keys (lb_external_ids r))" and c: "op_commands L r (Create_pool p up) = Inr cmds"
  shows "represents (cols_after (lb_uuid r) EXT_IDS cmds (lb_external_ids r)) (spec_step (Create_pool p up) ob)"
proof -
  let ?ext = "lb_external_ids r" and ?i = "pl_id p"
  let ?ext' = "pool_create_external_ids p up ?ext" and ?ob = "set_pool ?i (Some \<lparr>po_enabled = up, po_members = []\<rparr>) ob"
  let ?pk = "get_pool_key ?i up" and ?lk = "get_listener_key (the (pl_listener_id p)) True"
  have i: "is_uuid ?i" and new: "ob_pools ob ?i = None" using ok by simp_all
  have c': "cols_after (lb_uuid r) EXT_IDS cmds ?ext = dict_merge ?ext ?ext'"
    using c by (auto simp: pool_create_commands_def Let_def set_options_def)
  have "dom (map_of ?ext) \<subseteq> dom (map_of ?ext')"
    by (auto simp: pool_create_external_ids_def Let_def split: option.splits)
  note e = merge_superset [OF distinct_pool_create [OF d] this, folded c']
  have R1: "represents (dict_set ?ext ?pk []) ?ob"
    by (rule represents_set_pool [OF R i])
      (use i new representsD(3) [OF R i] in \<open>auto simp: pool_wf_def pool_text_def at_set listener_at_simps\<close>)
  have "represents ?ext' (attach_pool (pl_listener_id p) ?i ?ob)"
  proof (cases "truthy (pl_listener_id p) \<and> dict_has ?ext ?lk")
    case False
    with R1 show ?thesis
      using ok representsD(2) [OF R, of "the (pl_listener_id p)" True]
      by (auto simp: pool_create_external_ids_def attach_pool_def set_pool_def Let_def dict_has_def listener_at_def
          split: option.splits if_splits)
  next
    case True
    then obtain j where j: "pl_listener_id p = Some j" "is_uuid j" and up: "up" using ok by (auto elim: truthyE)
    with True obtain l where l: "ob_listeners ob j = Some l" "lo_enabled l"
      using representsD(2) [OF R j(2), of True] by (auto simp: dict_has_def listener_at_def split: option.splits if_splits)
    with ok j True have none: "lo_pool l = None" by simp
    note wl = objects_wfD(2) [OF representsD(1) [OF R] l(1)]
    from pool_key_in_text [OF wl i] none have "\<not> contains ?pk (listener_text l)" by (simp add: up)
    then have ext': "?ext' = dict_set (dict_set ?ext ?pk []) (get_listener_key j True) (listener_text (l\<lparr>lo_pool := Some ?i\<rparr>))"
      using True j l none up representsD(2) [OF R j(2), of True]
      by (simp add: pool_create_external_ids_def Let_def listener_at_simps listener_text_def)
    have "represents ?ext' (set_listener j (Some (l\<lparr>lo_pool := Some ?i\<rparr>)) ?ob)"
      unfolding ext'
      by (rule represents_set_listener [OF R1 j(2)])
        (use j l wl i representsD(2) [OF R1 j(2)] in \<open>auto simp: listener_wf_def at_set listener_at_simps\<close>)
    with True j l show ?thesis by (simp add: attach_pool_def set_pool_def)
  qed
  with e show ?thesis by (simp only: represents_cong [OF e] spec_step.simps)
qed

lemma exact_refs_of:
  assumes R: "represents ext ob" and i: "is_uuid i"
  shows "exact_pool_refs (get_pool_key i True) ext"
  unfolding exact_pool_refs_def
proof (intro allI impI)
  fix k v
  assume kv: "dict_get ext k = Some v" "startswith k LB_EXT_IDS_LISTENER_PREFIX" "contains (get_pool_key i True) v"
  then obtain j up where j: "is_uuid j" "k = get_listener_key j up"
    using representsD(4) [OF R, of k] by (auto simp: dict_has_def intro: contains_prefix)
  with kv(1) obtain l where l: "ob_listeners ob j = Some l" "v = listener_text l"
    using representsD(2) [OF R j(1), of up] by (auto simp: listener_at_def split: option.splits if_splits)
  note wl = objects_wfD(2) [OF representsD(1) [OF R] l(1)]
  with kv(3) l(2) i have "lo_pool l = Some i" by (simp add: pool_key_in_text)
  then show "snd (extract_listener_key_value v) \<in> {None, Some (get_pool_key i True)}"
    by (simp add: l(2) extract_listener_text [OF wl])
qed

lemma delete_pool_refines:
  assumes R: "represents (lb_external_ids r) ob" and ok: "op_ok (Delete_pool p) ob"
    and d: "distinct (dict_keys (lb_external_ids r))" and c: "op_commands L r (Delete_pool p) = Inr cmds"
  shows "represents (cols_after (lb_uuid r) EXT_IDS cmds (lb_external_ids r)) (spec_step (Delete_pool p) ob)"
proof -
  let ?ext = "lb_external_ids r" and ?i = "pl_id p"
  let ?pk = "get_pool_key ?i True"
  let ?D = "set (detached_listeners ?ext ?pk)" and ?ob = "spec_step (Delete_pool p) ob"
  have i: "is_uuid ?i" using ok by simp
  from c obtain ext where "pool_delete_commands L r p = Inr (cmds, ext)" by auto
  note e = pool_delete_columns(1) [OF this d]
  have get: "dict_get (without_pool ?i ?ext) j = (if j = get_pool_key ?i False then None else if j \<in> ?D
      then Some (hd (split_on CHR '':'' (the (dict_get ?ext j))) @ '':'') else dict_get (dict_del ?ext ?pk) j)" for j
    by (simp add: without_pool_def detach_get)
  have "represents (without_pool ?i ?ext) ?ob"
    unfolding represents_def
  proof (intro conjI allI impI)
    show "objects_wf ?ob"
      using representsD(1) [OF R]
      by (fastforce simp: objects_wf_def set_pool_def detach_pool_def listener_wf_def split: option.splits if_splits)
    fix j up assume j: "is_uuid j"
    have "get_pool_key j up \<notin> ?D"
      by (auto simp: detached_mem [OF d] get_pool_key_def startswith_def Let_def)
    with j i show "dict_get (without_pool ?i ?ext) (get_pool_key j up) = pool_at ?ob j up"
      by (cases up) (auto simp: get representsD(3) [OF R j] pool_at_def set_pool_def detach_pool_def delete_conv')
    note lj = representsD(2) [OF R j, of up]
    have st: "startswith (get_listener_key j up) LB_EXT_IDS_LISTENER_PREFIX"
      by (simp add: get_listener_key_def startswith_def Let_def)
    have neq: "get_listener_key j up \<noteq> get_pool_key ?i b" for b
      by (simp add: get_listener_key_def get_pool_key_def Let_def)
    show "dict_get (without_pool ?i ?ext) (get_listener_key j up) = listener_at ?ob j up"
    proof (cases "listener_at ob j up")
      case None
      then have "get_listener_key j up \<notin> ?D" using lj by (simp add: detached_mem [OF d])
      with None lj neq show ?thesis
        by (auto simp: get delete_conv' listener_at_def detach_pool_def set_pool_def split: option.splits if_splits)
    next
      case (Some v)
      then obtain l where l: "ob_listeners ob j = Some l" "lo_enabled l = up" "v = listener_text l"
        by (auto simp: listener_at_def split: option.splits if_splits)
      note wl = objects_wfD(2) [OF representsD(1) [OF R] l(1)]
      have D: "get_listener_key j up \<in> ?D \<longleftrightarrow> lo_pool l = Some ?i"
        using lj l st Some i by (auto simp: detached_mem [OF d] pool_key_in_text [OF wl])
      have "hd (split_on CHR '':'' (listener_text l)) = lo_port l"
        using wl digits_free(1) by (simp add: listener_text_def listener_wf_def split_on_sep)
      with D lj l neq Some show ?thesis
        by (auto simp: get delete_conv' listener_at_def detach_pool_def set_pool_def listener_text_def)
    qed
  next
    fix k assume k: "dict_has (without_pool ?i ?ext) k" "contains LB_EXT_IDS_LISTENER_PREFIX k"
    then have "dict_has ?ext k"
      by (auto simp: dict_has_def get delete_conv' detached_mem [OF d] split: if_splits)
    then show "\<exists>j up. is_uuid j \<and> k = get_listener_key j up" by (rule representsD(4) [OF R _ k(2)])
  qed
  then show ?thesis by (simp only: represents_cong [OF e])
qed

lemma pool_members_held:
  assumes "represents ext ob" and "ob_pools ob i = Some x"
  shows "holds (po_members x) (pool_text x)"
  using objects_wfD(4) [OF representsD(1) [OF assms(1)] assms(2)] by (simp add: pool_wf_def holds_def pool_text_def)

lemma set_members_same: "ob_pools ob i = Some x \<Longrightarrow> set_pool i (Some (x\<lparr>po_members := po_members x\<rparr>)) ob = ob"
  by (rule set_same(2)) simp

lemma add_member_refines:
  assumes R: "represents (lb_external_ids r) ob" and ok: "op_ok (Add_member i m) ob"
    and c: "op_commands L r (Add_member i m) = Inr cmds"
  shows "represents (cols_after (lb_uuid r) EXT_IDS cmds (lb_external_ids r)) (spec_step (Add_member i m) ob)"
proof -
  let ?f = "member_fields m"
  have i: "is_uuid i" and m: "storable_member m" "storable ?f" using ok by (auto simp: storable_member_def)
  from c obtain x where x: "ob_pools ob i = Some x"
    using pool_of_row(1) [OF R i] by (cases "ob_pools ob i") (auto simp: dict_item_def Let_def)
  note h = pool_members_held [OF R x]
  then have ms: "list_all storable (po_members x)" "distinct (po_members x)" by (simp_all add: holds_def)
  have item: "dict_item (lb_external_ids r) (key_of_pool (lb_external_ids r) i) = Inr (pool_text x)"
    by (simp add: dict_item_def pool_of_row(1) [OF R i] x)
  note data = add_member_data_eq [OF m(1), of "pool_text x"] holds_parts [OF h] mem_print_members [OF ms(1) m(2)]
  show ?thesis
  proof (cases "?f \<in> set (po_members x)")
    case True
    with c item data R x show ?thesis by (simp add: Let_def change_members_def set_same)
  next
    case False
    then have "pool_value_commands L r (key_of_pool (lb_external_ids r) i)
        (join '','' (map print_member (po_members x @ [?f]))) True False = Inr cmds"
      using c item data ok by (simp add: Let_def)
    from pool_value_refines [OF R i x _ _ this] ms m(2) False show ?thesis
      by (simp add: change_members_def x)
  qed
qed

lemma remove_member_refines:
  assumes R: "represents (lb_external_ids r) ob" and ok: "op_ok (Remove_member i m) ob"
    and c: "op_commands L r (Remove_member i m) = Inr cmds"
  shows "represents (cols_after (lb_uuid r) EXT_IDS cmds (lb_external_ids r)) (spec_step (Remove_member i m) ob)"
proof -
  let ?f = "member_fields m"
  have i: "is_uuid i" and m: "storable_member m" "storable ?f" using ok by (auto simp: storable_member_def)
  from c obtain x where x: "ob_pools ob i = Some x"
    using pool_of_row(1) [OF R i] by (cases "ob_pools ob i") (auto simp: dict_item_def Let_def)
  note h = pool_members_held [OF R x]
  then have ms: "list_all storable (po_members x)" "distinct (po_members x)" by (simp_all add: holds_def)
  have item: "dict_item (lb_external_ids r) (key_of_pool (lb_external_ids r) i) = Inr (pool_text x)"
    by (simp add: dict_item_def pool_of_row(1) [OF R i] x)
  note data = remove_member_data_eq [OF m(1), of "pool_text x"] holds_parts [OF h] mem_print_members [OF ms(1) m(2)]
    remove1_print_member [OF ms(1) m(2)]
  show ?thesis
  proof (cases "?f \<in> set (po_members x)")
    case False
    with c item data R x show ?thesis by (simp add: Let_def change_members_def set_same remove1_idem)
  next
    case True
    then have "pool_value_commands L r (key_of_pool (lb_external_ids r) i)
        (join '','' (map print_member (remove1 ?f (po_members x)))) True False = Inr cmds"
      using c item data by (simp add: Let_def)
    moreover have "list_all storable (remove1 ?f (po_members x))"
      using ms(1) by (auto simp: list_all_iff dest: notin_set_remove1)
    ultimately show ?thesis
      using pool_value_refines [OF R i x _ distinct_remove1 [OF ms(2)]] by (simp add: change_members_def x)
  qed
qed

lemmas op_refines = create_listener_refines update_listener_refines delete_listener_refines
  update_pool_refines add_member_refines remove_member_refines

text \<open>One operation.\<close>

lemma op_step_refines:
  assumes "represents (lb_external_ids r) ob" and "distinct (dict_keys (lb_external_ids r))" and "op_ok op ob"
    and "op_commands L r op = Inr cmds" and "applied cmds r r'"
  shows "represents (lb_external_ids r') (spec_step op ob)"
proof -
  have "represents (cols_after (lb_uuid r) EXT_IDS cmds (lb_external_ids r)) (spec_step op ob)"
    by (cases op)
      (use assms(2-4) in \<open>simp_all only: op_refines [OF assms(1)] create_pool_refines [OF assms(1) _ assms(2)]
        delete_pool_refines [OF assms(1) _ assms(2)]\<close>)
  then show ?thesis using represents_cong [OF appliedD(1) [OF assms(5)]] by simp
qed

lemma pool_key_prefix [simp]: "startswith (get_pool_key i up) LB_EXT_IDS_POOL_PREFIX"
  by (simp add: get_pool_key_def startswith_def Let_def)

lemma pool_value_step:
  assumes "is_uuid i" and "pool_value_commands L r (key_of_pool (lb_external_ids r) i) v True False = Inr cmds"
    and "applied cmds r r'"
  shows "row_step L r r'"
  by (rule pool_value_changed [OF _ _ assms(2,3)]) (use assms(1) in \<open>auto simp: key_of_pool_def\<close>)

text \<open>And it is a step of the row, so the \<open>vips\<close> stay right.\<close>

lemma op_row_step:
  assumes R: "represents (lb_external_ids r) ob" and ok: "op_ok op ob"
    and c: "op_commands L r op = Inr cmds" and a: "applied cmds r r'"
  shows "row_step L r r'"
proof (cases "cmds = []")
  case True
  with a show ?thesis by (intro associated [of cmds]) simp_all
next
  case False
  show ?thesis
  proof (cases op)
    case (Create_listener l up)
    with c a show ?thesis by (auto intro: listener_created)
  next
    case (Update_listener l)
    with c a False show ?thesis by (auto intro: listener_updated split: if_splits option.splits)
  next
    case (Delete_listener i)
    with c a False show ?thesis by (auto intro: listener_deleted [where clean = "[]"] split: if_splits)
  next
    case (Create_pool p up)
    with c a fresh_pool_of [OF R] ok show ?thesis by (auto intro: pool_created)
  next
    case (Update_pool p)
    with c a show ?thesis by (auto intro: pool_updated)
  next
    case (Delete_pool p)
    with c obtain ext where "pool_delete_commands L r p = Inr (cmds, ext)" by auto
    moreover have "is_uuid (pl_id p)" using ok Delete_pool by simp
    ultimately show ?thesis
      using a by (intro pool_deleted [OF exact_refs_of [OF R], where clean = "[]"]) auto
  next
    case (Add_member i m)
    with c a ok False show ?thesis
      by (auto intro: pool_value_step simp: Let_def split: option.splits)
  next
    case (Remove_member i m)
    with c a ok False show ?thesis
      by (auto intro: pool_value_step simp: Let_def split: option.splits)
  qed
qed

end
