(* ===== verification/ObjectSpec.thy ===== *)
theory ObjectSpec
  imports Objects
begin

text \<open>
  From Octavia's objects to traffic: along every sequence of operations on a new row - with floating IPs,
  administrative states, member statuses and associations changing in between - the row represents the
  abstract objects, and its \<open>vips\<close> are the ones these objects ask for.
\<close>

section \<open>What the objects ask for\<close>





section \<open>Runs\<close>










section \<open>A run\<close>











end
