(* ===== verification/Config.thy ===== *)
theory Config
  imports Clients
begin

text \<open>
  The configuration (\<open>common/config.py\<close>): the declared options, which of them are registered, how the
  deprecated options of \<open>[neutron]\<close> become defaults of their successors, and the getters. oslo.config and
  the option sets of keystoneauth are a parameter, \<open>oslo\<close>; what the code relies on is \<open>oslo_ok\<close>, and
  \<open>layers\<close> is an instance of it: an override, a configured value, a default that was set and the
  declared default, in this order.
\<close>

section \<open>The declared options\<close>

datatype conf_value = No_value | StrVal_opt string | IntVal_opt int | ListVal_opt "string list"

datatype opt_kind = ListOpt | StrOpt | IntOpt

text \<open>\<open>op_connection\<close>: the items must match \<open>^(tcp|ssl|unix):.+\<close>.\<close>

record opt_decl =
  op_kind :: opt_kind
  op_name :: string
  op_default :: conf_value
  op_connection :: bool
  op_min :: "int option"
  op_deprecated :: bool

definition str_option :: "string \<Rightarrow> opt_decl" where
  "str_option name =
     \<lparr>op_kind = StrOpt, op_name = name, op_default = StrVal_opt [], op_connection = False, op_min = None,
      op_deprecated = False\<rparr>"

definition connection_option :: "string \<Rightarrow> string \<Rightarrow> opt_decl" where
  "connection_option name default_connection =
     \<lparr>op_kind = ListOpt, op_name = name, op_default = ListVal_opt [default_connection], op_connection = True,
      op_min = None, op_deprecated = False\<rparr>"

definition int_option :: "string \<Rightarrow> int \<Rightarrow> int option \<Rightarrow> opt_decl" where
  "int_option name default_value lower_bound =
     \<lparr>op_kind = IntOpt, op_name = name, op_default = IntVal_opt default_value, op_connection = False,
      op_min = lower_bound, op_deprecated = False\<rparr>"

definition deprecated_option :: "string \<Rightarrow> opt_decl" where
  "deprecated_option name = (str_option name)\<lparr>op_default := No_value, op_deprecated := True\<rparr>"

definition ovn_opts :: "opt_decl list" where
  "ovn_opts =
     [connection_option ''ovn_nb_connection'' ''tcp:127.0.0.1:6641'',
      str_option ''ovn_nb_private_key'',
      str_option ''ovn_nb_certificate'',
      str_option ''ovn_nb_ca_cert'',
      connection_option ''ovn_sb_connection'' ''tcp:127.0.0.1:6642'',
      str_option ''ovn_sb_private_key'',
      str_option ''ovn_sb_certificate'',
      str_option ''ovn_sb_ca_cert'',
      int_option ''ovsdb_connection_timeout'' 180 None,
      int_option ''ovsdb_retry_max_interval'' 180 None,
      int_option ''ovsdb_probe_interval'' 60000 (Some 0)]"

definition neutron_opts :: "opt_decl list" where
  "neutron_opts =
     [deprecated_option ''endpoint'', deprecated_option ''endpoint_type'', deprecated_option ''ca_certificates_file'']"

definition list_opts :: "(string \<times> opt_decl list) list" where
  "list_opts = [(''ovn'', ovn_opts), (''neutron'', neutron_opts)]"

text \<open>\<open>re.search\<close> of \<open>^(tcp|ssl|unix):.+\<close>: at least one character other than a newline follows.\<close>

definition connection_string :: "string \<Rightarrow> bool" where
  "connection_string s =
     list_ex (\<lambda>p. startswith s p \<and> length p < length s \<and> s ! length p \<noteq> CHR 0x0A) [''tcp:'', ''ssl:'', ''unix:'']"

section \<open>oslo.config\<close>

abbreviation NoSuchOptError :: exn where "NoSuchOptError \<equiv> OtherException ''NoSuchOptError''"

text \<open>
  An option is named by its group and its name. \<open>os_names\<close> is the iteration over \<open>CONF.<group>\<close>; the last
  three register the options of keystoneauth (\<open>ks_loading\<close>).
\<close>

record 'c oslo =
  os_get :: "string \<Rightarrow> string \<Rightarrow> ('c, conf_value) io"
  os_location :: "string \<Rightarrow> string \<Rightarrow> ('c, opt_location option) io"
  os_set_default :: "string \<Rightarrow> string \<Rightarrow> conf_value \<Rightarrow> ('c, unit) io"
  os_names :: "string \<Rightarrow> ('c, string list) io"
  os_register :: "string \<Rightarrow> opt_decl list \<Rightarrow> ('c, unit) io"
  ks_register_auth :: "string \<Rightarrow> ('c, unit) io"
  ks_register_session :: "string \<Rightarrow> ('c, unit) io"
  ks_register_adapter :: "string \<Rightarrow> bool \<Rightarrow> ('c, unit) io"

section \<open>Deprecated options\<close>

definition str_value :: "conf_value \<Rightarrow> string res" where
  "str_value v = (case v of StrVal_opt s \<Rightarrow> Inr s | _ \<Rightarrow> Inl AttributeError)"

text \<open>\<open>if loc and loc.location != opt_default\<close>: the old option is converted to a default of the new one.\<close>

definition take_over ::
  "'c oslo \<Rightarrow> string \<Rightarrow> string \<Rightarrow> (conf_value \<Rightarrow> conf_value res) \<Rightarrow> ('c, unit) io" where
  "take_over C old new convert =
     bnd (os_location C ''neutron'' old) (\<lambda>loc.
     if loc \<noteq> None \<and> loc \<noteq> Some opt_default
     then bnd (os_get C ''neutron'' old) (\<lambda>v.
          bnd (lift (convert v)) (\<lambda>v'. os_set_default C ''neutron'' new v'))
     else ret ())"

text \<open>\<open>endpoint_type.replace('URL', '')\<close>, as a list of one interface.\<close>

definition endpoint_interfaces :: "conf_value \<Rightarrow> conf_value res" where
  "endpoint_interfaces v = rbind (str_value v) (\<lambda>s. Inr (ListVal_opt [replace ''URL'' [] s]))"

definition handle_neutron_deprecations :: "'c oslo \<Rightarrow> ('c, unit) io" where
  "handle_neutron_deprecations C =
     bnd (take_over C ''endpoint'' ''endpoint_override'' Inr) (\<lambda>_.
     bnd (take_over C ''endpoint_type'' ''valid_interfaces'' endpoint_interfaces) (\<lambda>_.
     take_over C ''ca_certificates_file'' ''cafile'' Inr))"

section \<open>Registration\<close>

definition missing_opts :: "'c oslo \<Rightarrow> string \<Rightarrow> opt_decl list \<Rightarrow> ('c, opt_decl list) io" where
  "missing_opts C section opts =
     catch (bnd (os_names C section) (\<lambda>names. ret (filter (\<lambda>opt. op_name opt \<notin> set names) opts)))
       (\<lambda>e. if e = NoSuchOptError then ret opts else throw e)"

definition register_opts :: "'c oslo \<Rightarrow> ('c, unit) io" where
  "register_opts C =
     bnd (missing_opts C ''ovn'' ovn_opts) (\<lambda>missing_ovn_opts.
     bnd (missing_opts C ''neutron'' neutron_opts) (\<lambda>missing_neutron_opts.
     bnd (os_register C ''ovn'' missing_ovn_opts) (\<lambda>_.
     bnd (os_register C ''neutron'' missing_neutron_opts) (\<lambda>_.
     bnd (ks_register_auth C SERVICE_AUTH) (\<lambda>_.
     bnd (ks_register_session C SERVICE_AUTH) (\<lambda>_.
     bnd (ks_register_adapter C SERVICE_AUTH False) (\<lambda>_.
     bnd (ks_register_auth C ''neutron'') (\<lambda>_.
     bnd (ks_register_session C ''neutron'') (\<lambda>_.
     bnd (ks_register_adapter C ''neutron'' False) (\<lambda>_.
     bnd (os_get C SERVICE_AUTH ''auth_type'') (\<lambda>auth_type.
     bnd (os_set_default C ''neutron'' ''auth_type'' auth_type) (\<lambda>_.
     handle_neutron_deprecations C))))))))))))"

section \<open>Getters\<close>

definition get_ovn :: "'c oslo \<Rightarrow> string \<Rightarrow> ('c, conf_value) io" where
  "get_ovn C name = os_get C ''ovn'' name"

definition get_connection :: "'c oslo \<Rightarrow> string \<Rightarrow> ('c, string) io" where
  "get_connection C name =
     bnd (get_ovn C name) (\<lambda>v. lift (case v of ListVal_opt xs \<Rightarrow> Inr (join '','' xs) | _ \<Rightarrow> Inl TypeError))"

definition get_ovn_nb_connection :: "'c oslo \<Rightarrow> ('c, string) io" where
  "get_ovn_nb_connection C = get_connection C ''ovn_nb_connection''"

definition get_ovn_sb_connection :: "'c oslo \<Rightarrow> ('c, string) io" where
  "get_ovn_sb_connection C = get_connection C ''ovn_sb_connection''"

definition get_ovn_nb_private_key :: "'c oslo \<Rightarrow> ('c, conf_value) io" where
  "get_ovn_nb_private_key C = get_ovn C ''ovn_nb_private_key''"

definition get_ovn_nb_certificate :: "'c oslo \<Rightarrow> ('c, conf_value) io" where
  "get_ovn_nb_certificate C = get_ovn C ''ovn_nb_certificate''"

definition get_ovn_nb_ca_cert :: "'c oslo \<Rightarrow> ('c, conf_value) io" where
  "get_ovn_nb_ca_cert C = get_ovn C ''ovn_nb_ca_cert''"

definition get_ovn_sb_private_key :: "'c oslo \<Rightarrow> ('c, conf_value) io" where
  "get_ovn_sb_private_key C = get_ovn C ''ovn_sb_private_key''"

definition get_ovn_sb_certificate :: "'c oslo \<Rightarrow> ('c, conf_value) io" where
  "get_ovn_sb_certificate C = get_ovn C ''ovn_sb_certificate''"

definition get_ovn_sb_ca_cert :: "'c oslo \<Rightarrow> ('c, conf_value) io" where
  "get_ovn_sb_ca_cert C = get_ovn C ''ovn_sb_ca_cert''"

definition get_ovn_ovsdb_timeout :: "'c oslo \<Rightarrow> ('c, conf_value) io" where
  "get_ovn_ovsdb_timeout C = get_ovn C ''ovsdb_connection_timeout''"

definition get_ovn_ovsdb_retry_max_interval :: "'c oslo \<Rightarrow> ('c, conf_value) io" where
  "get_ovn_ovsdb_retry_max_interval C = get_ovn C ''ovsdb_retry_max_interval''"

definition get_ovn_ovsdb_probe_interval :: "'c oslo \<Rightarrow> ('c, conf_value) io" where
  "get_ovn_ovsdb_probe_interval C = get_ovn C ''ovsdb_probe_interval''"

section \<open>What the registration does\<close>

lemma ovn_defaults_valid:
  "list_all (\<lambda>opt. case op_default opt of
     ListVal_opt xs \<Rightarrow> op_connection opt \<longrightarrow> list_all connection_string xs
   | IntVal_opt n \<Rightarrow> (case op_min opt of None \<Rightarrow> True | Some b \<Rightarrow> b \<le> n)
   | _ \<Rightarrow> True) ovn_opts"
  "distinct (map op_name ovn_opts)" "distinct (map op_name neutron_opts)"
  by code_simp+

text \<open>No option is registered twice (\<open>DuplicateOptError\<close>), and none is left out.\<close>

lemma missing_opts_disjoint:
  assumes "missing_opts C section opts w = (Inr missing, w')" and "os_names C section w = (Inr names, w0)"
  shows "op_name ` set missing \<inter> set names = {}" and "op_name ` set opts \<subseteq> op_name ` set missing \<union> set names"
  using assms by (auto simp: missing_opts_def catch_def bnd_def ret_def)

lemma missing_opts_all:
  "os_names C section w = (Inl NoSuchOptError, w0) \<Longrightarrow> missing_opts C section opts w = (Inr opts, w0)"
  by (simp add: missing_opts_def catch_def bnd_def ret_def)

section \<open>Deprecated options\<close>

definition configured :: "opt_location option \<Rightarrow> bool" where
  "configured loc \<longleftrightarrow> loc = Some set_override \<or> loc = Some user_file"

text \<open>
  \<open>view w\<close>: the registered options with their values and locations. Reading leaves the configuration as it
  is; \<open>set_default\<close> changes its option only, unless a configured value takes precedence.
\<close>

type_synonym 'c conf_view = "'c \<Rightarrow> string \<times> string \<Rightarrow> (conf_value \<times> opt_location option) option"

definition default_set :: "conf_value \<Rightarrow> conf_value \<times> opt_location option \<Rightarrow> conf_value \<times> opt_location option" where
  "default_set d x = (if configured (snd x) then x else (d, Some set_default))"

definition oslo_ok :: "'c oslo \<Rightarrow> 'c conf_view \<Rightarrow> bool" where
  "oslo_ok C view \<longleftrightarrow>
     (\<forall>w s n x. view w (s, n) = Some x \<longrightarrow>
        os_get C s n w = (Inr (fst x), w) \<and> os_location C s n w = (Inr (snd x), w) \<and>
        (\<forall>d. \<exists>w'. os_set_default C s n d w = (Inr (), w') \<and>
               view w' = (view w)((s, n) := Some (default_set d x))))"

definition gives_default :: "conf_value \<times> opt_location option \<Rightarrow> bool" where
  "gives_default x \<longleftrightarrow> snd x \<noteq> None \<and> snd x \<noteq> Some opt_default"

definition taken_over ::
  "conf_value \<times> opt_location option \<Rightarrow> (conf_value \<Rightarrow> conf_value) \<Rightarrow> conf_value \<times> opt_location option \<Rightarrow>
   conf_value \<times> opt_location option" where
  "taken_over old f new = (if gives_default old then default_set (f (fst old)) new else new)"

lemma take_over_view:
  assumes "oslo_ok C view" and old: "view w (''neutron'', old) = Some x" and new: "view w (''neutron'', new) = Some y"
    and conv: "gives_default x \<Longrightarrow> convert (fst x) = Inr (f (fst x))"
  shows "\<exists>w'. take_over C old new convert w = (Inr (), w') \<and>
    view w' = (view w)((''neutron'', new) := Some (taken_over x f y))"
proof -
  have l: "os_location C ''neutron'' old w = (Inr (snd x), w)" and g: "os_get C ''neutron'' old w = (Inr (fst x), w)"
    using assms(1) old unfolding oslo_ok_def by blast+
  obtain w' where s: "os_set_default C ''neutron'' new (f (fst x)) w = (Inr (), w')"
      "view w' = (view w)((''neutron'', new) := Some (default_set (f (fst x)) y))"
    using assms(1) new unfolding oslo_ok_def by blast
  show ?thesis
  proof (cases "gives_default x")
    case True
    then have "take_over C old new convert w = os_set_default C ''neutron'' new (f (fst x)) w"
      using conv by (simp add: take_over_def gives_default_def bnd_def l g lift_def ret_def)
    with s True show ?thesis by (simp add: taken_over_def)
  next
    case False
    then show ?thesis
      using new by (auto simp: take_over_def gives_default_def bnd_def l ret_def taken_over_def)
  qed
qed

definition interfaces_of :: "conf_value \<Rightarrow> conf_value" where
  "interfaces_of v = (case v of StrVal_opt s \<Rightarrow> ListVal_opt [replace ''URL'' [] s] | _ \<Rightarrow> v)"

text \<open>C37: The deprecated options of \<open>[neutron]\<close> - endpoint, endpoint type, CA file - become defaults of their
  successors, the endpoint type without its suffix "URL" as a list of one interface: a successor that is
  configured keeps its value, a deprecated option that is not set changes nothing, and no other option changes.\<close>

theorem deprecated_options_are_defaults:
  assumes "oslo_ok C view"
    and "view w (''neutron'', ''endpoint'') = Some e" and "view w (''neutron'', ''endpoint_override'') = Some e'"
    and "view w (''neutron'', ''endpoint_type'') = Some t" and "view w (''neutron'', ''valid_interfaces'') = Some t'"
    and "view w (''neutron'', ''ca_certificates_file'') = Some c" and "view w (''neutron'', ''cafile'') = Some c'"
    and "gives_default t \<Longrightarrow> \<exists>s. fst t = StrVal_opt s"
  shows "\<exists>w'. handle_neutron_deprecations C w = (Inr (), w') \<and>
    view w' = (view w)
      ((''neutron'', ''endpoint_override'') := Some (taken_over e id e'),
       (''neutron'', ''valid_interfaces'') := Some (taken_over t interfaces_of t'),
       (''neutron'', ''cafile'') := Some (taken_over c id c'))"
proof -
  have "\<exists>w1. take_over C ''endpoint'' ''endpoint_override'' Inr w = (Inr (), w1) \<and>
    view w1 = (view w)((''neutron'', ''endpoint_override'') := Some (taken_over e id e'))"
    by (rule take_over_view [OF assms(1), OF assms(2,3), where convert = Inr and f = id]) simp
  then obtain w1 where w1: "take_over C ''endpoint'' ''endpoint_override'' Inr w = (Inr (), w1)"
    "view w1 = (view w)((''neutron'', ''endpoint_override'') := Some (taken_over e id e'))" by blast
  have "\<exists>w2. take_over C ''endpoint_type'' ''valid_interfaces'' endpoint_interfaces w1 = (Inr (), w2) \<and>
    view w2 = (view w1)((''neutron'', ''valid_interfaces'') := Some (taken_over t interfaces_of t'))"
    by (rule take_over_view [OF assms(1), where x = t and y = t' and f = interfaces_of])
      (use assms(8) in \<open>auto simp: w1(2) assms(4,5) endpoint_interfaces_def str_value_def interfaces_of_def\<close>)
  then obtain w2 where w2: "take_over C ''endpoint_type'' ''valid_interfaces'' endpoint_interfaces w1 = (Inr (), w2)"
    "view w2 = (view w1)((''neutron'', ''valid_interfaces'') := Some (taken_over t interfaces_of t'))" by blast
  have "\<exists>w3. take_over C ''ca_certificates_file'' ''cafile'' Inr w2 = (Inr (), w3) \<and>
    view w3 = (view w2)((''neutron'', ''cafile'') := Some (taken_over c id c'))"
    by (rule take_over_view [OF assms(1), where convert = Inr and f = id and x = c and y = c'])
      (simp_all add: w1(2) w2(2) assms(6,7))
  then obtain w3 where w3: "take_over C ''ca_certificates_file'' ''cafile'' Inr w2 = (Inr (), w3)"
    "view w3 = (view w2)((''neutron'', ''cafile'') := Some (taken_over c id c'))" by blast
  have "handle_neutron_deprecations C w = (Inr (), w3)"
    by (simp add: handle_neutron_deprecations_def bnd_def w1(1) w2(1) w3(1))
  then show ?thesis using w1(2) w2(2) w3(2) by (intro exI [of _ w3]) simp
qed

section \<open>An instance\<close>

text \<open>The value an option has, by the location it is found in.\<close>

record layers =
  la_override :: "conf_value option"
  la_user :: "conf_value option"
  la_default :: "conf_value option"
  la_declared :: conf_value

definition layered :: "layers \<Rightarrow> conf_value \<times> opt_location option" where
  "layered l =
     (case la_override l of Some v \<Rightarrow> (v, Some set_override) | None \<Rightarrow>
      (case la_user l of Some v \<Rightarrow> (v, Some user_file) | None \<Rightarrow>
       (case la_default l of Some v \<Rightarrow> (v, Some set_default) | None \<Rightarrow> (la_declared l, Some opt_default))))"

type_synonym store = "(string \<times> string) \<Rightarrow> layers option"

definition lookup_opt :: "string \<Rightarrow> string \<Rightarrow> (store, layers) io" where
  "lookup_opt s n = (\<lambda>w. (case w (s, n) of None \<Rightarrow> Inl NoSuchOptError | Some l \<Rightarrow> Inr l, w))"

definition ref_oslo :: "store oslo" where
  "ref_oslo =
     \<lparr>os_get = (\<lambda>s n. bnd (lookup_opt s n) (\<lambda>l. ret (fst (layered l)))),
      os_location = (\<lambda>s n. bnd (lookup_opt s n) (\<lambda>l. ret (snd (layered l)))),
      os_set_default = (\<lambda>s n d. bnd (lookup_opt s n) (\<lambda>l w. (Inr (), w((s, n) := Some (l\<lparr>la_default := Some d\<rparr>))))),
      os_names = (\<lambda>s. ret []),
      os_register = (\<lambda>s opts w. (Inr (), fold (\<lambda>opt w. w((s, op_name opt) :=
         Some \<lparr>la_override = None, la_user = None, la_default = None, la_declared = op_default opt\<rparr>)) opts w)),
      ks_register_auth = (\<lambda>s. ret ()), ks_register_session = (\<lambda>s. ret ()),
      ks_register_adapter = (\<lambda>s b. ret ())\<rparr>"

definition ref_view :: "store conf_view" where
  "ref_view w = (\<lambda>k. map_option layered (w k))"

lemma layered_default:
  "layered (l\<lparr>la_default := Some d\<rparr>) = default_set d (layered l)"
  by (auto simp: layered_def default_set_def configured_def split: option.splits)

lemma ref_oslo_ok: "oslo_ok ref_oslo ref_view"
  unfolding oslo_ok_def
proof (intro allI impI conjI)
  fix w s n x
  assume "ref_view w (s, n) = Some x"
  then obtain l where l: "w (s, n) = Some l" "x = layered l" by (auto simp: ref_view_def)
  then show "os_get ref_oslo s n w = (Inr (fst x), w)" "os_location ref_oslo s n w = (Inr (snd x), w)"
    by (simp_all add: ref_oslo_def lookup_opt_def bnd_def ret_def)
  fix d
  show "\<exists>w'. os_set_default ref_oslo s n d w = (Inr (), w') \<and>
      ref_view w' = (ref_view w)((s, n) := Some (default_set d x))"
    by (intro exI [of _ "w((s, n) := Some (l\<lparr>la_default := Some d\<rparr>))"])
      (simp add: ref_oslo_def lookup_opt_def bnd_def ref_view_def fun_eq_iff l layered_default)
qed

definition user_opt :: "conf_value \<Rightarrow> layers" where
  "user_opt v = \<lparr>la_override = None, la_user = Some v, la_default = None, la_declared = No_value\<rparr>"

definition unset_opt :: layers where
  "unset_opt = \<lparr>la_override = None, la_user = None, la_default = None, la_declared = No_value\<rparr>"

definition sample_store :: store where
  "sample_store = map_of
     [((''neutron'', ''endpoint''), user_opt (StrVal_opt ''http://old:9696'')),
      ((''neutron'', ''endpoint_override''), user_opt (StrVal_opt ''http://new:9696'')),
      ((''neutron'', ''endpoint_type''), user_opt (StrVal_opt ''internalURL'')),
      ((''neutron'', ''valid_interfaces''), unset_opt),
      ((''neutron'', ''ca_certificates_file''), unset_opt),
      ((''neutron'', ''cafile''), unset_opt)]"

theorem deprecated_options_are_defaults_witness:
  "\<exists>w'. handle_neutron_deprecations ref_oslo sample_store = (Inr (), w') \<and>
     ref_view w' (''neutron'', ''endpoint_override'') = Some (StrVal_opt ''http://new:9696'', Some user_file) \<and>
     ref_view w' (''neutron'', ''valid_interfaces'') = Some (ListVal_opt [''internal''], Some set_default) \<and>
     ref_view w' (''neutron'', ''cafile'') = Some (No_value, Some opt_default)"
proof -
  let ?u = "(No_value, Some opt_default)"
  note sample = sample_store_def ref_view_def layered_def user_opt_def unset_opt_def
  have "\<exists>w'. handle_neutron_deprecations ref_oslo sample_store = (Inr (), w') \<and>
    ref_view w' = (ref_view sample_store)
      ((''neutron'', ''endpoint_override'') :=
         Some (taken_over (StrVal_opt ''http://old:9696'', Some user_file) id (StrVal_opt ''http://new:9696'', Some user_file)),
       (''neutron'', ''valid_interfaces'') :=
         Some (taken_over (StrVal_opt ''internalURL'', Some user_file) interfaces_of ?u),
       (''neutron'', ''cafile'') := Some (taken_over ?u id ?u))"
    by (rule deprecated_options_are_defaults [OF ref_oslo_ok]) (simp_all add: sample)
  then obtain w' where w': "handle_neutron_deprecations ref_oslo sample_store = (Inr (), w')"
    "ref_view w' = (ref_view sample_store)
      ((''neutron'', ''endpoint_override'') :=
         Some (taken_over (StrVal_opt ''http://old:9696'', Some user_file) id (StrVal_opt ''http://new:9696'', Some user_file)),
       (''neutron'', ''valid_interfaces'') :=
         Some (taken_over (StrVal_opt ''internalURL'', Some user_file) interfaces_of ?u),
       (''neutron'', ''cafile'') := Some (taken_over ?u id ?u))"
    by blast
  have "replace ''URL'' [] ''internalURL'' = ''internal''" by code_simp
  with w' show ?thesis
    by (simp add: taken_over_def gives_default_def default_set_def configured_def interfaces_of_def)
qed

end
