(* ===== verification/Ovsdb.thy ===== *)
theory Ovsdb
  imports World
begin

text \<open>
  The connections to OVSDB (\<open>ovsdb/impl_idl_ovn.py\<close>, \<open>ovsdb/ovsdb_monitor.py\<close>): which calls of the ovs and
  ovsdbapp libraries the set-up and the tear-down make, in order, and the guard of the notifications.
  The libraries themselves are not modelled; a call is a value of \<open>idl_call\<close>.
\<close>

datatype idl_call =
    ssl_set_private_key_file string
  | ssl_set_certificate_file string
  | ssl_set_ca_cert_file string
  | get_schema_helper string string      \<comment> \<open>connection, schema\<close>
  | register_table string
  | register_all
  | init_idl string bool                 \<comment> \<open>connection, notifier\<close>
  | set_lock string
  | atexit_stop
  | open_connection int                  \<comment> \<open>timeout\<close>
  | build_api
  | set_probe_interval int
  | stop_connection
  | shutdown_notify_handler
  | close_idl

section \<open>SSL files\<close>

text \<open>The configured files of one database; an empty path is not set.\<close>

record ssl_files =
  sf_private_key :: string
  sf_certificate :: string
  sf_ca_cert :: string

definition ssl_call :: "(string \<Rightarrow> bool) \<Rightarrow> (string \<Rightarrow> idl_call) \<Rightarrow> string \<Rightarrow> idl_call list" where
  "ssl_call path_exists call file = (if file \<noteq> [] \<and> path_exists file then [call file] else [])"

definition check_and_set_ssl_files ::
  "(string \<Rightarrow> bool) \<Rightarrow> ssl_files \<Rightarrow> ssl_files \<Rightarrow> string \<Rightarrow> idl_call list" where
  "check_and_set_ssl_files path_exists nb sb schema_name =
     (if schema_name = ''OVN_Northbound'' \<or> schema_name = ''OVN_Southbound'' then
        (let files = (if schema_name = ''OVN_Northbound'' then nb else sb) in
         ssl_call path_exists ssl_set_private_key_file (sf_private_key files)
         @ ssl_call path_exists ssl_set_certificate_file (sf_certificate files)
         @ ssl_call path_exists ssl_set_ca_cert_file (sf_ca_cert files))
      else [])"

section \<open>The two connections\<close>

definition NB_TABLES :: "string list" where
  "NB_TABLES =
     [''Logical_Switch'', ''Load_Balancer'', ''Load_Balancer_Health_Check'', ''Logical_Router'',
      ''Logical_Switch_Port'', ''Logical_Router_Port'', ''Gateway_Chassis'', ''NAT'']"

definition SB_TABLES :: "string list" where
  "SB_TABLES = [''Load_Balancer'', ''Service_Monitor'']"

definition nb_idl_init ::
  "(string \<Rightarrow> bool) \<Rightarrow> ssl_files \<Rightarrow> ssl_files \<Rightarrow> string \<Rightarrow> string option \<Rightarrow> bool \<Rightarrow> idl_call list" where
  "nb_idl_init path_exists nb sb conn_string event_lock_name notifier =
     check_and_set_ssl_files path_exists nb sb ''OVN_Northbound''
     @ [get_schema_helper conn_string ''OVN_Northbound'']
     @ map register_table NB_TABLES
     @ [init_idl conn_string notifier]
     @ (if truthy event_lock_name then [set_lock (the event_lock_name)] else [])"

definition sb_idl_init ::
  "(string \<Rightarrow> bool) \<Rightarrow> ssl_files \<Rightarrow> ssl_files \<Rightarrow> string \<Rightarrow> string option \<Rightarrow> idl_call list" where
  "sb_idl_init path_exists nb sb conn_string event_lock_name =
     check_and_set_ssl_files path_exists nb sb ''OVN_Southbound''
     @ [get_schema_helper conn_string ''OVN_Southbound'']
     @ map register_table SB_TABLES
     @ [init_idl conn_string True]
     @ (if truthy event_lock_name then [set_lock (the event_lock_name)] else [])
     @ [atexit_stop]"

text \<open>\<open>OvsdbNbOvnIdl\<close>, \<open>OvsdbSbOvnIdl\<close>: the api over a connection, with the configured probe interval.\<close>

definition ovsdb_api_init :: "int \<Rightarrow> idl_call list" where
  "ovsdb_api_init probe_interval = [build_api, set_probe_interval probe_interval]"

text \<open>\<open>start\<close>: the new connection is \<open>conn\<close>; the calls and whether it has one.\<close>

definition sb_idl_start :: "int \<Rightarrow> int \<Rightarrow> idl_call list \<times> bool" where
  "sb_idl_start timeout probe_interval = (open_connection timeout # ovsdb_api_init probe_interval, True)"

text \<open>\<open>stop\<close>: \<open>has_conn\<close> is whether \<open>start\<close> was called before; the calls and whether it still has one.\<close>

definition sb_idl_stop :: "bool \<Rightarrow> idl_call list \<times> bool" where
  "sb_idl_stop has_conn =
     ((if has_conn then [stop_connection] else []) @ [shutdown_notify_handler, close_idl], False)"

text \<open>\<open>BaseOvnIdl.from_server\<close>, up to the constructor it calls.\<close>

definition from_server :: "(string \<Rightarrow> bool) \<Rightarrow> ssl_files \<Rightarrow> ssl_files \<Rightarrow> string \<Rightarrow> string \<Rightarrow> idl_call list" where
  "from_server path_exists nb sb connection_string schema_name =
     check_and_set_ssl_files path_exists nb sb schema_name
     @ [get_schema_helper connection_string schema_name, register_all]"

section \<open>Notifications and transactions\<close>

text \<open>
  The fields \<open>OvnIdl.__init__\<close> sets: the notify handler, if asked for, and the name of the event lock, which
  both connections then replace by their argument (None: no lock).
\<close>

record ovn_idl =
  id_notify_handler :: bool
  id_event_lock_name :: "string option"

definition ovn_idl_init :: "bool \<Rightarrow> ovn_idl" where
  "ovn_idl_init notifier =
     \<lparr>id_notify_handler = notifier, id_event_lock_name = Some ''ovn_provider_driver_event_lock''\<rparr>"

definition nb_idl_fields :: "string option \<Rightarrow> bool \<Rightarrow> ovn_idl" where
  "nb_idl_fields event_lock_name notifier = (ovn_idl_init notifier)\<lparr>id_event_lock_name := event_lock_name\<rparr>"

text \<open>\<open>OvnIdl.notify\<close>: whether the row event reaches the handler.\<close>

definition idl_notify :: "bool \<Rightarrow> bool \<Rightarrow> bool" where
  "idl_notify is_lock_contended has_notify_handler \<longleftrightarrow> \<not> is_lock_contended \<and> has_notify_handler"

text \<open>\<open>OvsdbNbOvnIdl.transaction\<close>: a revision conflict is logged, the transaction counts as done.\<close>

abbreviation RevisionConflict :: exn where "RevisionConflict \<equiv> OtherException ''RevisionConflict''"

definition nb_transaction :: "('w, unit) io \<Rightarrow> ('w, unit) io" where
  "nb_transaction t = catch t (\<lambda>e. if e = RevisionConflict then ret () else throw e)"

text \<open>
  \<open>OvnNbTransaction\<close>: the keyword \<open>bump_nb_cfg\<close> defaults to False; before the commit the counter of
  \<open>NB_Global\<close> is incremented if it was given.
\<close>

definition bump_nb_cfg :: "bool option \<Rightarrow> bool" where
  "bump_nb_cfg kwarg = (case kwarg of None \<Rightarrow> False | Some b \<Rightarrow> b)"

definition pre_commit :: "bool \<Rightarrow> int \<Rightarrow> int" where
  "pre_commit bump nb_cfg = (if \<not> bump then nb_cfg else nb_cfg + 1)"

text \<open>\<open>nb_global\<close>: the first row of the table; without one \<open>next\<close> raises.\<close>

definition nb_global :: "'r list \<Rightarrow> 'r res" where
  "nb_global rows = (case rows of [] \<Rightarrow> Inl (OtherException ''StopIteration'') | r # _ \<Rightarrow> Inr r)"

text \<open>\<open>create_transaction\<close>: the arguments with their defaults.\<close>

record ovn_transaction =
  tx_timeout :: int
  tx_check_error :: bool
  tx_log_errors :: bool
  tx_bump_nb_cfg :: bool

definition create_transaction ::
  "int \<Rightarrow> bool option \<Rightarrow> bool option \<Rightarrow> bool option \<Rightarrow> ovn_transaction" where
  "create_transaction timeout check_error log_errors bump =
     \<lparr>tx_timeout = timeout, tx_check_error = (case check_error of None \<Rightarrow> False | Some b \<Rightarrow> b),
      tx_log_errors = (case log_errors of None \<Rightarrow> True | Some b \<Rightarrow> b),
      tx_bump_nb_cfg = bump_nb_cfg (Some (case bump of None \<Rightarrow> False | Some b \<Rightarrow> b))\<rparr>"

text \<open>The counter of \<open>NB_Global\<close> after the commit.\<close>

definition commit_nb_cfg :: "ovn_transaction \<Rightarrow> int list \<Rightarrow> int list res" where
  "commit_nb_cfg t nb_cfgs =
     (if \<not> tx_bump_nb_cfg t then Inr nb_cfgs
      else rbind (nb_global nb_cfgs) (\<lambda>n. Inr (pre_commit True n # tl nb_cfgs)))"

text \<open>\<open>FindLbInTableCommand\<close>, \<open>GetLrsCommand\<close>: the rows a read-only command delivers.\<close>

definition find_lb_in_table_rows :: "string \<Rightarrow> ('r \<Rightarrow> string list) \<Rightarrow> 'r list \<Rightarrow> 'r list" where
  "find_lb_in_table_rows lb load_balancer rows = filter (\<lambda>item. lb \<in> set (load_balancer item)) rows"

definition get_lrs_rows :: "'r list \<Rightarrow> 'r list" where
  "get_lrs_rows rows = rows"

text \<open>The schema of the server: its tables with their columns.\<close>

definition is_table_present :: "string list pydict \<Rightarrow> string \<Rightarrow> bool" where
  "is_table_present tables table_name = dict_has tables table_name"

text \<open>\<open>check_for_row_by_value_and_retry\<close>: one attempt; the decorator retries a RuntimeError.\<close>

definition check_for_row_by_value :: "('w, unit) io \<Rightarrow> ('w, unit) io" where
  "check_for_row_by_value row_by_value =
     catch row_by_value (\<lambda>e. if e = RowNotFound then throw (OtherException ''RuntimeError'') else throw e)"

text \<open>
  The decorator: attempts until one does not end in a RuntimeError or until 10 seconds have passed, then the
  last result. \<open>expired n\<close>: the time is over after the \<open>n\<close>-th attempt; None: out of fuel.
\<close>

abbreviation RuntimeError :: exn where "RuntimeError \<equiv> OtherException ''RuntimeError''"

fun check_for_row_by_value_and_retry ::
  "nat \<Rightarrow> (nat \<Rightarrow> bool) \<Rightarrow> nat \<Rightarrow> ('w, unit) io \<Rightarrow> 'w \<Rightarrow> (unit res \<times> 'w) option" where
  "check_for_row_by_value_and_retry 0 expired n row_by_value w = None"
| "check_for_row_by_value_and_retry (Suc fuel) expired n row_by_value w =
     (case check_for_row_by_value row_by_value w of
        (Inr x, w') \<Rightarrow> Some (Inr x, w')
      | (Inl e, w') \<Rightarrow>
          if e = RuntimeError \<and> \<not> expired n
          then check_for_row_by_value_and_retry fuel expired (Suc n) row_by_value w'
          else Some (Inl e, w'))"

section \<open>Properties\<close>

text \<open>The check returns once the time is over, and a missing row is a RuntimeError then.\<close>

lemma check_for_row_returns:
  assumes "expired N" and "n \<le> N" and "N - n < fuel"
  shows "\<exists>r w'. check_for_row_by_value_and_retry fuel expired n m w = Some (r, w') \<and> r \<noteq> Inl RowNotFound"
  using assms
proof (induction fuel arbitrary: n w)
  case (Suc fuel)
  obtain r w' where r: "check_for_row_by_value m w = (r, w')" by (metis prod.exhaust)
  have not_rnf: "r \<noteq> Inl RowNotFound"
    using r by (auto simp: check_for_row_by_value_def catch_def throw_def split: prod.splits sum.splits if_splits)
  show ?case
  proof (cases "r = Inl RuntimeError \<and> \<not> expired n")
    case True
    with Suc.prems have "n \<noteq> N" by auto
    with Suc.prems have "Suc n \<le> N" "N - Suc n < fuel" by simp_all
    with Suc.IH [OF Suc.prems(1) this] r True show ?thesis by simp
  next
    case False
    with r not_rnf show ?thesis by (cases r) auto
  qed
qed simp

text \<open>Every connection that is opened is stopped, as long as there is only one at a time.\<close>

datatype sb_op = Sb_start | Sb_stop

fun sb_run :: "int \<Rightarrow> int \<Rightarrow> sb_op list \<Rightarrow> bool \<Rightarrow> idl_call list \<times> bool" where
  "sb_run t p [] has_conn = ([], has_conn)"
| "sb_run t p (op1 # ops) has_conn =
     (case (case op1 of Sb_start \<Rightarrow> sb_idl_start t p | Sb_stop \<Rightarrow> sb_idl_stop has_conn) of
        (calls, has_conn) \<Rightarrow> (case sb_run t p ops has_conn of (rest, b) \<Rightarrow> (calls @ rest, b)))"

fun one_at_a_time :: "bool \<Rightarrow> sb_op list \<Rightarrow> bool" where
  "one_at_a_time has_conn [] = True"
| "one_at_a_time has_conn (Sb_start # ops) = (\<not> has_conn \<and> one_at_a_time True ops)"
| "one_at_a_time has_conn (Sb_stop # ops) = one_at_a_time False ops"

lemma connections_balanced:
  "one_at_a_time c ops \<Longrightarrow> sb_run t p ops c = (calls, c') \<Longrightarrow>
   count_list calls (open_connection t) + (if c then 1 else 0)
     = count_list calls stop_connection + (if c' then 1 else 0)"
proof (induction c ops arbitrary: calls rule: one_at_a_time.induct)
  case (2 c ops)
  then show ?case by (auto simp: sb_idl_start_def ovsdb_api_init_def split: prod.splits)
next
  case (3 c ops)
  then show ?case by (auto simp: sb_idl_stop_def split: prod.splits if_splits)
qed simp

text \<open>The key and the certificates are set before the schema is fetched, and only files that exist.\<close>

lemma ssl_before_schema:
  "\<exists>ssl rest. nb_idl_init ex nb sb c l n = ssl @ get_schema_helper c ''OVN_Northbound'' # rest \<and>
     set ssl \<subseteq> ssl_set_private_key_file ` {f. ex f} \<union> ssl_set_certificate_file ` {f. ex f} \<union>
               ssl_set_ca_cert_file ` {f. ex f}"
  unfolding nb_idl_init_def
  by (rule exI [of _ "check_and_set_ssl_files ex nb sb ''OVN_Northbound''"])
    (auto simp: check_and_set_ssl_files_def ssl_call_def Let_def)

lemma stop_twice: "snd (sb_idl_stop c) = False" "stop_connection \<notin> set (fst (sb_idl_stop (snd (sb_idl_stop c))))"
  by (simp_all add: sb_idl_stop_def)

end
