(* ===== verification/Service.thy ===== *)
theory Service
  imports Config Ovsdb Sync Maintenance
begin

text \<open>
  The processes: the agent (\<open>agent.py\<close>) with the row events it watches (\<open>event.py\<close>) and its maintenance thread
  (\<open>maintenance.py\<close>), the helper's start and shutdown, the driver in the API process, and the command
  \<open>octavia-ovn-db-sync-util\<close>. Threads and connections are what was asked of them: started or not, with which
  events or tasks.
\<close>

section \<open>Row events\<close>

record row_event_decl =
  ev_events :: "row_event list"
  ev_table :: string
  ev_name :: string

definition LogicalRouterPortEvent :: row_event_decl where
  "LogicalRouterPortEvent =
     \<lparr>ev_events = [ROW_CREATE, ROW_DELETE], ev_table = ''Logical_Router_Port'', ev_name = ''LogicalRouterPortEvent''\<rparr>"

definition LogicalSwitchPortUpdateEvent :: row_event_decl where
  "LogicalSwitchPortUpdateEvent =
     \<lparr>ev_events = [ROW_UPDATE], ev_table = ''Logical_Switch_Port'', ev_name = ''LogicalSwitchPortUpdateEvent''\<rparr>"

definition ServiceMonitorUpdateEvent :: row_event_decl where
  "ServiceMonitorUpdateEvent =
     \<lparr>ev_events = [ROW_UPDATE, ROW_DELETE], ev_table = ''Service_Monitor'', ev_name = ''ServiceMonitorUpdateEvent''\<rparr>"

text \<open>An event that is not declared has no code, and the tables are ones the connections register.\<close>

lemma undeclared_events:
  "event \<notin> set (ev_events LogicalRouterPortEvent) \<Longrightarrow> logical_router_port_event E event lrp w = (Inr [], w)"
  "event \<notin> set (ev_events ServiceMonitorUpdateEvent) \<Longrightarrow> service_monitor_update_event E event sm w = (Inr [], w)"
  by (cases event; simp add: LogicalRouterPortEvent_def ServiceMonitorUpdateEvent_def
      logical_router_port_event_def service_monitor_update_event_def ret_def)+

lemma watched_tables_registered:
  "ev_table LogicalRouterPortEvent \<in> set NB_TABLES" "ev_table LogicalSwitchPortUpdateEvent \<in> set NB_TABLES"
  "ev_table ServiceMonitorUpdateEvent \<in> set SB_TABLES"
  by (simp_all add: LogicalRouterPortEvent_def LogicalSwitchPortUpdateEvent_def ServiceMonitorUpdateEvent_def
      NB_TABLES_def SB_TABLES_def)

section \<open>The maintenance thread\<close>

text \<open>The worker keeps the tasks it was built with; \<open>mt_thread\<close>: there is a thread.\<close>

record maintenance_thread =
  mt_callables :: "string list"
  mt_worker :: "string list option"
  mt_thread :: bool

definition new_maintenance_thread :: maintenance_thread where
  "new_maintenance_thread = \<lparr>mt_callables = [], mt_worker = None, mt_thread = False\<rparr>"

text \<open>The members of an object, in the order of their names, and whether they are periodic tasks.\<close>

definition add_periodics :: "(string \<times> bool) list \<Rightarrow> maintenance_thread \<Rightarrow> maintenance_thread" where
  "add_periodics members t =
     t\<lparr>mt_callables := mt_callables t @ map fst (filter snd members)\<rparr>"

definition maintenance_start :: "maintenance_thread \<Rightarrow> maintenance_thread" where
  "maintenance_start t =
     (if \<not> mt_thread t then t\<lparr>mt_worker := Some (mt_callables t), mt_thread := True\<rparr> else t)"

definition maintenance_stop :: "maintenance_thread \<Rightarrow> maintenance_thread res" where
  "maintenance_stop t =
     (if mt_worker t = None then Inl AttributeError else Inr (t\<lparr>mt_worker := None, mt_thread := False\<rparr>))"

text \<open>
  The object that holds the tasks: its members, and the northbound connection that \<open>__init__\<close> opens (without
  event lock; \<open>OvsdbNbOvnIdl\<close> starts it). Nothing ever stops it.
\<close>

record periodics_object =
  po_members :: "(string \<times> bool) list"
  po_idl :: ovn_idl
  po_connected :: bool

definition DBInconsistenciesPeriodics :: periodics_object where
  "DBInconsistenciesPeriodics =
     \<lparr>po_members =
     [(''__init__'', False), (''change_device_owner_lb_hm_ports'', True), (''format_ip_port_mappings_ipv6'', True),
      (''ovn_nbdb'', False), (''ovn_nbdb_api'', False)],
      po_idl = nb_idl_fields None True, po_connected = True\<rparr>"

text \<open>A thread runs exactly when it has a worker.\<close>

definition thread_ok :: "maintenance_thread \<Rightarrow> bool" where
  "thread_ok t \<longleftrightarrow> (mt_thread t \<longleftrightarrow> mt_worker t \<noteq> None)"

lemma thread_ok_ops:
  "thread_ok new_maintenance_thread" "thread_ok t \<Longrightarrow> thread_ok (add_periodics members t)"
  "thread_ok t \<Longrightarrow> thread_ok (maintenance_start t)"
  "maintenance_stop t = Inr t' \<Longrightarrow> thread_ok t'"
  by (auto simp: thread_ok_def new_maintenance_thread_def add_periodics_def maintenance_start_def
      maintenance_stop_def split: if_splits)

text \<open>Starting twice is starting once; a restart runs the tasks added since.\<close>

lemma maintenance_restart:
  "maintenance_start (maintenance_start t) = maintenance_start t"
  "thread_ok t \<Longrightarrow> mt_thread t \<Longrightarrow> maintenance_stop (add_periodics members t) = Inr t' \<Longrightarrow>
     mt_worker (maintenance_start t') = Some (mt_callables t @ map fst (filter snd members))"
  "maintenance_stop t = Inr t' \<Longrightarrow> maintenance_stop t' = Inl AttributeError"
  by (auto simp: maintenance_start_def maintenance_stop_def add_periodics_def split: if_splits)

section \<open>The helper\<close>

text \<open>
  \<open>__init__\<close>: an empty queue, the connection without event lock and with a notify handler only if asked
  for, and the (daemon) thread that waits for requests. \<open>OvsdbNbOvnIdl\<close> starts the connection; only the exit of the
  interpreter stops it again.
\<close>

record helper =
  he_requests :: "request list"
  he_idl :: ovn_idl
  he_connected :: bool
  he_stop_at_exit :: bool
  he_thread_started :: bool

definition started_helper :: "bool \<Rightarrow> helper" where
  "started_helper notifier =
     \<lparr>he_requests = [], he_idl = nb_idl_fields None notifier, he_connected = True, he_stop_at_exit = True,
      he_thread_started = True\<rparr>"

definition helper_init ::
  "(string \<Rightarrow> bool) \<Rightarrow> ssl_files \<Rightarrow> ssl_files \<Rightarrow> string \<Rightarrow> bool \<Rightarrow> idl_call list \<times> helper" where
  "helper_init path_exists nb sb conn_string notifier =
     (check_and_set_ssl_files path_exists nb sb ''OVN_Northbound''
      @ nb_idl_init path_exists nb sb conn_string None notifier
      @ [atexit_stop],
      started_helper notifier)"

definition helper_shutdown :: "request list \<Rightarrow> request list" where
  "helper_shutdown requests = requests @ [REQ_TYPE_EXIT]"

text \<open>The helper of the API process watches no events, and it never takes the event lock.\<close>

lemma helper_without_events:
  "\<not> idl_notify contended (id_notify_handler (he_idl (snd (helper_init ex nb sb c False))))"
  "set_lock l \<notin> set (fst (helper_init ex nb sb c n))"
  by (auto simp: helper_init_def started_helper_def nb_idl_fields_def ovn_idl_init_def idl_notify_def nb_idl_init_def NB_TABLES_def
      check_and_set_ssl_files_def ssl_call_def truthy_def Let_def)

section \<open>The agent\<close>

definition OVN_EVENT_LOCK_NAME :: string where
  "OVN_EVENT_LOCK_NAME = ''neutron_ovn_octavia_event_lock''"

text \<open>The idl of a connection: its lock, the events watched, and whether it runs.\<close>

record event_idl =
  ei_lock :: "string option"
  ei_watched :: "row_event_decl list"
  ei_running :: bool

record agent =
  ag_opts :: bool
  ag_helper :: "helper option"
  ag_nb :: "event_idl option"
  ag_sb :: "event_idl option"
  ag_thread :: "maintenance_thread option"
  ag_periodics :: "periodics_object option"

definition idle_agent :: agent where
  "idle_agent =
     \<lparr>ag_opts = False, ag_helper = None, ag_nb = None, ag_sb = None, ag_thread = None, ag_periodics = None\<rparr>"

datatype agent_step =
    Register_opts
  | Create_helper
  | Create_nb "string option"
  | Watch_nb "row_event_decl list"
  | Start_nb
  | Create_sb "string option"
  | Watch_sb "row_event_decl list"
  | Start_sb
  | Create_thread
  | Create_periodics
  | Add_periodics
  | Start_thread
  | Unwatch_nb "row_event_decl list"
  | Stop_nb
  | Unwatch_sb "row_event_decl list"
  | Stop_sb
  | Stop_thread

definition new_idl :: "string option \<Rightarrow> event_idl" where
  "new_idl lock = \<lparr>ei_lock = lock, ei_watched = [], ei_running = False\<rparr>"

definition watch_events :: "row_event_decl list \<Rightarrow> event_idl \<Rightarrow> event_idl" where
  "watch_events events i = i\<lparr>ei_watched := ei_watched i @ events\<rparr>"

definition unwatch_events :: "row_event_decl list \<Rightarrow> event_idl \<Rightarrow> event_idl" where
  "unwatch_events events i = i\<lparr>ei_watched := filter (\<lambda>e. e \<notin> set events) (ei_watched i)\<rparr>"

fun agent_do :: "agent_step \<Rightarrow> agent \<Rightarrow> agent res" where
  "agent_do Register_opts a = Inr (a\<lparr>ag_opts := True\<rparr>)"
| "agent_do Create_helper a = Inr (a\<lparr>ag_helper := Some (started_helper True)\<rparr>)"
| "agent_do (Create_nb lock) a = Inr (a\<lparr>ag_nb := Some (new_idl lock)\<rparr>)"
| "agent_do (Watch_nb es) a = Inr (a\<lparr>ag_nb := map_option (watch_events es) (ag_nb a)\<rparr>)"
| "agent_do Start_nb a = Inr (a\<lparr>ag_nb := map_option (ei_running_update (\<lambda>_. True)) (ag_nb a)\<rparr>)"
| "agent_do (Create_sb lock) a = Inr (a\<lparr>ag_sb := Some (new_idl lock)\<rparr>)"
| "agent_do (Watch_sb es) a = Inr (a\<lparr>ag_sb := map_option (watch_events es) (ag_sb a)\<rparr>)"
| "agent_do Start_sb a = Inr (a\<lparr>ag_sb := map_option (ei_running_update (\<lambda>_. True)) (ag_sb a)\<rparr>)"
| "agent_do Create_thread a = Inr (a\<lparr>ag_thread := Some new_maintenance_thread\<rparr>)"
| "agent_do Create_periodics a = Inr (a\<lparr>ag_periodics := Some DBInconsistenciesPeriodics\<rparr>)"
| "agent_do Add_periodics a =
     Inr (case ag_periodics a of
            None \<Rightarrow> a | Some p \<Rightarrow> a\<lparr>ag_thread := map_option (add_periodics (po_members p)) (ag_thread a)\<rparr>)"
| "agent_do Start_thread a = Inr (a\<lparr>ag_thread := map_option maintenance_start (ag_thread a)\<rparr>)"
| "agent_do (Unwatch_nb es) a = Inr (a\<lparr>ag_nb := map_option (unwatch_events es) (ag_nb a)\<rparr>)"
| "agent_do Stop_nb a = Inr (a\<lparr>ag_nb := map_option (ei_running_update (\<lambda>_. False)) (ag_nb a)\<rparr>)"
| "agent_do (Unwatch_sb es) a = Inr (a\<lparr>ag_sb := map_option (unwatch_events es) (ag_sb a)\<rparr>)"
| "agent_do Stop_sb a = Inr (a\<lparr>ag_sb := map_option (ei_running_update (\<lambda>_. False)) (ag_sb a)\<rparr>)"
| "agent_do Stop_thread a =
     (case ag_thread a of
        None \<Rightarrow> Inl AttributeError
      | Some t \<Rightarrow> rbind (maintenance_stop t) (\<lambda>t'. Inr (a\<lparr>ag_thread := Some t'\<rparr>)))"

definition nb_events :: "row_event_decl list" where
  "nb_events = [LogicalRouterPortEvent, LogicalSwitchPortUpdateEvent]"

definition sb_events :: "row_event_decl list" where
  "sb_events = [ServiceMonitorUpdateEvent]"

definition agent_start :: "agent_step list" where
  "agent_start =
     [Register_opts, Create_helper,
      Create_nb (Some OVN_EVENT_LOCK_NAME), Watch_nb nb_events, Start_nb,
      Create_sb (Some OVN_EVENT_LOCK_NAME), Watch_sb sb_events, Start_sb,
      Create_thread, Create_periodics, Add_periodics, Start_thread]"

definition agent_exit :: "agent_step list" where
  "agent_exit = [Unwatch_nb nb_events, Stop_nb, Unwatch_sb sb_events, Stop_sb, Stop_thread]"

text \<open>
  The statements in order; \<open>fails\<close> tells which of them raises. An exception ends the function: what
  follows, the clean-up included, does not run.
\<close>

fun run_agent :: "(agent_step \<Rightarrow> exn option) \<Rightarrow> agent_step list \<Rightarrow> agent \<Rightarrow> exn option \<times> agent" where
  "run_agent fails [] a = (None, a)"
| "run_agent fails (s # ss) a =
     (case fails s of
        Some e \<Rightarrow> (Some e, a)
      | None \<Rightarrow> (case agent_do s a of Inl e \<Rightarrow> (Some e, a) | Inr a' \<Rightarrow> run_agent fails ss a'))"

text \<open>\<open>OvnProviderAgent\<close>: \<open>exit_event.wait\<close> is between the two parts.\<close>

definition OvnProviderAgent :: "(agent_step \<Rightarrow> exn option) \<Rightarrow> agent \<Rightarrow> exn option \<times> agent" where
  "OvnProviderAgent fails a = run_agent fails (agent_start @ agent_exit) a"

text \<open>A run gets some way through its statements, and all the way if there is no exception.\<close>

definition agent_after :: "agent_step list \<Rightarrow> agent \<Rightarrow> agent res" where
  "agent_after ss a = foldR agent_do ss a"

lemma run_agent_prefix:
  "run_agent fails ss a = (err, a') \<Longrightarrow>
   \<exists>n\<le>length ss. agent_after (take n ss) a = Inr a' \<and> (err = None \<longrightarrow> n = length ss)"
proof (induction ss arbitrary: a)
  case (Cons s ss)
  show ?case
  proof (cases "fails s = None \<and> (\<exists>b. agent_do s a = Inr b)")
    case True
    then obtain b where b: "fails s = None" "agent_do s a = Inr b" by blast
    with Cons obtain n where "n \<le> length ss" "agent_after (take n ss) b = Inr a'" "err = None \<longrightarrow> n = length ss"
      by force
    with b show ?thesis by (intro exI [of _ "Suc n"]) (simp add: agent_after_def)
  next
    case False
    with Cons.prems show ?thesis
      by (cases "fails s"; cases "agent_do s a") (auto simp: agent_after_def intro: exI [of _ 0])
  qed
qed (simp add: agent_after_def)

definition watched_before_start :: "agent \<Rightarrow> bool" where
  "watched_before_start a \<longleftrightarrow>
     (case ag_nb a of None \<Rightarrow> True | Some i \<Rightarrow> ei_running i \<longrightarrow> ei_watched i = nb_events \<and> ei_lock i = Some OVN_EVENT_LOCK_NAME) \<and>
     (case ag_sb a of None \<Rightarrow> True | Some i \<Rightarrow> ei_running i \<longrightarrow> ei_watched i = sb_events \<and> ei_lock i = Some OVN_EVENT_LOCK_NAME) \<and>
     (ag_nb a \<noteq> None \<longrightarrow> ag_opts a \<and> ag_helper a \<noteq> None)"

text \<open>The helper takes requests: its thread was started, nobody shut it down, and it is connected.\<close>

definition helper_active :: "agent \<Rightarrow> bool" where
  "helper_active a \<longleftrightarrow>
     (case ag_helper a of None \<Rightarrow> False
      | Some h \<Rightarrow> he_thread_started h \<and> he_connected h \<and> REQ_TYPE_EXIT \<notin> set (he_requests h))"

definition serving :: "agent \<Rightarrow> bool" where
  "serving a \<longleftrightarrow>
     helper_active a \<and>
     (case ag_nb a of None \<Rightarrow> False | Some i \<Rightarrow> ei_running i) \<and>
     (case ag_sb a of None \<Rightarrow> False | Some i \<Rightarrow> ei_running i) \<and>
     (case ag_thread a of None \<Rightarrow> False
      | Some t \<Rightarrow> mt_worker t = Some [''change_device_owner_lb_hm_ports'', ''format_ip_port_mappings_ipv6''])"

definition events_stopped :: "agent \<Rightarrow> bool" where
  "events_stopped a \<longleftrightarrow>
     (case ag_nb a of None \<Rightarrow> True | Some i \<Rightarrow> \<not> ei_running i \<and> ei_watched i = []) \<and>
     (case ag_sb a of None \<Rightarrow> True | Some i \<Rightarrow> \<not> ei_running i \<and> ei_watched i = []) \<and>
     (case ag_thread a of None \<Rightarrow> True | Some t \<Rightarrow> \<not> mt_thread t \<and> mt_worker t = None)"

text \<open>What the clean-up forgets: the helper, and the connection of the maintenance object.\<close>

definition left_running :: "agent \<Rightarrow> bool" where
  "left_running a \<longleftrightarrow>
     helper_active a \<and> (case ag_periodics a of None \<Rightarrow> False | Some p \<Rightarrow> po_connected p)"

lemma agent_prefixes:
  "list_all (\<lambda>n. case agent_after (take n agent_start) idle_agent of
     Inl e \<Rightarrow> False | Inr a \<Rightarrow> watched_before_start a \<and> (n = 12 \<longrightarrow> serving a)) [0..<13]"
  "length agent_start = 12"
  by code_simp+

lemma agent_end:
  "case agent_after (agent_start @ agent_exit) idle_agent of Inl e \<Rightarrow> False | Inr a \<Rightarrow> events_stopped a \<and> left_running a"
  by code_simp

text \<open>C36: However the start of the agent goes, no event connection runs before its events are watched and its
  event lock is asked for; when it succeeds, the helper takes requests, both event connections run and the
  maintenance thread runs the two periodic tasks. When the whole function returns, the event connections and
  the maintenance thread are stopped and nothing is watched any more, but the helper was never shut down: its
  request thread and its connection still run, and so does the connection of the maintenance object.\<close>

theorem agent_lifecycle:
  "watched_before_start (snd (run_agent fails agent_start idle_agent)) \<and>
   (fst (run_agent fails agent_start idle_agent) = None \<longrightarrow> serving (snd (run_agent fails agent_start idle_agent))) \<and>
   (fst (OvnProviderAgent fails idle_agent) = None \<longrightarrow>
     events_stopped (snd (OvnProviderAgent fails idle_agent)) \<and> left_running (snd (OvnProviderAgent fails idle_agent)))"
proof (intro conjI impI)
  obtain err a where r: "run_agent fails agent_start idle_agent = (err, a)" by (metis prod.exhaust)
  then obtain n where n: "n \<le> 12" "agent_after (take n agent_start) idle_agent = Inr a" "err = None \<longrightarrow> n = 12"
    using run_agent_prefix [OF r] agent_prefixes(2) by auto
  then have "n \<in> set [0..<13]" by simp
  with agent_prefixes(1) n(2) have ok: "watched_before_start a \<and> (n = 12 \<longrightarrow> serving a)"
    unfolding list_all_iff by fastforce
  with r show "watched_before_start (snd (run_agent fails agent_start idle_agent))" by simp
  assume "fst (run_agent fails agent_start idle_agent) = None"
  with r n(3) ok show "serving (snd (run_agent fails agent_start idle_agent))" by simp
next
  obtain err a where r: "OvnProviderAgent fails idle_agent = (err, a)" by (metis prod.exhaust)
  assume "fst (OvnProviderAgent fails idle_agent) = None"
  with r have "agent_after (agent_start @ agent_exit) idle_agent = Inr a"
    using run_agent_prefix [OF r [unfolded OvnProviderAgent_def]] by auto
  with agent_end r show "events_stopped (snd (OvnProviderAgent fails idle_agent))"
    "left_running (snd (OvnProviderAgent fails idle_agent))" by simp_all
qed

theorem agent_lifecycle_witness:
  "fst (OvnProviderAgent (\<lambda>s. None) idle_agent) = None \<and> events_stopped (snd (OvnProviderAgent (\<lambda>s. None) idle_agent)) \<and>
   left_running (snd (OvnProviderAgent (\<lambda>s. None) idle_agent)) \<and>
   watched_before_start (snd (run_agent (\<lambda>s. if s = Start_sb then Some (OtherException ''Exception'') else None)
     agent_start idle_agent))"
proof -
  have "fst (OvnProviderAgent (\<lambda>s. None) idle_agent) = None" by code_simp
  with agent_lifecycle show ?thesis by blast
qed

section \<open>Connecting\<close>

text \<open>
  The decorator \<open>retry\<close> of \<open>common/utils.py\<close>, around the request for the schema of the server: the longest
  wait between two attempts is the argument or the configured one, and every exception is retried. The
  attempts are bounded by fuel; None: the function has not returned yet.
\<close>

definition retry_max_wait :: "'c oslo \<Rightarrow> int option \<Rightarrow> ('c, conf_value) io" where
  "retry_max_wait C max_wait =
     (case max_wait of
        Some n \<Rightarrow> if n \<noteq> 0 then ret (IntVal_opt n) else get_ovn_ovsdb_retry_max_interval C
      | None \<Rightarrow> get_ovn_ovsdb_retry_max_interval C)"

fun retry_call :: "nat \<Rightarrow> ('w, 'a) io \<Rightarrow> 'w \<Rightarrow> ('a \<times> 'w) option" where
  "retry_call 0 f w = None"
| "retry_call (Suc n) f w =
     (case f w of (Inr x, w') \<Rightarrow> Some (x, w') | (Inl e, w') \<Rightarrow> retry_call n f w')"

text \<open>The call returns with the first attempt that succeeds, and only then.\<close>

definition failed_attempts :: "nat \<Rightarrow> ('w, 'a) io \<Rightarrow> 'w \<Rightarrow> 'w" where
  "failed_attempts k f w = ((\<lambda>w. snd (f w)) ^^ k) w"

lemma retry_call_iff:
  "retry_call n f w = Some (x, w') \<longleftrightarrow>
     (\<exists>k<n. f (failed_attempts k f w) = (Inr x, w') \<and> (\<forall>j<k. isl (fst (f (failed_attempts j f w)))))"
proof (induction n arbitrary: w)
  case (Suc n)
  obtain r w1 where f: "f w = (r, w1)" by (metis prod.exhaust)
  have shift: "failed_attempts (Suc k) f w = failed_attempts k f w1" for k
    by (simp add: failed_attempts_def funpow_Suc_right f del: funpow.simps)
  show ?case
  proof (cases r)
    case (Inl e)
    with Suc f have "retry_call (Suc n) f w = Some (x, w') \<longleftrightarrow>
      (\<exists>k<n. f (failed_attempts (Suc k) f w) = (Inr x, w') \<and> (\<forall>j<k. isl (fst (f (failed_attempts (Suc j) f w)))))"
      by (simp add: shift)
    moreover have "failed_attempts 0 f w = w" by (simp add: failed_attempts_def)
    ultimately show ?thesis
      using f Inl by (auto simp: Ex_less_Suc2 All_less_Suc2)
  next
    case (Inr y)
    have "failed_attempts 0 f w = w" by (simp add: failed_attempts_def)
    with f Inr show ?thesis by (auto simp: Ex_less_Suc2 All_less_Suc2)
  qed
qed simp

text \<open>\<open>_get_ovsdb_helper\<close> of both connections: the schema is asked for until the server answers.\<close>

definition get_ovsdb_helper :: "nat \<Rightarrow> (string \<Rightarrow> string \<Rightarrow> ('w, 's) io) \<Rightarrow> string \<Rightarrow> string \<Rightarrow> 'w \<Rightarrow> ('s \<times> 'w) option" where
  "get_ovsdb_helper fuel schema_helper conn_string schema_name =
     retry_call fuel (schema_helper conn_string schema_name)"

text \<open>A server that answers after \<open>k\<close> refusals is reached with any more attempts than that.\<close>

lemma get_ovsdb_helper_connects:
  assumes "schema_helper c n (failed_attempts k (schema_helper c n) w) = (Inr s, w')"
    and "\<forall>j<k. isl (fst (schema_helper c n (failed_attempts j (schema_helper c n) w)))" and "k < fuel"
  shows "get_ovsdb_helper fuel schema_helper c n w = Some (s, w')"
  using assms by (auto simp: get_ovsdb_helper_def retry_call_iff)

section \<open>After a shutdown\<close>

text \<open>After a shutdown the thread still handles what was queued before, and stops.\<close>

lemma shutdown_drains:
  "REQ_TYPE_EXIT \<notin> set requests \<Longrightarrow>
   request_handler E (map Some (helper_shutdown requests)) t = (fold (run_request E) requests t, Some [])"
  by (induction requests arbitrary: t) (auto simp: helper_shutdown_def)

section \<open>The driver and the synchronisation command\<close>

definition driver_init ::
  "'c oslo \<Rightarrow> (string \<Rightarrow> bool) \<Rightarrow> ssl_files \<Rightarrow> ssl_files \<Rightarrow> ('c, idl_call list \<times> helper) io" where
  "driver_init C path_exists nb sb =
     bnd (register_opts C) (\<lambda>_.
     bnd (get_ovn_nb_connection C) (\<lambda>conn_string.
     ret (helper_init path_exists nb sb conn_string False)))"

definition driver_del :: "request list \<Rightarrow> request list" where
  "driver_del requests = helper_shutdown requests"

text \<open>
  \<open>setup_conf\<close>: \<open>register_log\<close> and \<open>parse\<close> are \<open>logging.register_options\<close> and \<open>CONF(project='octavia')\<close>; a
  TypeError is logged and raised again.
\<close>

definition setup_conf :: "'c oslo \<Rightarrow> ('c, unit) io \<Rightarrow> ('c, unit) io \<Rightarrow> ('c, unit) io" where
  "setup_conf C register_log parse =
     bnd (register_opts C) (\<lambda>_.
     bnd register_log (\<lambda>_.
     catch parse (\<lambda>e. throw e)))"

text \<open>The option \<open>--debug\<close>, and the arguments without it.\<close>

definition sync_args :: "string list \<Rightarrow> bool \<times> string list" where
  "sync_args args = (if ''--debug'' \<in> set args then (True, remove1 ''--debug'' args) else (False, args))"

definition lb_filters :: "string pydict" where
  "lb_filters = [(''provider'', ''ovn'')]"

text \<open>\<open>main\<close>: \<open>set_debug\<close> is \<open>set_override('debug', ...)\<close>, \<open>create_driver\<close> the driver's constructor.\<close>

definition sync_main ::
  "('w, unit) io \<Rightarrow> (bool \<Rightarrow> ('w, unit) io) \<Rightarrow> ('w, unit) io \<Rightarrow> string list \<Rightarrow>
   (string pydict \<Rightarrow> ('w, unit) io) \<Rightarrow> ('w, unit) io" where
  "sync_main setup set_debug create_driver args sync =
     bnd setup (\<lambda>_.
     bnd (set_debug (fst (sync_args args))) (\<lambda>_.
     bnd create_driver (\<lambda>_.
     sync lb_filters)))"

text \<open>Nothing is synchronised unless the configuration could be read.\<close>

lemma sync_main_setup_fails:
  "setup w = (Inl e, w') \<Longrightarrow> sync_main setup set_debug create_driver args sync w = (Inl e, w')"
  by (simp add: sync_main_def bnd_def)

end
