(* ===== verification/Regex.thy ===== *)
theory Regex
  imports PyStr
begin

text \<open>
  The part of Python's \<open>re\<close> the code uses: character classes, \<open>\b\<close>, \<open>$\<close>, concatenation, alternation and
  repetition. A position in a string is a cut, the characters before and after it; \<open>matches\<close> says which cuts
  a pattern leads to, \<open>ends\<close> computes them. Only whether there is a match is ever asked, so the order in which
  Python tries the alternatives (greedy or lazy) does not matter.
\<close>

section \<open>Patterns\<close>

datatype regex =
    Chars "char \<Rightarrow> bool"
  | Word_boundary
  | Line_end
  | Empty
  | Then regex regex
  | Or regex regex
  | Many regex

type_synonym cut = "string \<times> string"

definition is_word :: "char \<Rightarrow> bool" where
  "is_word c \<longleftrightarrow> (let n = (of_char c :: nat) in
     48 \<le> n \<and> n \<le> 57 \<or> 65 \<le> n \<and> n \<le> 90 \<or> 97 \<le> n \<and> n \<le> 122 \<or> n = 95)"

definition at_boundary :: "cut \<Rightarrow> bool" where
  "at_boundary x \<longleftrightarrow> (fst x \<noteq> [] \<and> is_word (last (fst x))) \<noteq> (snd x \<noteq> [] \<and> is_word (hd (snd x)))"

text \<open>\<open>$\<close> also matches before a newline that ends the string.\<close>

definition at_line_end :: "cut \<Rightarrow> bool" where
  "at_line_end x \<longleftrightarrow> snd x = [] \<or> snd x = [CHR 0x0A]"

primrec matches :: "regex \<Rightarrow> cut \<Rightarrow> cut \<Rightarrow> bool" where
  "matches (Chars f) = (\<lambda>x y. \<exists>c. f c \<and> snd x = c # snd y \<and> fst y = fst x @ [c])"
| "matches Word_boundary = (\<lambda>x y. y = x \<and> at_boundary x)"
| "matches Line_end = (\<lambda>x y. y = x \<and> at_line_end x)"
| "matches Empty = (=)"
| "matches (Then a b) = matches a OO matches b"
| "matches (Or a b) = (\<lambda>x y. matches a x y \<or> matches b x y)"
| "matches (Many a) = (matches a)\<^sup>*\<^sup>*"

section \<open>The matcher\<close>

text \<open>Repetitions that consume nothing lead nowhere new, so the rest of the string bounds them.\<close>

primrec many_ends :: "(cut \<Rightarrow> cut list) \<Rightarrow> nat \<Rightarrow> cut \<Rightarrow> cut list" where
  "many_ends f 0 x = [x]"
| "many_ends f (Suc n) x =
     x # concat (map (many_ends f n) (filter (\<lambda>y. length (snd y) < length (snd x)) (f x)))"

primrec ends :: "regex \<Rightarrow> cut \<Rightarrow> cut list" where
  "ends (Chars f) x = (case snd x of [] \<Rightarrow> [] | c # q \<Rightarrow> if f c then [(fst x @ [c], q)] else [])"
| "ends Word_boundary x = (if at_boundary x then [x] else [])"
| "ends Line_end x = (if at_line_end x then [x] else [])"
| "ends Empty x = [x]"
| "ends (Then a b) x = concat (map (ends b) (ends a x))"
| "ends (Or a b) x = ends a x @ ends b x"
| "ends (Many a) x = many_ends (ends a) (length (snd x)) x"

text \<open>\<open>re.match\<close> (at the start) and \<open>re.search\<close> (anywhere).\<close>

definition match_start :: "regex \<Rightarrow> string \<Rightarrow> bool" where
  "match_start r s \<longleftrightarrow> ends r ([], s) \<noteq> []"

definition search :: "regex \<Rightarrow> string \<Rightarrow> bool" where
  "search r s \<longleftrightarrow> list_ex (\<lambda>n. ends r (take n s, drop n s) \<noteq> []) [0..<Suc (length s)]"

section \<open>The matcher is exact\<close>

text \<open>A match consumes a part of the rest.\<close>

lemma matches_consume: "matches r x y \<Longrightarrow> \<exists>u. snd x = u @ snd y \<and> fst y = fst x @ u"
proof (induction r arbitrary: x y)
  case (Then a b)
  then obtain z where "matches a x z" "matches b z y" by auto
  with Then.IH(1) [of x z] Then.IH(2) [of z y] show ?case by force
next
  case (Many a)
  from Many.prems have "(matches a)\<^sup>*\<^sup>* x y" by simp
  then show ?case by (induction rule: rtranclp_induct) (use Many.IH in fastforce)+
qed auto

lemma many_ends_mono: "n \<le> m \<Longrightarrow> set (many_ends f n x) \<subseteq> set (many_ends f m x)"
proof (induction n arbitrary: m x)
  case (Suc n)
  then obtain k where "m = Suc k" "n \<le> k" by (cases m) auto
  with Suc.IH [of k] show ?case by auto
next
  case 0
  then show ?case by (cases m) simp_all
qed

lemma many_ends_iff:
  assumes f: "\<And>x y. y \<in> set (f x) \<longleftrightarrow> R x y" and c: "\<And>x y. R x y \<Longrightarrow> \<exists>u. snd x = u @ snd y \<and> fst y = fst x @ u"
  shows "y \<in> set (many_ends f (length (snd x)) x) \<longleftrightarrow> R\<^sup>*\<^sup>* x y"
proof
  have "y \<in> set (many_ends f n x) \<Longrightarrow> R\<^sup>*\<^sup>* x y" for n x
    by (induction n arbitrary: x) (use f in \<open>auto intro: converse_rtranclp_into_rtranclp\<close>)
  then show "y \<in> set (many_ends f (length (snd x)) x) \<Longrightarrow> R\<^sup>*\<^sup>* x y" .
next
  show "R\<^sup>*\<^sup>* x y \<Longrightarrow> y \<in> set (many_ends f (length (snd x)) x)"
  proof (induction rule: converse_rtranclp_induct)
    case base
    show ?case by (cases "length (snd y)") simp_all
  next
    case (step x z)
    from c [OF step(1)] obtain u where u: "snd x = u @ snd z" "fst z = fst x @ u" by blast
    show ?case
    proof (cases "u = []")
      case True
      with u have "z = x" by (simp add: prod_eq_iff)
      with step show ?thesis by simp
    next
      case False
      with u obtain m where m: "length (snd x) = Suc m" "length (snd z) \<le> m" "length (snd z) < length (snd x)"
        by (cases u) auto
      from step.IH many_ends_mono [OF m(2), of f z] have "y \<in> set (many_ends f m z)" by blast
      with m step(1) show ?thesis
        by (simp add: f) (metis prod.collapse)
    qed
  qed
qed

lemma ends_iff: "y \<in> set (ends r x) \<longleftrightarrow> matches r x y"
proof (induction r arbitrary: x y)
  case (Chars f)
  show ?case by (cases y) (auto split: list.split)
next
  case (Many a)
  show ?case using many_ends_iff [of "ends a" "matches a", OF Many.IH matches_consume] by simp
qed auto

lemma search_iff: "search r s \<longleftrightarrow> (\<exists>p q y. s = p @ q \<and> matches r (p, q) y)"
proof
  assume "search r s"
  then obtain n where "ends r (take n s, drop n s) \<noteq> []" unfolding search_def list_ex_iff by blast
  then obtain y where "y \<in> set (ends r (take n s, drop n s))" by (cases "ends r (take n s, drop n s)") auto
  then show "\<exists>p q y. s = p @ q \<and> matches r (p, q) y"
    by (metis append_take_drop_id ends_iff)
next
  assume "\<exists>p q y. s = p @ q \<and> matches r (p, q) y"
  then obtain p q y where "s = p @ q" "y \<in> set (ends r (p, q))" by (auto simp: ends_iff)
  then have "ends r (take (length p) s, drop (length p) s) \<noteq> []" "length p \<in> set [0..<Suc (length s)]" by auto
  then show "search r s" unfolding search_def list_ex_iff by blast
qed

lemma match_start_iff: "match_start r s \<longleftrightarrow> (\<exists>y. matches r ([], s) y)"
proof -
  have "ends r ([], s) \<noteq> [] \<longleftrightarrow> (\<exists>y. y \<in> set (ends r ([], s)))" by (cases "ends r ([], s)") auto
  then show ?thesis by (simp add: match_start_def ends_iff)
qed

section \<open>Patterns that occur\<close>

definition lit :: "string \<Rightarrow> regex" where
  "lit w = foldr (\<lambda>c. Then (Chars ((=) c))) w Empty"

definition maybe :: "regex \<Rightarrow> regex" where
  "maybe r = Or r Empty"

definition some :: "regex \<Rightarrow> regex" where
  "some r = Then r (Many r)"

abbreviation spaces :: regex where "spaces \<equiv> Many (Chars is_space)"
abbreviation no_comma :: regex where "no_comma \<equiv> Many (Chars (\<lambda>c. c \<noteq> CHR '',''))"

primrec seq :: "regex list \<Rightarrow> regex" where
  "seq [] = Empty"
| "seq (r # rs) = Then r (seq rs)"

lemma matches_lit: "matches (lit w) x y \<longleftrightarrow> snd x = w @ snd y \<and> fst y = fst x @ w"
proof (induction w arbitrary: x)
  case (Cons c w)
  have "lit (c # w) = Then (Chars ((=) c)) (lit w)" by (simp add: lit_def)
  with Cons.IH show ?case by (auto simp: OO_def)
qed (auto simp: lit_def prod_eq_iff)

lemma matches_many_chars:
  "matches (Many (Chars f)) x y \<longleftrightarrow> (\<exists>u. list_all f u \<and> snd x = u @ snd y \<and> fst y = fst x @ u)"
proof
  assume "matches (Many (Chars f)) x y"
  then have "(matches (Chars f))\<^sup>*\<^sup>* x y" by simp
  then show "\<exists>u. list_all f u \<and> snd x = u @ snd y \<and> fst y = fst x @ u"
  proof (induction rule: converse_rtranclp_induct)
    case (step x z)
    then obtain c u where "f c" "snd x = c # snd z" "fst z = fst x @ [c]"
      "list_all f u" "snd z = u @ snd y" "fst y = fst z @ u" by auto
    then show ?case by (intro exI [of _ "c # u"]) simp
  qed simp
next
  have "list_all f u \<Longrightarrow> (matches (Chars f))\<^sup>*\<^sup>* (p, u @ q) (p @ u, q)" for u p q
  proof (induction u arbitrary: p)
    case (Cons c u)
    then have "matches (Chars f) (p, c # u @ q) (p @ [c], u @ q)" by simp
    moreover have "(matches (Chars f))\<^sup>*\<^sup>* (p @ [c], u @ q) (p @ c # u, q)"
      using Cons.IH [of "p @ [c]"] Cons.prems by (simp del: matches.simps)
    ultimately show ?case unfolding append_Cons by (rule converse_rtranclp_into_rtranclp)
  qed simp
  moreover assume "\<exists>u. list_all f u \<and> snd x = u @ snd y \<and> fst y = fst x @ u"
  ultimately show "matches (Many (Chars f)) x y" by (metis matches.simps(7) prod.collapse)
qed

text \<open>A pattern leads to a cut with a property: the form in which a match is taken apart.\<close>

definition leads :: "regex \<Rightarrow> (cut \<Rightarrow> bool) \<Rightarrow> cut \<Rightarrow> bool" where
  "leads r P x \<longleftrightarrow> (\<exists>y. matches r x y \<and> P y)"

lemma leads_simps:
  "leads (Then a b) P x \<longleftrightarrow> leads a (leads b P) x"
  "leads (Or a b) P x \<longleftrightarrow> leads a P x \<or> leads b P x"
  "leads Word_boundary P x \<longleftrightarrow> at_boundary x \<and> P x"
  "leads Line_end P x \<longleftrightarrow> at_line_end x \<and> P x"
  by (auto simp: leads_def OO_def)

lemma leads_Empty: "leads Empty P = P"
  by (simp add: leads_def fun_eq_iff)

lemma leads_lit: "leads (lit w) P (p, q) \<longleftrightarrow> (\<exists>q'. q = w @ q' \<and> P (p @ w, q'))"
  by (auto simp: leads_def matches_lit)

lemma leads_many_chars:
  "leads (Many (Chars f)) P (p, q) \<longleftrightarrow> (\<exists>u q'. list_all f u \<and> q = u @ q' \<and> P (p @ u, q'))"
  by (auto simp: leads_def matches_many_chars simp del: matches.simps)

lemma leads_some_chars:
  "leads (some (Chars f)) P (p, q) \<longleftrightarrow> (\<exists>u q'. u \<noteq> [] \<and> list_all f u \<and> q = u @ q' \<and> P (p @ u, q'))"
proof -
  have c: "leads (Chars f) R (p, q) \<longleftrightarrow> (\<exists>c q'. f c \<and> q = c # q' \<and> R (p @ [c], q'))" for R
    by (auto simp: leads_def)
  show ?thesis
  proof
    assume "leads (some (Chars f)) P (p, q)"
    then obtain c u q' where "f c" "list_all f u" "q = c # u @ q'" "P (p @ c # u, q')"
      by (auto simp: some_def leads_simps c leads_many_chars)
    then show "\<exists>u q'. u \<noteq> [] \<and> list_all f u \<and> q = u @ q' \<and> P (p @ u, q')"
      by (intro exI [of _ "c # u"] exI [of _ q']) simp
  next
    assume "\<exists>u q'. u \<noteq> [] \<and> list_all f u \<and> q = u @ q' \<and> P (p @ u, q')"
    then obtain c u q' where "f c" "list_all f u" "q = c # u @ q'" "P (p @ c # u, q')"
      by (metis append_Cons list.exhaust list.pred_inject(2))
    then show "leads (some (Chars f)) P (p, q)"
      unfolding some_def leads_simps c leads_many_chars
      by (intro exI [of _ c] exI [of _ "u @ q'"] conjI exI [of _ u] exI [of _ q']) simp_all
  qed
qed

lemma leads_intros:
  "P (p @ w, q) \<Longrightarrow> leads (lit w) P (p, w @ q)"
  "list_all f u \<Longrightarrow> P (p @ u, q) \<Longrightarrow> leads (Many (Chars f)) P (p, u @ q)"
  "u \<noteq> [] \<Longrightarrow> list_all f u \<Longrightarrow> P (p @ u, q) \<Longrightarrow> leads (some (Chars f)) P (p, u @ q)"
  by (auto simp: leads_lit leads_many_chars leads_some_chars)

text \<open>An optional end of a pattern decides nothing.\<close>

lemma leads_anywhere: "leads (maybe r) (\<lambda>_. True) = (\<lambda>_. True)" "leads (Many r) (\<lambda>_. True) = (\<lambda>_. True)"
  by (rule ext, simp only: leads_def maybe_def matches.simps, blast)+

lemma search_leads: "search r s \<longleftrightarrow> (\<exists>p q. s = p @ q \<and> leads r (\<lambda>_. True) (p, q))"
  unfolding search_iff leads_def by blast

lemma match_start_leads: "match_start r s \<longleftrightarrow> leads r (\<lambda>_. True) ([], s)"
  by (simp add: match_start_iff leads_def)

end
