(* ===== verification/Hacking.thy ===== *)
theory Hacking
  imports Regex
begin

text \<open>
  The style checks of the repository (\<open>hacking/checks.py\<close>). A check is a generator of reports, a position and a
  message; here the list of what it yields. The decorator \<open>flake8ext\<close> only marks them.
\<close>

section \<open>The patterns\<close>

type_synonym report_list = "(nat \<times> string) list"

definition unittest_imports_dot :: regex where
  "unittest_imports_dot = seq [Word_boundary, lit ''import'', some (Chars is_space), lit ''unittest'', Word_boundary]"

definition unittest_imports_from :: regex where
  "unittest_imports_from = seq [Word_boundary, lit ''from'', some (Chars is_space), lit ''unittest'', Word_boundary]"

text \<open>A dot is any character but a newline; in the name of the package it is not escaped either.\<close>

abbreviation dot :: regex where "dot \<equiv> Chars (\<lambda>c. c \<noteq> CHR 0x0A)"

definition filter_match :: regex where
  "filter_match = seq [Many dot, lit ''filter(lambda '']"

definition tests_package :: regex where
  "tests_package = seq [lit ''ovn_octavia_provider'', dot, lit ''tests'', Word_boundary]"

definition tests_imports_dot :: regex where
  "tests_imports_dot = seq [Word_boundary, lit ''import'', some (Chars is_space), tests_package]"

definition tests_imports_from1 :: regex where
  "tests_imports_from1 = seq [Word_boundary, lit ''from'', some (Chars is_space), tests_package]"

definition tests_imports_from2 :: regex where
  "tests_imports_from2 =
     seq [Word_boundary, lit ''from'', some (Chars is_space), lit ''ovn_octavia_provider'', some (Chars is_space),
          lit ''import'', some (Chars is_space), lit ''tests'', Word_boundary]"

definition no_line_continuation_backslash_re :: regex where
  "no_line_continuation_backslash_re = seq [Many dot, lit [CHR 0x5C, CHR 0x0A]]"

definition import_mock :: regex where
  "import_mock = seq [Word_boundary, lit ''import'', some (Chars is_space), lit ''mock'', Word_boundary]"

definition import_from_mock :: regex where
  "import_from_mock =
     seq [Word_boundary, lit ''from'', some (Chars is_space), lit ''mock'', some (Chars is_space), lit ''import'',
          Word_boundary]"

section \<open>The checks\<close>

definition in_tests :: "string \<Rightarrow> bool" where
  "in_tests filename = contains ''ovn_octavia_provider/tests/'' filename"

definition report_if :: "bool \<Rightarrow> string \<Rightarrow> report_list" where
  "report_if b msg = (if b then [(0, msg)] else [])"

definition N322_once :: string where
  "N322_once = ''N322: Possible use of no-op mock method. please use assert_called_once_with.''"

definition N322_has :: string where
  "N322_has = ''N322: Possible use of no-op mock method. please use assert_has_calls.''"

definition check_assert_called_once_with :: "string \<Rightarrow> string \<Rightarrow> report_list" where
  "check_assert_called_once_with logical_line filename =
     (if \<not> in_tests filename \<or> contains ''.assert_called_once_with('' logical_line then []
      else
        (let uncased_line = replace ''_'' [] (lower logical_line) in
         report_if (list_ex (\<lambda>x. contains x uncased_line) [''.assertcalledonce'', ''.calledoncewith'']) N322_once
         @ report_if (contains ''.asserthascalled'' uncased_line) N322_has))"

text \<open>\<open>assertEqual(\s*X,[^,]*(,[^,]*)?\<close> and \<open>assertEqual([^,]*,\s*X(,[^,]*)?\<close>\<close>

definition literal_first :: "string \<Rightarrow> regex" where
  "literal_first x =
     seq [lit ''assertEqual('', spaces, lit x, lit '','', no_comma, maybe (Then (lit '','') no_comma)]"

definition literal_second :: "string \<Rightarrow> regex" where
  "literal_second x =
     seq [lit ''assertEqual('', no_comma, lit '','', spaces, lit x, maybe (Then (lit '','') no_comma)]"

definition N328 :: "bool \<Rightarrow> string" where
  "N328 b =
     ''N328: Use assert'' @ str_bool b @ ''(observed) instead of assertEqual('' @ str_bool b @ '', observed)''"

definition check_asserttruefalse :: "string \<Rightarrow> string \<Rightarrow> report_list" where
  "check_asserttruefalse logical_line filename =
     (if in_tests filename then
        report_if (search (literal_first ''True'') logical_line) (N328 True)
        @ report_if (search (literal_second ''True'') logical_line) (N328 True)
        @ report_if (search (literal_first ''False'') logical_line) (N328 False)
        @ report_if (search (literal_second ''False'') logical_line) (N328 False)
      else [])"

definition single_quote :: char where "single_quote = CHR 0x27"
definition double_quote :: char where "double_quote = CHR 0x22"

definition N330 :: string where
  "N330 =
     ''N330: Use assertEqual(*empty*, observed) instead of assertEqual(observed, *empty*). *empty* contains ''
     @ ''{}, [], (), set(), '' @ [single_quote, single_quote] @ '', '' @ [double_quote, double_quote]"

definition around_spaces :: "string \<Rightarrow> string \<Rightarrow> regex" where
  "around_spaces a b = seq [lit a, spaces, lit b]"

definition empties :: regex where
  "empties =
     Or (around_spaces ''['' '']'') (Or (around_spaces ''{'' ''}'') (Or (around_spaces ''('' '')'')
       (Or (around_spaces ''set('' '')'') (Or (around_spaces [single_quote] [single_quote])
          (around_spaces [double_quote] [double_quote])))))"

definition empty_last :: regex where
  "empty_last =
     seq [lit ''assertEqual('', some (seq [no_comma, lit '','', spaces]), empties, lit '')'', spaces, Line_end]"

definition check_assertempty :: "string \<Rightarrow> string \<Rightarrow> report_list" where
  "check_assertempty logical_line filename =
     (if in_tests filename then report_if (search empty_last logical_line) N330 else [])"

definition N331 :: string where
  "N331 = ''N331: Use assertIsInstance(observed, type) instead of assertTrue(isinstance(observed, type))''"

definition true_isinstance :: regex where
  "true_isinstance =
     seq [lit ''assertTrue('', spaces, lit ''isinstance('', spaces, no_comma, lit '','', spaces, no_comma, lit ''))'']"

definition check_assertisinstance :: "string \<Rightarrow> string \<Rightarrow> report_list" where
  "check_assertisinstance logical_line filename =
     (if in_tests filename then report_if (search true_isinstance logical_line) N331 else [])"

definition N332 :: string where
  "N332 =
     ''N332: Use assertEqual(expected_http_code, observed_http_code) instead of assertEqual(observed_http_code, expected_http_code)''"

definition http_code_second :: regex where
  "http_code_second =
     seq [lit ''assertEqual('', spaces, no_comma, lit '','', no_comma, lit ''HTTP'',
          Many (Chars (\<lambda>c. c \<noteq> CHR ''.'')), lit ''.code'', spaces, lit '')'']"

definition check_assertequal_for_httpcode :: "string \<Rightarrow> string \<Rightarrow> report_list" where
  "check_assertequal_for_httpcode logical_line filename =
     (if in_tests filename then report_if (search http_code_second logical_line) N332 else [])"

definition N343 :: string where
  "N343 = ''N343 Production code must not import from ovn_octavia_provider.tests.*''"

definition check_no_imports_from_tests :: "string \<Rightarrow> string \<Rightarrow> report_list" where
  "check_no_imports_from_tests logical_line filename =
     (if in_tests filename then []
      else concat (map (\<lambda>regex. report_if (match_start regex logical_line) N343)
             [tests_imports_dot, tests_imports_from1, tests_imports_from2]))"

definition N344 :: string where
  "N344 = ''N344: Use list comprehension instead of filter(lambda obj: test(obj), data) on python3.''"

definition check_python3_no_filter :: "string \<Rightarrow> report_list" where
  "check_python3_no_filter logical_line = report_if (match_start filter_match logical_line) N344"

definition N347 :: string where
  "N347 = ''N347: Test code must not import mock library''"

definition check_no_import_mock :: "string \<Rightarrow> string \<Rightarrow> bool \<Rightarrow> report_list" where
  "check_no_import_mock logical_line filename noqa =
     (if noqa \<or> \<not> in_tests filename then []
      else concat (map (\<lambda>regex. report_if (match_start regex logical_line) N347) [import_mock, import_from_mock]))"

definition N348 :: string where
  "N348 = ''N348: Use assertCountEqual(expected, observed) instead of assertItemsEqual(observed, expected)''"

definition items_equal :: regex where
  "items_equal =
     seq [lit ''assertItemsEqual('', no_comma, lit '','', spaces, maybe (Then (lit '','') no_comma)]"

definition check_assertcountequal :: "string \<Rightarrow> string \<Rightarrow> report_list" where
  "check_assertcountequal logical_line filename =
     (if in_tests filename then report_if (search items_equal logical_line) N348 else [])"

section \<open>What they report\<close>

lemma report_if_mem: "r \<in> set (report_if b msg) \<longleftrightarrow> b \<and> r = (0, msg)"
  by (auto simp: report_if_def)

lemmas pattern_simps =
  seq.simps leads_simps leads_Empty leads_lit leads_many_chars leads_some_chars leads_anywhere append_assoc

lemma search_first:
  "search (seq [lit w, spaces, lit x, lit y, no_comma, maybe r]) s \<longleftrightarrow>
     (\<exists>p ws q. s = p @ w @ ws @ x @ y @ q \<and> list_all is_space ws)" (is "?l = ?r")
proof
  assume ?l
  then show ?r unfolding search_leads pattern_simps by (elim exE conjE) blast
next
  assume ?r
  then obtain p ws q where s: "s = p @ w @ ws @ x @ y @ q" "list_all is_space ws" by blast
  have "leads (seq [lit w, spaces, lit x, lit y, no_comma, maybe r]) (\<lambda>_. True) (p, w @ ws @ x @ y @ q)"
    unfolding seq.simps leads_simps leads_Empty leads_anywhere
    by (intro leads_intros s(2) TrueI)
  with s(1) show ?l unfolding search_leads by blast
qed

lemma search_second:
  "search (seq [lit w, no_comma, lit y, spaces, lit x, maybe r]) s \<longleftrightarrow>
     (\<exists>p a ws q. s = p @ w @ a @ y @ ws @ x @ q \<and> CHR '','' \<notin> set a \<and> list_all is_space ws)" (is "?l = ?r")
proof
  assume ?l
  then show ?r unfolding search_leads pattern_simps list_all_iff by (elim exE conjE) blast
next
  assume ?r
  then obtain p a ws q where s: "s = p @ w @ a @ y @ ws @ x @ q" "list_all (\<lambda>c. c \<noteq> CHR '','') a" "list_all is_space ws"
    by (auto simp: list_all_iff)
  have "leads (seq [lit w, no_comma, lit y, spaces, lit x, maybe r]) (\<lambda>_. True) (p, w @ a @ y @ ws @ x @ q)"
    unfolding seq.simps leads_simps leads_Empty leads_anywhere
    by (intro leads_intros s(2,3) TrueI)
  with s(1) show ?l unfolding search_leads by blast
qed

text \<open>The import of a module, at the start of the line: the name must end there.\<close>

lemma match_import:
  assumes "w \<noteq> []" "is_word (hd w)" "m \<noteq> []" "is_word (last m)"
  shows "match_start (seq [Word_boundary, lit w, some (Chars is_space), lit m, Word_boundary]) s \<longleftrightarrow>
     (\<exists>ws q. s = w @ ws @ m @ q \<and> ws \<noteq> [] \<and> list_all is_space ws \<and> (q = [] \<or> \<not> is_word (hd q)))" (is "?l = ?r")
proof
  have last: "last (p @ m) = last m" for p using assms(3) by simp
  assume ?l
  then obtain ws q where "s = w @ ws @ m @ q" "ws \<noteq> []" "list_all is_space ws" "at_boundary (w @ ws @ m, q)"
    unfolding match_start_leads pattern_simps by (elim exE conjE) simp
  with assms(4) last [of "w @ ws"] show ?r by (auto simp: at_boundary_def)
next
  assume ?r
  then obtain ws q where s: "s = w @ ws @ m @ q" "ws \<noteq> []" "list_all is_space ws" "q = [] \<or> \<not> is_word (hd q)"
    by blast
  have b: "at_boundary ([], w @ ws @ m @ q)" "at_boundary ((([] @ w) @ ws) @ m, q)"
    using assms s(4) by (auto simp: at_boundary_def)
  have "leads (seq [Word_boundary, lit w, some (Chars is_space), lit m, Word_boundary]) (\<lambda>_. True) ([], w @ ws @ m @ q)"
    unfolding seq.simps leads_simps leads_Empty
    by (intro conjI b leads_intros s(2,3)) (simp add: leads_simps b [simplified])
  with s(1) show ?l by (simp add: match_start_leads)
qed

lemma import_mock_iff:
  "match_start import_mock s \<longleftrightarrow>
     (\<exists>ws q. s = ''import'' @ ws @ ''mock'' @ q \<and> ws \<noteq> [] \<and> list_all is_space ws \<and> (q = [] \<or> \<not> is_word (hd q)))"
  unfolding import_mock_def by (rule match_import) (simp_all add: is_word_def)

text \<open>A check of the tests says nothing of other files, and the check of imports nothing of the tests.\<close>

lemma checks_of_tests:
  assumes "\<not> in_tests filename"
  shows "check_assert_called_once_with line filename = []" "check_asserttruefalse line filename = []"
    "check_assertempty line filename = []" "check_assertisinstance line filename = []"
    "check_assertequal_for_httpcode line filename = []" "check_no_import_mock line filename noqa = []"
    "check_assertcountequal line filename = []"
  using assms
  by (simp_all add: check_assert_called_once_with_def check_asserttruefalse_def check_assertempty_def
      check_assertisinstance_def check_assertequal_for_httpcode_def check_no_import_mock_def check_assertcountequal_def)

text \<open>C38: The check N328 reports a line of a test exactly when an \<open>assertEqual(\<close> is followed by the literal and a
  comma, or by a first argument without commas and the literal; it reports nothing else and nothing outside the
  tests. (The second form also takes a name that only begins with the literal.)\<close>

theorem truefalse_check_exact:
  "(k, msg) \<in> set (check_asserttruefalse line filename) \<longleftrightarrow>
     (\<exists>b. k = 0 \<and> msg = N328 b \<and> in_tests filename \<and>
        ((\<exists>p ws q. line = p @ ''assertEqual('' @ ws @ str_bool b @ '','' @ q \<and> list_all is_space ws) \<or>
         (\<exists>p a ws q. line = p @ ''assertEqual('' @ a @ '','' @ ws @ str_bool b @ q \<and>
            CHR '','' \<notin> set a \<and> list_all is_space ws)))"
proof -
  let ?first = "\<lambda>b. search (literal_first (str_bool b)) line" and ?second = "\<lambda>b. search (literal_second (str_bool b)) line"
  have "(k, msg) \<in> set (check_asserttruefalse line filename) \<longleftrightarrow>
      (\<exists>b. k = 0 \<and> msg = N328 b \<and> in_tests filename \<and> (?first b \<or> ?second b))"
    by (auto simp: check_asserttruefalse_def report_if_mem str_bool_def)
  then show ?thesis
    unfolding literal_first_def literal_second_def search_first search_second .
qed

theorem truefalse_check_exact_witness:
  "(0, N328 True) \<in> set (check_asserttruefalse ''self.assertEqual( True, x)'' ''ovn_octavia_provider/tests/unit/a.py'') \<and>
   check_asserttruefalse ''self.assertEqual( True, x)'' ''ovn_octavia_provider/helper.py'' = []"
proof
  have "in_tests ''ovn_octavia_provider/tests/unit/a.py''" by (simp add: in_tests_def contains_simps)
  moreover have "\<exists>p ws q. ''self.assertEqual( True, x)'' = p @ ''assertEqual('' @ ws @ str_bool True @ '','' @ q \<and> list_all is_space ws"
    by (intro exI [of _ "''self.''"] exI [of _ "'' ''"] exI [of _ "'' x)''"]) (simp add: str_bool_def is_space_def)
  ultimately show "(0, N328 True) \<in> set (check_asserttruefalse ''self.assertEqual( True, x)''
      ''ovn_octavia_provider/tests/unit/a.py'')"
    unfolding truefalse_check_exact by blast
  show "check_asserttruefalse ''self.assertEqual( True, x)'' ''ovn_octavia_provider/helper.py'' = []"
    by (rule checks_of_tests(2)) (simp add: in_tests_def contains_simps)
qed

end
