(* ===== verification/Repair.thy ===== *)
theory Repair
  imports HandlerSpec SyncSpec FipSpec
begin

text \<open>
  Updates and synchronisations at the level of the handlers. \<open>listener_sync\<close> and the \<open>member_sync\<close> of an enabled
  member make \<open>vips\<close> right, whatever was in the column; \<open>pool_sync\<close> and the \<open>member_sync\<close> of every member make the
  value of the pool right; \<open>pool_sync\<close> alone empties the pool without rebuilding the \<open>vips\<close>. \<open>member_update\<close> leaves
  consistent rows when it reports success; \<open>lb_update\<close> does not.
\<close>

section \<open>A transaction that repairs a row\<close>

text \<open>What a successful execution did to a row; with no command it did nothing.\<close>

lemma execute_applies:
  assumes S: "nb_store E rows" and r: "rows w u = Some r" and d: "distinct (dict_keys (lb_external_ids r))"
    and run: "execute_commands E cmds w = (Inr (), w')" and r': "rows w' u = Some r'"
  shows "applied cmds r r'"
proof (cases "cmds = []")
  case True
  with run r r' have "r' = r" by (simp add: execute_commands_def ret_def)
  with True d show ?thesis by (simp add: applied_refl)
next
  case False
  with run have "nb_txn E cmds w = (Inr (), w')" by (simp add: execute_commands_def)
  with spec [OF nb_storeD(3) [OF S, of cmds, unfolded commits_def], of w] have "rows_after cmds (rows w) (rows w')"
    by simp
  with r r' d show ?thesis unfolding rows_after_def by fastforce
qed

lemma read_same:
  assumes S: "nb_store E rows" and "nb_lb E u w = (Inr r, w1)"
  shows "rows w1 = rows w" "rows w u = Some r"
  using reads_row [OF store_reads(1) [OF S] assms(2)] nb_storeD(1) [OF S assms(2)] by simp_all

section \<open>listener_sync\<close>

text \<open>The commands of a sync: the listener's key and protocol where they differ, then the \<open>vips\<close> where they do.\<close>

definition listener_sync_commands :: "'a lib_scheme \<Rightarrow> listener_dict \<Rightarrow> lb_row \<Rightarrow> cmd list res" where
  "listener_sync_commands L l r =
     (case build_listener_info l (lb_external_ids r) of
        (k, info, ext) \<Rightarrow>
          rbind (refresh_lb_vips L r ext True) (\<lambda>refresh.
          Inr ((update_listener_key_if_needed k info r @ update_protocol_if_needed l r) @ refresh)))"

lemma listener_sync_run:
  "nb_lb E u w = (Inr r, w1) \<Longrightarrow> listener_sync_commands E l r = Inr cmds \<Longrightarrow>
   listener_sync E l u w = catch (execute_commands E cmds) (\<lambda>_. ret ()) w1"
  by (auto simp: listener_sync_def listener_sync_commands_def bnd_def Let_def split: prod.splits sum.splits)

lemma listener_sync_stores:
  assumes "listener_sync_commands L l r = Inr cmds" and "applied cmds r r'"
  shows "dict_get (lb_external_ids r') (get_listener_key (ld_id l) (ld_admin_state_up l = Some True))
    = Some (make_listener_key_value (ld_protocol_port l)
        (if truthy (default_pool l) then get_pool_key (the (default_pool l)) True else []))"
  using assms(1) appliedD(1) [OF assms(2)]
  by (auto simp: listener_sync_commands_def build_listener_info_def Let_def refresh_lb_vips_def
      update_listener_key_if_needed_def update_protocol_if_needed_def dict_get_default_def dict_has_def
      split: if_splits option.splits)

lemma listener_sync_vips:
  assumes "refs_ok r" and c: "listener_sync_commands L l r = Inr cmds" and a: "applied cmds r r'"
  shows "vips_ok L r'"
proof -
  obtain k info ext where b: "build_listener_info l (lb_external_ids r) = (k, info, ext)" by (metis prod.exhaust)
  with c obtain refresh where f: "refresh_lb_vips L r ext True = Inr refresh"
    and "cmds = (update_listener_key_if_needed k info r @ update_protocol_if_needed l r) @ refresh"
    by (auto simp: listener_sync_commands_def)
  with a have "applied ((update_listener_key_if_needed k info r @ update_protocol_if_needed l r) @ refresh) r r'" by simp
  from row_invD(3) [OF listener_synced_inv [OF assms(1) b f this]] show ?thesis .
qed

text \<open>C8: A row whose \<open>vips\<close> column holds anything at all is repaired by the synchronisation of a listener: when
  its commands can be built and the transaction goes through, the row has the listener as Octavia has it, and
  its \<open>vips\<close> are exactly what its listeners, pools and members ask for.\<close>

theorem listener_sync_repairs:
  assumes S: "nb_store E rows" and read: "nb_lb E u w = (Inr r, w1)" and refs: "refs_ok r"
    and c: "listener_sync_commands E l r = Inr cmds" and run: "execute_commands E cmds w1 = (Inr (), w2)"
  shows "listener_sync E l u w = (Inr (), w2) \<and>
    (\<forall>r'. rows w2 u = Some r' \<longrightarrow> vips_ok E r' \<and>
       dict_get (lb_external_ids r') (get_listener_key (ld_id l) (ld_admin_state_up l = Some True))
       = Some (make_listener_key_value (ld_protocol_port l)
           (if truthy (default_pool l) then get_pool_key (the (default_pool l)) True else [])))"
proof (intro conjI allI impI)
  show "listener_sync E l u w = (Inr (), w2)"
    using listener_sync_run [OF read c] run by (simp add: catch_def)
  fix r' assume r': "rows w2 u = Some r'"
  have "rows w1 u = Some r" using read_same [OF S read] by simp
  note a = execute_applies [OF S this refs_okD(1) [OF refs] run r']
  from listener_sync_stores [OF c a]
  show "dict_get (lb_external_ids r') (get_listener_key (ld_id l) (ld_admin_state_up l = Some True))
      = Some (make_listener_key_value (ld_protocol_port l)
          (if truthy (default_pool l) then get_pool_key (the (default_pool l)) True else []))" .
  from listener_sync_vips [OF refs c a] show "vips_ok E r'" .
qed

section \<open>member_sync\<close>

lemma synced_value:
  assumes "update_pool_data m k ext = Inr data" and "storable_member m" and "holds infos (dict_get_default ext k [])"
  shows "holds (if member_fields m \<in> set infos then infos else infos @ [member_fields m])
    (case data of None \<Rightarrow> dict_get_default ext k [] | Some v \<Rightarrow> v)"
proof -
  have "update_pool_data m k (dict_set ext k (dict_get_default ext k [])) = update_pool_data m k ext"
    by (simp add: update_pool_data_def dict_get_default_def)
  with assms(1) sync_value_refines [OF assms(2,3), of k ext] show ?thesis
    by (simp add: sync_value_def split: option.splits)
qed

text \<open>The synchronisation of an enabled member repairs its row the same way: once its first transaction has
  gone through, the pool holds the members it held and this one, each once, and the \<open>vips\<close> are exactly what the
  row asks for.\<close>

theorem member_sync_repairs:
  assumes S: "nb_store E rows" and r: "rows w u = Some r" "refs_ok r" and up: "md_admin_state_up m = Some True"
    and k: "startswith k LB_EXT_IDS_POOL_PREFIX" "\<not> contains LB_EXT_IDS_LISTENER_PREFIX k"
    and m: "storable_member m" "holds infos (dict_get_default (lb_external_ids r) k [])"
    and data: "update_pool_data m k (lb_external_ids r) = Inr data"
    and run: "member_sync_vips E m r k data w = (Inr True, w')" and r': "rows w' u = Some r'"
  shows "vips_ok E r' \<and> holds (if member_fields m \<in> set infos then infos else infos @ [member_fields m])
    (dict_get_default (lb_external_ids r') k [])"
proof
  let ?ext = "case data of None \<Rightarrow> lb_external_ids r | Some v \<Rightarrow> dict_set (lb_external_ids r) k v"
  let ?pre = "case data of None \<Rightarrow> [] | Some v \<Rightarrow> [db_set Load_Balancer (lb_uuid r) EXT_IDS (StrMap [(k, v)])]"
  from run up obtain refresh where f: "refresh_lb_vips E r ?ext True = Inr refresh"
    and x: "execute_commands E (?pre @ refresh) w = (Inr (), w')"
    unfolding member_sync_vips_def Let_def
    by (auto simp: catch_def ret_def bnd_def split: sum.splits prod.splits)
  note a = execute_applies [OF S r(1) refs_okD(1) [OF r(2)] x r']
  have ks: "k \<noteq> OVN_MEMBER_STATUS_KEY" using k(1) by (auto simp: startswith_def)
  have "row_inv E r'"
    by (rule refresh_inv [OF f a])
      (use refs_okD [OF r(2)] k ks in \<open>auto simp: distinct_dict intro!: wf_refs_set split: option.splits\<close>)
  then show "vips_ok E r'" by (rule row_invD)
  have "dict_get_default (lb_external_ids r') k [] = (case data of None \<Rightarrow> dict_get_default (lb_external_ids r) k [] | Some v \<Rightarrow> v)"
    using f appliedD(1) [OF a]
    by (auto simp: refresh_lb_vips_def dict_get_default_def split: if_splits option.splits)
  with synced_value [OF data m]
  show "holds (if member_fields m \<in> set infos then infos else infos @ [member_fields m]) (dict_get_default (lb_external_ids r') k [])"
    by simp
qed

section \<open>member_update\<close>


section \<open>lb_update\<close>

text \<open>
  \<open>lb_update\<close> assigns the new state into the dict it reads from the row and rebuilds the \<open>vips\<close> from a second
  read. python-ovs builds the value of a column anew for every read, so the assignment is lost.
\<close>

definition fresh_dicts :: "'w env \<Rightarrow> ('w \<Rightarrow> lb_rows) \<Rightarrow> bool" where
  "fresh_dicts E rows \<longleftrightarrow> (\<forall>u k v. reads rows (nb_mutate_ext_id E u k v))"

abbreviation row_is :: "(lb_row \<Rightarrow> bool) \<Rightarrow> string \<Rightarrow> lb_rows \<Rightarrow> bool" where
  "row_is Q u R \<equiv> \<forall>x. R u = Some x \<longrightarrow> Q x"

lemma execute_outcome:
  assumes S: "nb_store E rows" and d: "\<And>x. Q x \<Longrightarrow> distinct (dict_keys (lb_external_ids x))"
    and a: "\<And>x y. Q x \<Longrightarrow> applied cmds x y \<Longrightarrow> Q' y"
  shows "outcome (\<lambda>w. row_is Q u (rows w)) (execute_commands E cmds) (\<lambda>_ w. row_is Q' u (rows w)) (\<lambda>_. True)"
  unfolding outcome_def
proof (intro allI impI)
  fix w assume Q: "row_is Q u (rows w)"
  obtain y w' where y: "execute_commands E cmds w = (y, w')" by fastforce
  show "case execute_commands E cmds w of (Inl e, w') \<Rightarrow> True | (Inr x, w') \<Rightarrow> row_is Q' u (rows w')"
  proof (cases y)
    case (Inr z)
    have "Q' x'" if x': "rows w' u = Some x'" for x'
    proof -
      have "\<exists>x. rows w u = Some x"
        using y Inr x' spec [OF nb_storeD(3) [OF S, of cmds, unfolded commits_def], of w]
        by (auto simp: execute_commands_def ret_def rows_after_def split: if_splits)
      then obtain x where x: "rows w u = Some x" by blast
      with Q have q: "Q x" by blast
      from y Inr have "execute_commands E cmds w = (Inr (), w')" by simp
      from a [OF q execute_applies [OF S x d [OF q] this x']] show ?thesis .
    qed
    with y Inr show ?thesis by simp
  qed (simp add: y)
qed

text \<open>The row before and after it is disabled: the addresses of the column stay.\<close>

abbreviation untouched :: "lb_row \<Rightarrow> lb_row \<Rightarrow> bool" where
  "untouched r x \<equiv> applied [] r x"

definition disabled_only :: "lb_row \<Rightarrow> lb_row \<Rightarrow> bool" where
  "disabled_only r x \<longleftrightarrow>
     dict_get (lb_external_ids x) ''enabled'' = Some ''False'' \<and> dom (map_of (lb_vips x)) = dom (map_of (lb_vips r)) \<and>
     distinct (dict_keys (lb_external_ids x))"

lemma untouched_after: "untouched r x \<Longrightarrow> untouched x y \<Longrightarrow> untouched r y"
  by (auto simp: applied_def dict_eq_iff)

lemma disabled_only_after: "disabled_only r x \<Longrightarrow> untouched x y \<Longrightarrow> disabled_only r y"
  using appliedD [of "[]" x y] by (simp add: disabled_only_def)

text \<open>The rebuild reads the old state.\<close>

lemma disable_keeps_addresses:
  assumes inv: "row_inv E r" and x: "untouched r x" and f: "refresh_lb_vips E x (lb_external_ids x) False = Inr refresh"
    and a: "applied (db_set Load_Balancer (lb_uuid x) EXT_IDS (StrMap [(''enabled'', ''False'')]) # refresh) x y"
  shows "disabled_only r y"
proof -
  obtain v where v: "frame_vip_ips E x (lb_external_ids x) = Inr v"
    and refresh: "refresh = [db_clear Load_Balancer (lb_uuid x) ''vips'', db_set Load_Balancer (lb_uuid x) ''vips'' (StrMap v)]"
    using f by (auto simp: refresh_lb_vips_def)
  have "row_inv E x" by (rule associated_inv [OF inv _ x]) simp
  then have old: "vips_match E x (lb_external_ids x) (lb_vips x)" using row_invD(3) by (simp add: vips_ok_def)
  have new: "vips_match E x (lb_external_ids x) v" by (rule frame_match [OF v appliedD(3) [OF x]])
  have "map_of (lb_vips y) = map_of v"
    using appliedD(2) [OF a] dict_merge_Nil_get [OF frame_distinct [OF v]] by (simp add: refresh)
  moreover have "dom (map_of v) = dom (map_of (lb_vips x))"
    using old new by (fastforce simp: vips_match_def dict_has_def)
  ultimately show ?thesis
    using appliedD(1,3) [OF a] appliedD(2) [OF x] by (simp add: disabled_only_def refresh)
qed

lemma lb_update_row_other:
  assumes S: "nb_store E rows" and F: "fresh_dicts E rows" and "v \<noteq> u"
    and u: "\<And>x. Q x \<Longrightarrow> lb_uuid x = u" and d: "\<And>x. Q x \<Longrightarrow> distinct (dict_keys (lb_external_ids x))"
    and a: "\<And>x y. Q x \<Longrightarrow> untouched x y \<Longrightarrow> Q y"
  shows "outcome (\<lambda>w. row_is Q u (rows w)) (lb_update_row E b v) (\<lambda>_ w. row_is Q u (rows w)) (\<lambda>_. True)"
proof -
  let ?P = "row_is Q u" and ?t = "db_set Load_Balancer v EXT_IDS (StrMap [(''enabled'', str_bool b)])"
  have rd: "outcome (\<lambda>w. ?P (rows w)) m (\<lambda>_ w. ?P (rows w)) (\<lambda>_. True)" if "reads rows m" for m :: "('a, 'c) io"
    by (rule outcome_weaken [OF outcome_reads [OF that, where P = ?P]]) simp_all
  have x: "outcome (\<lambda>w. ?P (rows w)) (execute_commands E (?t # refresh)) (\<lambda>_ w. ?P (rows w)) (\<lambda>_. True)"
    if f: "refresh_lb_vips E r1 (lb_external_ids r1) False = Inr refresh" "lb_uuid r1 = v" for refresh and r1 :: lb_row
  proof (rule execute_outcome [OF S d])
    fix x y assume q: "Q x" and ap: "applied (?t # refresh) x y"
    have t: "targets v (?t # refresh)" using targets_refresh [OF f(1)] f(2) by simp
    from u [OF q] assms(3) have "lb_uuid x \<noteq> v" by simp
    from a [OF q other_row [OF t this ap]] show "Q y" .
  qed
  show ?thesis
    unfolding lb_update_row_def
  proof (rule outcome_bnd [OF rd [OF store_reads(1) [OF S]]], rule outcome_lift, simp, rule outcome_cases(1))
    show "outcome (\<lambda>w. ?P (rows w))
       (bnd (nb_mutate_ext_id E v ''enabled'' (str_bool b)) (\<lambda>_. bnd (nb_lb E v) (\<lambda>ovn_lb.
         bnd (lift (refresh_lb_vips E ovn_lb (lb_external_ids ovn_lb) False)) (\<lambda>refresh. execute_commands E (?t # refresh)))))
       (\<lambda>_ w. ?P (rows w)) (\<lambda>_. True)"
    proof (rule outcome_bnd [OF rd [OF F [unfolded fresh_dicts_def, rule_format]]],
        rule outcome_read_row [OF S, where P = ?P], rule outcome_lift, simp)
      fix r1 refresh assume "lb_uuid r1 = v" "refresh_lb_vips E r1 (lb_external_ids r1) False = Inr refresh"
      from x [OF this(2,1)]
      show "outcome (\<lambda>w. ?P (rows w) \<and> rows w v = Some r1) (execute_commands E (?t # refresh)) (\<lambda>_ w. ?P (rows w)) (\<lambda>_. True)"
        by (rule outcome_weaken) blast+
    qed simp
  qed (rule outcome_ret)
qed

lemma lb_update_row_disables:
  assumes S: "nb_store E rows" and F: "fresh_dicts E rows" and inv: "row_inv E r" and u: "lb_uuid r = u"
  shows "outcome (\<lambda>w. row_is (\<lambda>x. untouched r x \<or> disabled_only r x) u (rows w)) (lb_update_row E False u)
    (\<lambda>_ w. row_is (disabled_only r) u (rows w)) (\<lambda>_. True)"
proof -
  let ?t = "db_set Load_Balancer u EXT_IDS (StrMap [(''enabled'', ''False'')])"
  let ?P = "row_is (\<lambda>x. untouched r x \<or> disabled_only r x) u" and ?R = "\<lambda>(r1 :: lb_row) R. R u = Some r1 \<and> untouched r r1"
  have rd: "outcome (\<lambda>w. ?R r1 (rows w)) m (\<lambda>_ w. ?R r1 (rows w)) (\<lambda>_. True)" if "reads rows m" for r1 :: lb_row and m :: "('a, 'c) io"
    by (rule outcome_weaken [OF outcome_reads [OF that, where P = "?R r1"]]) simp_all
  have dis: "disabled_only r r1"
    if "untouched r r1 \<or> disabled_only r r1" "dict_get (lb_external_ids r1) ''enabled'' = Some ''False''" for r1
    using that appliedD [of "[]" r r1] by (auto simp: disabled_only_def)
  have x: "outcome (\<lambda>w. rows w u = Some r1 \<and> untouched r r1 \<and> rows w u = Some r2) (execute_commands E (?t # refresh))
      (\<lambda>_ w. row_is (disabled_only r) u (rows w)) (\<lambda>_. True)"
    if f: "refresh_lb_vips E r2 (lb_external_ids r2) False = Inr refresh" "lb_uuid r2 = u" for r1 r2 :: lb_row and refresh
    by (rule outcome_weaken [OF execute_outcome [OF S, where Q = "\<lambda>x. x = r2 \<and> untouched r r2" and Q' = "disabled_only r"]])
      (use disable_keeps_addresses [OF inv _ f(1)] f(2) appliedD(3) in auto)
  show ?thesis
    unfolding lb_update_row_def
  proof (rule outcome_read_row [OF S, where P = ?P], rule outcome_lift, simp, rule outcome_cases(1))
    fix r1 :: lb_row and enabled assume e: "dict_item (lb_external_ids r1) ''enabled'' = Inr enabled"
    have e': "dict_get (lb_external_ids r1) ''enabled'' = Some enabled"
      using e by (auto simp: dict_item_def split: option.splits)
    show "outcome (\<lambda>w. ?P (rows w) \<and> rows w u = Some r1) (ret ()) (\<lambda>_ w. row_is (disabled_only r) u (rows w)) (\<lambda>_. True)"
      if "\<not> enabled \<noteq> str_bool False"
      using that e' dis [of r1] by (auto simp: str_bool_def intro!: outcome_ret)
    show "outcome (\<lambda>w. ?P (rows w) \<and> rows w u = Some r1)
       (bnd (nb_mutate_ext_id E u ''enabled'' (str_bool False)) (\<lambda>_. bnd (nb_lb E u) (\<lambda>ovn_lb.
         bnd (lift (refresh_lb_vips E ovn_lb (lb_external_ids ovn_lb) False)) (\<lambda>refresh.
         execute_commands E (db_set Load_Balancer u EXT_IDS (StrMap [(''enabled'', str_bool False)]) # refresh)))))
       (\<lambda>_ w. row_is (disabled_only r) u (rows w)) (\<lambda>_. True)"
      if ne: "enabled \<noteq> str_bool False"
    proof (rule outcome_weaken)
      show "outcome (\<lambda>w. ?R r1 (rows w))
         (bnd (nb_mutate_ext_id E u ''enabled'' (str_bool False)) (\<lambda>_. bnd (nb_lb E u) (\<lambda>ovn_lb.
           bnd (lift (refresh_lb_vips E ovn_lb (lb_external_ids ovn_lb) False)) (\<lambda>refresh.
           execute_commands E (db_set Load_Balancer u EXT_IDS (StrMap [(''enabled'', str_bool False)]) # refresh)))))
         (\<lambda>_ w. row_is (disabled_only r) u (rows w)) (\<lambda>_. True)"
        by (rule outcome_bnd [OF rd [OF F [unfolded fresh_dicts_def, rule_format]]],
            rule outcome_read_row [OF S, where P = "?R r1"], rule outcome_lift)
          (simp_all add: str_bool_def x)
      show "?R r1 (rows w)" if "?P (rows w) \<and> rows w u = Some r1" for w
        using that ne e' by (auto simp: disabled_only_def str_bool_def)
    qed simp_all
  qed simp
qed

lemma disable_loop:
  assumes S: "nb_store E rows" and F: "fresh_dicts E rows" and inv: "row_inv E r" and u: "lb_uuid r = u"
    and "Q = untouched r \<or> Q = disabled_only r"
  shows "outcome (\<lambda>w. row_is Q u (rows w)) (for_each (lb_update_row E False) us)
      (\<lambda>_ w. row_is (if u \<in> set us then disabled_only r else Q) u (rows w)) (\<lambda>_. True)"
  using assms(5)
proof (induction us arbitrary: Q)
  case (Cons v us)
  let ?Q' = "if v = u then disabled_only r else Q"
  have "outcome (\<lambda>w. row_is Q u (rows w)) (lb_update_row E False v) (\<lambda>_ w. row_is ?Q' u (rows w)) (\<lambda>_. True)"
  proof (cases "v = u")
    case True
    have "outcome (\<lambda>w. row_is Q u (rows w)) (lb_update_row E False u) (\<lambda>_ w. row_is (disabled_only r) u (rows w)) (\<lambda>_. True)"
      by (rule outcome_weaken [OF lb_update_row_disables [OF S F inv u]]) (use Cons.prems in auto)
    with True show ?thesis by simp
  next
    case False
    let ?Q = "\<lambda>x. Q x \<and> lb_uuid x = u"
    have "outcome (\<lambda>w. row_is ?Q u (rows w)) (lb_update_row E False v) (\<lambda>_ w. row_is ?Q u (rows w)) (\<lambda>_. True)"
    proof (rule lb_update_row_other [OF S F False])
      show "lb_uuid x = u" if "?Q x" for x using that by simp
      show "distinct (dict_keys (lb_external_ids x))" if "?Q x" for x
        using that Cons.prems appliedD(3) by (auto simp: disabled_only_def)
      show "?Q y" if "?Q x" "untouched x y" for x y
        using that Cons.prems untouched_after [of r x y] disabled_only_after [of r x y] appliedD(4) [OF that(2)] by auto
    qed
    then show ?thesis
      by (rule outcome_weaken) (use False nb_storeD(2) [OF S] in auto)
  qed
  note step = this
  have "?Q' = untouched r \<or> ?Q' = disabled_only r" using Cons.prems by auto
  from outcome_bnd [OF step Cons.IH [OF this]]
  have "outcome (\<lambda>w. row_is Q u (rows w)) (for_each (lb_update_row E False) (v # us))
      (\<lambda>_ w. row_is (if u \<in> set us then disabled_only r else ?Q') u (rows w)) (\<lambda>_. True)"
    unfolding for_each.simps .
  then show ?case by (rule outcome_weaken) (auto split: if_splits)
qed (simp add: outcome_ret)

text \<open>C10: The deactivation of a load balancer does not stop its traffic. In a store with atomic transactions
  (\<open>nb_store\<close>), when the assignment into the dict of the row is lost and \<open>lb_update\<close> reports
  success all the same, every row of the load balancer is stored as disabled, but its \<open>vips\<close>, which were
  right before (\<open>row_inv\<close>: the listeners are written as the code writes them), have an entry for the same
  addresses as before; unless there was none, they are no longer what the row asks for.\<close>

theorem disabled_load_balancer_keeps_traffic:
  assumes S: "nb_store E rows" and F: "fresh_dicts E rows" and r: "rows w u = Some r" "row_inv E r"
    and found: "find_ovn_lbs E i w = (Inr us, w1)" "u \<in> set us"
    and run: "lb_update E i (Some False) w = (Inr s, w')" "reports_success s" and r': "rows w' u = Some r'"
  shows "dict_get (lb_external_ids r') ''enabled'' = Some ''False'' \<and>
    dom (map_of (lb_vips r')) = dom (map_of (lb_vips r)) \<and> (lb_vips r \<noteq> [] \<longrightarrow> \<not> vips_ok E r')"
proof -
  have u: "lb_uuid r = u" by (rule nb_storeD(2) [OF S r(1)])
  have same: "rows w1 = rows w" by (rule reads_row [OF find_reads(1) [OF S] found(1)])
  have "fst (for_each (lb_update_row E False) us w1) = Inr () \<and> snd (for_each (lb_update_row E False) us w1) = w'"
    using run found(1)
    by (auto simp: lb_update_def catch_def bnd_def ret_def reports_success_def entry3_def split: prod.splits sum.splits)
  then have loop: "for_each (lb_update_row E False) us w1 = (Inr (), w')" by (simp add: prod_eq_iff)
  have "row_is (untouched r) u (rows w1)"
    using same r applied_refl [OF row_invD(1) [OF r(2)]] by simp
  with disable_loop [OF S F r(2) u, of "untouched r" us] loop found(2) have "row_is (disabled_only r) u (rows w')"
    unfolding outcome_def by fastforce
  with r' have d: "disabled_only r r'" by blast
  have "\<not> serves_row E r' (lb_external_ids r') key val" for key val
    using d by (auto simp: serves_row_def serves_def disabled_only_def)
  then have "dict_get (lb_vips r') key = None" if "vips_ok E r'" for key
    using that by (auto simp: vips_ok_def vips_match_def)
  then have "vips_ok E r' \<Longrightarrow> dom (map_of (lb_vips r')) = {}" by (auto simp: dom_def)
  moreover have "dom (map_of (lb_vips r)) = {} \<Longrightarrow> lb_vips r = []" by (cases "lb_vips r") auto
  ultimately show ?thesis using d unfolding disabled_only_def by blast
qed

section \<open>pool_sync\<close>

definition pool_sync_commands :: "pool_dict \<Rightarrow> lb_row \<Rightarrow> cmd list res" where
  "pool_sync_commands pool r =
     rbind (prepare_external_ids pool r) (\<lambda>ext.
     let timeout = extract_persistence_timeout pool in
     Inr ([db_set Load_Balancer (lb_uuid r) EXT_IDS (StrMap ext)]
          @ (if port_truthy timeout then persistence_timeout_command r timeout else [])))"

text \<open>The transaction of \<open>pool_sync\<close> goes through; when it fails, the handler returns all the same.\<close>

definition pool_stored :: "'w env \<Rightarrow> pool_dict \<Rightarrow> string \<Rightarrow> 'w \<Rightarrow> bool" where
  "pool_stored E pool u w =
     (case nb_lb E u w of
        (Inl e, w1) \<Rightarrow> False
      | (Inr r, w1) \<Rightarrow>
          (case pool_sync_commands pool r of
             Inl e \<Rightarrow> False | Inr cmds \<Rightarrow> fst (execute_commands E cmds w1) = Inr ()))"

lemma pool_stored_run:
  assumes "pool_stored E pool u w"
  obtains r w1 cmds w2 where "nb_lb E u w = (Inr r, w1)" and "pool_sync_commands pool r = Inr cmds"
    and "execute_commands E cmds w1 = (Inr (), w2)" and "pool_sync E pool u w = (Inr (), w2)"
proof -
  from assms obtain r w1 cmds where r: "nb_lb E u w = (Inr r, w1)" "pool_sync_commands pool r = Inr cmds"
    and f: "fst (execute_commands E cmds w1) = Inr ()"
    by (auto simp: pool_stored_def split: prod.splits sum.splits)
  then obtain w2 where x: "execute_commands E cmds w1 = (Inr (), w2)" by (metis prod.collapse)
  from r x have "pool_sync E pool u w = (Inr (), w2)"
    by (auto simp: pool_sync_def pool_sync_commands_def bnd_def catch_def Let_def rbind_def split: sum.splits)
  with r x show ?thesis by (rule that)
qed

lemma pool_sync_row:
  assumes c: "pool_sync_commands pool r = Inr cmds" and a: "applied cmds r r'"
    and d: "distinct (dict_keys (lb_external_ids r))" and up: "pl_admin_state_up pool = Some up"
  shows "dict_get (lb_external_ids r') (get_pool_key (pl_id pool) up) = Some []"
    and "map_of (lb_vips r') = map_of (lb_vips r)"
proof -
  from c obtain ext where e: "prepare_external_ids pool r = Inr ext"
    and cmds: "cmds = [db_set Load_Balancer (lb_uuid r) EXT_IDS (StrMap ext)]
      @ (if port_truthy (extract_persistence_timeout pool)
         then persistence_timeout_command r (extract_persistence_timeout pool) else [])"
    by (auto simp: pool_sync_commands_def Let_def)
  have "distinct (dict_keys ext)"
    using e d by (auto simp: prepare_external_ids_def update_listener_association_def Let_def distinct_dict
        split: option.splits if_splits)
  then show "dict_get (lb_external_ids r') (get_pool_key (pl_id pool) up) = Some []"
    "map_of (lb_vips r') = map_of (lb_vips r)"
    using prepare_empties_pool [OF e up] appliedD(1,2) [OF a]
    by (auto simp: cmds persistence_timeout_command_def set_options_def Let_def dict_merge_get)
qed

text \<open>C39: In a store with atomic transactions (\<open>nb_store\<close>), the synchronisation of a pool without
  a list of members and without a health monitor in Octavia, when its transaction goes through, empties the stored
  value of the pool and leaves the \<open>vips\<close> column as it is: members that only the database has are
  forgotten, but what was sent to them still is.\<close>

theorem emptied_pool_keeps_traffic:
  assumes S: "nb_store E rows" and r: "rows w u = Some r" "distinct (dict_keys (lb_external_ids r))"
    and none: "pm_members pool = Unset" "pm_healthmonitor pool = Unset"
    and i: "get_pool_request_info pool = Inr info" and stored: "pool_stored E info u w"
  shows "\<exists>w'. sync_pool E lb u pool w = (Inr (), w') \<and>
    (\<forall>r'. rows w' u = Some r' \<longrightarrow> map_of (lb_vips r') = map_of (lb_vips r) \<and>
       dict_get (lb_external_ids r') (get_pool_key (pm_pool_id pool) (attr_or True (pm_admin_state_up pool))) = Some [])"
proof -
  obtain lb0 w1 cmds w2 where read: "nb_lb E u w = (Inr lb0, w1)" and c: "pool_sync_commands info lb0 = Inr cmds"
    and x: "execute_commands E cmds w1 = (Inr (), w2)" and run: "pool_sync E info u w = (Inr (), w2)"
    by (rule pool_stored_run [OF stored])
  have lb0: "lb0 = r" "rows w1 u = Some r" using read_same [OF S read] r(1) by simp_all
  have info: "pl_id info = pm_pool_id pool" "pl_admin_state_up info = Some (attr_or True (pm_admin_state_up pool))"
    using i by (auto simp: get_pool_request_info_def)
  have "sync_pool E lb u pool w = (Inr (), w2)"
    using run by (simp add: sync_pool_def i none info bnd_def ret_def key_of_def Let_def)
  moreover have "map_of (lb_vips r') = map_of (lb_vips r)"
    "dict_get (lb_external_ids r') (get_pool_key (pm_pool_id pool) (attr_or True (pm_admin_state_up pool))) = Some []"
    if "rows w2 u = Some r'" for r'
    using pool_sync_row [OF c [unfolded lb0] execute_applies [OF S lb0(2) r(2) x that] r(2) info(2)] info(1) by simp_all
  ultimately show ?thesis by blast
qed

section \<open>The members of a synchronised pool\<close>

text \<open>The first transaction of \<open>member_sync\<close> goes through; when it fails, the handler returns all the same.\<close>

definition member_stored :: "'w env \<Rightarrow> member_dict \<Rightarrow> string \<Rightarrow> string \<Rightarrow> 'w \<Rightarrow> bool" where
  "member_stored E m u k w =
     (case nb_lb E u w of
        (Inl e, w1) \<Rightarrow> False
      | (Inr r, w1) \<Rightarrow>
          (case update_pool_data m k (lb_external_ids r) of
             Inl e \<Rightarrow> False | Inr data \<Rightarrow> fst (member_sync_vips E m r k data w1) = Inr True))"

fun members_stored :: "'w env \<Rightarrow> string \<Rightarrow> string \<Rightarrow> member_dict list \<Rightarrow> 'w \<Rightarrow> bool" where
  "members_stored E u k [] w = True"
| "members_stored E u k (m # ms) w =
     (member_stored E m u k w \<and> members_stored E u k ms (snd (member_sync E m u k w)))"

definition holds_pool :: "string \<Rightarrow> string \<Rightarrow> mem_info list \<Rightarrow> lb_row \<Rightarrow> bool" where
  "holds_pool u k infos r \<longleftrightarrow>
     distinct (dict_keys (lb_external_ids r)) \<and>
     (lb_uuid r = u \<longrightarrow> holds infos (dict_get_default (lb_external_ids r) k []))"

lemma holds_pool_stable:
  assumes "startswith k LB_EXT_IDS_POOL_PREFIX"
  shows "assoc_stable (holds_pool u k infos)"
proof -
  have k: "k \<notin> bookkeeping_keys" using assms by (auto simp: startswith_def)
  have same: "dict_get (lb_external_ids r') k = dict_get (lb_external_ids r) k"
    if "list_all assoc_cmd cmds" "applied cmds r r'" for cmds r r'
    using appliedD(1) [OF that(2)] assoc_keys [OF that(1) k] by simp
  have "holds_pool u k infos r'" if "list_all assoc_cmd cmds" "holds_pool u k infos r" "applied cmds r r'" for cmds r r'
    using that(2) unfolding holds_pool_def dict_get_default_def same [OF that(1,3)] appliedD(4) [OF that(3)]
    by (simp add: appliedD(3) [OF that(3)])
  then show ?thesis unfolding assoc_stable_def by (simp only: holds_pool_def) blast
qed

lemma holds_pool_status:
  assumes S: "nb_store E rows" and k: "startswith k LB_EXT_IDS_POOL_PREFIX"
  shows "keeps (all_rows (holds_pool u k infos) rows) (update_external_ids_member_status E v i c)"
proof -
  let ?J = "holds_pool u k infos"
  have ks: "k \<noteq> OVN_MEMBER_STATUS_KEY" using k by (auto simp: startswith_def)
  have "keeps (all_rows ?J rows) (nb_exec_nocheck E (member_status_command E v d))" for d
  proof -
    let ?c = "member_status_command E v d"
    have "commits rows [?c] (\<lambda>w. (if rows (snd (nb_exec_nocheck E ?c w)) = rows w then Inl RowNotFound else Inr (),
        snd (nb_exec_nocheck E ?c w)))"
      using nb_storeD(9) [OF S, of ?c] by (auto simp: commits_def may_commit_def)
    from commits_keeps [OF this, of ?J] have "keeps (all_rows ?J rows) (\<lambda>w. (if rows (snd (nb_exec_nocheck E ?c w)) = rows w
        then Inl RowNotFound else Inr (), snd (nb_exec_nocheck E ?c w)))"
      using appliedD ks by (fastforce simp: holds_pool_def member_status_command_def dict_get_default_def split: if_splits)
    then show ?thesis by (simp add: keeps_def)
  qed
  then show ?thesis
    unfolding update_external_ids_member_status_def
    by (intro io_inv store_reads(1) [OF S, THEN keeps_reads])
qed

text \<open>One member.\<close>

lemma member_sync_row:
  assumes S: "nb_store E rows" and k: "startswith k LB_EXT_IDS_POOL_PREFIX" and m: "storable_member m"
    and w: "all_rows (holds_pool u k infos) rows w" and stored: "member_stored E m u k w"
  shows "all_rows (holds_pool u k (if member_fields m \<in> set infos then infos else infos @ [member_fields m])) rows
    (snd (member_sync E m u k w))"
proof -
  let ?infos = "if member_fields m \<in> set infos then infos else infos @ [member_fields m]"
  let ?J = "all_rows (holds_pool u k ?infos) rows"
  from stored obtain r w1 data w2 where read: "nb_lb E u w = (Inr r, w1)"
    and data: "update_pool_data m k (lb_external_ids r) = Inr data" and run: "member_sync_vips E m r k data w1 = (Inr True, w2)"
    by (auto simp: member_stored_def split: prod.splits sum.splits) (metis prod.collapse)
  let ?ext = "case data of None \<Rightarrow> lb_external_ids r | Some v \<Rightarrow> dict_set (lb_external_ids r) k v"
  let ?pre = "case data of None \<Rightarrow> [] | Some v \<Rightarrow> [db_set Load_Balancer (lb_uuid r) EXT_IDS (StrMap [(k, v)])]"
  from run obtain refresh where f: "refresh = [] \<or> refresh_lb_vips E r ?ext True = Inr refresh"
    and x: "execute_commands E (?pre @ refresh) w1 = (Inr (), w2)"
  proof -
    assume that: "\<And>refresh. refresh = [] \<or> refresh_lb_vips E r ?ext True = Inr refresh \<Longrightarrow>
      execute_commands E (?pre @ refresh) w1 = (Inr (), w2) \<Longrightarrow> thesis"
    have exec: "execute_commands E cs w1 = (Inr (), w2)"
      if "catch (bnd (execute_commands E cs) (\<lambda>_. ret True)) (\<lambda>_. ret False) w1 = (Inr True, w2)" for cs
      using that by (auto simp: catch_def ret_def bnd_def split: sum.splits prod.splits)
    show thesis
    proof (cases "md_admin_state_up m = Some True")
      case True
      with run obtain refresh where "refresh_lb_vips E r ?ext True = Inr refresh"
        "catch (bnd (execute_commands E (?pre @ refresh)) (\<lambda>_. ret True)) (\<lambda>_. ret False) w1 = (Inr True, w2)"
        unfolding member_sync_vips_def Let_def by (auto simp: ret_def split: sum.splits)
      with exec that show thesis by blast
    next
      case False
      with run have "catch (bnd (execute_commands E (?pre @ [])) (\<lambda>_. ret True)) (\<lambda>_. ret False) w1 = (Inr True, w2)"
        unfolding member_sync_vips_def Let_def by simp
      with exec that show thesis by blast
    qed
  qed
  note same = read_same [OF S read]
  have r: "holds_pool u k infos r" "lb_uuid r = u"
    using w same(2) nb_storeD(2) [OF S] by (auto simp: all_rows_def)
  have t: "targets u (?pre @ refresh)"
    using f r(2) by (auto dest: targets_refresh split: option.splits)
  have mine: "holds_pool u k ?infos y" if "applied (?pre @ refresh) r y" for y
  proof -
    have "dict_get_default (lb_external_ids y) k [] = (case data of None \<Rightarrow> dict_get_default (lb_external_ids r) k [] | Some v \<Rightarrow> v)"
      using f appliedD(1) [OF that]
      by (auto simp: refresh_lb_vips_def dict_get_default_def split: if_splits option.splits)
    moreover have "holds infos (dict_get_default (lb_external_ids r) k [])" using r by (simp add: holds_pool_def)
    ultimately show ?thesis using synced_value [OF data m] appliedD(3) [OF that] by (simp add: holds_pool_def)
  qed
  have two: "?J w2"
    unfolding all_rows_def
  proof (intro allI impI)
    fix v y assume y: "rows w2 v = Some y"
    have yv: "lb_uuid y = v" by (rule nb_storeD(2) [OF S y])
    obtain z where z: "rows w1 v = Some z"
      using x y spec [OF nb_storeD(3) [OF S, of "?pre @ refresh", unfolded commits_def], of w1]
      by (auto simp: execute_commands_def ret_def rows_after_def split: if_splits)
    with w same(1) have "distinct (dict_keys (lb_external_ids z))" by (auto simp: all_rows_def holds_pool_def)
    note a = execute_applies [OF S z this x y]
    show "holds_pool u k ?infos y"
    proof (cases "v = u")
      case True
      with z same have "z = r" by simp
      with a mine show ?thesis by simp
    next
      case False
      with yv appliedD(3) [OF a] show ?thesis by (simp add: holds_pool_def)
    qed
  qed
  note J = holds_pool_stable [OF k, of u ?infos]
  let ?rest = "bnd (lift (key_of (md_subnet_id m))) (\<lambda>subnet_id.
       bnd (update_lb_to_ls_association E u None (Some subnet_id) True True False True) (\<lambda>_.
       bnd (get_related_lr E subnet_id) (\<lambda>ovn_lr.
       bnd (case ovn_lr of None \<Rightarrow> ret () | Some lr \<Rightarrow> sync_lb_to_lr_association E u lr) (\<lambda>_.
       update_external_ids_member_status E u (md_id m) (Some NO_MONITOR)))))"
  have "keeps ?J ?rest"
    unfolding sync_lb_to_lr_association_def
    by (intro io_inv association_keeps [OF S J] holds_pool_status [OF S k] status_reads(2) [OF S, THEN keeps_reads])
  moreover have "member_sync E m u k w = ?rest w2"
    using read data run by (simp add: member_sync_def bnd_def)
  ultimately show ?thesis using two by (simp add: keeps_def)
qed

lemma members_sync_rows:
  "nb_store E rows \<Longrightarrow> startswith k LB_EXT_IDS_POOL_PREFIX \<Longrightarrow> list_all storable_member ms \<Longrightarrow>
   all_rows (holds_pool u k infos) rows w \<Longrightarrow> members_stored E u k ms w \<Longrightarrow>
   for_each (\<lambda>m. member_sync E m u k) ms w = (Inr (), w') \<Longrightarrow>
   all_rows (holds_pool u k (add_new (map member_fields ms) infos)) rows w'"
proof (induction ms arbitrary: infos w)
  case (Cons m ms)
  from Cons.prems(6) obtain w1 where w1: "member_sync E m u k w = (Inr (), w1)"
    and rest: "for_each (\<lambda>m. member_sync E m u k) ms w1 = (Inr (), w')"
    by (auto elim!: bnd_InrE)
  from Cons.prems have "all_rows (holds_pool u k (if member_fields m \<in> set infos then infos else infos @ [member_fields m])) rows w1"
    using member_sync_row [of E rows k m u infos w] w1 by simp
  from Cons.IH [OF Cons.prems(1,2) _ this _ rest] Cons.prems(3,5) w1 show ?case by (simp add: add_new_def)
qed (simp add: add_new_def ret_def)

text \<open>C28: In a store with atomic transactions (\<open>nb_store\<close>), whatever members a row has for a pool,
  after \<open>pool_sync\<close> and the \<open>member_sync\<close> of every member Octavia has, the stored value of
  the pool holds exactly those members, each once, in the order of their first occurrence; the first transaction of
  each handler must go through (a handler whose transaction fails returns all the same), the members can be written as
  text, and no handler raises.\<close>

theorem synced_pool_members:
  assumes S: "nb_store E rows" and w: "all_rows (\<lambda>r. distinct (dict_keys (lb_external_ids r))) rows w"
    and up: "pl_admin_state_up pool = Some up" and k: "k = get_pool_key (pl_id pool) up"
    and ms: "list_all storable_member ms" and stored: "pool_stored E pool u w"
    and p: "pool_sync E pool u w = (Inr (), w1)" and mstored: "members_stored E u k ms w1"
    and run: "for_each (\<lambda>m. member_sync E m u k) ms w1 = (Inr (), w2)" and r': "rows w2 u = Some r'"
  shows "holds (add_new (map member_fields ms) []) (dict_get_default (lb_external_ids r') k []) \<and>
    set (add_new (map member_fields ms) []) = member_fields ` set ms"
proof -
  have kp: "startswith k LB_EXT_IDS_POOL_PREFIX" by (simp add: k get_pool_key_def Let_def startswith_def)
  obtain r w0 cmds where read: "nb_lb E u w = (Inr r, w0)" and c: "pool_sync_commands pool r = Inr cmds"
    and x: "execute_commands E cmds w0 = (Inr (), w1)"
    using p by (rule_tac pool_stored_run [OF stored]) simp
  note same = read_same [OF S read]
  have "all_rows (holds_pool u k []) rows w1"
    unfolding all_rows_def
  proof (intro allI impI)
    fix v y assume y: "rows w1 v = Some y"
    obtain z where z: "rows w0 v = Some z"
      using x y spec [OF nb_storeD(3) [OF S, of cmds, unfolded commits_def], of w0]
      by (auto simp: execute_commands_def ret_def rows_after_def split: if_splits)
    with w same(1) have d: "distinct (dict_keys (lb_external_ids z))" by (auto simp: all_rows_def)
    note a = execute_applies [OF S z d x y]
    have "dict_get (lb_external_ids y) k = Some []" if "lb_uuid y = u"
      using that nb_storeD(2) [OF S y] z same pool_sync_row(1) [OF c _ _ up] a d k by fastforce
    with appliedD(3) [OF a] show "holds_pool u k [] y"
      by (auto simp: holds_pool_def dict_get_default_def holds_def)
  qed
  from members_sync_rows [OF S kp ms this mstored run] r' nb_storeD(2) [OF S r'] show ?thesis
    by (auto simp: all_rows_def holds_pool_def set_add_new)
qed

section \<open>One of several floating IPs\<close>

lemma disassociation_commands:
  assumes several: "dict_get (lb_external_ids r) LB_EXT_IDS_ADDIT_VIP_FIP_KEY = Some v" "fip \<in> set (split_on CHR '','' v)"
      "remove1 fip (split_on CHR '','' v) \<noteq> []" and other: "dict_get (lb_external_ids r) LB_EXT_IDS_VIP_FIP_KEY \<noteq> Some fip"
    and run: "disassociate_vip_fip E r i w = (Inr (cmds, ext), w')" and fip: "vf_vip_fip i = fip"
  obtains hc where "ext = lb_external_ids r" and "list_all neutral hc"
    and "cmds = [db_set Load_Balancer (lb_uuid r) EXT_IDS
      (StrMap [(LB_EXT_IDS_ADDIT_VIP_FIP_KEY, join '','' (remove1 fip (split_on CHR '','' v)))])] @ hc"
proof -
  have "v \<noteq> []" using several(2,3) by auto
  with several have a: "remove_addi_fip (lb_uuid r) (lb_external_ids r) fip
      = Inr ([db_set Load_Balancer (lb_uuid r) EXT_IDS
        (StrMap [(LB_EXT_IDS_ADDIT_VIP_FIP_KEY, join '','' (remove1 fip (split_on CHR '','' v)))])], lb_external_ids r)"
    by (simp add: remove_addi_fip_def Let_def)
  moreover have "remove_vip_fip (lb_uuid r) (lb_external_ids r) fip = ([], lb_external_ids r)"
    using other by (simp add: remove_vip_fip_def)
  ultimately obtain hc where hc: "remove_fip_hc E (lb_uuid r) fip (lb_health_check r) w = (Inr hc, w')"
    and "ext = lb_external_ids r" "cmds = [db_set Load_Balancer (lb_uuid r) EXT_IDS
      (StrMap [(LB_EXT_IDS_ADDIT_VIP_FIP_KEY, join '','' (remove1 fip (split_on CHR '','' v)))])] @ hc"
    using run fip by (auto simp: disassociate_vip_fip_def Let_def ret_def elim!: bnd_InrE)
  moreover have "list_all neutral hc"
    using remove_fip_hc_gives [of E "lb_uuid r" fip "lb_health_check r"] hc unfolding gives_def by blast
  ultimately show ?thesis by (intro that)
qed

lemma fip_unserved:
  assumes L: "rejects_brackets L" and v4: "ip_version L fip = Inr 4" and p: "CHR '':'' \<notin> set p"
    and e: "\<And>k. dict_get ext' k = (if k = LB_EXT_IDS_ADDIT_VIP_FIP_KEY then Some (join '','' rest) else dict_get ext k)"
    and rest: "rest \<noteq> []" "fip \<notin> set rest" "list_all (\<lambda>x. CHR '','' \<notin> set x) rest"
    and other: "dict_get ext LB_EXT_IDS_VIP_FIP_KEY \<noteq> Some fip" "fip \<notin> set (lb_vip_addresses ext)"
  shows "\<not> serves_row L r ext' (fip @ '':'' @ p) val"
proof
  assume "serves_row L r ext' (fip @ '':'' @ p) val"
  then obtain kv p2 m ver a2 where s: "serving_pool ext' kv = Some (p2, m)"
    "answers_on L ext' ver a2" "fip @ '':'' @ p = address_text ver a2 @ '':'' @ p2"
    unfolding serves_row_def serves_def by blast
  have "fip = address_text ver a2"
    using last_sep_unique [of fip "CHR '':''" p "address_text ver a2" p2] s(3) p serving_pool_port [OF s(1)] by simp
  with L v4 answers_on_version [OF s(2)] have "ver = 4" "a2 = fip"
    by (auto simp: address_text_def rejects_brackets_def split: if_splits)
  moreover have "lb_vip_addresses ext' = lb_vip_addresses ext" by (simp add: lb_vip_addresses_def e)
  moreover have "split_on CHR '','' (join '','' rest) = rest" by (rule split_on_join [OF rest(1,3)])
  ultimately show False
    using s(2) other rest(2) by (auto simp: answers_on_def fips_of_def e truthy_def split: if_splits)
qed

text \<open>C40: The disassociation of one of several additional floating IPs leaves its traffic in place: when
  \<open>handle_vip_fip\<close> returns, the floating IP is gone from the list that is stored, but every entry it had,
  for any port, still is in the \<open>vips\<close>, which no longer are what the row asks for. (The store is one with
  atomic transactions, the floating IP is an IPv4 address that is listed once and is no other address of the load
  balancer, and the library rejects bracketed addresses.)\<close>

theorem disassociation_leaves_stale_fip:
  assumes S: "nb_store E rows" and L: "rejects_brackets E" and r: "rows w u = Some r" "distinct (dict_keys (lb_external_ids r))"
    and i: "vf_ovn_lb i = u" "vf_action i = REQ_INFO_ACTION_DISASSOCIATE" "vf_vip_fip i = fip"
    and several: "dict_get (lb_external_ids r) LB_EXT_IDS_ADDIT_VIP_FIP_KEY = Some v" "fip \<in> set (split_on CHR '','' v)"
      "remove1 fip (split_on CHR '','' v) \<noteq> []" "fip \<notin> set (remove1 fip (split_on CHR '','' v))"
    and other: "dict_get (lb_external_ids r) LB_EXT_IDS_VIP_FIP_KEY \<noteq> Some fip" "fip \<notin> set (lb_vip_addresses (lb_external_ids r))"
    and v4: "ip_version E fip = Inr 4" and p: "CHR '':'' \<notin> set p"
    and served: "serves_row E r (lb_external_ids r) (fip @ '':'' @ p) val"
    and run: "handle_vip_fip E i w = (Inr (), w')" and r': "rows w' u = Some r'"
  shows "dict_get (lb_external_ids r') LB_EXT_IDS_ADDIT_VIP_FIP_KEY = Some (join '','' (remove1 fip (split_on CHR '','' v))) \<and>
    dict_has (lb_vips r') (fip @ '':'' @ p) \<and> \<not> vips_ok E r'"
proof -
  let ?ext = "lb_external_ids r" and ?rest = "remove1 fip (split_on CHR '','' v)"
  from run i obtain lb w1 cmds ext w2 refresh where read: "nb_lb E u w = (Inr lb, w1)"
    and dis: "disassociate_vip_fip E lb i w1 = (Inr (cmds, ext), w2)"
    and f: "refresh_lb_vips E lb ext False = Inr refresh" and x: "execute_commands E (cmds @ refresh) w2 = (Inr (), w')"
    by (auto simp: handle_vip_fip_def elim!: bnd_InrE)
  note same = read_same [OF S read]
  have lb: "lb = r" using same(2) r(1) by simp
  have w2: "rows w2 u = Some r" using reads_row [OF disassociate_vip_fip_reads [OF S] dis] same r(1) by simp
  obtain hc where ext: "ext = ?ext" and hc: "list_all neutral hc" and c: "cmds = [db_set Load_Balancer (lb_uuid r) EXT_IDS
      (StrMap [(LB_EXT_IDS_ADDIT_VIP_FIP_KEY, join '','' ?rest)])] @ hc"
    using disassociation_commands [OF several(1-3) other(1) dis [unfolded lb] i(3)] by blast
  let ?set = "db_set Load_Balancer (lb_uuid r) EXT_IDS (StrMap [(LB_EXT_IDS_ADDIT_VIP_FIP_KEY, join '','' ?rest)])"
  from execute_applies [OF S w2 r(2) x r'] have "applied ([?set] @ hc @ refresh) r r'" by (simp add: c)
  then have a: "applied ([?set] @ refresh) r r'" using applied_neutral [OF hc] by blast
  obtain vips where v: "frame_vip_ips E r ?ext = Inr vips"
    and refresh: "refresh = [db_clear Load_Balancer (lb_uuid r) ''vips'', db_set Load_Balancer (lb_uuid r) ''vips'' (StrMap vips)]"
    using f unfolding lb ext by (auto simp: refresh_lb_vips_def)
  have e: "dict_get (lb_external_ids r') k = (if k = LB_EXT_IDS_ADDIT_VIP_FIP_KEY then Some (join '','' ?rest) else dict_get ?ext k)" for k
    using appliedD(1) [OF a] by (simp add: refresh)
  have "map_of (lb_vips r') = map_of vips"
    using appliedD(2) [OF a] dict_merge_Nil_get [OF frame_distinct [OF v]] by (simp add: refresh)
  then have has: "dict_has (lb_vips r') (fip @ '':'' @ p)"
    using frame_complete [OF v served] by (simp add: dict_has_def)
  have "list_all (\<lambda>x. CHR '','' \<notin> set x) ?rest"
    by (auto simp: list_all_iff dest: notin_set_remove1 set_remove1_subset [THEN subsetD] split_on_elems)
  then have "\<not> serves_row E r' (lb_external_ids r') (fip @ '':'' @ p) val'" for val'
    by (rule fip_unserved [OF L v4 p e several(3,4) _ other])
  with has have "\<not> vips_ok E r'" by (auto simp: vips_ok_def vips_match_def dict_has_def)
  with has e show ?thesis by simp
qed

section \<open>A database with wrong vips\<close>

definition stale_row :: lb_row where
  "stale_row = row3\<lparr>lb_vips := [(''10.0.0.9:99'', ''10.0.0.66:80'')]\<rparr>"

definition stale_db :: db where
  "stale_db = empty_db\<lparr>db_lbs := [stale_row]\<rparr>"

definition synced_listener :: listener_dict where
  "synced_listener = sample_listener\<lparr>ld_default_pool_id := Some (Some ''p1'')\<rparr>"

definition synced_member :: member_dict where
  "synced_member =
     \<lparr>md_id = ''m2'', md_address = Some ''10.0.0.11'', md_protocol_port = Some (PortInt 80),
      md_pool_id = Some ''p1'', md_subnet_id = Some ''s1'', md_admin_state_up = Some True\<rparr>"

definition emptied_pool :: pool_model where
  "emptied_pool =
     \<lparr>pm_pool_id = ''p1'', pm_loadbalancer_id = ''lb1'', pm_protocol = ''TCP'', pm_lb_algorithm = ''SOURCE_IP_PORT'',
      pm_listener_id = Some ''l1'', pm_admin_state_up = Val True, pm_session_persistence = Unset,
      pm_healthmonitor = Unset, pm_members = Unset\<rparr>"

definition row3_db :: db where
  "row3_db = empty_db\<lparr>db_lbs := [row3]\<rparr>"

lemma row3_ext:
  "lb_external_ids row3 = [(''enabled'', ''True''), (LB_EXT_IDS_VIP_KEY, ''10.0.0.4''),
     (''listener_l1'', ''80:pool_p1''), (''pool_p1'', ''member_m1_10.0.0.10:8080_s1'')]"
  by code_simp

lemma row3_refs: "refs_ok row3"
  by (rule row_inv_refs [OF reachable_row_inv [OF row3_reachable]])

lemma stale_refs: "refs_ok stale_row"
  using row3_refs by (simp add: refs_ok_def stale_row_def)

lemma stale_read: "nb_lb ref_env ''u1'' stale_db = (Inr stale_row, stale_db)"
  by code_simp

theorem listener_sync_repairs_witness:
  "lb_vips stale_row = [(''10.0.0.9:99'', ''10.0.0.66:80'')] \<and>
   vips_ok ref_env (hd (db_lbs (snd (listener_sync ref_env synced_listener ''u1'' stale_db)))) \<and>
   lb_vips (hd (db_lbs (snd (listener_sync ref_env synced_listener ''u1'' stale_db))))
     = [(''10.0.0.4:80'', ''10.0.0.10:8080'')]"
proof -
  let ?l = synced_listener and ?e = "snd (listener_sync ref_env synced_listener ''u1'' stale_db)"
  obtain cmds where c: "listener_sync_commands ref_env ?l stale_row = Inr cmds"
    by (cases "listener_sync_commands ref_env ?l stale_row") (code_simp, blast)
  have vips: "lb_vips (hd (db_lbs ?e)) = [(''10.0.0.4:80'', ''10.0.0.10:8080'')]"
    and row: "ref_rows ?e ''u1'' = Some (hd (db_lbs ?e))"
    and ok: "case listener_sync_commands ref_env ?l stale_row of Inl e \<Rightarrow> False
      | Inr cmds \<Rightarrow> fst (execute_commands ref_env cmds stale_db) = Inr ()"
    by code_simp+
  from ok c obtain w2 where x: "execute_commands ref_env cmds stale_db = (Inr (), w2)"
    by (cases "execute_commands ref_env cmds stale_db") simp
  note t = listener_sync_repairs [OF ref_nb_store stale_read stale_refs c x]
  from t have "?e = w2" by simp
  with t row have "vips_ok ref_env (hd (db_lbs ?e))" by blast
  with vips show ?thesis by (simp add: stale_row_def)
qed

definition member_sync_run :: "bool res \<times> db" where
  "member_sync_run = member_sync_vips ref_env synced_member stale_row ''pool_p1''
     (Some ''member_m1_10.0.0.10:8080_s1,member_m2_10.0.0.11:80_s1'') stale_db"

theorem member_sync_repairs_witness:
  "fst member_sync_run = Inr True \<and> vips_ok ref_env (hd (db_lbs (snd member_sync_run))) \<and>
   lb_vips (hd (db_lbs (snd member_sync_run))) = [(''10.0.0.4:80'', ''10.0.0.10:8080,10.0.0.11:80'')]"
proof -
  let ?infos = "[(''10.0.0.10'', ''8080'', ''s1'', ''m1'')]"
  have run: "fst member_sync_run = Inr True"
    and vips: "lb_vips (hd (db_lbs (snd member_sync_run))) = [(''10.0.0.4:80'', ''10.0.0.10:8080,10.0.0.11:80'')]"
    and row: "ref_rows (snd member_sync_run) ''u1'' = Some (hd (db_lbs (snd member_sync_run)))"
    and stored: "ref_rows stale_db ''u1'' = Some stale_row"
    and m: "storable_member synced_member" "md_admin_state_up synced_member = Some True"
      "holds ?infos (dict_get_default (lb_external_ids stale_row) ''pool_p1'' [])"
    and data: "update_pool_data synced_member ''pool_p1'' (lb_external_ids stale_row)
      = Inr (Some ''member_m1_10.0.0.10:8080_s1,member_m2_10.0.0.11:80_s1'')"
    and k: "startswith ''pool_p1'' LB_EXT_IDS_POOL_PREFIX" "\<not> contains LB_EXT_IDS_LISTENER_PREFIX ''pool_p1''"
    by code_simp+
  have "member_sync_vips ref_env synced_member stale_row ''pool_p1''
      (Some ''member_m1_10.0.0.10:8080_s1,member_m2_10.0.0.11:80_s1'') stale_db = (Inr True, snd member_sync_run)"
    using run by (simp add: member_sync_run_def prod_eq_iff)
  from member_sync_repairs [OF ref_nb_store stored stale_refs m(2) k m(1,3) data this row] run vips
  show ?thesis by simp
qed

definition emptied_run :: "unit res \<times> db" where
  "emptied_run = sync_pool ref_env (sample_lb_model ''TCP'') ''u1'' emptied_pool row3_db"

text \<open>The row was right before; afterwards its only member is gone and its address still leads there.\<close>

theorem emptied_pool_keeps_traffic_witness:
  "vips_ok ref_lib row3 \<and> fst emptied_run = Inr () \<and>
   map_of (lb_vips (hd (db_lbs (snd emptied_run)))) = map_of [(''10.0.0.4:80'', ''10.0.0.10:8080'')] \<and>
   dict_get (lb_external_ids (hd (db_lbs (snd emptied_run)))) ''pool_p1'' = Some [] \<and>
   \<not> vips_ok ref_env (hd (db_lbs (snd emptied_run)))"
proof -
  let ?r = "hd (db_lbs (snd emptied_run))"
  obtain info where i: "get_pool_request_info emptied_pool = Inr info"
    by (cases "get_pool_request_info emptied_pool") (code_simp, blast)
  have row: "ref_rows (snd emptied_run) ''u1'' = Some ?r"
    and stored: "ref_rows row3_db ''u1'' = Some row3"
    and none: "pm_members emptied_pool = Unset" "pm_healthmonitor emptied_pool = Unset"
    and d: "distinct (dict_keys (lb_external_ids ?r))" and frame: "frame_vip_ips ref_env ?r (lb_external_ids ?r) = Inr []"
    and key: "get_pool_key (pm_pool_id emptied_pool) (attr_or True (pm_admin_state_up emptied_pool)) = ''pool_p1''"
    and p: "case get_pool_request_info emptied_pool of Inl e \<Rightarrow> False | Inr info \<Rightarrow> pool_stored ref_env info ''u1'' row3_db"
    by code_simp+
  from p i have "pool_stored ref_env info ''u1'' row3_db" by simp
  from emptied_pool_keeps_traffic [OF ref_nb_store stored refs_okD(1) [OF row3_refs] none i this]
  obtain w' where run: "sync_pool ref_env (sample_lb_model ''TCP'') ''u1'' emptied_pool row3_db = (Inr (), w')"
    and e: "\<And>r'. ref_rows w' ''u1'' = Some r' \<Longrightarrow> map_of (lb_vips r') = map_of (lb_vips row3) \<and>
       dict_get (lb_external_ids r') ''pool_p1'' = Some []"
    unfolding key by blast
  from run have w': "w' = snd emptied_run" "fst emptied_run = Inr ()" by (simp_all add: emptied_run_def)
  from e [of ?r] row w'(1)
  have vips: "map_of (lb_vips ?r) = map_of [(''10.0.0.4:80'', ''10.0.0.10:8080'')]"
    and v: "dict_get (lb_external_ids ?r) ''pool_p1'' = Some []" by (simp_all add: row3_vips)
  have "vips_match ref_env ?r (lb_external_ids ?r) []" by (rule frame_match [OF frame d])
  then have "\<not> serves_row ref_env ?r (lb_external_ids ?r) key val" for key val
    by (auto simp: vips_match_def dict_has_def)
  then have "\<not> vips_ok ref_env ?r"
    using vips by (auto simp: vips_ok_def vips_match_def)
  with w'(2) vips v row_invD(3) [OF reachable_row_inv [OF row3_reachable]] show ?thesis by blast
qed

text \<open>The same pool with a list of two members.\<close>

definition resynced_pool :: pool_dict where
  "resynced_pool =
     \<lparr>pl_id = ''p1'', pl_loadbalancer_id = ''lb1'', pl_protocol = ''TCP'', pl_lb_algorithm = ''SOURCE_IP_PORT'',
      pl_listener_id = Some ''l1'', pl_admin_state_up = Some True, pl_session_persistence = None\<rparr>"

definition resync_start :: db where
  "resync_start = row3_db\<lparr>db_subnets := [(''s1'', \<lparr>sn_network_id = ''n1'', sn_gateway_ip = None, sn_cidr = ''10.0.0.0/24''\<rparr>)]\<rparr>"

definition resynced :: "unit res \<times> db" where
  "resynced = pool_sync ref_env resynced_pool ''u1'' resync_start"

definition resynced_list :: "member_dict list" where
  "resynced_list = [synced_member, synced_member\<lparr>md_id := ''m3'', md_address := Some ''10.0.0.12''\<rparr>]"

definition resynced_members :: "unit res \<times> db" where
  "resynced_members = for_each (\<lambda>m. member_sync ref_env m ''u1'' ''pool_p1'') resynced_list (snd resynced)"

lemma resync_runs:
  "pool_stored ref_env resynced_pool ''u1'' resync_start" "fst resynced = Inr ()"
  "members_stored ref_env ''u1'' ''pool_p1'' resynced_list (snd resynced)" "fst resynced_members = Inr ()"
  by code_simp+

theorem synced_pool_members_witness:
  "dict_get (lb_external_ids row3) ''pool_p1'' = Some ''member_m1_10.0.0.10:8080_s1'' \<and>
   holds (map member_fields resynced_list)
     (dict_get_default (lb_external_ids (hd (db_lbs (snd resynced_members)))) ''pool_p1'' [])"
proof -
  let ?r = "hd (db_lbs (snd resynced_members))"
  have rows: "all_rows (\<lambda>r. distinct (dict_keys (lb_external_ids r))) ref_rows resync_start"
    using refs_okD(1) [OF row3_refs] by (auto simp: all_rows_def resync_start_def row3_db_def ref_rows_def split: if_splits)
  have row: "ref_rows (snd resynced_members) ''u1'' = Some ?r"
    and up: "pl_admin_state_up resynced_pool = Some True" and k: "''pool_p1'' = get_pool_key (pl_id resynced_pool) True"
    and ms: "list_all storable_member resynced_list"
    and fields: "add_new (map member_fields resynced_list) [] = map member_fields resynced_list"
    by code_simp+
  have p: "pool_sync ref_env resynced_pool ''u1'' resync_start = (Inr (), snd resynced)"
    and m: "for_each (\<lambda>m. member_sync ref_env m ''u1'' ''pool_p1'') resynced_list (snd resynced) = (Inr (), snd resynced_members)"
    using resync_runs(2,4) by (simp_all add: resynced_def resynced_members_def prod_eq_iff)
  from synced_pool_members [OF ref_nb_store rows up k ms resync_runs(1) p resync_runs(3) m row]
  show ?thesis by (simp add: fields row3_ext)
qed

section \<open>A member that is taken offline\<close>






section \<open>A load balancer that is disabled\<close>

definition disabled_run :: "status res \<times> db" where
  "disabled_run = lb_update ref_env ''lb1'' (Some False) row3_db"

lemma ref_fresh_dicts: "fresh_dicts ref_env ref_rows"
  by (simp add: fresh_dicts_def ref_env_def reads_compose)

lemma row3_inv: "row_inv ref_env row3"
proof -
  have "frame_vip_ips ref_env row3 (lb_external_ids row3) = Inr [(''10.0.0.4:80'', ''10.0.0.10:8080'')]" by code_simp
  from frame_match [OF this refs_okD(1) [OF row3_refs]] row3_refs show ?thesis
    by (simp add: row_inv_def refs_ok_def vips_ok_def row3_vips)
qed

theorem disabled_load_balancer_keeps_traffic_witness:
  "vips_ok ref_env row3 \<and> fst disabled_run = Inr [(LOADBALANCERS, [entry3 ''lb1'' ACTIVE OFFLINE])] \<and>
   dict_get (lb_external_ids (hd (db_lbs (snd disabled_run)))) ''enabled'' = Some ''False'' \<and>
   map_of (lb_vips (hd (db_lbs (snd disabled_run)))) ''10.0.0.4:80'' \<noteq> None \<and>
   \<not> vips_ok ref_env (hd (db_lbs (snd disabled_run)))"
proof -
  let ?r = "hd (db_lbs (snd disabled_run))"
  have status: "fst disabled_run = Inr [(LOADBALANCERS, [entry3 ''lb1'' ACTIVE OFFLINE])]"
    and row: "ref_rows (snd disabled_run) ''u1'' = Some ?r" and stored: "ref_rows row3_db ''u1'' = Some row3"
    and found: "find_ovn_lbs ref_env ''lb1'' row3_db = (Inr [''u1''], row3_db)"
    by code_simp+
  have run: "lb_update ref_env ''lb1'' (Some False) row3_db
      = (Inr [(LOADBALANCERS, [entry3 ''lb1'' ACTIVE OFFLINE])], snd disabled_run)"
    using status by (simp add: disabled_run_def prod_eq_iff)
  have ok: "reports_success [(LOADBALANCERS, [entry3 ''lb1'' ACTIVE OFFLINE])]"
    by (simp add: reports_success_def entry3_def)
  from disabled_load_balancer_keeps_traffic [OF ref_nb_store ref_fresh_dicts stored row3_inv found _ run ok row]
  have d: "dict_get (lb_external_ids ?r) ''enabled'' = Some ''False''"
    "dom (map_of (lb_vips ?r)) = dom (map_of (lb_vips row3))" "\<not> vips_ok ref_env ?r"
    by (simp_all add: row3_vips)
  have "''10.0.0.4:80'' \<in> dom (map_of (lb_vips row3))" by (simp add: row3_vips)
  with d status row_invD(3) [OF row3_inv] show ?thesis unfolding d(2) [symmetric] by (auto simp: dom_def)
qed

section \<open>A floating IP that is taken away\<close>

definition two_fips_db :: db where
  "two_fips_db = empty_db\<lparr>db_lbs := [two_fips_row]\<rparr>"

definition fip_gone :: fip_info where
  "fip_gone =
     \<lparr>vf_ovn_lb = ''u1'', vf_vip_fip = ''172.24.4.9'', vf_vip_related = [], vf_additional_vip_fip = True,
      vf_action = REQ_INFO_ACTION_DISASSOCIATE\<rparr>"

definition fip_run :: "unit res \<times> db" where
  "fip_run = handle_vip_fip ref_env fip_gone two_fips_db"

theorem disassociation_leaves_stale_fip_witness:
  "fst fip_run = Inr () \<and>
   dict_get (lb_external_ids (hd (db_lbs (snd fip_run)))) LB_EXT_IDS_ADDIT_VIP_FIP_KEY = Some ''172.24.4.10'' \<and>
   dict_has (lb_vips (hd (db_lbs (snd fip_run)))) ''172.24.4.9:80'' \<and> \<not> vips_ok ref_env (hd (db_lbs (snd fip_run)))"
proof -
  let ?r = "hd (db_lbs (snd fip_run))"
  have frame: "frame_vip_ips ref_env two_fips_row two_fips_ext = Inr (lb_vips two_fips_row)"
    and d: "distinct (dict_keys (lb_external_ids two_fips_row))"
    and row: "ref_rows (snd fip_run) ''u1'' = Some ?r" and stored: "ref_rows two_fips_db ''u1'' = Some two_fips_row"
    and run: "fst fip_run = Inr ()"
    and entry: "dict_get (lb_vips two_fips_row) (''172.24.4.9'' @ '':'' @ ''80'') = Some ''10.0.0.10:80''"
    and i: "vf_ovn_lb fip_gone = ''u1''" "vf_action fip_gone = REQ_INFO_ACTION_DISASSOCIATE" "vf_vip_fip fip_gone = ''172.24.4.9''"
    and several: "dict_get (lb_external_ids two_fips_row) LB_EXT_IDS_ADDIT_VIP_FIP_KEY = Some ''172.24.4.9,172.24.4.10''"
      "''172.24.4.9'' \<in> set (split_on CHR '','' ''172.24.4.9,172.24.4.10'')"
      "remove1 ''172.24.4.9'' (split_on CHR '','' ''172.24.4.9,172.24.4.10'') \<noteq> []"
      "''172.24.4.9'' \<notin> set (remove1 ''172.24.4.9'' (split_on CHR '','' ''172.24.4.9,172.24.4.10''))"
    and other: "dict_get (lb_external_ids two_fips_row) LB_EXT_IDS_VIP_FIP_KEY \<noteq> Some ''172.24.4.9''"
      "''172.24.4.9'' \<notin> set (lb_vip_addresses (lb_external_ids two_fips_row))"
    and v4: "ip_version ref_env ''172.24.4.9'' = Inr 4" and p: "CHR '':'' \<notin> set ''80''"
    and rest: "join '','' (remove1 ''172.24.4.9'' (split_on CHR '','' ''172.24.4.9,172.24.4.10'')) = ''172.24.4.10''"
    and key: "''172.24.4.9'' @ '':'' @ ''80'' = ''172.24.4.9:80''"
    by code_simp+
  have L: "rejects_brackets ref_env" using ref_rejects_brackets by (simp add: rejects_brackets_def)
  have ext: "lb_external_ids two_fips_row = two_fips_ext" by (simp add: two_fips_row_def)
  have served: "serves_row ref_env two_fips_row (lb_external_ids two_fips_row) (''172.24.4.9'' @ '':'' @ ''80'') ''10.0.0.10:80''"
    using frame_sound [OF frame d [unfolded ext] entry] by (simp only: ext)
  have go: "handle_vip_fip ref_env fip_gone two_fips_db = (Inr (), snd fip_run)"
    using run by (simp add: fip_run_def prod_eq_iff)
  from disassociation_leaves_stale_fip [OF ref_nb_store L stored d i several other v4 p served go row]
  show ?thesis unfolding rest key using run by blast
qed

end
