(* ===== verification/LookupSpec.thy ===== *)
theory LookupSpec
  imports Repair
begin

text \<open>
  Which row the handlers of pools, members and health monitors act on: \<open>_find_ovn_lb_by_pool_id\<close> over a
  database that can be read.
\<close>

section \<open>Reading\<close>

text \<open>The rows are listed in some order, and each can be read.\<close>

definition readable :: "'w env \<Rightarrow> ('w \<Rightarrow> lb_rows) \<Rightarrow> 'w \<Rightarrow> bool" where
  "readable E rows w \<longleftrightarrow>
     (\<exists>us. nb_lb_rows E w = (Inr us, w) \<and> set us = dom (rows w)) \<and>
     (\<forall>u r. rows w u = Some r \<longrightarrow> nb_lb E u w = (Inr r, w))"

text \<open>The row holds the key and is not one of the port forwarding plugin.\<close>

definition owns_key :: "string \<Rightarrow> lb_row \<Rightarrow> bool" where
  "owns_key k r \<longleftrightarrow>
     dict_has (lb_external_ids r) k \<and>
     dict_get (lb_external_ids r) OVN_DEVICE_OWNER_EXT_ID_KEY \<noteq> Some PORT_FORWARDING_PLUGIN"

definition key_at :: "lb_rows \<Rightarrow> string \<Rightarrow> string \<Rightarrow> bool" where
  "key_at R k u \<longleftrightarrow> (\<exists>r. R u = Some r \<and> owns_key k r)"

text \<open>The search returns the first owner in the list.\<close>

lemma search_first_owner:
  assumes "\<And>u. u \<in> set us \<Longrightarrow> \<exists>r. rows w u = Some r \<and> nb_lb E u w = (Inr r, w)"
  shows "search_pool_key E k us w = (Inr (find (key_at (rows w) k) us), w)"
  using assms
proof (induction us)
  case (Cons u us)
  from Cons.prems [of u] obtain r where r: "rows w u = Some r" "nb_lb E u w = (Inr r, w)" by auto
  have "search_pool_key E k us w = (Inr (find (key_at (rows w) k) us), w)"
    using Cons.prems by (intro Cons.IH) simp
  moreover have "key_at (rows w) k u \<longleftrightarrow> owns_key k r" using r(1) by (simp add: key_at_def)
  ultimately show ?case
    using r(2) by (simp add: bnd_def ret_def) (simp add: owns_key_def)
qed (simp add: ret_def)

lemma pool_key_search:
  assumes "readable E rows w"
  shows "\<exists>us. set us = dom (rows w) \<and>
    find_ovn_lb_with_pool_key E k w = (Inr (find (key_at (rows w) k) us), w)"
proof -
  from assms obtain us where us: "nb_lb_rows E w = (Inr us, w)" "set us = dom (rows w)"
    and rd: "\<And>u r. rows w u = Some r \<Longrightarrow> nb_lb E u w = (Inr r, w)" by (auto simp: readable_def)
  have "search_pool_key E k us w = (Inr (find (key_at (rows w) k) us), w)"
    by (rule search_first_owner) (use us(2) rd in auto)
  with us show ?thesis by (auto simp: find_ovn_lb_with_pool_key_def bnd_def)
qed

lemma pool_key_lookup:
  assumes R: "readable E rows w" and one: "\<And>u u'. key_at (rows w) k u \<Longrightarrow> key_at (rows w) k u' \<Longrightarrow> u = u'"
  shows "key_at (rows w) k u \<Longrightarrow> find_ovn_lb_with_pool_key E k w = (Inr (Some u), w)"
    and "\<nexists>u. key_at (rows w) k u \<Longrightarrow> find_ovn_lb_with_pool_key E k w = (Inr None, w)"
proof -
  obtain us where us: "set us = dom (rows w)"
    and f: "find_ovn_lb_with_pool_key E k w = (Inr (find (key_at (rows w) k) us), w)"
    using pool_key_search [OF R] by blast
  show "find_ovn_lb_with_pool_key E k w = (Inr None, w)" if "\<nexists>u. key_at (rows w) k u"
    using f that by (simp add: find_None_iff)
  assume u: "key_at (rows w) k u"
  with us have "u \<in> set us" by (auto simp: key_at_def)
  with u obtain v where v: "find (key_at (rows w) k) us = Some v"
    by (cases "find (key_at (rows w) k) us") (auto simp: find_None_iff)
  then have "key_at (rows w) k v" by (auto simp: find_Some_iff)
  with one u v f show "find_ovn_lb_with_pool_key E k w = (Inr (Some u), w)" by metis
qed

text \<open>C11: When a pool is in one row at most, \<open>_find_ovn_lb_by_pool_id\<close> finds exactly that row, under the key the
  row holds: the key of the enabled pool if any row has it, else the key of the disabled one; when no row of
  the provider has either, it finds none. Rows of the port forwarding plugin are never found, and the lookup
  changes nothing.\<close>

theorem pool_lookup_exact:
  assumes R: "readable E rows w"
    and one: "\<And>en u u'. key_at (rows w) (get_pool_key i en) u \<Longrightarrow> key_at (rows w) (get_pool_key i en) u' \<Longrightarrow> u = u'"
  shows "(key_at (rows w) (get_pool_key i True) u \<longrightarrow>
      find_ovn_lb_by_pool_id E i w = (Inr (get_pool_key i True, Some u), w)) \<and>
    ((\<nexists>v. key_at (rows w) (get_pool_key i True) v) \<and> key_at (rows w) (get_pool_key i False) u \<longrightarrow>
      find_ovn_lb_by_pool_id E i w = (Inr (get_pool_key i False, Some u), w)) \<and>
    ((\<nexists>v en. key_at (rows w) (get_pool_key i en) v) \<longrightarrow>
      find_ovn_lb_by_pool_id E i w = (Inr (get_pool_key i False, None), w))"
proof -
  have found: "find_ovn_lb_with_pool_key E (get_pool_key i en) w = (Inr (Some v), w)"
    if "key_at (rows w) (get_pool_key i en) v" for en v
    by (rule pool_key_lookup(1) [OF R _ that]) (rule one)
  have none: "find_ovn_lb_with_pool_key E (get_pool_key i en) w = (Inr None, w)"
    if "\<nexists>v. key_at (rows w) (get_pool_key i en) v" for en
    by (rule pool_key_lookup(2) [OF R _ that]) (rule one)
  show ?thesis
    unfolding find_ovn_lb_by_pool_id_def Let_def
  proof (intro conjI impI)
    assume "key_at (rows w) (get_pool_key i True) u"
    from found [OF this]
    show "bnd (find_ovn_lb_with_pool_key E (get_pool_key i True)) (\<lambda>ovn_lb.
        if ovn_lb = None then bnd (find_ovn_lb_with_pool_key E (get_pool_key i False)) (\<lambda>ovn_lb. ret (get_pool_key i False, ovn_lb))
        else ret (get_pool_key i True, ovn_lb)) w = (Inr (get_pool_key i True, Some u), w)"
      by (simp add: bnd_def ret_def)
  next
    assume a: "(\<nexists>v. key_at (rows w) (get_pool_key i True) v) \<and> key_at (rows w) (get_pool_key i False) u"
    from none [OF conjunct1 [OF a]] found [OF conjunct2 [OF a]]
    show "bnd (find_ovn_lb_with_pool_key E (get_pool_key i True)) (\<lambda>ovn_lb.
        if ovn_lb = None then bnd (find_ovn_lb_with_pool_key E (get_pool_key i False)) (\<lambda>ovn_lb. ret (get_pool_key i False, ovn_lb))
        else ret (get_pool_key i True, ovn_lb)) w = (Inr (get_pool_key i False, Some u), w)"
      by (simp add: bnd_def ret_def)
  next
    assume "\<nexists>v en. key_at (rows w) (get_pool_key i en) v"
    then have "\<nexists>v. key_at (rows w) (get_pool_key i True) v" "\<nexists>v. key_at (rows w) (get_pool_key i False) v" by blast+
    from none [OF this(1)] none [OF this(2)]
    show "bnd (find_ovn_lb_with_pool_key E (get_pool_key i True)) (\<lambda>ovn_lb.
        if ovn_lb = None then bnd (find_ovn_lb_with_pool_key E (get_pool_key i False)) (\<lambda>ovn_lb. ret (get_pool_key i False, ovn_lb))
        else ret (get_pool_key i True, ovn_lb)) w = (Inr (get_pool_key i False, None), w)"
      by (simp add: bnd_def ret_def)
  qed
qed

definition disabled_pool_db :: db where
  "disabled_pool_db =
     empty_db\<lparr>db_lbs :=
       [new_row\<lparr>lb_uuid := ''u0'', lb_external_ids :=
          [(OVN_DEVICE_OWNER_EXT_ID_KEY, PORT_FORWARDING_PLUGIN), (''pool_p1'', [])]\<rparr>,
        new_row\<lparr>lb_external_ids := [(''pool_p1:D'', [])]\<rparr>]\<rparr>"

lemma ref_readable: "readable ref_env ref_rows w"
proof -
  have "find (\<lambda>r. lb_uuid r = u) xs = None \<longleftrightarrow> u \<notin> lb_uuid ` set xs" for u and xs :: "lb_row list"
    by (auto simp: find_None_iff)
  then have "dom (ref_rows w) = lb_uuid ` set (db_lbs w)"
    by (auto simp: dom_def ref_rows_def)
  then show ?thesis
    by (auto simp: readable_def ref_env_def ask_def get_row_def ref_rows_def)
qed

lemma disabled_pool_at:
  "key_at (ref_rows disabled_pool_db) (get_pool_key ''p1'' en) u \<longleftrightarrow> en = False \<and> u = ''u1''"
proof -
  have "get_pool_key ''p1'' True = ''pool_p1''" "get_pool_key ''p1'' False = ''pool_p1:D''"
    by code_simp+
  then show ?thesis
    by (cases en) (auto simp: key_at_def owns_key_def ref_rows_def disabled_pool_db_def new_row_def dict_has_def)
qed

theorem pool_lookup_exact_witness:
  "find_ovn_lb_by_pool_id ref_env ''p1'' disabled_pool_db
     = (Inr (get_pool_key ''p1'' False, Some ''u1''), disabled_pool_db) \<and>
   map lb_uuid (db_lbs disabled_pool_db) = [''u0'', ''u1'']"
  using pool_lookup_exact [OF ref_readable, of disabled_pool_db "''p1''" "''u1''"]
  by (simp add: disabled_pool_at) (simp add: disabled_pool_db_def new_row_def)

end
