(* ===== verification/Spec2Isabelle.thy ===== *)
theory Spec2Isabelle
  imports Traffic AssocSpec MemberSpec AdminState StatusSpec FipSpec HmSpec DriverSpec BatchSpec SyncSpec
    MaintenanceSpec PortSpec HandlerSpec Clients ObjectSpec Service Hacking Repair LookupSpec
begin

text \<open>
  The OVN provider of Octavia (\<open>src/ovn_octavia_provider\<close>). Octavia calls the driver; the driver checks
  the call and puts requests into a queue; one thread takes them and runs their handlers; a handler
  writes into the northbound database of OVN, uses Neutron for ports and addresses, and reports
  statuses to Octavia. Events of the databases put more requests into the same queue. Apart from the
  queue, a tool synchronises the database with Octavia and a thread migrates old data.

  A load balancer is one northbound row per protocol. All of Octavia's objects live in the
  \<open>external_ids\<close> of that row, as text: listeners, pools and members, their administrative state, the
  addresses, the reference counts of switches, the member statuses. The column \<open>vips\<close>, which is all that
  OVN reads, is derived from them. Most of what can go wrong is that text being written in one
  way and read in another, or \<open>vips\<close> not following \<open>external_ids\<close>.

  \<^bold>\<open>How the code is modelled.\<close>
  \<^item> \<open>Prelude\<close>, \<open>PyStr\<close>: exceptions (\<open>exn\<close>), pure code that may raise (\<open>'a res\<close>), effectful code
    (\<open>('w, 'a) io\<close>: the outside is passed through, an exception keeps what was done before it), dicts in
    insertion order (\<open>'v pydict\<close>), the methods of \<open>str\<close>. A \<open>try\<close> is \<open>catch\<close>, or \<open>attempt\<close> where the code
    after the block asks how it ended; a variable that may be unbound is a result that is used
    with \<open>bound\<close> (UnboundLocalError).
  \<^item> \<open>World\<close>: the rows the code reads, the commands it builds, and the outside as parameters: \<open>lib\<close>
    (netaddr, JSON, the iteration order of sets) and \<open>env\<close> (ovsdbapp, openstacksdk, octavia-lib, tenacity).
    A row object of ovsdbapp is live, so a handle is a uuid and every read is an effect. No definition
    of a component says what these do; a theorem that needs to know has it as a hypothesis.
  \<^item> \<open>RefLib\<close>, \<open>RefDb\<close>: one concrete library and one in-memory outside. They serve the witnesses only.

  \<^bold>\<open>Components\<close>, in the order they build on each other, with the functions of \<open>helper.py\<close> they hold.
  \<^item> \<open>Constants\<close>, \<open>Utils\<close>: \<open>common/constants.py\<close>, \<open>common/utils.py\<close>.
  \<^item> \<open>Keys\<close>: the printers and parsers of \<open>external_ids\<close> (\<open>_get_listener_key\<close>, \<open>_get_pool_key\<close>,
    \<open>_make_listener_key_value\<close>, \<open>_extract_listener_key_value\<close>, \<open>_get_member_info\<close>, \<open>_extract_member_info\<close>).
  \<^item> \<open>Vips\<close>: \<open>_frame_vip_ips\<close>, \<open>_refresh_lb_vips\<close>, \<open>_find_member_status\<close>.
  \<^item> \<open>Assoc\<close>: switches (\<open>ls_refs\<close>, a count per switch) and routers (\<open>lr_ref\<close>), \<open>_execute_commands\<close>.
  \<^item> \<open>Lookup\<close>, \<open>LbOps\<close>, \<open>LbSync\<close>, \<open>LbDelete\<close>: finding rows and ports; \<open>lb_create\<close>, \<open>_get_or_create_ovn_lb\<close>,
    \<open>lb_update\<close>; \<open>lb_sync\<close>, \<open>create_vip_port\<close>; \<open>lb_delete\<close>.
  \<^item> \<open>ListenerOps\<close>, \<open>PoolOps\<close>, \<open>MemberOps\<close>: create, sync, update and delete of each.
  \<^item> \<open>Status\<close>, \<open>HmPorts\<close>, \<open>HmOps\<close>: the member status document and the aggregation, the ports and mappings of
    health checks, health monitors and the service monitor event.
  \<^item> \<open>FipOps\<close>, \<open>LrpOps\<close>: floating IPs and router ports, their events and their requests.
  \<^item> \<open>Requests\<close>: the requests, the table of handlers, the thread (\<open>request_handler\<close>), the events of \<open>event.py\<close>.
  \<^item> \<open>Driver\<close> (\<open>driver.py\<close>): every call of Octavia, as an effect on the outside and the queue. \<open>Sync\<close>:
    \<open>do_sync\<close>, \<open>_ensure_loadbalancer\<close>, \<open>_fip_sync\<close>.
  \<^item> \<open>Maintenance\<close> (the tasks of \<open>maintenance.py\<close>), \<open>Clients\<close> (\<open>common/clients.py\<close>), \<open>Config\<close>
    (\<open>common/config.py\<close>), \<open>Ovsdb\<close> (\<open>ovsdb/impl_idl_ovn.py\<close>, \<open>ovsdb/ovsdb_monitor.py\<close>: the calls into the
    libraries, in their order, with their guards).
  \<^item> \<open>Service\<close>: what puts the parts together: \<open>OvnProviderAgent\<close> (\<open>agent.py\<close>) as a sequence of steps, the
    declarations of the row events (\<open>event.py\<close>), \<open>MaintenanceThread\<close>, the constructors and the shutdown of
    helper and driver, the decorator \<open>retry\<close>, the command of the synchronisation (\<open>setup_conf\<close>, \<open>main\<close>).
  \<^item> \<open>Hacking\<close> (\<open>hacking/checks.py\<close>), over \<open>Regex\<close>: regular expressions with a matcher that is proved exact.

  \<^bold>\<open>What is shown.\<close>
  \<^item> Traffic. \<open>VipSpec\<close> says without loops which entries a row's listeners, pools and members ask for
    (\<open>serves\<close>); \<open>Traffic\<close> shows that the nested loops of \<open>_frame_vip_ips\<close> compute exactly these, in whatever
    order the dict is read, and never one to an offline member. \<open>RowSteps\<close> has a step relation with one
    rule per transaction of a handler, each given by the very function that builds its commands, and
    the invariant that \<open>vips\<close> agrees with \<open>external_ids\<close> (\<open>vips_ok\<close>). \<open>NbRows\<close> states what ovsdbapp documents
    of the commands. \<open>Handlers\<close> lifts the invariant from transactions to code that reads, writes and raises
    (\<open>row_code\<close>, \<open>keeps\<close>), \<open>HandlerKeeps\<close>, \<open>MemberKeeps\<close>, \<open>FipKeeps\<close> and \<open>MonitorKeeps\<close> to the handlers whose
    every transaction is right by itself, \<open>UpdateKeeps\<close> to \<open>member_update\<close>, which stores first and rebuilds the
    \<open>vips\<close> in a later transaction, when it reports success (\<open>outcome\<close>, a postcondition for results and one for
    exceptions); \<open>HandlerSpec\<close> to the thread and a queue of requests of every kind, under guards that are checked
    whenever a request is taken (\<open>queue_ok\<close>): they exclude the requests for which the invariant fails.
  \<^item> Repair. \<open>Repair\<close>: a row whose \<open>vips\<close> are wrong, for whatever reason, is made right by \<open>listener_sync\<close> and by the
    \<open>member_sync\<close> of an enabled member; \<open>pool_sync\<close> and \<open>member_sync\<close> together give the pool the members of Octavia;
    an update of a member that reports success leaves right rows. It also has what the code gets wrong: \<open>lb_update\<close>
    and the disassociation of one of several floating IPs leave traffic in place, and \<open>pool_sync\<close> alone empties a pool
    whose traffic goes on. \<open>LookupSpec\<close>: the row that \<open>_find_ovn_lb_by_pool_id\<close> finds.
  \<^item> Objects. \<open>Objects\<close> has what Octavia means: two finite maps, of listeners and of pools with their members,
    and one abstract operation per request; \<open>represents\<close> says that the text of a row stands for them; \<open>op_ok\<close> has the
    conditions on the operations. \<open>ObjectSpec\<close>: the commands of the handlers simulate the abstract operations, and after any run the \<open>vips\<close>
    are the traffic the objects ask for (\<open>asked\<close>).
  \<^item> Text. Members, listener and pool keys and port names are read back as they were written
    (\<open>MemberSpec\<close>, \<open>StatusSpec\<close>, \<open>FipSpec\<close>), over the interfaces \<open>codec\<close>, \<open>list_codec\<close> and \<open>record_list_codec\<close>
    of \<open>PyStr\<close>; \<open>AdminState\<close>: what disabling and enabling do to the keys (interface \<open>admin_key\<close>).
  \<^item> References. \<open>AssocSpec\<close>: over associations and disassociations of switches, \<open>ls_refs\<close> refines the multiset of
    a switch's uses; the switch has the load balancer exactly while one is left (routers put it on switches without
    counting, which is not part of that); routers are attached and detached symmetrically.
  \<^item> Statuses and the queue. \<open>StatusSpec\<close>: the aggregation, complete reports, first in first out.
    \<open>HmSpec\<close>: the checks of a monitor, which member an event is about.
  \<^item> The driver. \<open>DriverSpec\<close>: only acceptable requests get into the queue, in order; \<open>BatchSpec\<close>: a batch
    update refines setting the members of the pool. \<open>SyncSpec\<close>: where a synchronisation cannot succeed.
    \<open>PortSpec\<close>: the ports of a VIP are cleaned up, a used health monitor port is kept. \<open>MaintenanceSpec\<close>:
    which mappings the migration writes as the current code does and which it loses, and when the port task stops.
  \<^item> The process. \<open>Config\<close>: deprecated options become defaults. \<open>Service\<close>: no event is missed when the agent
    starts; when it ends, the event connections and the maintenance thread are stopped, but not the helper and not the
    connection of the maintenance object; a shutdown lets the thread finish what was queued.
    \<open>Hacking\<close>: which lines a check reports.
  Where the code does not do what it means to, the theorem states what it does instead, and its text
  says so (stale floating IPs, events attributed to the wrong member, lost mappings, synchronisations
  that cannot succeed).

  \<^bold>\<open>Recursion and bounds.\<close> Every loop of the code runs over a finite collection and is a structural
  recursion here (\<open>for_each\<close>, \<open>fold_io\<close>, \<open>map_io\<close>, \<open>mapR\<close>, \<open>foldR\<close> or a \<open>primrec\<close> of its own); \<open>replace\<close> and
  \<open>split_str\<close> terminate because the rest gets shorter. Only \<open>retry_call\<close> and
  \<open>check_for_row_by_value_and_retry\<close> have fuel: the first returns with the first attempt that succeeds, for any
  fuel above their number, the second once its time is over (\<open>check_for_row_returns\<close>). The thread's loop does not
  end; \<open>request_handler\<close> is the loop over what the queue delivers and says at the end whether the
  thread left it or goes on waiting. Python's integers are unbounded and are \<open>int\<close> here; the only
  arithmetic is that of reference counts. A retried call is a parameter of the outside (tenacity).

  \<^bold>\<open>Hypotheses.\<close> Theorems about rows assume what Octavia and Neutron ensure: ids and addresses hold no
  separator of the formats, a pool is created once, no pool id is part of another, external ids
  are a dict (distinct keys). Theorems about documents assume that JSON reads back what it wrote.
  \<open>HandlerSpec\<close> assumes a store (\<open>nb_store\<close>): reads see the rows, transactions are atomic and do what
  \<open>applied\<close> says; only this process writes them while a handler runs. One theorem of \<open>Repair\<close> assumes what python-ovs
  does with the value of a column, which is built anew for every read: an assignment into it changes nothing
  (\<open>fresh_dicts\<close>).

  \<^bold>\<open>Not modelled.\<close>
  \<^item> Threads, \<open>queue.Queue\<close>, \<open>futurist\<close> and logging; \<open>oslo.config\<close> is a parameter (\<open>oslo\<close>).
  \<^item> \<open>common/exceptions.py\<close>, \<open>i18n.py\<close>: declarations; an exception the code raises is a constructor of \<open>exn\<close>.
  \<^item> \<open>doc/source/conf.py\<close>, \<open>releasenotes/source/conf.py\<close>: settings of the documentation builder.
  \<^item> The connection objects of ovs and ovsdbapp: a call of them is a value of \<open>idl_call\<close>.
  \<^item> Text that is not ASCII, and stored floating IPs that are the empty string, which Neutron never writes.

  \<^bold>\<open>Limits.\<close> The invariant of \<open>vips\<close> is shown under the guards of \<open>row_step\<close>, \<open>request_guard\<close>, \<open>step_request\<close> and
  \<open>op_ok\<close>. Some are what Octavia ensures (uuids, a pool created once). Others exclude what the code gets wrong: the
  administrative state of a load balancer and one of several additional floating IPs (\<open>Repair\<close>), a pool created
  disabled for a listener (\<open>AdminState\<close>), requests that overwrite the status of a member stored as offline, which
  bring it back without its traffic. The store of \<open>HandlerSpec\<close> has one writer; what a second process that writes the
  same rows between a read and the transaction does to them is open, and so is the row as a whole after \<open>sync_row\<close>.
  The sync action of \<open>handle_vip_fip\<close> (\<open>REQ_INFO_ACTION_SYNC\<close>) never comes through the queue and is excluded there.
\<close>

end
